(* ===== verification/BTreeMap.thy ===== *)
theory BTreeMap
  imports Prelude
begin

text \<open>
  Rust's \<open>BTreeMap\<close>, which the sources use for ConfigMap data, annotations and the
  recorded NFS clients: an association list with strictly ascending keys, so that
  iteration (\<open>keys\<close>) is in key order. The interface is the locale \<open>ordered_map\<close>; the
  operations below are its interpretation.
\<close>

type_synonym ('k, 'v) btree = "('k \<times> 'v) list"

definition bt_empty :: "('k, 'v) btree" where
  "bt_empty = []"

fun bt_get :: "('k, 'v) btree \<Rightarrow> 'k \<Rightarrow> 'v option" where
  "bt_get [] k = None"
| "bt_get ((a, v) # m) k = (if a = k then Some v else bt_get m k)"

fun bt_insert :: "'k :: linorder \<Rightarrow> 'v \<Rightarrow> ('k, 'v) btree \<Rightarrow> ('k, 'v) btree" where
  "bt_insert k v [] = [(k, v)]"
| "bt_insert k v ((a, u) # m) =
     (if k < a then (k, v) # (a, u) # m
      else if k = a then (k, v) # m else (a, u) # bt_insert k v m)"

fun bt_remove :: "'k \<Rightarrow> ('k, 'v) btree \<Rightarrow> ('k, 'v) btree" where
  "bt_remove k [] = []"
| "bt_remove k ((a, u) # m) = (if a = k then m else (a, u) # bt_remove k m)"

text \<open>\<open>entry(k).or_insert(v)\<close>: a key that is present keeps its value.\<close>

definition bt_or_insert :: "'k :: linorder \<Rightarrow> 'v \<Rightarrow> ('k, 'v) btree \<Rightarrow> ('k, 'v) btree" where
  "bt_or_insert k v m = (case bt_get m k of Some _ \<Rightarrow> m | None \<Rightarrow> bt_insert k v m)"

definition bt_keys :: "('k, 'v) btree \<Rightarrow> 'k list" where
  "bt_keys m = map fst m"

definition bt_from :: "('k :: linorder \<times> 'v) list \<Rightarrow> ('k, 'v) btree" where
  "bt_from kvs = fold (\<lambda>(k, v). bt_insert k v) kvs bt_empty"

definition bt_wf :: "('k :: linorder, 'v) btree \<Rightarrow> bool" where
  "bt_wf m = sorted_wrt (<) (map fst m)"

subsection \<open>The interface of an ordered map\<close>

locale ordered_map =
  fixes empty :: "'m"
    and get :: "'m \<Rightarrow> 'k :: linorder \<Rightarrow> 'v option"
    and insert :: "'k \<Rightarrow> 'v \<Rightarrow> 'm \<Rightarrow> 'm"
    and remove :: "'k \<Rightarrow> 'm \<Rightarrow> 'm"
    and keys :: "'m \<Rightarrow> 'k list"
    and wf :: "'m \<Rightarrow> bool"
  assumes get_empty: "get empty k = None"
    and get_insert: "wf m \<Longrightarrow> get (insert k v m) = (get m)(k \<mapsto> v)"
    and get_remove: "wf m \<Longrightarrow> get (remove k m) = (get m)(k := None)"
    and set_keys: "wf m \<Longrightarrow> set (keys m) = dom (get m)"
    and sorted_keys: "wf m \<Longrightarrow> sorted_wrt (<) (keys m)"
    and wf_empty: "wf empty"
    and wf_insert: "wf m \<Longrightarrow> wf (insert k v m)"
    and wf_remove: "wf m \<Longrightarrow> wf (remove k m)"
begin

lemma keys_insert: "wf m \<Longrightarrow> set (keys (insert k v m)) = Set.insert k (set (keys m))"
  by (simp add: set_keys get_insert wf_insert)

lemma keys_remove: "wf m \<Longrightarrow> set (keys (remove k m)) = set (keys m) - {k}"
  by (simp add: set_keys get_remove wf_remove)

lemma keys_distinct: "wf m \<Longrightarrow> distinct (keys m)"
  by (simp add: sorted_keys strict_sorted_iff [THEN iffD1])

text \<open>Two maps with the same contents list the same keys in the same order.\<close>

lemma keys_determined:
  assumes "wf m" "wf m'" "dom (get m) = dom (get m')"
  shows "keys m = keys m'"
  using assms sorted_keys set_keys by (intro strict_sorted_equal) auto

end

lemma bt_get_keys: "(bt_get m k = None) = (k \<notin> set (map fst m))"
  by (induction m k rule: bt_get.induct) auto

lemma bt_insert_keys: "set (map fst (bt_insert k v m)) = insert k (set (map fst m))"
  by (induction k v m rule: bt_insert.induct) auto

lemma bt_remove_keys: "set (map fst (bt_remove k m)) \<subseteq> set (map fst m)"
  by (induction k m rule: bt_remove.induct) auto

lemma bt_get_insert_gen: "bt_get (bt_insert k v m) j = (if j = k then Some v else bt_get m j)"
  by (induction k v m rule: bt_insert.induct) auto

lemma bt_get_remove_gen:
  "bt_wf m \<Longrightarrow> bt_get (bt_remove k m) j = (if j = k then None else bt_get m j)"
proof (induction k m rule: bt_remove.induct)
  case (2 k a u m)
  then have "k = a \<Longrightarrow> bt_get m k = None"
    by (auto simp: bt_wf_def bt_get_keys)
  with 2 show ?case by (auto simp: bt_wf_def)
qed simp

lemma bt_dom: "dom (bt_get m) = set (map fst m)"
  by (rule set_eqI) (simp only: dom_def mem_Collect_eq bt_get_keys not_not)

lemma bt_wf_insert: "bt_wf m \<Longrightarrow> bt_wf (bt_insert k v m)"
proof (induction k v m rule: bt_insert.induct)
  case (2 k v a u m)
  then show ?case
    using bt_insert_keys [of k v m] by (fastforce simp: bt_wf_def)
qed (simp add: bt_wf_def)

lemma bt_wf_remove: "bt_wf m \<Longrightarrow> bt_wf (bt_remove k m)"
proof (induction k m rule: bt_remove.induct)
  case (2 k a u m)
  then show ?case
    using bt_remove_keys [of k m] by (fastforce simp: bt_wf_def)
qed (simp add: bt_wf_def)

interpretation bt: ordered_map bt_empty bt_get bt_insert bt_remove bt_keys bt_wf
proof unfold_locales
  fix m :: "('k :: linorder, 'v) btree" and k :: 'k and v :: 'v
  show "bt_get bt_empty k = None" by (simp add: bt_empty_def)
  show "bt_get (bt_insert k v m) = (bt_get m)(k \<mapsto> v)" if "bt_wf m"
    by (rule ext) (simp add: bt_get_insert_gen)
  show "bt_get (bt_remove k m) = (bt_get m)(k := None)" if "bt_wf m"
    using that by (intro ext) (simp add: bt_get_remove_gen)
  show "set (bt_keys m) = dom (bt_get m)" if "bt_wf m"
    by (simp add: bt_dom bt_keys_def)
  show "sorted_wrt (<) (bt_keys m)" if "bt_wf m"
    using that by (simp add: bt_wf_def bt_keys_def)
  show "bt_wf (bt_empty :: ('k, 'v) btree)" by (simp add: bt_wf_def bt_empty_def)
  show "bt_wf (bt_insert k v m)" if "bt_wf m" using that by (rule bt_wf_insert)
  show "bt_wf (bt_remove k m)" if "bt_wf m" using that by (rule bt_wf_remove)
qed

lemmas bt_simps = bt_get_insert_gen bt_get_remove_gen bt_wf_insert bt_wf_remove

lemma bt_wf_or_insert: "bt_wf m \<Longrightarrow> bt_wf (bt_or_insert k v m)"
  by (simp add: bt_or_insert_def bt_wf_insert split: option.split)

lemma bt_get_or_insert:
  "bt_get (bt_or_insert k v m) j =
     (if j = k \<and> bt_get m k = None then Some v else bt_get m j)"
  by (auto simp: bt_or_insert_def bt_get_insert_gen split: option.split)

text \<open>A map is its contents: equal lookups are equal maps.\<close>

lemma bt_ext:
  assumes "bt_wf m" "bt_wf m'" "\<And>k. bt_get m k = bt_get m' k"
  shows "m = m'"
proof -
  have keys: "map fst m = map fst m'"
    using bt.keys_determined [of m m'] assms by (simp add: bt_keys_def bt_dom dom_def)
  have distinct: "distinct (map fst m)"
    using bt.keys_distinct [OF assms(1)] by (simp add: bt_keys_def)
  have look: "(k, v) \<in> set n \<Longrightarrow> distinct (map fst n) \<Longrightarrow> bt_get n k = Some v"
    for k v and n :: "('a \<times> 'b) list"
    by (induction n k rule: bt_get.induct) (auto simp: rev_image_eqI)
  show ?thesis
  proof (rule nth_equalityI)
    show len: "length m = length m'" using keys by (metis length_map)
    fix i assume i: "i < length m"
    have fst_eq: "fst (m ! i) = fst (m' ! i)"
      using keys i len by (metis nth_map)
    have "bt_get m (fst (m ! i)) = Some (snd (m ! i))"
      using look distinct i by (metis nth_mem prod.collapse)
    moreover have "bt_get m' (fst (m' ! i)) = Some (snd (m' ! i))"
      using look distinct keys i len by (metis nth_mem prod.collapse)
    ultimately have "snd (m ! i) = snd (m' ! i)"
      using fst_eq assms(3) by simp
    with fst_eq show "m ! i = m' ! i" by (simp add: prod_eq_iff)
  qed
qed

end
