(* ===== verification/World.thy ===== *)
theory World
  imports BTreeMap
begin

text \<open>
  What the programs of the repository act on, and nothing of what answers them.
  The Kubernetes objects are records with the fields the sources read; a request is a
  value of type \<open>req\<close> (a call on a \<open>kube::Api\<close>, an operating-system call, an HTTP GET)
  and \<open>srv\<close>, a parameter, answers it and changes a hidden state of any type. The
  client library, the API server, the operating system and every other actor that runs
  between two requests are in that parameter. \<open>call\<close> appends each request and its
  answer to a log, the same device as \<open>FakeApi::seen\<close> in \<open>src/testing.rs\<close>, so that a
  theorem can speak about the requests a program makes and their order.
\<close>

subsection \<open>JSON values\<close>

datatype json =
    JNull
  | JBool bool
  | JNum int
  | JStr string
  | JArr "json list"
  | JObj "(string \<times> json) list"

definition jget :: "string \<Rightarrow> json \<Rightarrow> json option" where
  "jget k j = (case j of JObj kvs \<Rightarrow> map_of kvs k | _ \<Rightarrow> None)"

definition jidx :: "nat \<Rightarrow> json \<Rightarrow> json option" where
  "jidx i j = (case j of JArr xs \<Rightarrow> if i < length xs then Some (xs ! i) else None | _ \<Rightarrow> None)"

definition jstr :: "json \<Rightarrow> string option" where
  "jstr j = (case j of JStr s \<Rightarrow> Some s | _ \<Rightarrow> None)"

text \<open>A document that a JSON library can hold: no member name comes twice in an object.\<close>

fun wf_json :: "json \<Rightarrow> bool" where
  "wf_json (JArr xs) = list_all wf_json xs"
| "wf_json (JObj kvs) \<longleftrightarrow> distinct (map fst kvs) \<and> list_all (\<lambda>(k, v). wf_json v) kvs"
| "wf_json _ = True"

subsection \<open>Kubernetes objects\<close>

record PodSpec =
  ps_node_name :: "string option"
  ps_volumes :: "string option list option"  \<comment> \<open>the claim name of each volume that has one\<close>

record PodStatus =
  pst_phase :: "string option"
  pst_pod_ip :: "string option"

record Pod =
  pod_name :: "string option"
  pod_labels :: "(string, string) btree option"
  pod_spec :: "PodSpec option"
  pod_status :: "PodStatus option"

record NodeCondition =
  nc_type :: string
  nc_status :: string

record NodeStatus =
  ns_conditions :: "NodeCondition list option"

record Node =
  node_name :: "string option"
  node_status :: "NodeStatus option"

record PvcSpec =
  pvs_storage_class_name :: "string option"
  pvs_access_modes :: "string list option"
  pvs_volume_name :: "string option"

record Pvc =
  pvc_name :: "string option"
  pvc_namespace :: "string option"
  pvc_deletion_timestamp :: "string option"
  pvc_spec :: "PvcSpec option"

record SvcSpec =
  svs_cluster_ip :: "string option"

record Svc =
  svc_name :: "string option"
  svc_spec :: "SvcSpec option"

record VolumeAttachment =
  va_name :: "string option"
  va_pv_name :: "string option"

record ConfigMap =
  cm_meta_name :: "string option"
  cm_meta_namespace :: "string option"
  cm_annotations :: "(string, string) btree option"
  cm_data :: "(string, string) btree option"

text \<open>The body of a JSON merge patch on a ConfigMap; \<open>None\<close> is an absent member.\<close>

record CmPatch =
  pt_name :: "string option"
  pt_namespace :: "string option"
  pt_annotations :: "(string, string) btree option"
  pt_data :: "(string, string) btree option"

record ErrorResponse =
  er_status :: string
  er_message :: string
  er_reason :: string
  er_code :: nat

datatype kube_Error = Api ErrorResponse | OtherKube string

subsection \<open>Requests and answers\<close>

datatype kreq =
    GetPod string string | ListPods string "string option" | CreatePod string Pod | DeletePod string string
  | GetNode string | ListNodes
  | GetPvc string string | CreatePvc string Pvc | DeletePvc string string
  | GetSvc string string | CreateSvc string Svc | DeleteSvc string string
  | GetCm string string | CreateCm string ConfigMap | PatchCm string string CmPatch | DeleteCm string string
  | ListVa | DeleteVa string

datatype kresp =
    RPod Pod | RPods "Pod list" | RNode Node | RNodes "Node list"
  | RPvc Pvc | RSvc Svc | RCm ConfigMap | RVas "VolumeAttachment list"
  | RDone | RErr kube_Error

text \<open>
  Operating-system calls: a command run to completion (with a time limit in seconds), a
  child process and its handle, the file system, the clock and sleeping (milliseconds), the
  effective user.
\<close>

datatype hreq =
    CmdOutput string "string list" "nat option"
  | CmdStatus string "string list" nat
  | SpawnChild string "string list"
  | TryWait nat | StartKill nat | WaitChild nat nat
  | CreateDirAll string | WriteFile string string | RemoveFile string
  | TryExists string | PathExists string | Canonicalize string
  | Now | Sleep nat | EffectiveUid

datatype hresp =
    HOutput "(string + (bool \<times> int option \<times> string)) option"
  | HStatus "(string + (bool \<times> string)) option"
  | HSpawned "string + nat"
  | HTryWait "string + bool"
  | HWait "(string + unit) option"
  | HIo "string + unit"
  | HBool "string + bool"
  | HPath "string + string"
  | HNow nat
  | HUid nat
  | HUnit

datatype req = KReq kreq | HReq hreq | HttpGet string nat

text \<open>An HTTP answer is a status code and a body that does or does not parse as JSON.\<close>

datatype resp = KResp kresp | HResp hresp | HttpResp "string + (nat \<times> (string + json))"

subsection \<open>The world and the environment of a process\<close>

type_synonym trace = "(req \<times> resp) list"

record 's world =
  wst :: 's
  wlog :: trace

record 's sys =
  srv :: "req \<Rightarrow> 's \<Rightarrow> resp \<times> 's"
  env_var :: "string \<Rightarrow> string option"
  kube_display :: "kube_Error \<Rightarrow> string"
  pod_from_value :: "json \<Rightarrow> string + Pod"
  svc_from_value :: "json \<Rightarrow> string + Svc"
  pvc_from_value :: "json \<Rightarrow> string + Pvc"

type_synonym ('s, 'a) io = "('s world, 'a) state"

definition call :: "('s, 'z) sys_scheme \<Rightarrow> req \<Rightarrow> ('s, resp) io" where
  "call S q = State (\<lambda>w. let (r, s') = srv S q (wst w)
                         in (r, \<lparr>wst = s', wlog = wlog w @ [(q, r)]\<rparr>))"

definition answer :: "('s, 'z) sys_scheme \<Rightarrow> req \<Rightarrow> 's world \<Rightarrow> resp" where
  "answer S q w = fst (srv S q (wst w))"

text \<open>
  A typed call on a \<open>kube::Api\<close>: an error answer is the error, a body of another shape
  is the client's deserialisation error.
\<close>

definition decode :: "(kresp \<Rightarrow> 'a option) \<Rightarrow> resp \<Rightarrow> kube_Error + 'a" where
  "decode d r =
     (case r of
        KResp (RErr e) \<Rightarrow> Inl e
      | KResp x \<Rightarrow> (case d x of Some a \<Rightarrow> Inr a | None \<Rightarrow> Inl (OtherKube ''Error deserializing response''))
      | _ \<Rightarrow> Inl (OtherKube ''Error deserializing response''))"

definition kcall :: "('s, 'z) sys_scheme \<Rightarrow> kreq \<Rightarrow> (kresp \<Rightarrow> 'a option) \<Rightarrow> ('s, kube_Error + 'a) io" where
  "kcall S q d = do { r \<leftarrow> call S (KReq q); State_Monad.return (decode d r) }"

text \<open>The same call under \<open>?\<close> in a function that returns \<open>anyhow::Result\<close>.\<close>

definition acall :: "('s, 'z) sys_scheme \<Rightarrow> kreq \<Rightarrow> (kresp \<Rightarrow> 'a option) \<Rightarrow> ('s, anyhow_Error + 'a) io" where
  "acall S q d = do { r \<leftarrow> kcall S q d; State_Monad.return (map_err (kube_display S) r) }"

fun as_pod :: "kresp \<Rightarrow> Pod option" where
  "as_pod (RPod p) = Some p" | "as_pod _ = None"

fun as_pods :: "kresp \<Rightarrow> Pod list option" where
  "as_pods (RPods ps) = Some ps" | "as_pods _ = None"

fun as_node :: "kresp \<Rightarrow> Node option" where
  "as_node (RNode n) = Some n" | "as_node _ = None"

fun as_nodes :: "kresp \<Rightarrow> Node list option" where
  "as_nodes (RNodes ns) = Some ns" | "as_nodes _ = None"

fun as_pvc :: "kresp \<Rightarrow> Pvc option" where
  "as_pvc (RPvc p) = Some p" | "as_pvc _ = None"

fun as_svc :: "kresp \<Rightarrow> Svc option" where
  "as_svc (RSvc s) = Some s" | "as_svc _ = None"

fun as_cm :: "kresp \<Rightarrow> ConfigMap option" where
  "as_cm (RCm c) = Some c" | "as_cm _ = None"

fun as_vas :: "kresp \<Rightarrow> VolumeAttachment list option" where
  "as_vas (RVas vs) = Some vs" | "as_vas _ = None"

text \<open>The result of a deletion is never inspected by the sources.\<close>

definition as_any :: "kresp \<Rightarrow> unit option" where
  "as_any r = Some ()"

definition is_code :: "nat \<Rightarrow> kube_Error \<Rightarrow> bool" where
  "is_code c e = (case e of Api r \<Rightarrow> er_code r = c | OtherKube _ \<Rightarrow> False)"

text \<open>Typed host calls; an answer of another shape is an I/O error.\<close>

definition hcall :: "('s, 'z) sys_scheme \<Rightarrow> hreq \<Rightarrow> ('s, hresp) io" where
  "hcall S h = do {
     r \<leftarrow> call S (HReq h);
     State_Monad.return (case r of HResp x \<Rightarrow> x | _ \<Rightarrow> HUnit) }"

definition bad_answer :: string where
  "bad_answer = ''unexpected answer''"

definition as_io :: "hresp \<Rightarrow> string + unit" where
  "as_io r = (case r of HIo x \<Rightarrow> x | _ \<Rightarrow> Inl bad_answer)"

definition as_status :: "hresp \<Rightarrow> (string + (bool \<times> string)) option" where
  "as_status r = (case r of HStatus x \<Rightarrow> x | _ \<Rightarrow> Some (Inl bad_answer))"

definition as_bool :: "hresp \<Rightarrow> string + bool" where
  "as_bool r = (case r of HBool x \<Rightarrow> x | _ \<Rightarrow> Inl bad_answer)"

definition as_path :: "hresp \<Rightarrow> string + string" where
  "as_path r = (case r of HPath x \<Rightarrow> x | _ \<Rightarrow> Inl bad_answer)"

definition as_now :: "hresp \<Rightarrow> nat" where
  "as_now r = (case r of HNow t \<Rightarrow> t | _ \<Rightarrow> 0)"

definition as_uid :: "hresp \<Rightarrow> nat option" where
  "as_uid r = (case r of HUid u \<Rightarrow> Some u | _ \<Rightarrow> None)"

definition sleep :: "('s, 'z) sys_scheme \<Rightarrow> nat \<Rightarrow> ('s, unit) io" where
  "sleep S ms = do { _ \<leftarrow> call S (HReq (Sleep ms)); State_Monad.return () }"

subsection \<open>What a program asked: the trace it adds to the log\<close>

definition emits :: "('s, 'a) io \<Rightarrow> 's world \<Rightarrow> trace" where
  "emits m w = drop (length (wlog w)) (wlog (after m w))"

definition reqs :: "('s, 'a) io \<Rightarrow> 's world \<Rightarrow> req list" where
  "reqs m w = map fst (emits m w)"

text \<open>A program is traced when all it does to the log is to append.\<close>

definition traced :: "('s, 'a) io \<Rightarrow> bool" where
  "traced m \<longleftrightarrow> (\<forall>w. \<exists>tr. wlog (after m w) = wlog w @ tr)"

lemma traced_log: "traced m \<Longrightarrow> wlog (after m w) = wlog w @ emits m w"
proof -
  assume "traced m"
  then obtain tr where "wlog (after m w) = wlog w @ tr" unfolding traced_def by blast
  then show ?thesis by (simp add: emits_def)
qed

lemma traced_return [simp, traced_intro]: "traced (State_Monad.return a)"
  by (simp add: traced_def)

lemma traced_call [simp, traced_intro]: "traced (call S q)"
  by (simp add: traced_def after_def call_def split_beta)

lemma traced_bind [simp, traced_intro]:
  assumes "traced m" "\<And>a. traced (f a)"
  shows "traced (State_Monad.bind m f)"
  unfolding traced_def
proof
  fix w
  have "wlog (after (State_Monad.bind m f) w) =
        wlog w @ emits m w @ emits (f (result m w)) (after m w)"
    using assms by (simp add: traced_log)
  then show "\<exists>tr. wlog (after (State_Monad.bind m f) w) = wlog w @ tr" ..
qed

lemma traced_case_sum [simp, traced_intro]:
  assumes "\<And>e. traced (f e)" "\<And>a. traced (g a)"
  shows "traced (case r of Inl e \<Rightarrow> f e | Inr a \<Rightarrow> g a)"
  using assms by (cases r) auto

lemma traced_case_option [simp, traced_intro]:
  assumes "traced f" "\<And>a. traced (g a)"
  shows "traced (case r of None \<Rightarrow> f | Some a \<Rightarrow> g a)"
  using assms by (cases r) auto

lemma traced_if [simp, traced_intro]:
  assumes "traced f" "traced g"
  shows "traced (if b then f else g)"
  using assms by simp

lemma traced_bindE [simp, traced_intro]:
  assumes "traced m" "\<And>a. traced (f a)"
  shows "traced (bindE m f)"
  unfolding bindE_def using assms by (intro traced_bind traced_case_sum) auto

lemma traced_kcall [simp, traced_intro]: "traced (kcall S q d)"
  by (simp add: kcall_def)

lemma traced_acall [simp, traced_intro]: "traced (acall S q d)"
  by (simp add: acall_def)

lemma traced_hcall [simp, traced_intro]: "traced (hcall S h)"
  by (simp add: hcall_def)

lemma traced_sleep [simp, traced_intro]: "traced (sleep S ms)"
  by (simp add: sleep_def)

lemma emits_return [simp]: "emits (State_Monad.return a) w = []"
  by (simp add: emits_def)

lemma emits_bind [simp]:
  assumes "traced m" "\<And>a. traced (f a)"
  shows "emits (State_Monad.bind m f) w = emits m w @ emits (f (result m w)) (after m w)"
proof -
  have "wlog (after (State_Monad.bind m f) w) =
        wlog w @ emits m w @ emits (f (result m w)) (after m w)"
    using assms by (simp add: traced_log)
  then show ?thesis by (simp add: emits_def [of "State_Monad.bind m f"])
qed

lemma result_call [simp]: "result (call S q) w = answer S q w"
  by (simp add: result_def call_def answer_def split_beta)

lemma emits_call [simp]: "emits (call S q) w = [(q, answer S q w)]"
  by (simp add: emits_def after_def call_def answer_def split_beta)

lemma wst_after_call: "wst (after (call S q) w) = snd (srv S q (wst w))"
  by (simp add: after_def call_def split_beta)

lemma result_kcall [simp]: "result (kcall S q d) w = decode d (answer S (KReq q) w)"
  by (simp add: kcall_def)

lemma after_kcall: "after (kcall S q d) w = after (call S (KReq q)) w"
  by (simp add: kcall_def)

lemma emits_kcall [simp]: "emits (kcall S q d) w = [(KReq q, answer S (KReq q) w)]"
  by (simp add: kcall_def)

lemma result_acall [simp]:
  "result (acall S q d) w = map_err (kube_display S) (decode d (answer S (KReq q) w))"
  by (simp add: acall_def)

lemma emits_acall [simp]: "emits (acall S q d) w = [(KReq q, answer S (KReq q) w)]"
  by (simp add: acall_def)

lemma after_acall: "after (acall S q d) w = after (call S (KReq q)) w"
  by (simp add: acall_def after_kcall)

lemma result_hcall [simp]:
  "result (hcall S h) w = (case answer S (HReq h) w of HResp x \<Rightarrow> x | _ \<Rightarrow> HUnit)"
  by (simp add: hcall_def)

lemma after_hcall: "after (hcall S h) w = after (call S (HReq h)) w"
  by (simp add: hcall_def)

lemma emits_hcall [simp]: "emits (hcall S h) w = [(HReq h, answer S (HReq h) w)]"
  by (simp add: hcall_def)

lemma after_sleep: "after (sleep S ms) w = after (call S (HReq (Sleep ms))) w"
  by (simp add: sleep_def)

lemma emits_sleep [simp]: "emits (sleep S ms) w = [(HReq (Sleep ms), answer S (HReq (Sleep ms)) w)]"
  by (simp add: sleep_def)

lemma emits_bindE [simp]:
  assumes "traced m" "\<And>a. traced (f a)"
  shows "emits (bindE m f) w =
     emits m w @ (case result m w of Inl e \<Rightarrow> [] | Inr a \<Rightarrow> emits (f a) (after m w))"
  using assms by (simp add: bindE_def split: sum.split)

lemma bindE_InrE:
  assumes "result (bindE m f) w = Inr v" "traced m" "\<And>a. traced (f a)"
  obtains a where "result m w = Inr a" "result (f a) (after m w) = Inr v"
    "emits (bindE m f) w = emits m w @ emits (f a) (after m w)"
  using assms by (cases "result m w") auto

lemma reqs_return [simp]: "reqs (State_Monad.return a) w = []"
  by (simp add: reqs_def)

lemma reqs_kcall [simp]: "reqs (kcall S q d) w = [KReq q]"
  by (simp add: reqs_def)

lemma reqs_acall [simp]: "reqs (acall S q d) w = [KReq q]"
  by (simp add: reqs_def)

lemma reqs_host [simp]:
  "reqs (call S q) w = [q]" "reqs (hcall S h) w = [HReq h]" "reqs (sleep S ms) w = [HReq (Sleep ms)]"
  by (simp_all add: reqs_def)

lemma reqs_bind [simp]:
  assumes "traced m" "\<And>a. traced (f a)"
  shows "reqs (State_Monad.bind m f) w = reqs m w @ reqs (f (result m w)) (after m w)"
  using assms by (simp add: reqs_def)

lemma reqs_bindE [simp]:
  assumes "traced m" "\<And>a. traced (f a)"
  shows "reqs (bindE m f) w =
     reqs m w @ (case result m w of Inl e \<Rightarrow> [] | Inr a \<Rightarrow> reqs (f a) (after m w))"
  using assms by (simp add: reqs_def split: sum.split)

lemma decode_Inr:
  "decode d r = Inr a \<longleftrightarrow> (\<exists>x. r = KResp x \<and> (\<forall>e. x \<noteq> RErr e) \<and> d x = Some a)"
  by (auto simp: decode_def split: resp.splits kresp.splits option.splits)

lemma decode_RErr [simp]: "decode d (KResp (RErr e)) = Inl e"
  by (simp add: decode_def)

lemma decode_ok [simp]:
  "decode as_pod (KResp (RPod p)) = Inr p"
  "decode as_pods (KResp (RPods ps)) = Inr ps"
  "decode as_node (KResp (RNode n)) = Inr n"
  "decode as_nodes (KResp (RNodes ns)) = Inr ns"
  "decode as_pvc (KResp (RPvc c)) = Inr c"
  "decode as_svc (KResp (RSvc s)) = Inr s"
  "decode as_cm (KResp (RCm m)) = Inr m"
  "decode as_vas (KResp (RVas vs)) = Inr vs"
  by (simp_all add: decode_def)


text \<open>The observations of a program distribute over its case distinctions.\<close>

lemma result_cases [simp]:
  "result (case r of Inl e \<Rightarrow> f e | Inr a \<Rightarrow> g a) w = (case r of Inl e \<Rightarrow> result (f e) w | Inr a \<Rightarrow> result (g a) w)"
  "result (case x of None \<Rightarrow> m | Some b \<Rightarrow> h b) w = (case x of None \<Rightarrow> result m w | Some b \<Rightarrow> result (h b) w)"
  "result (if c then m else n) w = (if c then result m w else result n w)"
  by (simp_all split: sum.split option.split)

lemma after_cases [simp]:
  "after (case r of Inl e \<Rightarrow> f e | Inr a \<Rightarrow> g a) w = (case r of Inl e \<Rightarrow> after (f e) w | Inr a \<Rightarrow> after (g a) w)"
  "after (case x of None \<Rightarrow> m | Some b \<Rightarrow> h b) w = (case x of None \<Rightarrow> after m w | Some b \<Rightarrow> after (h b) w)"
  "after (if c then m else n) w = (if c then after m w else after n w)"
  by (simp_all split: sum.split option.split)

lemma emits_cases [simp]:
  "emits (case r of Inl e \<Rightarrow> f e | Inr a \<Rightarrow> g a) w = (case r of Inl e \<Rightarrow> emits (f e) w | Inr a \<Rightarrow> emits (g a) w)"
  "emits (case x of None \<Rightarrow> m | Some b \<Rightarrow> h b) w = (case x of None \<Rightarrow> emits m w | Some b \<Rightarrow> emits (h b) w)"
  "emits (if c then m else n) w = (if c then emits m w else emits n w)"
  by (simp_all split: sum.split option.split)

lemma reqs_cases [simp]:
  "reqs (case r of Inl e \<Rightarrow> f e | Inr a \<Rightarrow> g a) w = (case r of Inl e \<Rightarrow> reqs (f e) w | Inr a \<Rightarrow> reqs (g a) w)"
  "reqs (case x of None \<Rightarrow> m | Some b \<Rightarrow> h b) w = (case x of None \<Rightarrow> reqs m w | Some b \<Rightarrow> reqs (h b) w)"
  "reqs (if c then m else n) w = (if c then reqs m w else reqs n w)"
  by (simp_all split: sum.split option.split)

lemma reqs_emits: "(q, r) \<in> set (emits m w) \<Longrightarrow> q \<in> set (reqs m w)"
  by (force simp: reqs_def)

subsection \<open>The hidden state: replaying the requests of a program\<close>

text \<open>
  A program reaches the hidden state only through its requests: the final state is what
  the requests of its trace, answered one after the other, make of the initial one.
\<close>

definition replays :: "('s, 'z) sys_scheme \<Rightarrow> ('s, 'a) io \<Rightarrow> bool" where
  "replays S m \<longleftrightarrow> traced m \<and>
     (\<forall>w. wst (after m w) = fold (\<lambda>q s. snd (srv S q s)) (reqs m w) (wst w))"

lemma replays_return [simp, traced_intro]: "replays S (State_Monad.return a)"
  by (simp add: replays_def)

lemma replays_call [simp, traced_intro]: "replays S (call S q)"
  by (simp add: replays_def reqs_def wst_after_call)

lemma replays_bind [simp, traced_intro]:
  "replays S m \<Longrightarrow> (\<And>a. replays S (f a)) \<Longrightarrow> replays S (State_Monad.bind m f)"
  by (simp add: replays_def)

lemma replays_case_sum [simp, traced_intro]:
  "(\<And>e. replays S (f e)) \<Longrightarrow> (\<And>a. replays S (g a)) \<Longrightarrow>
     replays S (case r of Inl e \<Rightarrow> f e | Inr a \<Rightarrow> g a)"
  by (cases r) auto

lemma replays_case_option [simp, traced_intro]:
  "replays S f \<Longrightarrow> (\<And>a. replays S (g a)) \<Longrightarrow> replays S (case r of None \<Rightarrow> f | Some a \<Rightarrow> g a)"
  by (cases r) auto

lemma replays_if [simp, traced_intro]:
  "replays S f \<Longrightarrow> replays S g \<Longrightarrow> replays S (if b then f else g)"
  by simp

lemma replays_bindE [simp, traced_intro]:
  "replays S m \<Longrightarrow> (\<And>a. replays S (f a)) \<Longrightarrow> replays S (bindE m f)"
  unfolding bindE_def by (intro replays_bind replays_case_sum) auto

lemma replays_kcall [simp, traced_intro]: "replays S (kcall S q d)"
  by (simp add: kcall_def)

lemma replays_acall [simp, traced_intro]: "replays S (acall S q d)"
  by (simp add: acall_def)

lemma replays_host [simp, traced_intro]: "replays S (hcall S h)" "replays S (sleep S ms)"
  by (simp_all add: hcall_def sleep_def)

lemma replays_traced: "replays S m \<Longrightarrow> traced m"
  by (simp add: replays_def)

lemma replays_state:
  "replays S m \<Longrightarrow> wst (after m w) = fold (\<lambda>q s. snd (srv S q s)) (reqs m w) (wst w)"
  by (simp add: replays_def)

end
