(* ===== verification/Api_Server.thy ===== *)
theory Api_Server
  imports World
begin

text \<open>
  The contract of the API server that the sources rely on for ConfigMaps, as the locale
  \<open>configmap_api\<close> (documented behaviour of GET, POST and of PATCH with the content type
  \<open>application/merge-patch+json\<close>, RFC 7386), and an in-memory server \<open>mem_srv\<close> that
  satisfies it. The server, the client library and the object decoders are parameters of
  every program of this development; the in-memory server is used to interpret the locale
  and to evaluate the programs on concrete clusters.
\<close>

subsection \<open>JSON merge patch on ConfigMaps\<close>

text \<open>
  RFC 7386 on a map of strings: members of the patch replace or add, members the patch
  does not mention are kept (only an explicit \<open>null\<close>, which no patch of the sources
  contains, removes one); an absent map is left as it is.
\<close>

definition merge_map ::
  "(string, string) btree option \<Rightarrow> (string, string) btree option \<Rightarrow> (string, string) btree option" where
  "merge_map old patch =
     (case patch of
        None \<Rightarrow> old
      | Some p \<Rightarrow> Some (fold (\<lambda>(k, v). bt_insert k v) p (case old of None \<Rightarrow> bt_empty | Some m \<Rightarrow> m)))"

definition merge_cm :: "ConfigMap \<Rightarrow> CmPatch \<Rightarrow> ConfigMap" where
  "merge_cm c p =
     c\<lparr>cm_annotations := merge_map (cm_annotations c) (pt_annotations p),
       cm_data := merge_map (cm_data c) (pt_data p)\<rparr>"

lemma bt_get_fold_insert:
  "distinct (map fst p) \<Longrightarrow>
     bt_get (fold (\<lambda>(k, v). bt_insert k v) p m) j =
       (case bt_get p j of Some v \<Rightarrow> Some v | None \<Rightarrow> bt_get m j)"
proof (induction p arbitrary: m)
  case Nil
  then show ?case by simp
next
  case (Cons kv p)
  obtain k v where kv: "kv = (k, v)" by (cases kv)
  have "bt_get p k = None" using Cons.prems kv by (simp add: bt_get_keys)
  with Cons kv show ?case by (auto simp: bt_get_insert_gen split: option.split)
qed

lemma bt_wf_fold_insert: "bt_wf m \<Longrightarrow> bt_wf (fold (\<lambda>(k, v). bt_insert k v) p m)"
  by (induction p arbitrary: m) (auto simp: bt_wf_insert)

definition wf_cm :: "ConfigMap \<Rightarrow> bool" where
  "wf_cm c \<longleftrightarrow> (case cm_annotations c of None \<Rightarrow> True | Some a \<Rightarrow> bt_wf a) \<and>
     (case cm_data c of None \<Rightarrow> True | Some d \<Rightarrow> bt_wf d)"

text \<open>Lookups in an optional map, as \<open>as_ref().and_then(|d| d.get(k))\<close>.\<close>

definition opt_get :: "(string, string) btree option \<Rightarrow> string \<Rightarrow> string option" where
  "opt_get m k = Option.bind m (\<lambda>d. bt_get d k)"

lemma opt_get_simps [simp]: "opt_get None k = None" "opt_get (Some d) k = bt_get d k"
  by (simp_all add: opt_get_def)

lemma merge_map_get:
  "(\<And>p. patch = Some p \<Longrightarrow> bt_wf p) \<Longrightarrow>
     opt_get (merge_map old patch) k =
       (case opt_get patch k of Some v \<Rightarrow> Some v | None \<Rightarrow> opt_get old k)"
  by (cases patch; cases old)
     (simp_all add: merge_map_def bt_get_fold_insert bt_wf_def strict_sorted_iff bt_empty_def
        split: option.split)

lemma merge_map_get_Some [simp]:
  "bt_wf p \<Longrightarrow> opt_get (merge_map old (Some p)) k =
     (case bt_get p k of Some v \<Rightarrow> Some v | None \<Rightarrow> opt_get old k)"
  by (subst merge_map_get) auto

lemma bt_from_single [simp]:
  "bt_wf (bt_from [(k, v)])" "bt_get (bt_from [(k, v)]) j = (if j = k then Some v else None)"
  by (simp_all add: bt_from_def bt_wf_def bt_empty_def)

lemma merge_map_wf:
  "(case old of None \<Rightarrow> True | Some m \<Rightarrow> bt_wf m) \<Longrightarrow>
     (case merge_map old patch of None \<Rightarrow> True | Some m \<Rightarrow> bt_wf m)"
  by (cases patch; cases old) (simp_all add: merge_map_def bt_wf_fold_insert bt.wf_empty)

lemma wf_merge_cm: "wf_cm c \<Longrightarrow> wf_cm (merge_cm c p)"
  by (simp add: wf_cm_def merge_cm_def merge_map_wf)

subsection \<open>The ConfigMap contract\<close>

locale configmap_api =
  fixes serve :: "req \<Rightarrow> 's \<Rightarrow> resp \<times> 's"
    and cms :: "'s \<Rightarrow> string \<Rightarrow> string \<Rightarrow> ConfigMap option"
  assumes get_found: "cms s ns n = Some c \<Longrightarrow> fst (serve (KReq (GetCm ns n)) s) = KResp (RCm c)"
    and get_missing: "cms s ns n = None \<Longrightarrow>
      \<exists>e. fst (serve (KReq (GetCm ns n)) s) = KResp (RErr e) \<and> is_code 404 e"
    and get_reads: "cms (snd (serve (KReq (GetCm ns n)) s)) = cms s"
    and create_new: "cm_meta_name c = Some n \<Longrightarrow> cms s ns n = None \<Longrightarrow>
      fst (serve (KReq (CreateCm ns c)) s) = KResp (RCm c) \<and>
      cms (snd (serve (KReq (CreateCm ns c)) s)) = (\<lambda>a b. if a = ns \<and> b = n then Some c else cms s a b)"
    and create_conflict: "cm_meta_name c = Some n \<Longrightarrow> cms s ns n = Some old \<Longrightarrow>
      (\<exists>e. fst (serve (KReq (CreateCm ns c)) s) = KResp (RErr e) \<and> is_code 409 e) \<and>
      cms (snd (serve (KReq (CreateCm ns c)) s)) = cms s"
    and patch_merges: "cms s ns n = Some c \<Longrightarrow>
      fst (serve (KReq (PatchCm ns n p)) s) = KResp (RCm (merge_cm c p)) \<and>
      cms (snd (serve (KReq (PatchCm ns n p)) s)) =
        (\<lambda>a b. if a = ns \<and> b = n then Some (merge_cm c p) else cms s a b)"
    and patch_missing: "cms s ns n = None \<Longrightarrow>
      (\<exists>e. fst (serve (KReq (PatchCm ns n p)) s) = KResp (RErr e) \<and> is_code 404 e) \<and>
      cms (snd (serve (KReq (PatchCm ns n p)) s)) = cms s"

subsection \<open>An in-memory server\<close>

record cluster =
  cl_pods :: "((string \<times> string) \<times> Pod) list"
  cl_nodes :: "Node list"
  cl_pvcs :: "((string \<times> string) \<times> Pvc) list"
  cl_svcs :: "((string \<times> string) \<times> Svc) list"
  cl_cms :: "((string \<times> string) \<times> ConfigMap) list"
  cl_vas :: "VolumeAttachment list"

definition empty_cluster :: cluster where
  "empty_cluster = \<lparr>cl_pods = [], cl_nodes = [], cl_pvcs = [], cl_svcs = [], cl_cms = [], cl_vas = []\<rparr>"

definition api_error :: "nat \<Rightarrow> string \<Rightarrow> kresp" where
  "api_error code reason =
     RErr (Api \<lparr>er_status = ''Failure'', er_message = reason, er_reason = reason, er_code = code\<rparr>)"

definition lookup_or_404 :: "('k \<times> 'v) list \<Rightarrow> 'k \<Rightarrow> ('v \<Rightarrow> kresp) \<Rightarrow> kresp" where
  "lookup_or_404 m k f = (case map_of m k of Some v \<Rightarrow> f v | None \<Rightarrow> api_error 404 ''NotFound'')"

definition without :: "'k \<Rightarrow> ('k \<times> 'v) list \<Rightarrow> ('k \<times> 'v) list" where
  "without k m = filter (\<lambda>e. fst e \<noteq> k) m"

definition has_label :: "string \<Rightarrow> Pod \<Rightarrow> bool" where
  "has_label l p = (opt_get (pod_labels p) l \<noteq> None)"

fun mem_kube :: "kreq \<Rightarrow> cluster \<Rightarrow> kresp \<times> cluster" where
  "mem_kube (GetPod ns n) c = (lookup_or_404 (cl_pods c) (ns, n) RPod, c)"
| "mem_kube (ListPods ns sel) c =
     (RPods (filter (\<lambda>p. case sel of None \<Rightarrow> True | Some l \<Rightarrow> has_label l p)
               (map snd (filter (\<lambda>e. fst (fst e) = ns) (cl_pods c)))), c)"
| "mem_kube (CreatePod ns p) c =
     (let k = (ns, or_empty (pod_name p));
          p' = p\<lparr>pod_status := Some \<lparr>pst_phase = Some ''Pending'', pst_pod_ip = None\<rparr>\<rparr> in
      case map_of (cl_pods c) k of
        Some _ \<Rightarrow> (api_error 409 ''AlreadyExists'', c)
      | None \<Rightarrow> (RPod p', c\<lparr>cl_pods := cl_pods c @ [(k, p')]\<rparr>))"
| "mem_kube (DeletePod ns n) c =
     (lookup_or_404 (cl_pods c) (ns, n) (\<lambda>_. RDone), c\<lparr>cl_pods := without (ns, n) (cl_pods c)\<rparr>)"
| "mem_kube (GetNode n) c =
     ((case filter (\<lambda>x. node_name x = Some n) (cl_nodes c) of
         x # _ \<Rightarrow> RNode x | [] \<Rightarrow> api_error 404 ''NotFound''), c)"
| "mem_kube ListNodes c = (RNodes (cl_nodes c), c)"
| "mem_kube (GetPvc ns n) c = (lookup_or_404 (cl_pvcs c) (ns, n) RPvc, c)"
| "mem_kube (CreatePvc ns p) c =
     (let k = (ns, or_empty (pvc_name p)) in
      case map_of (cl_pvcs c) k of
        Some _ \<Rightarrow> (api_error 409 ''AlreadyExists'', c)
      | None \<Rightarrow> (RPvc p, c\<lparr>cl_pvcs := cl_pvcs c @ [(k, p)]\<rparr>))"
| "mem_kube (DeletePvc ns n) c =
     (lookup_or_404 (cl_pvcs c) (ns, n) (\<lambda>_. RDone), c\<lparr>cl_pvcs := without (ns, n) (cl_pvcs c)\<rparr>)"
| "mem_kube (GetSvc ns n) c = (lookup_or_404 (cl_svcs c) (ns, n) RSvc, c)"
| "mem_kube (CreateSvc ns p) c =
     (let k = (ns, or_empty (svc_name p)) in
      case map_of (cl_svcs c) k of
        Some _ \<Rightarrow> (api_error 409 ''AlreadyExists'', c)
      | None \<Rightarrow> (RSvc p, c\<lparr>cl_svcs := cl_svcs c @ [(k, p)]\<rparr>))"
| "mem_kube (DeleteSvc ns n) c =
     (lookup_or_404 (cl_svcs c) (ns, n) (\<lambda>_. RDone), c\<lparr>cl_svcs := without (ns, n) (cl_svcs c)\<rparr>)"
| "mem_kube (GetCm ns n) c = (lookup_or_404 (cl_cms c) (ns, n) RCm, c)"
| "mem_kube (CreateCm ns m) c =
     (let k = (ns, or_empty (cm_meta_name m)) in
      case map_of (cl_cms c) k of
        Some _ \<Rightarrow> (api_error 409 ''AlreadyExists'', c)
      | None \<Rightarrow> (RCm m, c\<lparr>cl_cms := (k, m) # cl_cms c\<rparr>))"
| "mem_kube (PatchCm ns n p) c =
     (case map_of (cl_cms c) (ns, n) of
        None \<Rightarrow> (api_error 404 ''NotFound'', c)
      | Some m \<Rightarrow> (RCm (merge_cm m p), c\<lparr>cl_cms := ((ns, n), merge_cm m p) # without (ns, n) (cl_cms c)\<rparr>))"
| "mem_kube (DeleteCm ns n) c =
     (lookup_or_404 (cl_cms c) (ns, n) (\<lambda>_. RDone), c\<lparr>cl_cms := without (ns, n) (cl_cms c)\<rparr>)"
| "mem_kube ListVa c = (RVas (cl_vas c), c)"
| "mem_kube (DeleteVa n) c =
     (if list_ex (\<lambda>v. va_name v = Some n) (cl_vas c) then RDone else api_error 404 ''NotFound'',
      c\<lparr>cl_vas := filter (\<lambda>v. va_name v \<noteq> Some n) (cl_vas c)\<rparr>)"

text \<open>Commands succeed, files can be written, the HTTP endpoint is down.\<close>

fun mem_host :: "hreq \<Rightarrow> hresp" where
  "mem_host (CmdOutput p a t) = HOutput (Some (Inr (True, Some 0, [])))"
| "mem_host (CmdStatus p a t) = HStatus (Some (Inr (True, ''exit status: 0'')))"
| "mem_host (SpawnChild p a) = HSpawned (Inr 1)"
| "mem_host (TryWait n) = HTryWait (Inr False)"
| "mem_host (StartKill n) = HUnit"
| "mem_host (WaitChild n t) = HWait (Some (Inr ()))"
| "mem_host (CreateDirAll p) = HIo (Inr ())"
| "mem_host (WriteFile p c) = HIo (Inr ())"
| "mem_host (RemoveFile p) = HIo (Inr ())"
| "mem_host (TryExists p) = HBool (Inr True)"
| "mem_host (PathExists p) = HBool (Inr True)"
| "mem_host (Canonicalize p) = HPath (Inr p)"
| "mem_host Now = HNow 0"
| "mem_host (Sleep ms) = HUnit"
| "mem_host EffectiveUid = HUid 0"

fun mem_srv :: "req \<Rightarrow> cluster \<Rightarrow> resp \<times> cluster" where
  "mem_srv (KReq q) c = (let (r, c') = mem_kube q c in (KResp r, c'))"
| "mem_srv (HReq h) c = (HResp (mem_host h), c)"
| "mem_srv (HttpGet url t) c = (HttpResp (Inl ''connection refused''), c)"

definition mem_cms :: "cluster \<Rightarrow> string \<Rightarrow> string \<Rightarrow> ConfigMap option" where
  "mem_cms c ns n = map_of (cl_cms c) (ns, n)"

lemma map_of_without: "map_of (without k m) j = (if j = k then None else map_of m j)"
  by (induction m) (auto simp: without_def)

interpretation mem: configmap_api mem_srv mem_cms
  by unfold_locales
     (auto simp: mem_cms_def lookup_or_404_def api_error_def is_code_def 
        map_of_without fun_eq_iff)

subsection \<open>Object decoders for the in-memory server\<close>

definition jpath_str :: "string list \<Rightarrow> json \<Rightarrow> string option" where
  "jpath_str ks j = Option.bind (fold (\<lambda>k m. Option.bind m (jget k)) ks (Some j)) jstr"

definition jlabels :: "json \<Rightarrow> (string, string) btree" where
  "jlabels j = (case j of JObj kvs \<Rightarrow> bt_from (List.map_filter (\<lambda>(k, v). map_option (Pair k) (jstr v)) kvs)
                | _ \<Rightarrow> bt_empty)"

definition mem_pod_from_value :: "json \<Rightarrow> string + Pod" where
  "mem_pod_from_value j =
     Inr \<lparr>pod_name = jpath_str [''metadata'', ''name''] j,
          pod_labels = map_option jlabels (Option.bind (jget ''metadata'' j) (jget ''labels'')),
          pod_spec = Some \<lparr>ps_node_name = jpath_str [''spec'', ''nodeName''] j,
            ps_volumes = (case Option.bind (jget ''spec'' j) (jget ''volumes'') of
              Some (JArr vs) \<Rightarrow> Some (map (jpath_str [''persistentVolumeClaim'', ''claimName'']) vs)
            | _ \<Rightarrow> None)\<rparr>,
          pod_status = None\<rparr>"

definition mem_svc_from_value :: "json \<Rightarrow> string + Svc" where
  "mem_svc_from_value j =
     Inr \<lparr>svc_name = jpath_str [''metadata'', ''name''] j,
          svc_spec = Some \<lparr>svs_cluster_ip = jpath_str [''spec'', ''clusterIP''] j\<rparr>\<rparr>"

definition mem_pvc_from_value :: "json \<Rightarrow> string + Pvc" where
  "mem_pvc_from_value j =
     Inr \<lparr>pvc_name = jpath_str [''metadata'', ''name''] j,
          pvc_namespace = jpath_str [''metadata'', ''namespace''] j,
          pvc_deletion_timestamp = None,
          pvc_spec = Some \<lparr>pvs_storage_class_name = jpath_str [''spec'', ''storageClassName''] j,
            pvs_access_modes = (case Option.bind (jget ''spec'' j) (jget ''accessModes'') of
              Some (JArr ms) \<Rightarrow> Some (List.map_filter jstr ms) | _ \<Rightarrow> None),
            pvs_volume_name = jpath_str [''spec'', ''volumeName''] j\<rparr>\<rparr>"

definition mem_display :: "kube_Error \<Rightarrow> string" where
  "mem_display e = (case e of Api r \<Rightarrow> ''ApiError: '' @ er_message r | OtherKube s \<Rightarrow> s)"

definition mem_sys :: "cluster sys" where
  "mem_sys =
     \<lparr>srv = mem_srv, env_var = (\<lambda>_. None), kube_display = mem_display,
      pod_from_value = mem_pod_from_value, svc_from_value = mem_svc_from_value,
      pvc_from_value = mem_pvc_from_value\<rparr>"

definition mem_world :: "cluster \<Rightarrow> cluster world" where
  "mem_world c = \<lparr>wst = c, wlog = []\<rparr>"

definition mk_node :: "string \<Rightarrow> bool \<Rightarrow> Node" where
  "mk_node n rdy =
     \<lparr>node_name = Some n,
      node_status = Some \<lparr>ns_conditions =
        Some [\<lparr>nc_type = ''Ready'', nc_status = (if rdy then ''True'' else ''False'')\<rparr>]\<rparr>\<rparr>"

definition mk_pod :: "string \<Rightarrow> string \<Rightarrow> string \<Rightarrow> Pod" where
  "mk_pod n node phase =
     \<lparr>pod_name = Some n,
      pod_labels = Some (bt_from [(''app'', ''hcloud-csi-rwx''), (''rwx-volume'', ''vol'')]),
      pod_spec = Some \<lparr>ps_node_name = Some node, ps_volumes = None\<rparr>,
      pod_status = Some \<lparr>pst_phase = Some phase, pst_pod_ip = Some ''10.255.0.1''\<rparr>\<rparr>"

end
