(* ===== verification/Provision.thy ===== *)
theory Provision
  imports Api_Server
begin

text \<open>
  \<open>src/provision.rs\<close>: the configuration lookups, the names derived from a volume, the
  JSON specifications of the three objects of a volume, and the node picker that the CSI
  driver and the failover controller share. The theorems show that the names of one
  volume and of two volumes never collide (and where they do), that the three
  specifications agree with each other, and that the node picker is sound and complete.
\<close>

subsection \<open>Configuration\<close>

definition DRIVER_NAME :: string where
  "DRIVER_NAME = ''hcloud-csi-rwx''"

definition RECOVERY_TOKEN_SECRET :: string where
  "RECOVERY_TOKEN_SECRET = ''hcloud-csi-rwx-recovery-token''"

definition CARGO_PKG_VERSION :: string where
  "CARGO_PKG_VERSION = ''0.2.2''"

definition env_or :: "('s, 'z) sys_scheme \<Rightarrow> string \<Rightarrow> string \<Rightarrow> string" where
  "env_or S name dflt =
     (case env_var S name of Some v \<Rightarrow> if v = [] then dflt else v | None \<Rightarrow> dflt)"

definition share_namespace :: "('s, 'z) sys_scheme \<Rightarrow> string" where
  "share_namespace S = env_or S ''SHARE_MANAGER_NAMESPACE'' ''hcloud-csi-rwx''"

definition image :: "('s, 'z) sys_scheme \<Rightarrow> string" where
  "image S = env_or S ''SHARE_MANAGER_IMAGE'' (''ghcr.io/mrhein/hcloud-csi-rwx:v'' @ CARGO_PKG_VERSION)"

definition pull_policy :: "('s, 'z) sys_scheme \<Rightarrow> string" where
  "pull_policy S = env_or S ''SHARE_MANAGER_PULL_POLICY'' ''IfNotPresent''"

definition backing_storage_class :: "('s, 'z) sys_scheme \<Rightarrow> string" where
  "backing_storage_class S = env_or S ''BACKING_STORAGE_CLASS'' ''hcloud-volumes''"

definition nfs_allowed_clients :: "('s, 'z) sys_scheme \<Rightarrow> string" where
  "nfs_allowed_clients S =
     env_or S ''NFS_ALLOWED_CLIENTS'' ''10.0.0.0/8, 172.16.0.0/12, 192.168.0.0/16''"

definition lease_lifetime :: "('s, 'z) sys_scheme \<Rightarrow> string" where
  "lease_lifetime S = env_or S ''LEASE_LIFETIME'' ''60''"

definition grace_period :: "('s, 'z) sys_scheme \<Rightarrow> string" where
  "grace_period S = env_or S ''GRACE_PERIOD'' ''90''"

definition export_mode :: "('s, 'z) sys_scheme \<Rightarrow> string" where
  "export_mode S = env_or S ''EXPORT_MODE'' ''0777''"

definition monitoring_port :: "('s, 'z) sys_scheme \<Rightarrow> string" where
  "monitoring_port S = env_or S ''MONITORING_PORT'' ''9587''"

subsection \<open>Names derived from a volume\<close>

definition volume_name :: "string \<Rightarrow> string" where
  "volume_name pvc = replace_chars [CHR ''.'', CHR ''_''] ''-'' pvc"

definition backing_pvc_name :: "string \<Rightarrow> string" where
  [naming_defs]: "backing_pvc_name vn = vn @ ''-backing''"

definition share_pod_name :: "string \<Rightarrow> string" where
  [naming_defs]: "share_pod_name vn = ''share-manager-'' @ vn"

definition state_cm_name :: "string \<Rightarrow> string" where
  [naming_defs]: "state_cm_name vn = ''state-'' @ vn"

subsection \<open>The specifications of a volume's objects\<close>

definition backing_pvc_json :: "('s, 'z) sys_scheme \<Rightarrow> string \<Rightarrow> string \<Rightarrow> string \<Rightarrow> json" where
  "backing_pvc_json S volume sz backing_sc =
     (let vn = volume_name volume in
      JObj [(''apiVersion'', JStr ''v1''),
            (''kind'', JStr ''PersistentVolumeClaim''),
            (''metadata'', JObj
              [(''name'', JStr (backing_pvc_name vn)),
               (''namespace'', JStr (share_namespace S)),
               (''labels'', JObj [(''app'', JStr DRIVER_NAME), (''rwx-volume'', JStr volume)])]),
            (''spec'', JObj
              [(''accessModes'', JArr [JStr ''ReadWriteOnce'']),
               (''storageClassName'', JStr backing_sc),
               (''volumeMode'', JStr ''Filesystem''),
               (''resources'', JObj [(''requests'', JObj [(''storage'', JStr sz)])])])])"

definition service_json :: "('s, 'z) sys_scheme \<Rightarrow> string \<Rightarrow> json" where
  "service_json S volume =
     (let vn = volume_name volume in
      JObj [(''apiVersion'', JStr ''v1''),
            (''kind'', JStr ''Service''),
            (''metadata'', JObj
              [(''name'', JStr vn),
               (''namespace'', JStr (share_namespace S)),
               (''labels'', JObj [(''app'', JStr DRIVER_NAME), (''rwx-volume'', JStr volume)])]),
            (''spec'', JObj
              [(''type'', JStr ''ClusterIP''),
               (''selector'', JObj [(''app'', JStr DRIVER_NAME), (''rwx-volume'', JStr volume)]),
               (''ports'', JArr
                 [JObj [(''port'', JNum 2049), (''name'', JStr ''nfs''), (''targetPort'', JNum 2049)],
                  JObj [(''port'', JNum 9500), (''name'', JStr ''api''), (''targetPort'', JNum 9500)]])])])"

text \<open>An entry of the container's environment with a literal value.\<close>

definition env_value :: "string \<Rightarrow> string \<Rightarrow> json" where
  "env_value name v = JObj [(''name'', JStr name), (''value'', JStr v)]"

definition share_pod_env :: "('s, 'z) sys_scheme \<Rightarrow> json list" where
  "share_pod_env S =
     [JObj [(''name'', JStr ''NFS_SVC_IP''),
            (''valueFrom'', JObj [(''fieldRef'', JObj [(''fieldPath'', JStr ''status.podIP'')])])],
      env_value ''LEASE_LIFETIME'' (lease_lifetime S),
      env_value ''GRACE_PERIOD'' (grace_period S),
      env_value ''NFS_ALLOWED_CLIENTS'' (nfs_allowed_clients S),
      env_value ''EXPORT_MODE'' (export_mode S),
      env_value ''MONITORING_PORT'' (monitoring_port S),
      JObj [(''name'', JStr ''RECOVERY_BACKEND_TOKEN''),
            (''valueFrom'', JObj [(''secretKeyRef'', JObj
               [(''name'', JStr RECOVERY_TOKEN_SECRET), (''key'', JStr ''token''),
                (''optional'', JBool True)])])]] @
     (case env_var S ''HCLOUD_RECOVERY_BACKEND_URL'' of
        Some url \<Rightarrow> if url \<noteq> [] then [env_value ''HCLOUD_RECOVERY_BACKEND_URL'' url] else []
      | None \<Rightarrow> [])"

text \<open>The metrics port: \<open>if let (true, Ok(p)) = (metrics_on, mp.parse::<i64>())\<close>.\<close>

definition metrics_port :: "('s, 'z) sys_scheme \<Rightarrow> int option" where
  "metrics_port S = (if monitoring_port S \<noteq> ''0'' then parse_i64 (monitoring_port S) else None)"

definition share_pod_ports :: "('s, 'z) sys_scheme \<Rightarrow> json list" where
  "share_pod_ports S =
     [JObj [(''containerPort'', JNum 9500), (''name'', JStr ''api'')],
      JObj [(''containerPort'', JNum 2049), (''name'', JStr ''nfs'')]] @
     (case metrics_port S of
        Some p \<Rightarrow> [JObj [(''containerPort'', JNum p), (''name'', JStr ''metrics'')]]
      | None \<Rightarrow> [])"

definition share_pod_annotations :: "('s, 'z) sys_scheme \<Rightarrow> json" where
  "share_pod_annotations S =
     JObj (case metrics_port S of
             Some p \<Rightarrow> [(''prometheus.io/scrape'', JStr ''true''),
                        (''prometheus.io/port'', JStr (monitoring_port S)),
                        (''prometheus.io/path'', JStr ''/metrics'')]
           | None \<Rightarrow> [])"

definition share_pod_json :: "('s, 'z) sys_scheme \<Rightarrow> string \<Rightarrow> string \<Rightarrow> string \<Rightarrow> string \<Rightarrow> json" where
  "share_pod_json S volume node claim claim_ns =
     (let vn = volume_name volume in
      JObj [(''apiVersion'', JStr ''v1''),
            (''kind'', JStr ''Pod''),
            (''metadata'', JObj
              [(''name'', JStr (share_pod_name vn)),
               (''namespace'', JStr (share_namespace S)),
               (''annotations'', share_pod_annotations S),
               (''labels'', JObj
                 [(''app'', JStr DRIVER_NAME), (''rwx-volume'', JStr volume),
                  (''rwx-pvc-name'', JStr claim), (''rwx-pvc-namespace'', JStr claim_ns)])]),
            (''spec'', JObj
              [(''hostNetwork'', JBool True),
               (''dnsPolicy'', JStr ''ClusterFirstWithHostNet''),
               (''nodeSelector'', JObj [(''kubernetes.io/hostname'', JStr node)]),
               (''restartPolicy'', JStr ''Never''),
               (''containers'', JArr [JObj
                 [(''name'', JStr ''share-manager''),
                  (''image'', JStr (image S)),
                  (''imagePullPolicy'', JStr (pull_policy S)),
                  (''securityContext'', JObj [(''privileged'', JBool True)]),
                  (''args'', JArr [JStr ''run'',
                     JStr ''--device'', JStr ''/export'',
                     JStr ''--volume'', JStr volume,
                     JStr ''--mount-point'', JStr ''/export'',
                     JStr ''--api-listen'', JStr ''0.0.0.0:9500'',
                     JStr ''--skip-mount'']),
                  (''env'', JArr (share_pod_env S)),
                  (''ports'', JArr (share_pod_ports S)),
                  (''volumeMounts'', JArr [JObj
                    [(''name'', JStr ''block-dev''),
                     (''mountPath'', JStr ''/export''),
                     (''mountPropagation'', JStr ''Bidirectional'')]])]]),
               (''volumes'', JArr [JObj
                 [(''name'', JStr ''block-dev''),
                  (''persistentVolumeClaim'', JObj [(''claimName'', JStr (backing_pvc_name vn))])]])])])"

subsection \<open>Node selection\<close>

definition node_ready :: "Node \<Rightarrow> bool" where
  "node_ready n =
     (case node_status n of
        None \<Rightarrow> False
      | Some s \<Rightarrow> (case ns_conditions s of
          None \<Rightarrow> False
        | Some cs \<Rightarrow> list_ex (\<lambda>c. nc_type c = ''Ready'' \<and> nc_status c = ''True'') cs))"

definition node_name_or_default :: "Node \<Rightarrow> string" where
  "node_name_or_default n = or_empty (node_name n)"

text \<open>The nodes of the listed pods that are scheduled already.\<close>

definition occupied_nodes :: "Pod list \<Rightarrow> string list" where
  "occupied_nodes ps = List.map_filter (\<lambda>p. Option.bind (pod_spec p) ps_node_name) ps"

definition suitable :: "string list \<Rightarrow> string list \<Rightarrow> Node \<Rightarrow> bool" where
  "suitable avoid occupied n \<longleftrightarrow>
     node_ready n \<and> node_name_or_default n \<notin> set avoid \<and> node_name_or_default n \<notin> set occupied"

definition choose_node :: "string list \<Rightarrow> string list \<Rightarrow> Node list \<Rightarrow> anyhow_Error + string" where
  "choose_node avoid occupied nodes =
     (case filter (suitable avoid occupied) nodes of
        n # _ \<Rightarrow> Inr (node_name_or_default n)
      | [] \<Rightarrow> Inl (''no suitable node found (avoid='' @ debug_list avoid @ '')''))"

definition pick_node :: "('s, 'z) sys_scheme \<Rightarrow> string list \<Rightarrow> ('s, anyhow_Error + string) io" where
  "pick_node S avoid =
     bindE (acall S (ListPods (share_namespace S) (Some ''rwx-volume'')) as_pods) (\<lambda>pods.
     bindE (acall S ListNodes as_nodes) (\<lambda>nodes.
       State_Monad.return (choose_node avoid (occupied_nodes pods) nodes)))"

definition node_is_ready :: "('s, 'z) sys_scheme \<Rightarrow> string \<Rightarrow> ('s, bool) io" where
  "node_is_ready S node = do {
     r \<leftarrow> kcall S (GetNode node) as_node;
     State_Monad.return (case r of Inr n \<Rightarrow> node_ready n | Inl _ \<Rightarrow> False) }"

subsection \<open>Lemmas: names\<close>

lemma volume_name_map:
  "volume_name s = map (\<lambda>c. if c \<in> {CHR ''.'', CHR ''_''} then CHR ''-'' else c) s"
  by (induction s) (auto simp: volume_name_def replace_chars_def)

text \<open>
  The contract of the derived names: no two sanitised volume names share an object of the
  same kind. The CSI driver and the controller rely on it for every volume they touch.
\<close>

locale resource_names =
  fixes pod_of :: "string \<Rightarrow> string" and claim_of :: "string \<Rightarrow> string" and state_of :: "string \<Rightarrow> string"
  assumes inj_pod: "inj pod_of" and inj_claim: "inj claim_of" and inj_state: "inj state_of"
begin

text \<open>A volume whose name differs leaves every object of the other volume alone.\<close>

lemma no_overlap:
  assumes "v \<noteq> w"
  shows "pod_of v \<noteq> pod_of w \<and> claim_of v \<noteq> claim_of w \<and> state_of v \<noteq> state_of w"
  using assms inj_pod inj_claim inj_state by (auto dest: injD)

lemma overlap_iff:
  "pod_of v = pod_of w \<longleftrightarrow> v = w" "claim_of v = claim_of w \<longleftrightarrow> v = w" "state_of v = state_of w \<longleftrightarrow> v = w"
  using inj_pod inj_claim inj_state by (auto dest: injD)

end

interpretation names: resource_names share_pod_name backing_pvc_name state_cm_name
  by unfold_locales (auto simp: naming_defs inj_def)

subsection \<open>Lemmas: the node picker\<close>

text \<open>
  What a client of the node picker relies on: a choice is a candidate outside the list to
  avoid, and a failure means that every candidate is in that list. The lemmas of the
  locale are about picking again with a shorter list, as the controller does.
\<close>

locale node_choice =
  fixes pick :: "string list \<Rightarrow> 'e + string" and candidate :: "string \<Rightarrow> bool"
  assumes choose_sound: "pick avoid = Inr n \<Longrightarrow> candidate n \<and> n \<notin> set avoid"
    and choose_complete: "pick avoid = Inl e \<Longrightarrow> candidate n \<Longrightarrow> n \<in> set avoid"
begin

lemma choose_ok_iff: "is_ok (pick avoid) \<longleftrightarrow> (\<exists>n. candidate n \<and> n \<notin> set avoid)"
  by (cases "pick avoid") (auto dest: choose_sound choose_complete)

text \<open>Shrinking the list to its last entry never loses a candidate.\<close>

lemma choose_last_ok:
  assumes "is_ok (pick avoid)"
  shows "avoid = [] \<or> is_ok (pick [last avoid])"
  using assms by (auto simp: choose_ok_iff)

lemma choose_last_iff:
  "is_ok (pick [m]) \<longleftrightarrow> (\<exists>n. candidate n \<and> n \<noteq> m)"
  by (simp add: choose_ok_iff)

end

definition candidate_node :: "string list \<Rightarrow> Node list \<Rightarrow> string \<Rightarrow> bool" where
  "candidate_node occupied nodes n \<longleftrightarrow>
     (\<exists>nd\<in>set nodes. node_ready nd \<and> node_name_or_default nd = n \<and> n \<notin> set occupied)"

lemma choose_node_Inr:
  "choose_node avoid occ nodes = Inr n \<longleftrightarrow>
     (\<exists>pre nd post. nodes = pre @ nd # post \<and> suitable avoid occ nd \<and>
        (\<forall>x\<in>set pre. \<not> suitable avoid occ x) \<and> n = node_name_or_default nd)"
proof (cases "filter (suitable avoid occ) nodes")
  case Nil
  then show ?thesis by (auto simp: choose_node_def filter_empty_conv)
next
  case (Cons a list)
  then obtain pre post where
    split: "nodes = pre @ a # post" "\<forall>x\<in>set pre. \<not> suitable avoid occ x" "suitable avoid occ a"
    by (auto simp: filter_eq_Cons_iff)
  have first: "nd = a"
    if "nodes = pre' @ nd # post'" "suitable avoid occ nd" "\<forall>x\<in>set pre'. \<not> suitable avoid occ x"
    for pre' nd post'
  proof -
    have "filter (suitable avoid occ) pre' = []" using that(3) by simp
    with Cons that(1,2) show "nd = a" by simp
  qed
  have chosen: "choose_node avoid occ nodes = Inr (node_name_or_default a)"
    using Cons by (simp add: choose_node_def)
  show ?thesis
  proof
    assume "choose_node avoid occ nodes = Inr n"
    with chosen have "n = node_name_or_default a" by simp
    with split show "\<exists>pre nd post. nodes = pre @ nd # post \<and> suitable avoid occ nd \<and>
        (\<forall>x\<in>set pre. \<not> suitable avoid occ x) \<and> n = node_name_or_default nd"
      by blast
  next
    assume "\<exists>pre nd post. nodes = pre @ nd # post \<and> suitable avoid occ nd \<and>
        (\<forall>x\<in>set pre. \<not> suitable avoid occ x) \<and> n = node_name_or_default nd"
    then obtain nd where "nd = a" "n = node_name_or_default nd"
      using first by blast
    with chosen show "choose_node avoid occ nodes = Inr n" by simp
  qed
qed

lemma choose_node_Inl:
  "choose_node avoid occ nodes = Inl e \<Longrightarrow> nd \<in> set nodes \<Longrightarrow> \<not> suitable avoid occ nd"
  by (auto simp: choose_node_def filter_empty_conv split: list.splits)

interpretation picker: node_choice "\<lambda>avoid. choose_node avoid occ nodes" "candidate_node occ nodes"
  for occ nodes
proof unfold_locales
  fix avoid n assume "choose_node avoid occ nodes = Inr n"
  then show "candidate_node occ nodes n \<and> n \<notin> set avoid"
    by (auto simp: choose_node_Inr candidate_node_def suitable_def)
next
  fix avoid e n assume "choose_node avoid occ nodes = Inl e" "candidate_node occ nodes n"
  then show "n \<in> set avoid"
    using choose_node_Inl by (fastforce simp: candidate_node_def suitable_def)
qed

lemma traced_pick_node [simp, traced_intro]:
  "traced (pick_node S avoid)" "replays S (pick_node S avoid)"
  by (simp_all add: pick_node_def)

lemma traced_node_is_ready [simp, traced_intro]:
  "traced (node_is_ready S node)" "replays S (node_is_ready S node)"
  by (simp_all add: node_is_ready_def)

text \<open>The two listings a call of \<open>pick_node\<close> sees, when the API answers both.\<close>

definition node_listing :: "('s, 'z) sys_scheme \<Rightarrow> 's world \<Rightarrow> (string list \<times> Node list) option" where
  "node_listing S w =
     (let q = KReq (ListPods (share_namespace S) (Some ''rwx-volume'')) in
      case decode as_pods (answer S q w) of
        Inl _ \<Rightarrow> None
      | Inr pods \<Rightarrow> (case decode as_nodes (answer S (KReq ListNodes) (after (call S q) w)) of
          Inl _ \<Rightarrow> None
        | Inr nodes \<Rightarrow> Some (occupied_nodes pods, nodes)))"

lemma pick_node_result:
  "node_listing S w = Some (occ, nodes) \<Longrightarrow> result (pick_node S avoid) w = choose_node avoid occ nodes"
  by (auto simp: node_listing_def pick_node_def Let_def after_acall split: sum.splits)

lemma pick_node_no_listing:
  "node_listing S w = None \<Longrightarrow> \<exists>e. result (pick_node S avoid) w = Inl e"
  by (auto simp: node_listing_def pick_node_def Let_def after_acall split: sum.splits)

lemma pick_node_Inr:
  assumes "result (pick_node S avoid) w = Inr n"
  obtains occ nodes where "node_listing S w = Some (occ, nodes)" "choose_node avoid occ nodes = Inr n"
  using assms pick_node_result [of S w _ _ avoid] pick_node_no_listing [of S w avoid]
  by (cases "node_listing S w") auto

lemma pick_node_reads:
  "q \<in> set (reqs (pick_node S avoid) w) \<Longrightarrow>
     q = KReq (ListPods (share_namespace S) (Some ''rwx-volume'')) \<or> q = KReq ListNodes"
  by (auto simp: pick_node_def split: sum.splits)

text \<open>
  The last two requests of \<open>tr\<close> listed the share-manager pods and the nodes, and by these answers
  \<open>n\<close> is a Ready node without a scheduled share-manager.
\<close>

definition listed_free :: "('s, 'z) sys_scheme \<Rightarrow> trace \<Rightarrow> string \<Rightarrow> bool" where
  "listed_free S tr n \<longleftrightarrow>
     (\<exists>pre a pods b nodes.
        tr = pre @ [(KReq (ListPods (share_namespace S) (Some ''rwx-volume'')), a), (KReq ListNodes, b)] \<and>
        decode as_pods a = Inr pods \<and> decode as_nodes b = Inr nodes \<and>
        candidate_node (occupied_nodes pods) nodes n)"

lemma pick_node_listed: "result (pick_node S avoid) w = Inr n \<Longrightarrow> listed_free S (emits (pick_node S avoid) w) n"
  by (auto simp: pick_node_def after_acall listed_free_def split: sum.splits
      dest: conjunct1 [OF picker.choose_sound])

lemma listed_free_append: "listed_free S tr n \<Longrightarrow> listed_free S (xs @ tr) n"
  unfolding listed_free_def by (metis append.assoc)

text \<open>A share-manager pod as it is created, before the scheduler has seen it.\<close>

definition pod_v1 :: Pod where
  "pod_v1 = projr (mem_pod_from_value (share_pod_json mem_sys ''v1'' ''n2'' [] []))"

subsection \<open>Properties\<close>

text \<open>
  C31. Sanitising a volume name is exact: two volumes get the same Kubernetes objects if
  and only if their names differ only where both have one of the characters dot,
  underscore and dash.
\<close>

theorem volume_name_collision:
  "volume_name v = volume_name w \<longleftrightarrow>
     list_all2 (\<lambda>a b. a = b \<or> a \<in> set ''._-'' \<and> b \<in> set ''._-'') v w"
proof (induction v arbitrary: w)
  case Nil
  then show ?case by (cases w) (auto simp: volume_name_map)
next
  case (Cons a v)
  then show ?case by (cases w) (auto simp: volume_name_map)
qed

text \<open>
  C20. The node picker is sound, complete and takes the first: it returns the first
  listed node that is Ready, not to be avoided and without a scheduled share-manager, and
  it fails on an answered listing only if no such node is listed.
\<close>

theorem pick_node_correct:
  assumes "node_listing S w = Some (occ, nodes)"
  shows "(result (pick_node S avoid) w = Inr n \<longleftrightarrow>
      (\<exists>pre nd post. nodes = pre @ nd # post \<and> suitable avoid occ nd \<and>
         (\<forall>x\<in>set pre. \<not> suitable avoid occ x) \<and> n = node_name_or_default nd)) \<and>
    (is_ok (result (pick_node S avoid) w) \<longleftrightarrow> (\<exists>m. candidate_node occ nodes m \<and> m \<notin> set avoid))"
  using assms by (simp_all add: pick_node_result choose_node_Inr picker.choose_ok_iff)

theorem pick_node_correct_witness:
  "\<exists>occ nodes. node_listing mem_sys (mem_world (empty_cluster\<lparr>cl_nodes := [mk_node ''n1'' False, mk_node ''n2'' True]\<rparr>)) = Some (occ, nodes) \<and>
     (is_ok (result (pick_node mem_sys []) (mem_world (empty_cluster\<lparr>cl_nodes := [mk_node ''n1'' False, mk_node ''n2'' True]\<rparr>))) \<longleftrightarrow>
       (\<exists>m. candidate_node occ nodes m \<and> m \<notin> set []))"
proof -
  have "node_listing mem_sys (mem_world (empty_cluster\<lparr>cl_nodes := [mk_node ''n1'' False, mk_node ''n2'' True]\<rparr>)) =
      Some ([], [mk_node ''n1'' False, mk_node ''n2'' True])"
    by code_simp
  from this conjunct2 [OF pick_node_correct [OF this, of "[]" "''n2''"]] show ?thesis by blast
qed

text \<open>
  C30. The three specifications of a volume are well formed, for every configuration, and agree:
  no object has a member twice and the container no environment variable, the service
  selects the share-manager pod (every selector entry is a label of the pod), the pod mounts
  the claim that the backing specification names, and pod, claim and service are in the same
  namespace.
\<close>

theorem volume_specs_agree:
  "wf_json (backing_pvc_json S v sz sc) \<and> wf_json (service_json S v) \<and> wf_json (share_pod_json S v node claim ns) \<and>
   distinct (map (jget ''name'') (share_pod_env S)) \<and>
   (\<exists>sel labels vol.
     Option.bind (jget ''spec'' (service_json S v)) (jget ''selector'') = Some (JObj sel) \<and>
     Option.bind (jget ''metadata'' (share_pod_json S v node claim ns)) (jget ''labels'') = Some (JObj labels) \<and>
     set sel \<subseteq> set labels \<and> sel \<noteq> [] \<and> distinct (map fst labels) \<and>
     Option.bind (jget ''spec'' (share_pod_json S v node claim ns))
       (\<lambda>s. Option.bind (jget ''volumes'' s) (jidx 0)) = Some vol \<and>
     Option.bind (jget ''persistentVolumeClaim'' vol) (jget ''claimName'') =
       Option.bind (jget ''metadata'' (backing_pvc_json S v sz sc)) (jget ''name'') \<and>
     Option.bind (jget ''metadata'' (share_pod_json S v node claim ns)) (jget ''namespace'') =
       Option.bind (jget ''metadata'' (service_json S v)) (jget ''namespace'') \<and>
     Option.bind (jget ''metadata'' (share_pod_json S v node claim ns)) (jget ''namespace'') =
       Option.bind (jget ''metadata'' (backing_pvc_json S v sz sc)) (jget ''namespace''))"
proof -
  have "wf_json (backing_pvc_json S v sz sc)" "wf_json (service_json S v)"
    by (simp_all add: backing_pvc_json_def service_json_def Let_def)
  moreover have "wf_json (share_pod_json S v node claim ns)"
    by (simp add: share_pod_json_def share_pod_env_def env_value_def share_pod_ports_def share_pod_annotations_def Let_def
        split: option.split)
  moreover have "distinct (map (jget ''name'') (share_pod_env S))"
    by (simp add: share_pod_env_def env_value_def jget_def split: option.split)
  ultimately show ?thesis
    by (simp add: share_pod_json_def service_json_def backing_pvc_json_def jget_def jidx_def Let_def)
qed

text \<open>
  C36. A share-manager pod that is not scheduled yet does not count as occupying its node: the
  pod specification pins the pod by a node selector and leaves the node name to the scheduler,
  and the node picker looks at the node name. So two picks in a row, the second after the first
  pod was created and before it was scheduled, give the same node.
\<close>

theorem unscheduled_pod_not_counted:
  assumes "\<And>j p. pod_from_value S j = Inr p \<Longrightarrow> Option.bind (pod_spec p) ps_node_name = jpath_str [''spec'', ''nodeName''] j"
    and "pod_from_value S (share_pod_json S v node claim ns) = Inr pod"
    and "node_listing S w = Some (occupied_nodes pods, nodes)"
    and "node_listing S w' = Some (occupied_nodes (pods @ [pod]), nodes)"
  shows "result (pick_node S avoid) w' = result (pick_node S avoid) w"
proof -
  have "Option.bind (pod_spec pod) ps_node_name = None"
    using assms(1) [OF assms(2)] by (simp add: jpath_str_def share_pod_json_def Let_def jget_def)
  then have "occupied_nodes (pods @ [pod]) = occupied_nodes pods"
    by (simp add: occupied_nodes_def List.map_filter_def)
  then show ?thesis using assms(3,4) by (simp add: pick_node_result)
qed

theorem unscheduled_pod_not_counted_witness:
  "result (pick_node mem_sys []) (mem_world (empty_cluster\<lparr>cl_nodes := [mk_node ''n2'' True],
       cl_pods := [((''hcloud-csi-rwx'', ''share-manager-v1''), pod_v1)]\<rparr>)) =
   result (pick_node mem_sys []) (mem_world (empty_cluster\<lparr>cl_nodes := [mk_node ''n2'' True]\<rparr>))"
proof (rule unscheduled_pod_not_counted)
  show "Option.bind (pod_spec p) ps_node_name = jpath_str [''spec'', ''nodeName''] j"
    if "pod_from_value mem_sys j = Inr p" for j p
    using that by (auto simp: mem_sys_def mem_pod_from_value_def)
  show "pod_from_value mem_sys (share_pod_json mem_sys ''v1'' ''n2'' [] []) = Inr pod_v1"
    by (simp add: mem_sys_def mem_pod_from_value_def pod_v1_def)
  show "node_listing mem_sys (mem_world (empty_cluster\<lparr>cl_nodes := [mk_node ''n2'' True]\<rparr>)) =
      Some (occupied_nodes [], [mk_node ''n2'' True])"
    by code_simp
  show "node_listing mem_sys (mem_world (empty_cluster\<lparr>cl_nodes := [mk_node ''n2'' True],
       cl_pods := [((''hcloud-csi-rwx'', ''share-manager-v1''), pod_v1)]\<rparr>)) =
      Some (occupied_nodes ([] @ [pod_v1]), [mk_node ''n2'' True])"
    by code_simp
qed

end
