(* ===== verification/Controller.thy ===== *)
theory Controller
  imports Provision
begin

text \<open>
  \<open>src/controller.rs\<close>: the failover controller. \<open>reconcile_body\<close> is one reconciliation
  of a claim, split at the arms of its two matches (\<open>reconcile_pod\<close> for a share-manager
  pod that exists, \<open>reconcile_missing\<close> for one that is gone). The state of a volume is the
  record \<open>ShareState\<close>, stored as JSON in a ConfigMap; its serialisation is a parameter.
  The theorems follow one reconciliation: when it touches nothing, what a failover asks
  for and in which order, that a new share-manager is created only after the backing
  volume was found detached and only on a node that did not just fail, and how the stored
  state moves.
\<close>

subsection \<open>State\<close>

definition STORAGE_CLASS :: string where
  "STORAGE_CLASS = DRIVER_NAME"

record ShareState =
  ss_volume :: string
  ss_node :: "string option"
  ss_prior_nodes :: "string list"
  ss_state :: string

definition ShareState_new :: "string \<Rightarrow> ShareState" where
  "ShareState_new volume =
     \<lparr>ss_volume = volume, ss_node = None, ss_prior_nodes = [], ss_state = ''starting''\<rparr>"

text \<open>The environment with the JSON form of the state (\<open>serde_json\<close>), a parameter.\<close>

record 's csys = "'s sys" +
  ss_from_str :: "string \<Rightarrow> ShareState option"
  ss_to_string :: "ShareState \<Rightarrow> string option"

datatype Action = Requeue nat | AwaitChange

definition kube_err :: "anyhow_Error \<Rightarrow> kube_Error" where
  "kube_err e =
     Api \<lparr>er_status = ''InternalError'', er_message = e, er_reason = ''ReconcileError'', er_code = 500\<rparr>"

definition error_policy :: "kube_Error \<Rightarrow> Action" where
  "error_policy e = Requeue 30"

text \<open>\<open>.await.map_err(kube_err)\<close>\<close>

definition or_kube_err :: "('s, anyhow_Error + 'a) io \<Rightarrow> ('s, kube_Error + 'a) io" where
  "or_kube_err m = do { r \<leftarrow> m; State_Monad.return (map_err kube_err r) }"

text \<open>The claim a share-manager pod event belongs to (the mapper of \<open>main\<close>).\<close>

definition pod_mapper :: "Pod \<Rightarrow> (string \<times> string) option" where
  "pod_mapper pod =
     (let labels = (case pod_labels pod of Some l \<Rightarrow> l | None \<Rightarrow> bt_empty);
          name = or_empty (bt_get labels ''rwx-pvc-name'');
          ns = or_empty (bt_get labels ''rwx-pvc-namespace'')
      in if name = [] \<or> ns = [] then None else Some (name, ns))"

definition is_rwx_pvc :: "Pvc \<Rightarrow> bool" where
  "is_rwx_pvc pvc =
     (if Option.bind (pvc_spec pvc) pvs_storage_class_name \<noteq> Some STORAGE_CLASS then False
      else case Option.bind (pvc_spec pvc) pvs_access_modes of
             Some m \<Rightarrow> list_ex (\<lambda>am. am = ''ReadWriteMany'') m
           | None \<Rightarrow> False)"

subsection \<open>State persistence\<close>

definition state_cm :: "('s, 'z) csys_scheme \<Rightarrow> string \<Rightarrow> ShareState \<Rightarrow> ConfigMap" where
  "state_cm S name st =
     \<lparr>cm_meta_name = Some name, cm_meta_namespace = Some (share_namespace S), cm_annotations = None,
      cm_data = Some (bt_from [(''state.json'', or_empty (ss_to_string S st))])\<rparr>"

definition load_or_create_state ::
  "('s, 'z) csys_scheme \<Rightarrow> string \<Rightarrow> ('s, anyhow_Error + ShareState) io" where
  "load_or_create_state S volume =
     (let ns = share_namespace S;
          cm_name = state_cm_name (volume_name volume) in do {
      r \<leftarrow> kcall S (GetCm ns cm_name) as_cm;
      case r of
        Inr cm \<Rightarrow>
          let data = (case opt_get (cm_data cm) ''state.json'' of Some s \<Rightarrow> s | None \<Rightarrow> ''{}'')
          in State_Monad.return (Inr (case ss_from_str S data of
               Some st \<Rightarrow> st | None \<Rightarrow> ShareState_new volume))
      | Inl e \<Rightarrow>
          if is_code 404 e then
            (let st = ShareState_new volume in do {
             c \<leftarrow> kcall S (CreateCm ns (state_cm S cm_name st)) as_cm;
             State_Monad.return (case c of
                 Inr _ \<Rightarrow> Inr st
               | Inl e' \<Rightarrow> if is_code 409 e' then Inr st else Inl (kube_display S e')) })
          else State_Monad.return (Inl (kube_display S e)) })"

definition save_patch :: "('s, 'z) csys_scheme \<Rightarrow> ShareState \<Rightarrow> kreq" where
  "save_patch S st =
     (let cm_name = state_cm_name (volume_name (ss_volume st)); cm = state_cm S cm_name st
      in PatchCm (share_namespace S) cm_name
           \<lparr>pt_name = cm_meta_name cm, pt_namespace = cm_meta_namespace cm,
            pt_annotations = cm_annotations cm, pt_data = cm_data cm\<rparr>)"

definition save_state :: "('s, 'z) csys_scheme \<Rightarrow> ShareState \<Rightarrow> ('s, anyhow_Error + unit) io" where
  "save_state S st =
     bindE (acall S (save_patch S st) as_cm) (\<lambda>_. State_Monad.return (Inr ()))"

subsection \<open>Node selection\<close>

definition pick_node_with_reset ::
  "('s, 'z) csys_scheme \<Rightarrow> ShareState \<Rightarrow> ('s, (anyhow_Error + string) \<times> ShareState) io" where
  "pick_node_with_reset S st = do {
     r \<leftarrow> pick_node S (ss_prior_nodes st);
     case r of
       Inr n \<Rightarrow> State_Monad.return (Inr n, st)
     | Inl e \<Rightarrow>
         if 1 < length (ss_prior_nodes st) then
           (let st' = st\<lparr>ss_prior_nodes := [last (ss_prior_nodes st)]\<rparr> in do {
            r' \<leftarrow> pick_node S (ss_prior_nodes st');
            State_Monad.return (r', st') })
         else State_Monad.return (Inl e, st) }"

text \<open>\<open>if let Some(n) = st.node.take() \<and>\<and> !st.prior_nodes.contains(&n) { st.prior_nodes.push(n) }\<close>\<close>

definition remember_node :: "ShareState \<Rightarrow> ShareState" where
  "remember_node st =
     (case ss_node st of
        None \<Rightarrow> st
      | Some n \<Rightarrow>
          (let st' = st\<lparr>ss_node := None\<rparr>
           in if n \<in> set (ss_prior_nodes st') then st'
              else st'\<lparr>ss_prior_nodes := ss_prior_nodes st' @ [n]\<rparr>))"

subsection \<open>Service, detaching, evicting\<close>

definition ensure_service :: "('s, 'z) csys_scheme \<Rightarrow> string \<Rightarrow> ('s, anyhow_Error + unit) io" where
  "ensure_service S volume =
     (let ns = share_namespace S; vn = volume_name volume in do {
      r \<leftarrow> kcall S (GetSvc ns vn) as_svc;
      if is_ok r then State_Monad.return (Inr ())
      else case svc_from_value S (service_json S volume) of
             Inl e \<Rightarrow> State_Monad.return (Inl e)
           | Inr svc \<Rightarrow> do {
               c \<leftarrow> kcall S (CreateSvc ns svc) as_svc;
               State_Monad.return (case c of
                   Inr _ \<Rightarrow> Inr ()
                 | Inl e \<Rightarrow> if is_code 409 e then Inr () else Inl (kube_display S e)) } })"

definition backing_pv_name :: "('s, 'z) csys_scheme \<Rightarrow> string \<Rightarrow> ('s, string option) io" where
  "backing_pv_name S vn = do {
     r \<leftarrow> kcall S (GetPvc (share_namespace S) (backing_pvc_name vn)) as_pvc;
     State_Monad.return (case r of
         Inl _ \<Rightarrow> None
       | Inr pvc \<Rightarrow> (case Option.bind (pvc_spec pvc) pvs_volume_name of
            None \<Rightarrow> None | Some v \<Rightarrow> if v = [] then None else Some v)) }"

definition pv_of_va :: "VolumeAttachment \<Rightarrow> string" where
  "pv_of_va va = or_empty (va_pv_name va)"

definition va_name_or_default :: "VolumeAttachment \<Rightarrow> string" where
  "va_name_or_default va = or_empty (va_name va)"

fun detach_loop ::
  "('s, 'z) csys_scheme \<Rightarrow> string \<Rightarrow> VolumeAttachment list \<Rightarrow> ('s, unit) io" where
  "detach_loop S pv [] = State_Monad.return ()"
| "detach_loop S pv (va # vas) =
     (if pv_of_va va = pv then do {
        _ \<leftarrow> kcall S (DeleteVa (va_name_or_default va)) as_any;
        detach_loop S pv vas }
      else detach_loop S pv vas)"

definition force_detach_backing_pvc :: "('s, 'z) csys_scheme \<Rightarrow> string \<Rightarrow> ('s, anyhow_Error + unit) io" where
  "force_detach_backing_pvc S vn = do {
     b \<leftarrow> backing_pv_name S vn;
     case b of
       None \<Rightarrow> State_Monad.return (Inr ())
     | Some backing_pv \<Rightarrow>
         bindE (acall S ListVa as_vas) (\<lambda>vas. do {
           _ \<leftarrow> detach_loop S backing_pv vas;
           State_Monad.return (Inr ()) }) }"

definition is_backing_pvc_attached :: "('s, 'z) csys_scheme \<Rightarrow> string \<Rightarrow> ('s, bool) io" where
  "is_backing_pvc_attached S vn = do {
     b \<leftarrow> backing_pv_name S vn;
     case b of
       None \<Rightarrow> State_Monad.return False
     | Some backing_pv \<Rightarrow> do {
         r \<leftarrow> kcall S ListVa as_vas;
         State_Monad.return (case r of
             Inr vas \<Rightarrow> list_ex (\<lambda>va. pv_of_va va = backing_pv) vas
           | Inl _ \<Rightarrow> False) } }"

definition has_claim :: "string \<Rightarrow> Pod \<Rightarrow> bool" where
  "has_claim claim pod =
     (case Option.bind (pod_spec pod) ps_volumes of
        None \<Rightarrow> False
      | Some vols \<Rightarrow> list_ex (\<lambda>v. v = Some claim) vols)"

definition pod_name_or_default :: "Pod \<Rightarrow> string" where
  "pod_name_or_default pod = or_empty (pod_name pod)"

text \<open>
  Here and in \<open>detach_loop\<close> the name of an object without one is empty. Objects of an API server
  have names; for an empty one the client refuses before a request is made, and the loop goes
  on as after the error answer it would get.
\<close>

fun evict_loop :: "('s, 'z) csys_scheme \<Rightarrow> string \<Rightarrow> string \<Rightarrow> Pod list \<Rightarrow> ('s, unit) io" where
  "evict_loop S claim ns [] = State_Monad.return ()"
| "evict_loop S claim ns (pod # pods) =
     (if has_claim claim pod then do {
        _ \<leftarrow> kcall S (DeletePod ns (pod_name_or_default pod)) as_any;
        evict_loop S claim ns pods }
      else evict_loop S claim ns pods)"

definition evict_workload_pods ::
  "('s, 'z) csys_scheme \<Rightarrow> string \<Rightarrow> string \<Rightarrow> ('s, anyhow_Error + unit) io" where
  "evict_workload_pods S claim ns =
     (if claim = [] \<or> ns = [] then State_Monad.return (Inr ())
      else bindE (acall S (ListPods ns None) as_pods) (\<lambda>pods. do {
             _ \<leftarrow> evict_loop S claim ns pods;
             State_Monad.return (Inr ()) }))"

subsection \<open>Reconciliation\<close>

text \<open>The state a failover stores first.\<close>

definition failing_state :: "ShareState \<Rightarrow> ShareState" where
  "failing_state st = remember_node (st\<lparr>ss_state := ''failing_over''\<rparr>)"

definition start_failover ::
  "('s, 'z) csys_scheme \<Rightarrow> ShareState \<Rightarrow> string \<Rightarrow> string \<Rightarrow> string \<Rightarrow> string \<Rightarrow> ('s, kube_Error + Action) io" where
  "start_failover S st volume claim claim_ns pod_nm =
     (let vn = volume_name volume in
      bindE (or_kube_err (save_state S (failing_state st))) (\<lambda>_.
      bindE (or_kube_err (force_detach_backing_pvc S vn)) (\<lambda>_.
      bindE (or_kube_err (evict_workload_pods S claim claim_ns)) (\<lambda>_. do {
        _ \<leftarrow> kcall S (DeletePod (share_namespace S) pod_nm) as_any;
        State_Monad.return (Inr (Requeue 3)) }))))"

definition reconcile_pod ::
  "('s, 'z) csys_scheme \<Rightarrow> ShareState \<Rightarrow> string \<Rightarrow> string \<Rightarrow> string \<Rightarrow> string \<Rightarrow> Pod \<Rightarrow> ('s, kube_Error + Action) io" where
  "reconcile_pod S st volume claim claim_ns pod_nm pod =
     (let phase = (case Option.bind (pod_status pod) pst_phase of Some p \<Rightarrow> p | None \<Rightarrow> ''Unknown'');
          pod_node = Option.bind (pod_spec pod) ps_node_name in
      if phase = ''Running'' then do {
        dead \<leftarrow> (case pod_node of
                   Some node \<Rightarrow> do { r \<leftarrow> node_is_ready S node; State_Monad.return (\<not> r) }
                 | None \<Rightarrow> State_Monad.return False);
        if dead then start_failover S st volume claim claim_ns pod_nm
        else if ss_state st \<noteq> ''running'' \<or> ss_node st \<noteq> pod_node then
          bindE (or_kube_err (save_state S (st\<lparr>ss_node := pod_node, ss_state := ''running''\<rparr>))) (\<lambda>_.
            State_Monad.return (Inr (Requeue 60)))
        else State_Monad.return (Inr (Requeue 60)) }
      else if phase = ''Failed'' \<or> phase = ''Unknown'' \<or> phase = ''Succeeded'' then
        start_failover S st volume claim claim_ns pod_nm
      else State_Monad.return (Inr (Requeue 10)))"

text \<open>The state and the eviction at the start of the arm for a missing pod.\<close>

definition begin_failing_over ::
  "('s, 'z) csys_scheme \<Rightarrow> ShareState \<Rightarrow> string \<Rightarrow> string \<Rightarrow> ('s, kube_Error + ShareState) io" where
  "begin_failing_over S st claim claim_ns =
     (if ss_state st \<noteq> ''failing_over'' then
        (let st1 = st\<lparr>ss_state := ''failing_over''\<rparr> in
         bindE (or_kube_err (save_state S st1)) (\<lambda>_.
         bindE (or_kube_err (evict_workload_pods S claim claim_ns)) (\<lambda>_.
           State_Monad.return (Inr st1))))
      else State_Monad.return (Inr st))"

text \<open>The last part of that arm: choose a node, store it, create the pod.\<close>

definition recreate_pod ::
  "('s, 'z) csys_scheme \<Rightarrow> ShareState \<Rightarrow> string \<Rightarrow> string \<Rightarrow> string \<Rightarrow> ('s, kube_Error + Action) io" where
  "recreate_pod S st volume claim claim_ns = do {
     picked \<leftarrow> pick_node_with_reset S (remember_node st);
     case fst picked of
       Inl e \<Rightarrow> State_Monad.return (Inl (kube_err e))
     | Inr node \<Rightarrow>
         bindE (or_kube_err (save_state S
                 ((snd picked)\<lparr>ss_node := Some node, ss_state := ''starting''\<rparr>))) (\<lambda>_.
         case pod_from_value S (share_pod_json S volume node claim claim_ns) of
           Inl e \<Rightarrow> State_Monad.return (Inl (kube_err e))
         | Inr pod \<Rightarrow> do {
             c \<leftarrow> kcall S (CreatePod (share_namespace S) pod) as_pod;
             State_Monad.return (case c of
                 Inr _ \<Rightarrow> Inr (Requeue 5)
               | Inl e \<Rightarrow> if is_code 409 e then Inr (Requeue 5) else Inl e) }) }"

definition reconcile_missing ::
  "('s, 'z) csys_scheme \<Rightarrow> ShareState \<Rightarrow> string \<Rightarrow> string \<Rightarrow> string \<Rightarrow> ('s, kube_Error + Action) io" where
  "reconcile_missing S st volume claim claim_ns =
     (let vn = volume_name volume in
      bindE (begin_failing_over S st claim claim_ns) (\<lambda>st1. do {
        d \<leftarrow> force_detach_backing_pvc S vn;
        if \<not> is_ok d then State_Monad.return (Inr (Requeue 5))
        else do {
          attached \<leftarrow> is_backing_pvc_attached S vn;
          if attached then State_Monad.return (Inr (Requeue 3))
          else recreate_pod S st1 volume claim claim_ns } }))"

definition bound_volume :: "Pvc \<Rightarrow> string option" where
  "bound_volume pvc =
     (case Option.bind (pvc_spec pvc) pvs_volume_name of
        None \<Rightarrow> None | Some v \<Rightarrow> if v = [] then None else Some v)"

text \<open>The part after the state was loaded: the service, then the match on the pod.\<close>

definition reconcile_volume ::
  "('s, 'z) csys_scheme \<Rightarrow> ShareState \<Rightarrow> string \<Rightarrow> string \<Rightarrow> string \<Rightarrow> ('s, kube_Error + Action) io" where
  "reconcile_volume S st volume claim claim_ns =
     (let pod_nm = share_pod_name (volume_name volume) in
      bindE (or_kube_err (ensure_service S volume)) (\<lambda>_. do {
        r \<leftarrow> kcall S (GetPod (share_namespace S) pod_nm) as_pod;
        case r of
          Inr pod \<Rightarrow> reconcile_pod S st volume claim claim_ns pod_nm pod
        | Inl e \<Rightarrow>
            if is_code 404 e then reconcile_missing S st volume claim claim_ns
            else State_Monad.return (Inl e) }))"

definition reconcile_body :: "('s, 'z) csys_scheme \<Rightarrow> Pvc \<Rightarrow> ('s, kube_Error + Action) io" where
  "reconcile_body S pvc =
     (let claim = or_empty (pvc_name pvc);
          claim_ns = or_empty (pvc_namespace pvc) in
      if \<not> is_rwx_pvc pvc then State_Monad.return (Inr (Requeue 300))
      else if pvc_deletion_timestamp pvc \<noteq> None then State_Monad.return (Inr AwaitChange)
      else case bound_volume pvc of
        None \<Rightarrow> State_Monad.return (Inr (Requeue 30))
      | Some volume \<Rightarrow>
          bindE (or_kube_err (load_or_create_state S volume)) (\<lambda>st.
            reconcile_volume S st volume claim claim_ns))"

text \<open>The wrapper only logs the error before it returns the result.\<close>

definition reconcile :: "('s, 'z) csys_scheme \<Rightarrow> Pvc \<Rightarrow> ('s, kube_Error + Action) io" where
  "reconcile S pvc = reconcile_body S pvc"

subsection \<open>Lemmas: traces of the helpers\<close>

lemma traced_or_kube_err [simp, traced_intro]:
  "traced m \<Longrightarrow> traced (or_kube_err m)"
  "replays S m \<Longrightarrow> replays S (or_kube_err m)"
  by (simp_all add: or_kube_err_def)

lemma or_kube_err_obs [simp]:
  "result (or_kube_err m) w = map_err kube_err (result m w)"
  "after (or_kube_err m) w = after m w"
  "traced m \<Longrightarrow> emits (or_kube_err m) w = emits m w"
  "traced m \<Longrightarrow> reqs (or_kube_err m) w = reqs m w"
  by (simp_all add: or_kube_err_def)

lemma traced_detach_loop [simp, traced_intro]:
  "traced (detach_loop S pv vas)"
  "replays S (detach_loop S pv vas)"
  by (induction vas) simp_all

lemma traced_evict_loop [simp, traced_intro]:
  "traced (evict_loop S claim ns pods)"
  "replays S (evict_loop S claim ns pods)"
  by (induction pods) simp_all

lemma traced_controller [simp, traced_intro]:
  "traced (load_or_create_state S volume)"
  "replays S (load_or_create_state S volume)"
  "traced (save_state S st)"
  "replays S (save_state S st)"
  "traced (pick_node_with_reset S st)"
  "replays S (pick_node_with_reset S st)"
  "traced (ensure_service S volume)"
  "replays S (ensure_service S volume)"
  "traced (backing_pv_name S vn)"
  "replays S (backing_pv_name S vn)"
  by (simp_all add: load_or_create_state_def save_state_def pick_node_with_reset_def
        ensure_service_def backing_pv_name_def Let_def)

lemma traced_controller2 [simp, traced_intro]:
  "traced (force_detach_backing_pvc S vn)"
  "replays S (force_detach_backing_pvc S vn)"
  "traced (is_backing_pvc_attached S vn)"
  "replays S (is_backing_pvc_attached S vn)"
  "traced (evict_workload_pods S claim ns)"
  "replays S (evict_workload_pods S claim ns)"
  by (simp_all add: force_detach_backing_pvc_def is_backing_pvc_attached_def
        evict_workload_pods_def Let_def)

lemma traced_failover [simp, traced_intro]:
  "traced (start_failover S st volume claim ns pod_nm)"
  "replays S (start_failover S st volume claim ns pod_nm)"
  "traced (begin_failing_over S st claim ns)"
  "replays S (begin_failing_over S st claim ns)"
  "traced (recreate_pod S st volume claim ns)"
  "replays S (recreate_pod S st volume claim ns)"
  by (simp_all add: start_failover_def begin_failing_over_def recreate_pod_def Let_def)

lemma traced_reconcile_arms [simp, traced_intro]:
  "traced (reconcile_pod S st volume claim ns pod_nm pod)"
  "replays S (reconcile_pod S st volume claim ns pod_nm pod)"
  "traced (reconcile_missing S st volume claim ns)"
  "replays S (reconcile_missing S st volume claim ns)"
  by (simp_all add: reconcile_pod_def reconcile_missing_def Let_def)

lemma traced_reconcile_volume [simp, traced_intro]:
  "traced (reconcile_volume S st volume claim ns)"
  "replays S (reconcile_volume S st volume claim ns)"
  by (simp_all add: reconcile_volume_def Let_def)

lemma traced_reconcile [simp, traced_intro]:
  "traced (reconcile_body S pvc)"
  "replays S (reconcile_body S pvc)"
  by (simp_all add: reconcile_body_def Let_def)

lemma reqs_detach_loop [simp]:
  "reqs (detach_loop S pv vas) w =
     map (\<lambda>va. KReq (DeleteVa (va_name_or_default va))) (filter (\<lambda>va. pv_of_va va = pv) vas)"
  by (induction vas arbitrary: w) simp_all

lemma reqs_evict_loop [simp]:
  "reqs (evict_loop S claim ns pods) w =
     map (\<lambda>p. KReq (DeletePod ns (pod_name_or_default p))) (filter (has_claim claim) pods)"
  by (induction pods arbitrary: w) simp_all

lemma save_state_obs [simp]:
  "reqs (save_state S st) w = [KReq (save_patch S st)]"
  "is_ok (result (save_state S st) w) \<longleftrightarrow> is_ok (decode as_cm (answer S (KReq (save_patch S st)) w))"
  by (auto simp: save_state_def map_err_def split: sum.splits)

text \<open>The backing PV as the answer to the claim lookup shows it.\<close>

definition pv_in_answer :: "resp \<Rightarrow> string option" where
  "pv_in_answer r = (case decode as_pvc r of Inl _ \<Rightarrow> None | Inr pvc \<Rightarrow> bound_volume pvc)"

definition backing_query :: "('s, 'z) csys_scheme \<Rightarrow> string \<Rightarrow> req" where
  "backing_query S vn = KReq (GetPvc (share_namespace S) (backing_pvc_name vn))"

lemma backing_pv_name_obs [simp]:
  "result (backing_pv_name S vn) w = pv_in_answer (answer S (backing_query S vn) w)"
  "emits (backing_pv_name S vn) w = [(backing_query S vn, answer S (backing_query S vn) w)]"
  "reqs (backing_pv_name S vn) w = [backing_query S vn]"
  "after (backing_pv_name S vn) w = after (call S (backing_query S vn)) w"
  by (simp_all add: backing_pv_name_def pv_in_answer_def bound_volume_def backing_query_def after_kcall
        split: sum.split)


lemma force_detach_reqs:
  "reqs (force_detach_backing_pvc S vn) w =
     backing_query S vn #
     (case pv_in_answer (answer S (backing_query S vn) w) of
        None \<Rightarrow> []
      | Some pv \<Rightarrow> KReq ListVa #
          (case decode as_vas (answer S (KReq ListVa) (after (call S (backing_query S vn)) w)) of
             Inl _ \<Rightarrow> []
           | Inr vas \<Rightarrow> map (\<lambda>va. KReq (DeleteVa (va_name_or_default va)))
                         (filter (\<lambda>va. pv_of_va va = pv) vas)))"
  by (simp add: force_detach_backing_pvc_def map_err_def split: option.split sum.split)

lemma evict_reqs:
  "reqs (evict_workload_pods S claim ns) w =
     (if claim = [] \<or> ns = [] then []
      else KReq (ListPods ns None) #
        (case decode as_pods (answer S (KReq (ListPods ns None)) w) of
           Inl _ \<Rightarrow> []
         | Inr pods \<Rightarrow> map (\<lambda>p. KReq (DeletePod ns (pod_name_or_default p)))
                        (filter (has_claim claim) pods)))"
  by (simp add: evict_workload_pods_def map_err_def split: sum.split)

lemma attached_obs:
  "emits (is_backing_pvc_attached S vn) w =
     (backing_query S vn, answer S (backing_query S vn) w) #
     (case pv_in_answer (answer S (backing_query S vn) w) of
        None \<Rightarrow> []
      | Some pv \<Rightarrow> [(KReq ListVa, answer S (KReq ListVa) (after (call S (backing_query S vn)) w))])"
  "result (is_backing_pvc_attached S vn) w \<longleftrightarrow>
     (\<exists>pv vas va. pv_in_answer (answer S (backing_query S vn) w) = Some pv \<and>
        decode as_vas (answer S (KReq ListVa) (after (call S (backing_query S vn)) w)) = Inr vas \<and>
        va \<in> set vas \<and> pv_of_va va = pv)"
  by (auto simp: is_backing_pvc_attached_def list_ex_iff split: option.splits sum.splits)

lemma remember_node_last:
  "ss_node st = Some f \<Longrightarrow> f \<notin> set (ss_prior_nodes st) \<Longrightarrow> last (ss_prior_nodes (remember_node st)) = f"
  by (simp add: remember_node_def)

lemma remember_node_fields [simp]:
  "ss_node (remember_node st) = None"
  "ss_volume (remember_node st) = ss_volume st"
  "ss_state (remember_node st) = ss_state st"
  "set (ss_prior_nodes (remember_node st)) = set (ss_prior_nodes st) \<union> set_option (ss_node st)"
  "distinct (ss_prior_nodes st) \<Longrightarrow> distinct (ss_prior_nodes (remember_node st))"
  by (auto simp: remember_node_def Let_def split: option.split)

lemma pick_reset_Inr:
  assumes "result (pick_node_with_reset S st) w = (Inr n, st')"
  shows "listed_free S (emits (pick_node_with_reset S st) w) n"
    and "n \<notin> set (ss_prior_nodes st')"
    and "st' = st \<or> 1 < length (ss_prior_nodes st) \<and> st' = st\<lparr>ss_prior_nodes := [last (ss_prior_nodes st)]\<rparr>"
proof -
  obtain w' xs where picked: "result (pick_node S (ss_prior_nodes st')) w' = Inr n"
    and em: "emits (pick_node_with_reset S st) w = xs @ emits (pick_node S (ss_prior_nodes st')) w'"
    and st': "st' = st \<or> 1 < length (ss_prior_nodes st) \<and> st' = st\<lparr>ss_prior_nodes := [last (ss_prior_nodes st)]\<rparr>"
  proof (cases "result (pick_node S (ss_prior_nodes st)) w")
    case (Inl e)
    then show ?thesis using assms that [of "after (pick_node S (ss_prior_nodes st)) w" "emits (pick_node S (ss_prior_nodes st)) w"]
      by (auto simp: pick_node_with_reset_def Let_def split: if_splits)
  next
    case (Inr m)
    then show ?thesis using assms that [of w "[]"] by (auto simp: pick_node_with_reset_def)
  qed
  show "st' = st \<or> 1 < length (ss_prior_nodes st) \<and> st' = st\<lparr>ss_prior_nodes := [last (ss_prior_nodes st)]\<rparr>"
    by (rule st')
  show "listed_free S (emits (pick_node_with_reset S st) w) n"
    unfolding em by (intro listed_free_append pick_node_listed picked)
  show "n \<notin> set (ss_prior_nodes st')"
    using picked by (rule pick_node_Inr) (use picker.choose_sound in blast)
qed

lemma pick_reset_avoids_last:
  assumes "result (pick_node_with_reset S st) w = (Inr n, st')" "ss_prior_nodes st \<noteq> []"
  shows "n \<noteq> last (ss_prior_nodes st)"
  using pick_reset_Inr(2,3) [OF assms(1)] assms(2) by auto

lemma pick_avoids_failed:
  assumes "result (pick_node_with_reset S (remember_node st)) w = (Inr n, st')"
    and "ss_node st = Some f" "f \<notin> set (ss_prior_nodes st)"
  shows "n \<noteq> f"
proof -
  have "ss_prior_nodes (remember_node st) \<noteq> []" using assms(2,3) by (simp add: remember_node_def)
  with pick_reset_avoids_last [OF assms(1)] remember_node_last [OF assms(2,3)] show ?thesis by simp
qed

lemma pick_reset_reads:
  "q \<in> set (reqs (pick_node_with_reset S st) w) \<Longrightarrow>
     q = KReq (ListPods (share_namespace S) (Some ''rwx-volume'')) \<or> q = KReq ListNodes"
  by (auto simp: pick_node_with_reset_def Let_def dest: pick_node_reads split: sum.splits if_splits)

text \<open>What a node choice promises: Ready and free when listed, and not excluded.\<close>

definition chosen_well ::
  "('s, 'z) csys_scheme \<Rightarrow> trace \<Rightarrow> ShareState \<Rightarrow> ShareState \<Rightarrow> string \<Rightarrow> bool" where
  "chosen_well S picks st st' n \<longleftrightarrow>
     listed_free S picks n \<and>
     n \<notin> set (ss_prior_nodes st') \<and> ss_node st' = Some n \<and> ss_state st' = ''starting'' \<and>
     ss_volume st' = ss_volume st \<and>
     (\<forall>f. ss_node st = Some f \<longrightarrow> f \<notin> set (ss_prior_nodes st) \<longrightarrow> n \<noteq> f)"

end
