(* ===== verification/Json_Text.thy ===== *)
theory Json_Text
  imports World
begin

text \<open>
  Compact JSON text, as \<open>serde_json::to_string\<close> writes it, with a parser that reads it
  back. Serialisation is a parameter of the programs; this theory is the instance on which
  the codec contracts of \<open>Failover\<close> and \<open>Recovery\<close> are interpreted.
\<close>

subsection \<open>Printing\<close>

definition escape_char :: "char \<Rightarrow> string" where
  "escape_char c =
     (if c = CHR 0x22 then [CHR 0x5C, CHR 0x22]
      else if c = CHR 0x5C then [CHR 0x5C, CHR 0x5C]
      else if c = CHR 0x08 then [CHR 0x5C, CHR ''b'']
      else if c = CHR 0x0C then [CHR 0x5C, CHR ''f'']
      else if c = CHR 0x0A then [CHR 0x5C, CHR ''n'']
      else if c = CHR 0x0D then [CHR 0x5C, CHR ''r'']
      else if c = CHR 0x09 then [CHR 0x5C, CHR ''t'']
      else if (of_char c :: nat) < 32
      then [CHR 0x5C, CHR ''u'', CHR ''0'', CHR ''0'', digit (of_char c div 16),
            (if (of_char c :: nat) mod 16 < 10 then digit (of_char c mod 16)
             else char_of (87 + (of_char c :: nat) mod 16))]
      else [c])"

definition print_str :: "string \<Rightarrow> string" where
  "print_str s = CHR 0x22 # concat (map escape_char s) @ [CHR 0x22]"

fun print_json :: "json \<Rightarrow> string" where
  "print_json JNull = ''null''"
| "print_json (JBool b) = (if b then ''true'' else ''false'')"
| "print_json (JNum i) = show_int i"
| "print_json (JStr s) = print_str s"
| "print_json (JArr xs) = ''['' @ join '','' (map print_json xs) @ '']''"
| "print_json (JObj kvs) =
     ''{'' @ join '','' (map (\<lambda>(k, v). print_str k @ '':'' @ print_json v) kvs) @ ''}''"

subsection \<open>Parsing\<close>

definition is_ws :: "char \<Rightarrow> bool" where
  "is_ws c \<longleftrightarrow> c = CHR 0x20 \<or> c = CHR 0x09 \<or> c = CHR 0x0A \<or> c = CHR 0x0D"

definition skip_ws :: "string \<Rightarrow> string" where
  "skip_ws s = dropWhile is_ws s"

definition hex_digit :: "char \<Rightarrow> nat option" where
  "hex_digit c =
     (let n = (of_char c :: nat) in
      if 48 \<le> n \<and> n \<le> 57 then Some (n - 48)
      else if 97 \<le> n \<and> n \<le> 102 then Some (n - 87)
      else if 65 \<le> n \<and> n \<le> 70 then Some (n - 55) else None)"

definition unescape :: "char \<Rightarrow> char option" where
  "unescape e =
     (if e = CHR 0x22 then Some (CHR 0x22) else if e = CHR 0x5C then Some (CHR 0x5C)
      else if e = CHR ''/'' then Some (CHR ''/'')
      else if e = CHR ''b'' then Some (CHR 0x08) else if e = CHR ''f'' then Some (CHR 0x0C)
      else if e = CHR ''n'' then Some (CHR 0x0A) else if e = CHR ''r'' then Some (CHR 0x0D)
      else if e = CHR ''t'' then Some (CHR 0x09) else None)"

definition cons_char :: "char \<Rightarrow> (string \<times> string) option \<Rightarrow> (string \<times> string) option" where
  "cons_char c r = map_option (apfst (Cons c)) r"

text \<open>The characters of a string up to its closing quote (\<open>\\u\<close> only for one byte).\<close>

fun parse_chars :: "string \<Rightarrow> (string \<times> string) option" where
  "parse_chars [] = None"
| "parse_chars (c # cs) =
     (if c = CHR 0x22 then Some ([], cs)
      else if c = CHR 0x5C then
        (case cs of
           [] \<Rightarrow> None
         | e # t \<Rightarrow>
             (case unescape e of
                Some d \<Rightarrow> cons_char d (parse_chars t)
              | None \<Rightarrow>
                  (case t of
                     h1 # h2 # h3 # h4 # t' \<Rightarrow>
                       if e = CHR ''u'' \<and> h1 = CHR ''0'' \<and> h2 = CHR ''0'' then
                         (case (hex_digit h3, hex_digit h4) of
                            (Some x, Some y) \<Rightarrow> if x < 8 then cons_char (char_of (16 * x + y)) (parse_chars t') else None
                          | _ \<Rightarrow> None)
                       else None
                   | _ \<Rightarrow> None)))
      else if (of_char c :: nat) < 32 then None
      else cons_char c (parse_chars cs))"

definition parse_num :: "string \<Rightarrow> (json \<times> string) option" where
  "parse_num s =
     (let (neg, t) = (case s of c # cs \<Rightarrow> if c = CHR ''-'' then (True, cs) else (False, s) | [] \<Rightarrow> (False, []));
          ds = takeWhile is_digit t; r = dropWhile is_digit t
      in if ds = [] then None
         else Some (JNum (if neg then - int (digits_value ds) else int (digits_value ds)), r))"

definition parse_lit :: "string \<Rightarrow> json \<Rightarrow> string \<Rightarrow> (json \<times> string) option" where
  "parse_lit l j s = map_option (Pair j) (strip_prefix l s)"

text \<open>The next token, a fixed character.\<close>

definition expect :: "char \<Rightarrow> string \<Rightarrow> string option" where
  "expect c s = (case skip_ws s of x # r \<Rightarrow> if x = c then Some r else None | [] \<Rightarrow> None)"

fun parse_value :: "nat \<Rightarrow> string \<Rightarrow> (json \<times> string) option"
  and parse_elems :: "nat \<Rightarrow> string \<Rightarrow> (json list \<times> string) option"
  and parse_members :: "nat \<Rightarrow> string \<Rightarrow> ((string \<times> json) list \<times> string) option" where
  "parse_value 0 s = None"
| "parse_value (Suc n) s =
     (case skip_ws s of
        [] \<Rightarrow> None
      | c # t \<Rightarrow>
          if c = CHR 0x22 then map_option (apfst JStr) (parse_chars t)
          else if c = CHR ''['' then
            (case expect (CHR '']'') t of
               Some r \<Rightarrow> Some (JArr [], r)
             | None \<Rightarrow> map_option (apfst JArr) (parse_elems n t))
          else if c = CHR ''{'' then
            (case expect (CHR ''}'') t of
               Some r \<Rightarrow> Some (JObj [], r)
             | None \<Rightarrow> map_option (apfst JObj) (parse_members n t))
          else if c = CHR ''n'' then parse_lit ''null'' JNull (c # t)
          else if c = CHR ''t'' then parse_lit ''true'' (JBool True) (c # t)
          else if c = CHR ''f'' then parse_lit ''false'' (JBool False) (c # t)
          else parse_num (c # t))"
| "parse_elems 0 s = None"
| "parse_elems (Suc n) s =
     (case parse_value n s of
        None \<Rightarrow> None
      | Some (v, t) \<Rightarrow>
          (case expect (CHR '','') t of
             Some r \<Rightarrow> map_option (apfst (Cons v)) (parse_elems n r)
           | None \<Rightarrow> map_option (Pair [v]) (expect (CHR '']'') t)))"
| "parse_members 0 s = None"
| "parse_members (Suc n) s =
     (case Option.bind (expect (CHR 0x22) s) parse_chars of
        None \<Rightarrow> None
      | Some (k, t0) \<Rightarrow>
          (case Option.bind (expect (CHR '':'') t0) (parse_value n) of
             None \<Rightarrow> None
           | Some (v, t) \<Rightarrow>
               (case expect (CHR '','') t of
                  Some r \<Rightarrow> map_option (apfst (Cons (k, v))) (parse_members n r)
                | None \<Rightarrow> map_option (Pair [(k, v)]) (expect (CHR ''}'') t))))"

text \<open>A whole text: nothing but white space may follow the value.\<close>

definition parse_json :: "string \<Rightarrow> json option" where
  "parse_json s =
     (case parse_value (Suc (length s)) s of
        Some (j, r) \<Rightarrow> if skip_ws r = [] then Some j else None
      | None \<Rightarrow> None)"

subsection \<open>The parser reads back what the printer wrote\<close>

lemma takeWhile_digits:
  assumes "list_all is_digit ds" "r = [] \<or> \<not> is_digit (hd r)"
  shows "takeWhile is_digit (ds @ r) = ds" "dropWhile is_digit (ds @ r) = r"
  using assms by (cases r; auto simp: list_all_iff takeWhile_append dropWhile_append)+


lemma not_digit_chars [simp]:
  "\<not> is_digit (CHR 0x22)" "\<not> is_digit (CHR ''['')" "\<not> is_digit (CHR ''{'')" "\<not> is_digit (CHR ''n'')"
  "\<not> is_digit (CHR ''t'')" "\<not> is_digit (CHR ''f'')" "\<not> is_digit (CHR ''-'')" "\<not> is_digit (CHR '','')"
  "\<not> is_digit (CHR '']'')" "\<not> is_digit (CHR ''}'')"
  by (simp_all add: is_digit_def)

lemma digit_not_ws: "is_digit c \<Longrightarrow> \<not> is_ws c"
  by (auto simp: is_ws_def is_digit_def)

lemma skip_ws_Cons [simp]: "\<not> is_ws c \<Longrightarrow> skip_ws (c # s) = c # s"
  by (simp add: skip_ws_def)

lemma skip_ws_Nil [simp]: "skip_ws [] = []"
  by (simp add: skip_ws_def)

lemma not_ws_chars [simp]:
  "\<not> is_ws (CHR 0x22)" "\<not> is_ws (CHR ''['')" "\<not> is_ws (CHR ''{'')" "\<not> is_ws (CHR ''n'')"
  "\<not> is_ws (CHR ''t'')" "\<not> is_ws (CHR ''f'')" "\<not> is_ws (CHR ''-'')" "\<not> is_ws (CHR '','')"
  "\<not> is_ws (CHR '']'')" "\<not> is_ws (CHR ''}'')" "\<not> is_ws (CHR '':'')"
  by (simp_all add: is_ws_def)

lemma expect_Cons [simp]: "\<not> is_ws x \<Longrightarrow> expect c (x # s) = (if x = c then Some s else None)"
  by (simp add: expect_def)

text \<open>Strings.\<close>

lemma hex_digit_print [simp]:
  "d < 10 \<Longrightarrow> hex_digit (digit d) = Some d"
  "10 \<le> d \<Longrightarrow> d < 16 \<Longrightarrow> hex_digit (char_of (87 + d)) = Some d"
  by (simp_all add: hex_digit_def Let_def)

lemma parse_escape_small:
  assumes "(of_char c :: nat) < 32"
  shows "parse_chars (escape_char c @ s) = cons_char c (parse_chars s)"
proof -
  define n where "n = (of_char c :: nat)"
  have c: "char_of n = c" and n: "n < 32" "n div 16 < 8" using assms by (simp_all add: n_def)
  have "hex_digit (if n mod 16 < 10 then digit (n mod 16) else char_of (87 + n mod 16)) = Some (n mod 16)"
    by simp
  with n c show ?thesis
    by (simp add: escape_char_def unescape_def n_def [symmetric])
qed

lemma parse_escape: "parse_chars (escape_char c @ s) = cons_char c (parse_chars s)"
proof (cases "(of_char c :: nat) < 32")
  case True
  then show ?thesis by (rule parse_escape_small)
next
  case False
  then show ?thesis by (auto simp: escape_char_def unescape_def)
qed

lemma parse_print_chars: "parse_chars (concat (map escape_char s) @ CHR 0x22 # r) = Some (s, r)"
  by (induction s) (simp_all add: parse_escape cons_char_def del: parse_chars.simps(2), simp)

lemma parse_num_digits:
  assumes "r = [] \<or> \<not> is_digit (hd r)"
  shows "parse_num (show_nat n @ r) = Some (JNum (int n), r)"
    and "parse_num (CHR ''-'' # show_nat n @ r) = Some (JNum (- int n), r)"
proof -
  obtain c cs where c: "show_nat n = c # cs" "is_digit c"
    by (metis list.exhaust list.pred_inject(2) show_nat_obs(1,2))
  then have "(case show_nat n @ r of c # cs \<Rightarrow> if c = CHR ''-'' then (True, cs) else (False, show_nat n @ r)
      | [] \<Rightarrow> (False, [])) = (False, show_nat n @ r)" by auto
  then show "parse_num (show_nat n @ r) = Some (JNum (int n), r)"
    using takeWhile_digits [OF show_nat_obs(2) assms] by (simp only: parse_num_def Let_def split_beta) simp
  show "parse_num (CHR ''-'' # show_nat n @ r) = Some (JNum (- int n), r)"
    using takeWhile_digits [OF show_nat_obs(2) assms] by (simp add: parse_num_def)
qed

lemma parse_print_num:
  assumes "r = [] \<or> \<not> is_digit (hd r)"
  shows "parse_num (show_int i @ r) = Some (JNum i, r)"
  using parse_num_digits [OF assms] by (simp add: show_int_def)

text \<open>Where a value ends: the text that follows does not go on with a digit.\<close>

abbreviation ends :: "string \<Rightarrow> bool" where
  "ends r \<equiv> r = [] \<or> \<not> is_digit (hd r)"

lemma show_int_head:
  "\<exists>c cs. show_int i = c # cs \<and> (is_digit c \<or> c = CHR ''-'')"
proof -
  obtain c cs where "show_nat (nat i) = c # cs" "is_digit c"
    by (metis list.exhaust list.pred_inject(2) show_nat_obs(1,2))
  then show ?thesis by (simp add: show_int_def)
qed

lemma print_json_head: "\<exists>c cs. print_json j = c # cs \<and> \<not> is_ws c \<and> c \<noteq> CHR '']'' \<and> c \<noteq> CHR ''}''"
proof (cases j)
  case (JNum i)
  obtain c cs where "show_int i = c # cs" "is_digit c \<or> c = CHR ''-''" using show_int_head by blast
  with JNum show ?thesis by (auto dest: digit_not_ws)
qed (auto simp: print_str_def)

lemma parse_print_value_num:
  assumes "ends r"
  shows "parse_value (Suc n) (show_int i @ r) = Some (JNum i, r)"
proof -
  obtain c cs where c: "show_int i = c # cs" "is_digit c \<or> c = CHR ''-''" using show_int_head by blast
  then have "skip_ws (show_int i @ r) = c # cs @ r" by (auto dest: digit_not_ws)
  moreover have "c \<noteq> CHR 0x22" "c \<noteq> CHR ''[''" "c \<noteq> CHR ''{''" "c \<noteq> CHR ''n''" "c \<noteq> CHR ''t''" "c \<noteq> CHR ''f''"
    using c(2) by auto
  ultimately show ?thesis using parse_print_num [OF assms, of i] c(1) by simp
qed

text \<open>The elements of an array and the members of an object, given that each value reads back.\<close>

definition reads_back :: "json \<Rightarrow> bool" where
  "reads_back j \<longleftrightarrow> (\<forall>n r. length (print_json j) < n \<longrightarrow> ends r \<longrightarrow>
     parse_value n (print_json j @ r) = Some (j, r))"

lemma reads_backI:
  "(\<And>m r. length (print_json j) \<le> m \<Longrightarrow> ends r \<Longrightarrow> parse_value (Suc m) (print_json j @ r) = Some (j, r)) \<Longrightarrow>
     reads_back j"
  unfolding reads_back_def by (metis less_Suc_eq_le not_less_zero old.nat.exhaust)

lemma reads_backD:
  "reads_back j \<Longrightarrow> length (print_json j) < n \<Longrightarrow> ends r \<Longrightarrow> parse_value n (print_json j @ r) = Some (j, r)"
  unfolding reads_back_def by blast

definition print_member :: "string \<times> json \<Rightarrow> string" where
  "print_member kv = print_str (fst kv) @ '':'' @ print_json (snd kv)"

lemma print_json_nonempty [simp]: "print_json j \<noteq> []"
  using print_json_head [of j] by auto

lemma parse_elems_print:
  assumes "xs \<noteq> []" "\<forall>x\<in>set xs. reads_back x" "Suc (length (join '','' (map print_json xs))) < n"
  shows "parse_elems n (join '','' (map print_json xs) @ CHR '']'' # r) = Some (xs, r)"
  using assms
proof (induction xs arbitrary: n)
  case Nil
  then show ?case by simp
next
  case (Cons x xs)
  obtain m where n: "n = Suc m" using Cons.prems(3) by (cases n) auto
  show ?case
  proof (cases xs)
    case Nil
    then have "parse_value m (print_json x @ CHR '']'' # r) = Some (x, CHR '']'' # r)"
      using Cons.prems n by (simp add: reads_back_def)
    then show ?thesis using Nil n by simp
  next
    case (Cons y ys)
    let ?rest = "join '','' (map print_json xs) @ CHR '']'' # r"
    have "parse_value m (print_json x @ CHR '','' # ?rest) = Some (x, CHR '','' # ?rest)"
      using Cons.prems n Cons by (simp add: reads_back_def)
    moreover have "parse_elems m ?rest = Some (xs, r)"
      using Cons.IH [of m] Cons.prems n Cons by simp
    ultimately show ?thesis using n Cons by simp
  qed
qed

lemma parse_member:
  assumes "reads_back v" "length (print_json v) < m" "ends r"
  shows "Option.bind (expect (CHR 0x22) (print_member (k, v) @ r)) parse_chars = Some (k, CHR '':'' # print_json v @ r)"
    and "Option.bind (expect (CHR '':'') (CHR '':'' # print_json v @ r)) (parse_value m) = Some (v, r)"
  using reads_backD [OF assms] by (simp_all add: print_member_def print_str_def parse_print_chars)

lemma parse_members_print:
  assumes "kvs \<noteq> []" "\<forall>kv\<in>set kvs. reads_back (snd kv)" "Suc (length (join '','' (map print_member kvs))) < n"
  shows "parse_members n (join '','' (map print_member kvs) @ CHR ''}'' # r) = Some (kvs, r)"
  using assms
proof (induction kvs arbitrary: n)
  case Nil
  then show ?case by simp
next
  case (Cons kv kvs)
  obtain k v where kv: "kv = (k, v)" by (cases kv)
  obtain m where n: "n = Suc m" using Cons.prems(3) by (cases n) auto
  have v: "reads_back v" using Cons.prems(2) kv by simp
  show ?case
  proof (cases kvs)
    case Nil
    then have "length (print_json v) < m" using Cons.prems n kv by (simp add: print_member_def)
    from parse_member [OF v this, where r = "CHR ''}'' # r"] show ?thesis using Nil n kv by simp
  next
    case (Cons y ys)
    let ?rest = "join '','' (map print_member kvs) @ CHR ''}'' # r"
    have "length (print_json v) < m" using Cons.prems n kv Cons by (simp add: print_member_def)
    note here = parse_member [OF v this, where r = "CHR '','' # ?rest"]
    have "parse_members m ?rest = Some (kvs, r)"
      using Cons.IH [of m] Cons.prems n Cons kv by simp
    then show ?thesis using here n Cons kv by simp
  qed
qed

lemma print_obj: "print_json (JObj kvs) = ''{'' @ join '','' (map print_member kvs) @ ''}''"
  by (simp add: print_member_def [abs_def] case_prod_unfold)

lemma join_head: "\<exists>s. join sep (x # xs) = x @ s"
  by (cases xs) auto

lemma parse_print_arr:
  assumes "\<forall>x\<in>set xs. reads_back x"
  shows "reads_back (JArr xs)"
proof (rule reads_backI)
  fix m r assume fuel: "length (print_json (JArr xs)) \<le> m"
  show "parse_value (Suc m) (print_json (JArr xs) @ r) = Some (JArr xs, r)"
  proof (cases xs)
    case Nil
    then show ?thesis by simp
  next
    case (Cons x ys)
    let ?t = "join '','' (map print_json xs) @ CHR '']'' # r"
    obtain c cs where head: "print_json x = c # cs" "\<not> is_ws c" "c \<noteq> CHR '']''"
      using print_json_head by blast
    obtain s where "?t = c # s"
      using join_head [of "'',''" "print_json x" "map print_json ys"] Cons head by auto
    then have "expect (CHR '']'') ?t = None" using head by simp
    moreover have "parse_elems m ?t = Some (xs, r)"
      using fuel Cons by (intro parse_elems_print assms) simp_all
    ultimately show ?thesis by simp
  qed
qed

lemma parse_print_obj:
  assumes "\<forall>kv\<in>set kvs. reads_back (snd kv)"
  shows "reads_back (JObj kvs)"
proof (rule reads_backI)
  fix m r assume fuel: "length (print_json (JObj kvs)) \<le> m"
  show "parse_value (Suc m) (print_json (JObj kvs) @ r) = Some (JObj kvs, r)"
  proof (cases kvs)
    case Nil
    then show ?thesis by simp
  next
    case (Cons kv ys)
    let ?t = "join '','' (map print_member kvs) @ CHR ''}'' # r"
    obtain s where "?t = CHR 0x22 # s"
      using join_head [of "'',''" "print_member kv" "map print_member ys"] Cons
      by (auto simp: print_member_def print_str_def)
    then have "expect (CHR ''}'') ?t = None" by simp
    moreover have "parse_members m ?t = Some (kvs, r)"
      using fuel Cons by (intro parse_members_print assms) (simp_all add: print_obj del: print_json.simps)
    ultimately show ?thesis by (simp add: print_obj del: print_json.simps)
  qed
qed

lemma parse_print_value: "reads_back j"
proof (induction j)
  case (JArr xs)
  then show ?case by (intro parse_print_arr) simp
next
  case (JObj kvs)
  then show ?case by (intro parse_print_obj) (auto simp: snds.simps)
next
  case (JNum i)
  show ?case by (rule reads_backI) (simp add: parse_print_value_num del: parse_value.simps)
next
  case (JStr s)
  show ?case by (rule reads_backI) (simp add: print_str_def parse_print_chars)
qed (rule reads_backI, simp add: parse_lit_def)+

theorem parse_print_json [simp]: "parse_json (print_json j) = Some j"
  using reads_backD [OF parse_print_value, of j _ "[]"] by (simp add: parse_json_def del: parse_value.simps)

end
