(* ===== verification/Share_Machine.thy ===== *)
theory Share_Machine
  imports Controller Json_Text
begin

text \<open>
  The abstract specification of the failover controller, and that the code implements it.
  The specification is the state machine \<open>share_step\<close> on the stored \<open>ShareState\<close>;
  \<open>share_reachable\<close> are its states and \<open>share_inv\<close> its invariant. The requests of a
  reconciliation are followed through the code: the states it stores are a path of the
  machine (\<open>stores_path\<close>), and with a ConfigMap store that keeps its contract
  (\<open>configmap_api\<close>) and a serialisation that round-trips (\<open>state_codec\<close>) the stored
  state refines the machine (\<open>state_store\<close>). The contracts are interpreted on the
  in-memory server with JSON text.
\<close>

subsection \<open>The abstract machine\<close>

text \<open>
  The machine is stated on the stored record alone. The \<open>suspects\<close> of a state are the nodes its
  server ran on, each once and in the order they were left; a failing server makes its node the
  last suspect.
\<close>

definition suspects :: "ShareState \<Rightarrow> string list" where
  "suspects st = ss_prior_nodes st @
     filter (\<lambda>n. n \<notin> set (ss_prior_nodes st)) (case ss_node st of None \<Rightarrow> [] | Some n \<Rightarrow> [n])"

definition suspended :: "ShareState \<Rightarrow> ShareState" where
  "suspended st = st\<lparr>ss_node := None, ss_prior_nodes := suspects st, ss_state := ''failing_over''\<rparr>"

inductive share_step :: "ShareState \<Rightarrow> ShareState \<Rightarrow> bool" where
  observed: "share_step st (st\<lparr>ss_node := n, ss_state := ''running''\<rparr>)"
| failed: "share_step st (suspended st)"
| vanished: "ss_state st \<noteq> ''failing_over'' \<Longrightarrow> share_step st (st\<lparr>ss_state := ''failing_over''\<rparr>)"
| restarted: "ss_state st = ''failing_over'' \<Longrightarrow> n \<notin> set prior \<Longrightarrow>
    prior = suspects st \<or> 1 < length (suspects st) \<and> prior = [last (suspects st)] \<Longrightarrow>
    share_step st (st\<lparr>ss_prior_nodes := prior, ss_node := Some n, ss_state := ''starting''\<rparr>)"

inductive_cases share_stepE: "share_step st st'"

lemma suspects_facts [simp]:
  "distinct (ss_prior_nodes st) \<Longrightarrow> distinct (suspects st)"
  "set (suspects st) = set (ss_prior_nodes st) \<union> set_option (ss_node st)"
  by (auto simp: suspects_def split: option.split)

lemma suspended_facts [simp]:
  "ss_volume (suspended st) = ss_volume st" "ss_state (suspended st) = ''failing_over''"
  "ss_prior_nodes (suspended st) = suspects st" "ss_node (suspended st) = None"
  by (simp_all add: suspended_def)

text \<open>What the code computes for them.\<close>

lemma remember_suspects: "ss_prior_nodes (remember_node st) = suspects st"
  by (simp add: remember_node_def suspects_def Let_def split: option.split)

lemma failing_suspended: "failing_state st = suspended st"
  by (cases st) (auto simp: failing_state_def suspended_def suspects_def remember_node_def Let_def split: option.split)

inductive share_reachable :: "string \<Rightarrow> ShareState \<Rightarrow> bool" for volume where
  initial: "share_reachable volume (ShareState_new volume)"
| step: "share_reachable volume st \<Longrightarrow> share_step st st' \<Longrightarrow> share_reachable volume st'"

definition share_inv :: "string \<Rightarrow> ShareState \<Rightarrow> bool" where
  "share_inv volume st \<longleftrightarrow>
     ss_volume st = volume \<and> distinct (ss_prior_nodes st) \<and>
     ss_state st \<in> {''starting'', ''running'', ''failing_over''} \<and>
     (ss_state st = ''starting'' \<longrightarrow> (case ss_node st of None \<Rightarrow> ss_prior_nodes st = []
                                    | Some n \<Rightarrow> n \<notin> set (ss_prior_nodes st)))"

lemma share_inv_step: "share_step st st' \<Longrightarrow> share_inv volume st \<Longrightarrow> share_inv volume st'"
  by (erule share_stepE) (auto simp: share_inv_def)

lemma share_reachable_inv: "share_reachable volume st \<Longrightarrow> share_inv volume st"
proof (induction rule: share_reachable.induct)
  case initial
  then show ?case by (simp add: share_inv_def ShareState_new_def)
next
  case (step st st')
  then show ?case by (blast intro: share_inv_step)
qed

lemma share_step_volume: "share_step st st' \<Longrightarrow> ss_volume st' = ss_volume st"
  by (erule share_stepE) auto

lemma share_reachable_steps:
  "share_step\<^sup>*\<^sup>* st st' \<Longrightarrow> share_reachable volume st \<Longrightarrow> share_reachable volume st'"
  by (induction rule: rtranclp_induct) (auto intro: share_reachable.step)

text \<open>A sequence of states, each a step from the one before.\<close>

fun share_path :: "ShareState \<Rightarrow> ShareState list \<Rightarrow> bool" where
  "share_path st [] = True"
| "share_path st (st' # sts) \<longleftrightarrow> share_step st st' \<and> share_path st' sts"

lemma share_path_append:
  "share_path st (xs @ ys) \<longleftrightarrow> share_path st xs \<and> share_path (last (st # xs)) ys"
  by (induction xs arbitrary: st) auto

lemma share_path_last: "share_path st sts \<Longrightarrow> share_step\<^sup>*\<^sup>* st (last (st # sts))"
  by (induction st sts rule: share_path.induct) (auto intro: converse_rtranclp_into_rtranclp)

lemma share_path_volume: "share_path st sts \<Longrightarrow> x \<in> set sts \<Longrightarrow> ss_volume x = ss_volume st"
  by (induction st sts rule: share_path.induct) (auto simp: share_step_volume)

subsection \<open>The states a reconciliation stores\<close>

fun is_patch :: "req \<Rightarrow> bool" where
  "is_patch (KReq (PatchCm _ _ _)) = True"
| "is_patch _ = False"

fun changes_cm :: "req \<Rightarrow> bool" where
  "changes_cm (KReq (CreateCm _ _)) = True"
| "changes_cm (KReq (DeleteCm _ _)) = True"
| "changes_cm q = is_patch q"

text \<open>
  The requests \<open>qs\<close> change ConfigMaps exactly by storing the states \<open>sts\<close>, in that order.
\<close>

definition stores :: "('s, 'z) csys_scheme \<Rightarrow> req list \<Rightarrow> ShareState list \<Rightarrow> bool" where
  "stores S qs sts \<longleftrightarrow> filter changes_cm qs = map (\<lambda>st. KReq (save_patch S st)) sts"

lemma changes_cm_simps [simp]:
  "changes_cm (KReq (save_patch S st))" "\<not> changes_cm (backing_query S vn)"
  by (simp_all add: save_patch_def backing_query_def Let_def)

lemma stores_simps [simp]:
  "stores S [] sts \<longleftrightarrow> sts = []"
  "\<not> changes_cm q \<Longrightarrow> stores S (q # qs) sts \<longleftrightarrow> stores S qs sts"
  by (auto simp: stores_def)

lemma stores_append: "stores S xs sts \<Longrightarrow> stores S ys sts' \<Longrightarrow> stores S (xs @ ys) (sts @ sts')"
  by (simp add: stores_def)

lemma stores_save: "stores S qs sts \<Longrightarrow> stores S (KReq (save_patch S st) # qs) (st # sts)"
  by (simp add: stores_def)

lemma stores_nothing: "(\<And>q. q \<in> set qs \<Longrightarrow> \<not> changes_cm q) \<Longrightarrow> stores S qs []"
  by (simp add: stores_def filter_empty_conv)

lemma stores_quiet [simp]:
  "stores S (reqs (force_detach_backing_pvc S vn) w) []"
  "stores S (reqs (evict_workload_pods S claim ns) w) []"
  "stores S (reqs (is_backing_pvc_attached S vn) w) []"
  "stores S (reqs (pick_node_with_reset S st) w) []"
  "stores S (reqs (ensure_service S volume) w) []"
  "stores S (reqs (node_is_ready S n) w) []"
proof -
  show "stores S (reqs (force_detach_backing_pvc S vn) w) []"
    by (rule stores_nothing) (auto simp: force_detach_reqs split: option.splits sum.splits)
  show "stores S (reqs (evict_workload_pods S claim ns) w) []"
    by (rule stores_nothing) (auto simp: evict_reqs split: if_splits sum.splits)
  show "stores S (reqs (is_backing_pvc_attached S vn) w) []"
    by (rule stores_nothing) (auto simp: reqs_def attached_obs split: option.splits)
  show "stores S (reqs (pick_node_with_reset S st) w) []"
    by (rule stores_nothing) (auto dest: pick_reset_reads)
  show "stores S (reqs (ensure_service S volume) w) []"
    by (rule stores_nothing) (auto simp: ensure_service_def Let_def split: if_splits sum.splits)
  show "stores S (reqs (node_is_ready S n) w) []"
    by (rule stores_nothing) (auto simp: node_is_ready_def)
qed

text \<open>What a part of a reconciliation stores is a path of the machine.\<close>

definition stores_path :: "('s, 'z) csys_scheme \<Rightarrow> ShareState \<Rightarrow> req list \<Rightarrow> bool" where
  "stores_path S st qs \<longleftrightarrow> (\<exists>sts. stores S qs sts \<and> share_path st sts)"

lemma stores_pathI: "stores S qs sts \<Longrightarrow> share_path st sts \<Longrightarrow> stores_path S st qs"
  by (auto simp: stores_path_def)

lemma stores_path_quiet: "stores S qs [] \<Longrightarrow> stores_path S st qs"
  by (rule stores_pathI) auto

lemma stores_path_prefix: "stores S qs [] \<Longrightarrow> stores_path S st qs' \<Longrightarrow> stores_path S st (qs @ qs')"
  by (auto simp: stores_path_def dest: stores_append)

lemma stores_path_save:
  assumes "share_step st st'" "stores_path S st' qs"
  shows "stores_path S st (KReq (save_patch S st') # qs)"
proof -
  obtain sts where "stores S qs sts" "share_path st' sts" using assms(2) by (auto simp: stores_path_def)
  with assms(1) show ?thesis by (intro stores_pathI [of S _ "st' # sts"] stores_save) auto
qed

lemma stores_path_Nil [simp]: "stores_path S st []"
  by (simp add: stores_path_quiet)

lemma stores_path_only [simp]: "stores S qs [] \<Longrightarrow> stores_path S st qs"
  by (rule stores_path_quiet)

lemma stores_start_failover: "stores_path S st (reqs (start_failover S st volume claim ns pod_nm) w)"
proof -
  have "\<exists>rest. reqs (start_failover S st volume claim ns pod_nm) w = KReq (save_patch S (suspended st)) # rest \<and>
      stores S rest []"
    unfolding start_failover_def Let_def failing_suspended
    by (auto split: sum.split intro!: stores_append [where sts = "[]" and sts' = "[]", simplified])
  then show ?thesis by (elim exE conjE) (simp add: stores_path_save share_step.failed)
qed

lemma stores_observed:
  "stores_path S st (reqs (bindE (or_kube_err (save_state S (st\<lparr>ss_node := n, ss_state := ''running''\<rparr>)))
      (\<lambda>_. State_Monad.return (Inr a))) w)"
  by (simp add: stores_path_save share_step.observed split: sum.split)

lemma stores_reconcile_pod: "stores_path S st (reqs (reconcile_pod S st volume claim ns pod_nm pod) w)"
  unfolding reconcile_pod_def Let_def
  by (cases "Option.bind (pod_spec pod) ps_node_name")
     (simp_all only: reqs_cases if_split option.case,
      simp_all add: stores_start_failover stores_observed stores_path_prefix del: reqs_bindE)

lemma stores_recreate_pod:
  assumes "ss_state st = ''failing_over''"
  shows "stores_path S st (reqs (recreate_pod S st volume claim ns) w)"
proof (cases "fst (result (pick_node_with_reset S (remember_node st)) w)")
  case (Inl e)
  then show ?thesis by (simp add: recreate_pod_def stores_path_quiet)
next
  case (Inr node)
  let ?st' = "snd (result (pick_node_with_reset S (remember_node st)) w)"
  have pk: "result (pick_node_with_reset S (remember_node st)) w = (Inr node, ?st')"
    using Inr by (simp add: prod_eq_iff)
  have "share_step st (?st'\<lparr>ss_node := Some node, ss_state := ''starting''\<rparr>)"
    using share_step.restarted [OF assms pick_reset_Inr(2) [OF pk]] pick_reset_Inr(3) [OF pk]
    by (auto simp: remember_suspects [symmetric] remember_node_def Let_def split: option.splits if_splits)
  then show ?thesis using Inr
    by (auto simp: recreate_pod_def split: sum.split
          intro!: stores_path_prefix stores_path_save)
qed

text \<open>The missing-pod arm: the state is first brought to \<open>failing_over\<close>.\<close>

lemma begin_failing_over_shape:
  "\<exists>rest. reqs (begin_failing_over S st claim ns) w =
       (if ss_state st = ''failing_over'' then []
        else KReq (save_patch S (st\<lparr>ss_state := ''failing_over''\<rparr>)) # rest) \<and> stores S rest []"
  "result (begin_failing_over S st claim ns) w = Inr st1 \<Longrightarrow> st1 = st\<lparr>ss_state := ''failing_over''\<rparr>"
proof -
  show "\<exists>rest. reqs (begin_failing_over S st claim ns) w =
       (if ss_state st = ''failing_over'' then []
        else KReq (save_patch S (st\<lparr>ss_state := ''failing_over''\<rparr>)) # rest) \<and> stores S rest []"
    by (cases "ss_state st = ''failing_over''")
       (auto simp: begin_failing_over_def Let_def split: sum.split intro: exI [of _ "[]"])
  show "result (begin_failing_over S st claim ns) w = Inr st1 \<Longrightarrow> st1 = st\<lparr>ss_state := ''failing_over''\<rparr>"
    by (auto simp: begin_failing_over_def Let_def split: if_splits sum.splits)
qed

lemma stores_path_then:
  assumes "stores_path S st1 qs" "st1 = st\<lparr>ss_state := ''failing_over''\<rparr>"
  shows "stores_path S st (reqs (begin_failing_over S st claim ns) w @ qs)"
proof -
  obtain rest where rest: "reqs (begin_failing_over S st claim ns) w =
       (if ss_state st = ''failing_over'' then [] else KReq (save_patch S st1) # rest)" "stores S rest []"
    using begin_failing_over_shape(1) [of S st claim ns w] assms(2) by blast
  show ?thesis
  proof (cases "ss_state st = ''failing_over''")
    case True
    then have "st1 = st" using assms(2) by simp
    then show ?thesis using rest True assms(1) by simp
  next
    case False
    then have "share_step st st1" using assms(2) by (simp add: share_step.vanished)
    then show ?thesis using rest False assms(1) by (simp add: stores_path_save stores_path_prefix)
  qed
qed

lemma stores_reconcile_missing: "stores_path S st (reqs (reconcile_missing S st volume claim ns) w)"
proof (cases "result (begin_failing_over S st claim ns) w")
  case (Inl e)
  then have "reqs (reconcile_missing S st volume claim ns) w = reqs (begin_failing_over S st claim ns) w @ []"
    by (simp add: reconcile_missing_def Let_def)
  also have "stores_path S st \<dots>" by (rule stores_path_then [OF stores_path_quiet refl]) simp
  finally show ?thesis .
next
  case (Inr st1)
  then have st1: "st1 = st\<lparr>ss_state := ''failing_over''\<rparr>" by (rule begin_failing_over_shape(2))
  let ?w1 = "after (begin_failing_over S st claim ns) w" and ?vn = "volume_name volume"
  let ?tail = "do {
      d \<leftarrow> force_detach_backing_pvc S ?vn;
      if \<not> is_ok d then State_Monad.return (Inr (Requeue 5))
      else do {
        attached \<leftarrow> is_backing_pvc_attached S ?vn;
        if attached then State_Monad.return (Inr (Requeue 3))
        else recreate_pod S st1 volume claim ns } }"
  have "stores_path S st1 (reqs ?tail ?w1)"
    using st1 by (auto intro!: stores_path_prefix stores_recreate_pod)
  with st1 have "stores_path S st (reqs (begin_failing_over S st claim ns) w @ reqs ?tail ?w1)"
    by (rule stores_path_then [rotated])
  with Inr show ?thesis by (simp add: reconcile_missing_def Let_def)
qed

lemma stores_reconcile_volume: "stores_path S st (reqs (reconcile_volume S st volume claim ns) w)"
proof (cases "result (ensure_service S volume) w")
  case (Inl e)
  then show ?thesis by (simp add: reconcile_volume_def Let_def)
next
  case (Inr u)
  let ?q = "GetPod (share_namespace S) (share_pod_name (volume_name volume))"
  let ?w1 = "after (ensure_service S volume) w"
  have quiet: "stores S [KReq ?q] []" by simp
  show ?thesis
  proof (cases "decode as_pod (answer S (KReq ?q) ?w1)")
    case (Inl e)
    then show ?thesis using Inr
      by (auto simp: reconcile_volume_def Let_def
            intro!: stores_path_prefix [OF _ stores_path_prefix [OF quiet, simplified]] stores_reconcile_missing)
  next
    case (Inr pod)
    then show ?thesis using \<open>result (ensure_service S volume) w = Inr u\<close>
      by (auto simp: reconcile_volume_def Let_def
            intro!: stores_path_prefix [OF _ stores_path_prefix [OF quiet, simplified]] stores_reconcile_pod)
  qed
qed

subsection \<open>The stored state refines the machine\<close>

text \<open>
  The contract of the serialised state: what is written can be read back. The second
  locale adds the ConfigMap contract and says that only requests on ConfigMaps change
  ConfigMaps.
\<close>

locale state_codec =
  fixes enc :: "ShareState \<Rightarrow> string option" and dec :: "string \<Rightarrow> ShareState option"
  assumes enc_total: "\<exists>t. enc st = Some t"
    and dec_enc: "enc st = Some t \<Longrightarrow> dec t = Some st"
begin

lemma enc_inj: "enc st = enc st' \<Longrightarrow> st = st'"
  using enc_total dec_enc by (metis option.inject)

lemma dec_or_empty: "dec (or_empty (enc st)) = Some st"
  using enc_total [of st] dec_enc by auto

end

locale state_store = configmap_api "srv S" cms + state_codec "ss_to_string S" "ss_from_str S"
  for S :: "('s, 'z) csys_scheme" and cms :: "'s \<Rightarrow> string \<Rightarrow> string \<Rightarrow> ConfigMap option" +
  assumes frame: "\<not> changes_cm q \<Longrightarrow> cms (snd (srv S q s)) = cms s"

definition state_of_cm :: "('s, 'z) csys_scheme \<Rightarrow> ConfigMap \<Rightarrow> ShareState option" where
  "state_of_cm S cm = Option.bind (opt_get (cm_data cm) ''state.json'') (ss_from_str S)"

text \<open>The ConfigMap of a volume and the state it holds.\<close>

definition state_map ::
  "('s, 'z) csys_scheme \<Rightarrow> ('s \<Rightarrow> string \<Rightarrow> string \<Rightarrow> ConfigMap option) \<Rightarrow> string \<Rightarrow> 's \<Rightarrow> ConfigMap option" where
  "state_map S cms volume s = cms s (share_namespace S) (state_cm_name (volume_name volume))"

definition stored_state ::
  "('s, 'z) csys_scheme \<Rightarrow> ('s \<Rightarrow> string \<Rightarrow> string \<Rightarrow> ConfigMap option) \<Rightarrow> string \<Rightarrow> 's \<Rightarrow> ShareState option" where
  "stored_state S cms volume s = Option.bind (state_map S cms volume s) (state_of_cm S)"

lemma stored_map: "stored_state S cms volume s = Some st \<Longrightarrow> state_map S cms volume s \<noteq> None"
  by (cases "state_map S cms volume s") (auto simp: stored_state_def)

context state_store
begin

lemma stored_after_save:
  assumes "state_map S cms volume s \<noteq> None" "ss_volume st' = volume"
  shows "stored_state S cms volume (snd (srv S (KReq (save_patch S st')) s)) = Some st'"
proof -
  obtain cm where cm: "cms s (share_namespace S) (state_cm_name (volume_name volume)) = Some cm"
    using assms(1) by (auto simp: state_map_def)
  have "opt_get (cm_data (merge_cm cm p)) ''state.json'' = Some (or_empty (ss_to_string S st'))"
    if "pt_data p = Some (bt_from [(''state.json'', or_empty (ss_to_string S st'))])" for p
    using that by (simp add: merge_cm_def)
  with patch_merges [OF cm] assms(2) dec_or_empty show ?thesis
    by (simp add: stored_state_def state_map_def state_of_cm_def save_patch_def Let_def state_cm_def)
qed

text \<open>Replaying requests that store the states of a path leaves the last one stored.\<close>

lemma stored_after_path:
  assumes "stores S qs sts" "\<forall>x\<in>set sts. ss_volume x = volume" "stored_state S cms volume s = Some st"
  shows "stored_state S cms volume (fold (\<lambda>q s. snd (srv S q s)) qs s) = Some (last (st # sts))"
  using assms
proof (induction qs arbitrary: sts s st)
  case Nil
  then show ?case by simp
next
  case (Cons q qs)
  show ?case
  proof (cases "changes_cm q")
    case False
    then have "stored_state S cms volume (snd (srv S q s)) = Some st"
      using Cons.prems(3) frame by (simp add: stored_state_def state_map_def)
    with False Cons show ?thesis by simp
  next
    case True
    then obtain st' sts' where sts: "sts = st' # sts'" "q = KReq (save_patch S st')" "stores S qs sts'"
      using Cons.prems(1) by (auto simp: stores_def)
    then have "stored_state S cms volume (snd (srv S q s)) = Some st'"
      using Cons.prems(2) stored_after_save [OF stored_map [OF Cons.prems(3)], of st'] by simp
    with Cons.IH [of sts'] sts Cons.prems(2) show ?thesis by simp
  qed
qed

lemma refines_path:
  assumes "replays S m" "stores_path S st (reqs m w)" "stored_state S cms (ss_volume st) (wst w) = Some st"
  shows "\<exists>st'. stored_state S cms (ss_volume st) (wst (after m w)) = Some st' \<and> share_step\<^sup>*\<^sup>* st st'"
proof -
  obtain sts where sts: "stores S (reqs m w) sts" "share_path st sts"
    using assms(2) by (auto simp: stores_path_def)
  then have "stored_state S cms (ss_volume st) (wst (after m w)) = Some (last (st # sts))"
    using stored_after_path [OF sts(1) _ assms(3)] share_path_volume replays_state [OF assms(1)] by simp
  with share_path_last [OF sts(2)] show ?thesis by blast
qed


text \<open>Loading the state: what is stored, or a new one that is stored now.\<close>

lemma load_stored:
  assumes "stored_state S cms volume (wst w) = Some st"
  shows "result (load_or_create_state S volume) w = Inr st"
    and "stored_state S cms volume (wst (after (load_or_create_state S volume) w)) = Some st"
proof -
  obtain cm where cm: "cms (wst w) (share_namespace S) (state_cm_name (volume_name volume)) = Some cm"
    and st: "state_of_cm S cm = Some st"
    using assms by (auto simp: stored_state_def state_map_def split: bind_splits)
  have ans: "answer S (KReq (GetCm (share_namespace S) (state_cm_name (volume_name volume)))) w = KResp (RCm cm)"
    using get_found [OF cm] by (simp add: answer_def)
  show "result (load_or_create_state S volume) w = Inr st"
    using ans st by (auto simp: load_or_create_state_def Let_def state_of_cm_def split: bind_splits option.splits)
  show "stored_state S cms volume (wst (after (load_or_create_state S volume) w)) = Some st"
    using ans assms
    by (simp add: load_or_create_state_def Let_def after_kcall wst_after_call get_reads stored_state_def state_map_def)
qed

lemma load_missing:
  assumes "state_map S cms volume (wst w) = None"
  shows "result (load_or_create_state S volume) w = Inr (ShareState_new volume)"
    and "stored_state S cms volume (wst (after (load_or_create_state S volume) w)) = Some (ShareState_new volume)"
proof -
  let ?ns = "share_namespace S" and ?n = "state_cm_name (volume_name volume)"
  let ?w1 = "after (call S (KReq (GetCm ?ns ?n))) w" and ?cm = "state_cm S ?n (ShareState_new volume)"
  obtain e where e: "answer S (KReq (GetCm ?ns ?n)) w = KResp (RErr e)" "is_code 404 e"
    using get_missing [of "wst w" ?ns ?n] assms by (auto simp: state_map_def answer_def)
  have "cms (wst ?w1) ?ns ?n = None" using assms get_reads by (simp add: wst_after_call state_map_def)
  from create_new [OF _ this, of ?cm] have made:
    "answer S (KReq (CreateCm ?ns ?cm)) ?w1 = KResp (RCm ?cm)"
    "cms (snd (srv S (KReq (CreateCm ?ns ?cm)) (wst ?w1))) ?ns ?n = Some ?cm"
    by (simp_all add: state_cm_def answer_def)
  show "result (load_or_create_state S volume) w = Inr (ShareState_new volume)"
    using e made(1) by (simp add: load_or_create_state_def Let_def after_kcall)
  have "state_of_cm S ?cm = Some (ShareState_new volume)"
    by (simp add: state_of_cm_def state_cm_def dec_or_empty)
  then show "stored_state S cms volume (wst (after (load_or_create_state S volume) w)) = Some (ShareState_new volume)"
    using e made by (simp add: load_or_create_state_def Let_def after_kcall wst_after_call stored_state_def state_map_def)
qed


lemma save_load:
  assumes "state_map S cms (ss_volume st) (wst w) \<noteq> None"
  shows "result (save_state S st) w = Inr ()"
    and "result (load_or_create_state S (ss_volume st)) (after (save_state S st) w) = Inr st"
proof -
  obtain cm where cm: "cms (wst w) (share_namespace S) (state_cm_name (volume_name (ss_volume st))) = Some cm"
    using assms by (auto simp: state_map_def)
  have "\<exists>c. answer S (KReq (save_patch S st)) w = KResp (RCm c)"
    using patch_merges [OF cm] by (auto simp: answer_def save_patch_def Let_def)
  then show "result (save_state S st) w = Inr ()" by (auto simp: save_state_def)
  have "after (save_state S st) w = after (call S (KReq (save_patch S st))) w"
    by (simp add: save_state_def after_acall split: sum.split)
  with stored_after_save [OF assms refl]
  show "result (load_or_create_state S (ss_volume st)) (after (save_state S st) w) = Inr st"
    by (intro load_stored(1)) (simp add: wst_after_call)
qed

lemma reconcile_refines:
  assumes "bound_volume pvc = Some volume" "ss_volume st = volume"
    and "stored_state S cms volume (wst w) = Some st \<or>
      state_map S cms volume (wst w) = None \<and> st = ShareState_new volume"
    and "is_rwx_pvc pvc" "pvc_deletion_timestamp pvc = None"
  shows "\<exists>st'. stored_state S cms volume (wst (after (reconcile S pvc) w)) = Some st' \<and> share_step\<^sup>*\<^sup>* st st'"
proof -
  let ?w1 = "after (load_or_create_state S volume) w"
  let ?m = "reconcile_volume S st volume (or_empty (pvc_name pvc)) (or_empty (pvc_namespace pvc))"
  have loaded: "result (load_or_create_state S volume) w = Inr st" "stored_state S cms volume (wst ?w1) = Some st"
    using assms(3) load_stored load_missing by blast+
  have "\<exists>st'. stored_state S cms (ss_volume st) (wst (after ?m ?w1)) = Some st' \<and> share_step\<^sup>*\<^sup>* st st'"
    using loaded(2) assms(2) by (intro refines_path stores_reconcile_volume) simp_all
  with loaded(1) assms show ?thesis by (simp add: reconcile_def reconcile_body_def)
qed

end

subsection \<open>The contract holds for the in-memory server with JSON text\<close>

definition share_json :: "ShareState \<Rightarrow> json" where
  "share_json st =
     JObj [(''volume'', JStr (ss_volume st)),
           (''node'', case ss_node st of None \<Rightarrow> JNull | Some n \<Rightarrow> JStr n),
           (''prior_nodes'', JArr (map JStr (ss_prior_nodes st))),
           (''state'', JStr (ss_state st))]"

text \<open>Reading: \<open>volume\<close> must be there, the other members have defaults.\<close>

definition share_of_json :: "json \<Rightarrow> ShareState option" where
  "share_of_json j =
     (case Option.bind (jget ''volume'' j) jstr of
        None \<Rightarrow> None
      | Some v \<Rightarrow>
          (case (case jget ''node'' j of None \<Rightarrow> Some None | Some JNull \<Rightarrow> Some None
                 | Some x \<Rightarrow> map_option Some (jstr x)) of
             None \<Rightarrow> None
           | Some n \<Rightarrow>
               (case (case jget ''prior_nodes'' j of None \<Rightarrow> Some []
                      | Some (JArr xs) \<Rightarrow> those (map jstr xs) | Some _ \<Rightarrow> None) of
                  None \<Rightarrow> None
                | Some ps \<Rightarrow>
                    (case (case jget ''state'' j of None \<Rightarrow> Some [] | Some x \<Rightarrow> jstr x) of
                       None \<Rightarrow> None
                     | Some t \<Rightarrow> Some \<lparr>ss_volume = v, ss_node = n, ss_prior_nodes = ps, ss_state = t\<rparr>))))"

definition mem_csys :: "cluster csys" where
  "mem_csys =
     \<lparr>srv = mem_srv, env_var = (\<lambda>_. None), kube_display = mem_display,
      pod_from_value = mem_pod_from_value, svc_from_value = mem_svc_from_value,
      pvc_from_value = mem_pvc_from_value,
      ss_from_str = (\<lambda>t. Option.bind (parse_json t) share_of_json),
      ss_to_string = (\<lambda>st. Some (print_json (share_json st)))\<rparr>"

lemma those_jstr [simp]: "those (map (jstr \<circ> JStr) xs) = Some xs"
  by (induction xs) (simp_all add: jstr_def)

lemma share_of_share_json [simp]: "share_of_json (share_json st) = Some st"
  by (cases st) (auto simp: share_of_json_def share_json_def jget_def jstr_def option.case_eq_if
      those_jstr [unfolded comp_def jstr_def, simplified])

lemma mem_frame: "\<not> changes_cm q \<Longrightarrow> cl_cms (snd (mem_srv q c)) = cl_cms c"
  by (induction q c rule: mem_srv.induct; simp add: split_beta)
     (rename_tac k c, case_tac k; simp add: Let_def split: option.split)

interpretation mem_store: state_store mem_csys mem_cms
proof -
  have "configmap_api (srv mem_csys) mem_cms"
    by (simp add: mem_csys_def mem.configmap_api_axioms)
  moreover have "state_codec (ss_to_string mem_csys) (ss_from_str mem_csys)"
    by unfold_locales (auto simp: mem_csys_def)
  moreover have "mem_cms (snd (srv mem_csys q s)) = mem_cms s" if "\<not> changes_cm q" for q s
    using mem_frame [OF that] by (simp add: mem_csys_def mem_cms_def fun_eq_iff)
  ultimately show "state_store mem_csys mem_cms" by (simp add: state_store_def state_store_axioms_def)
qed

end
