(* ===== verification/Failover.thy ===== *)
theory Failover
  imports Share_Machine
begin

text \<open>
  The properties of the failover controller: the refinement and the invariant of the
  stored state over histories of reconciliations, the order of the requests of a failover,
  what is deleted and why, where and when a pod is created, when nothing is done, the node
  choice, and how soon a claim is looked at again.
\<close>

subsection \<open>Lemmas: where a pod is created\<close>

fun is_create_pod :: "req \<Rightarrow> bool" where
  "is_create_pod (KReq (CreatePod _ _)) = True"
| "is_create_pod _ = False"

definition no_create :: "req list \<Rightarrow> bool" where
  "no_create qs \<longleftrightarrow> (\<forall>q\<in>set qs. \<not> is_create_pod q)"

lemma no_create_simps [simp]:
  "no_create []"
  "no_create (q # qs) \<longleftrightarrow> \<not> is_create_pod q \<and> no_create qs"
  "no_create (xs @ ys) \<longleftrightarrow> no_create xs \<and> no_create ys"
  by (auto simp: no_create_def)

lemma not_create_simps [simp]:
  "\<not> is_create_pod (KReq (save_patch S st))" "\<not> is_create_pod (backing_query S vn)"
  by (simp_all add: save_patch_def backing_query_def Let_def)

lemma no_create_parts [simp]:
  "no_create (reqs (force_detach_backing_pvc S vn) w)"
  "no_create (reqs (evict_workload_pods S claim ns) w)"
  "no_create (reqs (is_backing_pvc_attached S vn) w)"
  "no_create (reqs (pick_node_with_reset S st) w)"
  "no_create (reqs (ensure_service S volume) w)"
  "no_create (reqs (load_or_create_state S volume) w)"
  "no_create (reqs (node_is_ready S n) w)"
proof -
  show "no_create (reqs (force_detach_backing_pvc S vn) w)"
    by (auto simp: force_detach_reqs no_create_def split: option.splits sum.splits)
  show "no_create (reqs (evict_workload_pods S claim ns) w)"
    by (auto simp: evict_reqs no_create_def split: if_splits sum.splits)
  show "no_create (reqs (is_backing_pvc_attached S vn) w)"
    by (auto simp: reqs_def attached_obs split: option.splits)
  show "no_create (reqs (pick_node_with_reset S st) w)"
    by (auto simp: no_create_def dest: pick_reset_reads)
  show "no_create (reqs (ensure_service S volume) w)"
    by (auto simp: ensure_service_def Let_def split: sum.splits)
  show "no_create (reqs (load_or_create_state S volume) w)"
    by (auto simp: load_or_create_state_def Let_def split: sum.splits)
  show "no_create (reqs (node_is_ready S n) w)"
    by (simp add: node_is_ready_def)
qed

lemma no_create_start_failover [simp]: "no_create (reqs (start_failover S st volume claim ns pod_nm) w)"
  by (simp add: start_failover_def Let_def split: sum.split)

lemma no_create_begin [simp]: "no_create (reqs (begin_failing_over S st claim ns) w)"
  by (simp add: begin_failing_over_def Let_def split: sum.split)

lemma no_create_reconcile_pod [simp]: "no_create (reqs (reconcile_pod S st volume claim ns pod_nm pod) w)"
  unfolding reconcile_pod_def Let_def
  by (cases "Option.bind (pod_spec pod) ps_node_name")
     (simp_all only: reqs_cases if_split option.case, simp_all split: sum.split)

text \<open>
  A probe that saw no attachment of the backing volume, as a part of the trace. This is less
  than a positive answer: it is also so when the backing claim could not be read or is not
  bound, and when the attachments could not be listed.
\<close>

definition no_attachment_seen :: "('s, 'z) csys_scheme \<Rightarrow> string \<Rightarrow> trace \<Rightarrow> bool" where
  "no_attachment_seen S vn tr \<longleftrightarrow>
     (\<exists>r. tr = [(backing_query S vn, r)] \<and> pv_in_answer r = None) \<or>
     (\<exists>r r' pv. tr = [(backing_query S vn, r), (KReq ListVa, r')] \<and> pv_in_answer r = Some pv \<and>
        (case decode as_vas r' of Inl _ \<Rightarrow> True | Inr vas \<Rightarrow> \<forall>va\<in>set vas. pv_of_va va \<noteq> pv))"

lemma attached_probe:
  "\<not> result (is_backing_pvc_attached S vn) w \<Longrightarrow> no_attachment_seen S vn (emits (is_backing_pvc_attached S vn) w)"
  by (cases "pv_in_answer (answer S (backing_query S vn) w)")
     (auto simp: attached_obs no_attachment_seen_def split: sum.splits)

text \<open>
  A forced detach that went through: the backing claim was not readable or not bound, or the
  attachments were listed and the deletion of each one of the volume was asked for.
\<close>

definition detach_asked :: "('s, 'z) csys_scheme \<Rightarrow> string \<Rightarrow> trace \<Rightarrow> bool" where
  "detach_asked S vn tr \<longleftrightarrow>
     (\<exists>r. tr = [(backing_query S vn, r)] \<and> pv_in_answer r = None) \<or>
     (\<exists>r r' pv vas dels. tr = (backing_query S vn, r) # (KReq ListVa, r') # dels \<and> pv_in_answer r = Some pv \<and>
        decode as_vas r' = Inr vas \<and>
        map fst dels = map (\<lambda>va. KReq (DeleteVa (va_name_or_default va))) (filter (\<lambda>va. pv_of_va va = pv) vas))"

lemma force_detach_asked:
  assumes "is_ok (result (force_detach_backing_pvc S vn) w)"
  shows "detach_asked S vn (emits (force_detach_backing_pvc S vn) w)"
proof (cases "pv_in_answer (answer S (backing_query S vn) w)")
  case None
  then show ?thesis by (simp add: force_detach_backing_pvc_def detach_asked_def)
next
  case (Some pv)
  let ?w1 = "after (call S (backing_query S vn)) w"
  let ?w2 = "after (call S (KReq ListVa)) ?w1"
  obtain vas where vas: "decode as_vas (answer S (KReq ListVa) ?w1) = Inr vas"
    using assms Some by (cases "decode as_vas (answer S (KReq ListVa) ?w1)") (auto simp: force_detach_backing_pvc_def map_err_def)
  have "emits (force_detach_backing_pvc S vn) w =
      (backing_query S vn, answer S (backing_query S vn) w) # (KReq ListVa, answer S (KReq ListVa) ?w1) #
      emits (detach_loop S pv vas) ?w2"
    using Some vas by (simp add: force_detach_backing_pvc_def map_err_def after_acall acall_def kcall_def)
  moreover have "map fst (emits (detach_loop S pv vas) ?w2) =
      map (\<lambda>va. KReq (DeleteVa (va_name_or_default va))) (filter (\<lambda>va. pv_of_va va = pv) vas)"
    by (simp add: reqs_def [symmetric])
  ultimately show ?thesis using Some vas unfolding detach_asked_def by blast
qed

text \<open>The end of a trace that creates a pod.\<close>

definition recreates ::
  "('s, 'z) csys_scheme \<Rightarrow> ShareState \<Rightarrow> string \<Rightarrow> string \<Rightarrow> string \<Rightarrow> trace \<Rightarrow> bool" where
  "recreates S st volume claim ns tr \<longleftrightarrow>
     (\<exists>picks st' node a pod b.
        tr = picks @ [(KReq (save_patch S st'), a), (KReq (CreatePod (share_namespace S) pod), b)] \<and>
        (\<forall>q\<in>fst ` set picks. q = KReq (ListPods (share_namespace S) (Some ''rwx-volume'')) \<or> q = KReq ListNodes) \<and>
        is_ok (decode as_cm a) \<and> chosen_well S picks st st' node \<and>
        pod_from_value S (share_pod_json S volume node claim ns) = Inr pod)"

lemma recreate_pod_emits:
  "no_create (reqs (recreate_pod S st volume claim ns) w) \<or>
     recreates S st volume claim ns (emits (recreate_pod S st volume claim ns) w)"
proof (cases "fst (result (pick_node_with_reset S (remember_node st)) w)")
  case (Inl e)
  then show ?thesis by (simp add: recreate_pod_def)
next
  case (Inr node)
  let ?pick = "pick_node_with_reset S (remember_node st)"
  let ?st' = "(snd (result ?pick w))\<lparr>ss_node := Some node, ss_state := ''starting''\<rparr>"
  let ?w1 = "after ?pick w"
  have pk: "result ?pick w = (Inr node, snd (result ?pick w))" using Inr by (simp add: prod_eq_iff)
  from pick_avoids_failed [OF pk] pick_reset_Inr [OF pk] have well: "chosen_well S (emits ?pick w) st ?st' node" by (auto simp: chosen_well_def)
  have reads: "\<forall>q\<in>fst ` set (emits ?pick w). q = KReq (ListPods (share_namespace S) (Some ''rwx-volume'')) \<or> q = KReq ListNodes"
    using pick_reset_reads [of _ S "remember_node st" w] by (auto simp: reqs_def)
  show ?thesis
  proof (cases "\<exists>e. result (save_state S ?st') ?w1 = Inl e \<or> pod_from_value S (share_pod_json S volume node claim ns) = Inl e")
    case True
    then show ?thesis using Inr by (auto simp: recreate_pod_def split: sum.split)
  next
    case False
    then obtain pod where pod: "pod_from_value S (share_pod_json S volume node claim ns) = Inr pod"
      and saved: "result (save_state S ?st') ?w1 = Inr ()"
      by (cases "pod_from_value S (share_pod_json S volume node claim ns)"; cases "result (save_state S ?st') ?w1") auto
    have ok: "is_ok (decode as_cm (answer S (KReq (save_patch S ?st')) ?w1))"
      using saved save_state_obs(2) [of S ?st' ?w1] by simp
    have "emits (recreate_pod S st volume claim ns) w = emits ?pick w @
        [(KReq (save_patch S ?st'), answer S (KReq (save_patch S ?st')) ?w1),
         (KReq (CreatePod (share_namespace S) pod),
          answer S (KReq (CreatePod (share_namespace S) pod)) (after (save_state S ?st') ?w1))]"
      using Inr pod saved by (simp add: recreate_pod_def) (simp add: save_state_def split: sum.split)
    then show ?thesis using reads ok well pod unfolding recreates_def by blast
  qed
qed


lemma reconcile_missing_emits:
  "no_create (reqs (reconcile_missing S st volume claim ns) w) \<or>
     (\<exists>before detach probe rest. emits (reconcile_missing S st volume claim ns) w = before @ detach @ probe @ rest \<and>
        no_create (map fst (before @ detach)) \<and> detach_asked S (volume_name volume) detach \<and>
        no_attachment_seen S (volume_name volume) probe \<and>
        recreates S (st\<lparr>ss_state := ''failing_over''\<rparr>) volume claim ns rest)"
proof (cases "result (begin_failing_over S st claim ns) w")
  case (Inl e)
  then show ?thesis by (simp add: reconcile_missing_def Let_def)
next
  case (Inr st1)
  let ?vn = "volume_name volume"
  let ?w1 = "after (begin_failing_over S st claim ns) w"
  let ?w2 = "after (force_detach_backing_pvc S ?vn) ?w1"
  let ?w3 = "after (is_backing_pvc_attached S ?vn) ?w2"
  have st1: "st1 = st\<lparr>ss_state := ''failing_over''\<rparr>" using Inr by (rule begin_failing_over_shape(2))
  show ?thesis
  proof (cases "is_ok (result (force_detach_backing_pvc S ?vn) ?w1) \<and> \<not> result (is_backing_pvc_attached S ?vn) ?w2")
    case False
    then show ?thesis using Inr by (auto simp: reconcile_missing_def Let_def)
  next
    case True
    let ?before = "emits (begin_failing_over S st claim ns) w" and ?detach = "emits (force_detach_backing_pvc S ?vn) ?w1"
    have asked: "detach_asked S ?vn ?detach" using True by (simp add: force_detach_asked)
    have before: "no_create (map fst (?before @ ?detach))"
      using no_create_begin no_create_parts(1) by (simp add: reqs_def [symmetric])
    have probe: "no_attachment_seen S ?vn (emits (is_backing_pvc_attached S ?vn) ?w2)"
      using True by (intro attached_probe) simp
    have em: "emits (reconcile_missing S st volume claim ns) w =
        ?before @ ?detach @ emits (is_backing_pvc_attached S ?vn) ?w2 @ emits (recreate_pod S st1 volume claim ns) ?w3"
      using Inr True by (simp add: reconcile_missing_def Let_def)
    show ?thesis
    proof (cases "no_create (reqs (recreate_pod S st1 volume claim ns) ?w3)")
      case True
      then have "no_create (map fst (emits (reconcile_missing S st volume claim ns) w))"
        using before no_create_parts(3) by (simp add: em reqs_def [symmetric])
      then show ?thesis by (simp add: reqs_def)
    next
      case False
      then have "recreates S st1 volume claim ns (emits (recreate_pod S st1 volume claim ns) ?w3)"
        using recreate_pod_emits by blast
      then show ?thesis using em before asked probe unfolding st1 by blast
    qed
  qed
qed


lemma reconcile_volume_emits:
  "no_create (reqs (reconcile_volume S st volume claim ns) w) \<or>
     (\<exists>before detach probe rest. emits (reconcile_volume S st volume claim ns) w = before @ detach @ probe @ rest \<and>
        no_create (map fst (before @ detach)) \<and> detach_asked S (volume_name volume) detach \<and>
        no_attachment_seen S (volume_name volume) probe \<and>
        recreates S (st\<lparr>ss_state := ''failing_over''\<rparr>) volume claim ns rest)"
proof (cases "no_create (reqs (reconcile_volume S st volume claim ns) w)")
  case False
  let ?svc = "ensure_service S volume" and ?pod_nm = "share_pod_name (volume_name volume)"
  let ?get = "KReq (GetPod (share_namespace S) ?pod_nm)"
  let ?w1 = "after ?svc w"
  let ?w2 = "after (call S ?get) ?w1"
  obtain u where svc: "result ?svc w = Inr u"
    using False by (cases "result ?svc w") (auto simp: reconcile_volume_def Let_def)
  obtain e where gone: "decode as_pod (answer S ?get ?w1) = Inl e" "is_code 404 e"
    using False svc by (auto simp: reconcile_volume_def Let_def split: sum.splits if_splits)
  have em: "emits (reconcile_volume S st volume claim ns) w =
      (emits ?svc w @ [(?get, answer S ?get ?w1)]) @ emits (reconcile_missing S st volume claim ns) ?w2"
    using svc gone by (simp add: reconcile_volume_def Let_def after_kcall)
  have pre: "no_create (map fst (emits ?svc w @ [(?get, answer S ?get ?w1)]))"
    using no_create_parts(5) by (simp add: reqs_def [symmetric])
  have "\<not> no_create (map fst (emits (reconcile_volume S st volume claim ns) w))"
    using False by (simp add: reqs_def)
  then have "\<not> no_create (reqs (reconcile_missing S st volume claim ns) ?w2)"
    using pre unfolding em by (simp add: reqs_def)
  then obtain before detach probe rest where
    "emits (reconcile_missing S st volume claim ns) ?w2 = before @ detach @ probe @ rest"
    "no_create (map fst (before @ detach))" "detach_asked S (volume_name volume) detach"
    "no_attachment_seen S (volume_name volume) probe" "recreates S (st\<lparr>ss_state := ''failing_over''\<rparr>) volume claim ns rest"
    using reconcile_missing_emits [of S st volume claim ns ?w2] by (elim disjE exE conjE) simp_all
  note found = this
  show ?thesis
    by (rule disjI2, rule exI [of _ "(emits ?svc w @ [(?get, answer S ?get ?w1)]) @ before"],
        rule exI [of _ detach], rule exI [of _ probe], rule exI [of _ rest]) (use em pre found in simp)
qed simp

text \<open>A pod is created last, so its position in a trace is known.\<close>

lemma create_position:
  assumes "tr @ [c] = pre @ x # post" "no_create (map fst tr)" "is_create_pod (fst x)"
  shows "post = [] \<and> pre = tr \<and> x = c"
proof (cases post rule: rev_cases)
  case Nil
  then show ?thesis using assms(1) by simp
next
  case (snoc ys y)
  then have "tr = pre @ x # ys" using assms(1) by simp
  with assms(2,3) show ?thesis by simp
qed

lemma no_attachment_seen_no_create: "no_attachment_seen S vn tr \<Longrightarrow> no_create (map fst tr)"
  by (auto simp: no_attachment_seen_def)

definition pvc0 :: Pvc where
  "pvc0 = \<lparr>pvc_name = Some ''data'', pvc_namespace = Some ''app'', pvc_deletion_timestamp = None,
     pvc_spec = Some \<lparr>pvs_storage_class_name = Some ''hcloud-csi-rwx'',
       pvs_access_modes = Some [''ReadWriteMany''], pvs_volume_name = Some ''pvc-1''\<rparr>\<rparr>"

lemma pvc0_facts [simp]:
  "bound_volume pvc0 = Some ''pvc-1''" "is_rwx_pvc pvc0" "pvc_deletion_timestamp pvc0 = None"
  by (simp_all add: pvc0_def bound_volume_def is_rwx_pvc_def STORAGE_CLASS_def DRIVER_NAME_def)

lemma empty_cluster_state [simp]: "state_map S mem_cms v (wst (mem_world empty_cluster)) = None"
  by (simp add: state_map_def mem_cms_def mem_world_def empty_cluster_def)

text \<open>A history of reconciliations of claims, one after the other.\<close>

fun reconcile_all :: "('s, 'z) csys_scheme \<Rightarrow> Pvc list \<Rightarrow> ('s, unit) io" where
  "reconcile_all S [] = State_Monad.return ()"
| "reconcile_all S (pvc # pvcs) = do { _ \<leftarrow> reconcile S pvc; reconcile_all S pvcs }"

definition store_ok ::
  "('s, 'z) csys_scheme \<Rightarrow> ('s \<Rightarrow> string \<Rightarrow> string \<Rightarrow> ConfigMap option) \<Rightarrow> string \<Rightarrow> 's \<Rightarrow> bool" where
  "store_ok S cms volume s \<longleftrightarrow>
     state_map S cms volume s = None \<or>
     (\<exists>st. stored_state S cms volume s = Some st \<and> share_reachable volume st)"

lemma reconcile_quiet:
  "\<not> is_rwx_pvc pvc \<or> pvc_deletion_timestamp pvc \<noteq> None \<or> bound_volume pvc = None \<Longrightarrow> after (reconcile S pvc) w = w"
  by (auto simp: reconcile_def reconcile_body_def)

lemma reconcile_store_ok:
  assumes "state_store S cms" "bound_volume pvc = Some volume" "store_ok S cms volume (wst w)"
  shows "store_ok S cms volume (wst (after (reconcile S pvc) w))"
proof (cases "is_rwx_pvc pvc \<and> pvc_deletion_timestamp pvc = None")
  case True
  obtain st where st: "share_reachable volume st" "stored_state S cms volume (wst w) = Some st \<or>
      state_map S cms volume (wst w) = None \<and> st = ShareState_new volume"
    using assms(3) share_reachable.initial unfolding store_ok_def by blast
  then have "ss_volume st = volume" using share_reachable_inv by (auto simp: share_inv_def)
  with state_store.reconcile_refines [OF assms(1,2) _ st(2)] True obtain st' where
    "stored_state S cms volume (wst (after (reconcile S pvc) w)) = Some st'" "share_step\<^sup>*\<^sup>* st st'" by auto
  with share_reachable_steps st(1) show ?thesis unfolding store_ok_def by blast
next
  case False
  then have "after (reconcile S pvc) w = w" by (intro reconcile_quiet) auto
  with assms(3) show ?thesis by simp
qed

subsection \<open>Lemmas: what is deleted\<close>

text \<open>
  Why a deletion in a trace is asked for: an attachment was listed with the volume that the
  backing claim was found bound to; a pod was listed with the claim among its volumes, or
  is the share-manager itself. Claims, services and ConfigMaps are never deleted.
\<close>

fun delete_ok :: "('s, 'z) csys_scheme \<Rightarrow> string \<Rightarrow> string \<Rightarrow> string \<Rightarrow> trace \<Rightarrow> req \<Rightarrow> bool" where
  "delete_ok S volume claim ns tr (KReq (DeleteVa n)) \<longleftrightarrow>
     (\<exists>r1 r2 pv vas va. (backing_query S (volume_name volume), r1) \<in> set tr \<and> pv_in_answer r1 = Some pv \<and>
        (KReq ListVa, r2) \<in> set tr \<and> decode as_vas r2 = Inr vas \<and> va \<in> set vas \<and>
        pv_of_va va = pv \<and> va_name_or_default va = n)"
| "delete_ok S volume claim ns tr (KReq (DeletePod pns p)) \<longleftrightarrow>
     pns = share_namespace S \<and> p = share_pod_name (volume_name volume) \<or>
     pns = ns \<and> (\<exists>r pods pod. (KReq (ListPods ns None), r) \<in> set tr \<and> decode as_pods r = Inr pods \<and>
        pod \<in> set pods \<and> has_claim claim pod \<and> pod_name_or_default pod = p)"
| "delete_ok S volume claim ns tr (KReq (DeletePvc _ _)) = False"
| "delete_ok S volume claim ns tr (KReq (DeleteSvc _ _)) = False"
| "delete_ok S volume claim ns tr (KReq (DeleteCm _ _)) = False"
| "delete_ok S volume claim ns tr q = True"

definition deletes_ok :: "('s, 'z) csys_scheme \<Rightarrow> string \<Rightarrow> string \<Rightarrow> string \<Rightarrow> trace \<Rightarrow> bool" where
  "deletes_ok S volume claim ns tr \<longleftrightarrow> (\<forall>q\<in>fst ` set tr. delete_ok S volume claim ns tr q)"

lemma delete_ok_mono: "delete_ok S volume claim ns tr q \<Longrightarrow> set tr \<subseteq> set tr' \<Longrightarrow> delete_ok S volume claim ns tr' q"
  by (induction S volume claim ns tr q rule: delete_ok.induct) (auto, blast+)

lemma deletes_ok_append [intro!]:
  "deletes_ok S volume claim ns xs \<Longrightarrow> deletes_ok S volume claim ns ys \<Longrightarrow> deletes_ok S volume claim ns (xs @ ys)"
  unfolding deletes_ok_def using delete_ok_mono [of S volume claim ns xs _ "xs @ ys"]
    delete_ok_mono [of S volume claim ns ys _ "xs @ ys"] by auto

lemma deletes_ok_Nil [simp]: "deletes_ok S volume claim ns []"
  by (simp add: deletes_ok_def)

text \<open>A request that is allowed in every trace.\<close>

definition harmless :: "('s, 'z) csys_scheme \<Rightarrow> string \<Rightarrow> req \<Rightarrow> bool" where
  "harmless S volume q \<longleftrightarrow> (\<forall>claim ns tr. delete_ok S volume claim ns tr q)"

lemma harmless_simps [simp]:
  "harmless S volume (backing_query S vn)" "harmless S volume (KReq (save_patch S st))"
  "harmless S volume (KReq (DeletePod (share_namespace S) (share_pod_name (volume_name volume))))"
  "harmless S volume (KReq ListVa)" "harmless S volume (KReq (ListPods a l))" "harmless S volume (KReq ListNodes)"
  "harmless S volume (KReq (GetNode a))" "harmless S volume (KReq (GetPod a b))"
  "harmless S volume (KReq (CreatePod a p))" "harmless S volume (KReq (GetSvc a b))"
  "harmless S volume (KReq (CreateSvc a s))" "harmless S volume (KReq (GetCm a b))"
  "harmless S volume (KReq (CreateCm a c))"
  by (simp_all add: harmless_def backing_query_def save_patch_def Let_def)

lemma deletes_ok_harmless: "\<forall>q\<in>set (reqs m w). harmless S volume q \<Longrightarrow> deletes_ok S volume claim ns (emits m w)"
  by (auto simp: deletes_ok_def harmless_def reqs_def)

lemma deletes_ok_single [simp]: "harmless S volume q \<Longrightarrow> deletes_ok S volume claim ns [(q, r)]"
  by (simp add: deletes_ok_def harmless_def)

lemma deletes_ok_Cons:
  "harmless S volume q \<Longrightarrow> deletes_ok S volume claim ns tr \<Longrightarrow> deletes_ok S volume claim ns ((q, r) # tr)"
  using deletes_ok_append [OF deletes_ok_single] by fastforce

lemma delete_ok_backing [simp]: "delete_ok S volume claim ns tr (backing_query S vn)"
  by (simp add: backing_query_def)

lemma deletes_ok_detach: "deletes_ok S volume claim ns (emits (force_detach_backing_pvc S (volume_name volume)) w)"
proof -
  let ?bq = "backing_query S (volume_name volume)"
  let ?w1 = "after (call S ?bq) w"
  let ?em = "emits (force_detach_backing_pvc S (volume_name volume)) w"
  show ?thesis
  proof (cases "pv_in_answer (answer S ?bq w)")
    case None
    then show ?thesis by (simp add: force_detach_backing_pvc_def)
  next
    case (Some pv)
    show ?thesis
    proof (cases "decode as_vas (answer S (KReq ListVa) ?w1)")
      case (Inl e)
      then show ?thesis using Some by (intro deletes_ok_harmless) (simp add: force_detach_reqs)
    next
      case (Inr vas)
      have em: "?em = (?bq, answer S ?bq w) # (KReq ListVa, answer S (KReq ListVa) ?w1) #
          emits (detach_loop S pv vas) (after (call S (KReq ListVa)) ?w1)"
        using Some Inr by (simp add: force_detach_backing_pvc_def after_acall)
      have "delete_ok S volume claim ns ?em q" if "q \<in> set (reqs (detach_loop S pv vas) w')" for q w'
        using that Some Inr unfolding em by (auto simp del: split_paired_Ex) metis
      then show ?thesis unfolding deletes_ok_def
        by (auto simp: em reqs_def harmless_def)
    qed
  qed
qed

lemma deletes_ok_evict: "deletes_ok S volume claim ns (emits (evict_workload_pods S claim ns) w)"
proof (cases "decode as_pods (answer S (KReq (ListPods ns None)) w)")
  case (Inl e)
  then show ?thesis by (intro deletes_ok_harmless) (auto simp: evict_reqs)
next
  case pods: (Inr pods)
  let ?em = "emits (evict_workload_pods S claim ns) w"
  show ?thesis
  proof (cases "claim = [] \<or> ns = []")
    case True
    then show ?thesis by (intro deletes_ok_harmless) (simp add: evict_reqs)
  next
    case False
    have em: "?em = (KReq (ListPods ns None), answer S (KReq (ListPods ns None)) w) #
        emits (evict_loop S claim ns pods) (after (call S (KReq (ListPods ns None))) w)"
      using False pods by (simp add: evict_workload_pods_def after_acall)
    have "delete_ok S volume claim ns ?em q" if "q \<in> set (reqs (evict_loop S claim ns pods) w')" for q w'
      using that pods unfolding em by auto metis+
    then show ?thesis unfolding deletes_ok_def by (auto simp: em reqs_def)
  qed
qed

lemma deletes_ok_parts [simp]:
  "deletes_ok S volume claim ns (emits (is_backing_pvc_attached S vn) w)"
  "deletes_ok S volume claim ns (emits (pick_node_with_reset S st) w)"
  "deletes_ok S volume claim ns (emits (ensure_service S volume') w)"
  "deletes_ok S volume claim ns (emits (load_or_create_state S volume') w)"
  "deletes_ok S volume claim ns (emits (node_is_ready S n) w)"
  "deletes_ok S volume claim ns (emits (save_state S st) w)"
proof -
  show "deletes_ok S volume claim ns (emits (is_backing_pvc_attached S vn) w)"
    by (rule deletes_ok_harmless) (auto simp: reqs_def attached_obs split: option.splits)
  show "deletes_ok S volume claim ns (emits (pick_node_with_reset S st) w)"
    by (rule deletes_ok_harmless) (auto dest: pick_reset_reads)
  show "deletes_ok S volume claim ns (emits (ensure_service S volume') w)"
    by (rule deletes_ok_harmless) (auto simp: ensure_service_def Let_def split: sum.splits)
  show "deletes_ok S volume claim ns (emits (load_or_create_state S volume') w)"
    by (rule deletes_ok_harmless) (auto simp: load_or_create_state_def Let_def split: sum.splits)
  show "deletes_ok S volume claim ns (emits (node_is_ready S n) w)"
    by (rule deletes_ok_harmless) (simp add: node_is_ready_def)
  show "deletes_ok S volume claim ns (emits (save_state S st) w)"
    by (rule deletes_ok_harmless) simp
qed

lemmas deletes_ok_intros = deletes_ok_append deletes_ok_detach deletes_ok_evict

lemma deletes_ok_start_failover:
  "deletes_ok S volume claim ns (emits (start_failover S st volume claim ns (share_pod_name (volume_name volume))) w)"
  by (auto simp: start_failover_def Let_def split: sum.split intro!: deletes_ok_intros)

lemma deletes_ok_reconcile_pod:
  "deletes_ok S volume claim ns (emits (reconcile_pod S st volume claim ns (share_pod_name (volume_name volume)) pod) w)"
  unfolding reconcile_pod_def Let_def
  by (cases "Option.bind (pod_spec pod) ps_node_name")
     (simp_all only: emits_cases if_split option.case,
      auto split: sum.split intro!: deletes_ok_append deletes_ok_start_failover)

lemma deletes_ok_reconcile_missing: "deletes_ok S volume claim ns (emits (reconcile_missing S st volume claim ns) w)"
proof -
  have "deletes_ok S volume claim ns (emits (begin_failing_over S st claim ns) w)" for w
    by (auto simp: begin_failing_over_def Let_def split: sum.split intro!: deletes_ok_intros)
  moreover have "deletes_ok S volume claim ns (emits (recreate_pod S st' volume claim ns) w)" for st' w
    by (auto simp: recreate_pod_def split: sum.split intro!: deletes_ok_intros)
  ultimately show ?thesis
    by (auto simp: reconcile_missing_def Let_def split: sum.split intro!: deletes_ok_intros)
qed

text \<open>The phase of a pod, Unknown when it has none.\<close>

definition pod_phase :: "Pod \<Rightarrow> string" where
  "pod_phase pod = (case Option.bind (pod_status pod) pst_phase of Some p \<Rightarrow> p | None \<Rightarrow> ''Unknown'')"

text \<open>
  An answer that shows a Ready node: a node, not an error, with a condition of type Ready whose
  status is True.
\<close>

definition shows_ready :: "resp \<Rightarrow> bool" where
  "shows_ready r \<longleftrightarrow>
     (\<exists>nd s cs c. r = KResp (RNode nd) \<and> node_status nd = Some s \<and> ns_conditions s = Some cs \<and> c \<in> set cs \<and>
        nc_type c = ''Ready'' \<and> nc_status c = ''True'')"

lemma node_is_ready_iff: "result (node_is_ready S n) w \<longleftrightarrow> shows_ready (answer S (KReq (GetNode n)) w)"
proof (cases "answer S (KReq (GetNode n)) w")
  case (KResp x)
  then show ?thesis
    by (cases x) (auto simp: node_is_ready_def shows_ready_def decode_def node_ready_def list_ex_iff split: option.splits)
qed (simp_all add: node_is_ready_def shows_ready_def decode_def)

text \<open>
  Whether a share-manager pod has failed, by its phase (Unknown when it has none) and the answer
  about its node.
\<close>

definition failed_pod :: "('s, 'z) csys_scheme \<Rightarrow> 's world \<Rightarrow> Pod \<Rightarrow> bool" where
  "failed_pod S w pod \<longleftrightarrow>
     pod_phase pod \<in> {''Failed'', ''Unknown'', ''Succeeded''} \<or>
     pod_phase pod = ''Running'' \<and>
       (\<exists>n. Option.bind (pod_spec pod) ps_node_name = Some n \<and> \<not> shows_ready (answer S (KReq (GetNode n)) w))"

text \<open>The question for the node, asked only about a running pod.\<close>

definition node_question :: "Pod \<Rightarrow> req list" where
  "node_question pod =
     (case Option.bind (pod_spec pod) ps_node_name of
        Some n \<Rightarrow> if pod_phase pod = ''Running'' then [KReq (GetNode n)] else []
      | None \<Rightarrow> [])"

definition records :: "('s, 'z) csys_scheme \<Rightarrow> ShareState \<Rightarrow> Pod \<Rightarrow> req list" where
  "records S st pod =
     (if pod_phase pod = ''Running'' \<and> (ss_state st \<noteq> ''running'' \<or> ss_node st \<noteq> Option.bind (pod_spec pod) ps_node_name)
      then [KReq (save_patch S (st\<lparr>ss_node := Option.bind (pod_spec pod) ps_node_name, ss_state := ''running''\<rparr>))]
      else [])"

text \<open>
  The listings seen by the two calls of the picker agree: nobody changed pods or nodes
  between them.
\<close>

definition stable_listing :: "('s, 'z) sys_scheme \<Rightarrow> 's world \<Rightarrow> string list \<Rightarrow> Node list \<Rightarrow> bool" where
  "stable_listing S w occ nodes \<longleftrightarrow> node_listing S w = Some (occ, nodes) \<and>
     (\<forall>avoid. node_listing S (after (pick_node S avoid) w) = Some (occ, nodes))"

text \<open>What the runtime does next: the action, or the one the error policy gives.\<close>

definition next_action :: "kube_Error + Action \<Rightarrow> Action" where
  "next_action r = (case r of Inl e \<Rightarrow> error_policy e | Inr a \<Rightarrow> a)"

lemma start_failover_action:
  "result (start_failover S st volume claim ns pod_nm) w = Inr a \<Longrightarrow> a = Requeue 3"
  by (auto simp: start_failover_def Let_def split: sum.splits)

lemma reconcile_pod_action:
  "result (reconcile_pod S st volume claim ns pod_nm pod) w = Inr a \<Longrightarrow> a \<in> {Requeue 3, Requeue 10, Requeue 60}"
  by (auto simp: reconcile_pod_def Let_def dest: start_failover_action split: if_splits option.splits sum.splits)

lemma reconcile_missing_action:
  "result (reconcile_missing S st volume claim ns) w = Inr a \<Longrightarrow> a \<in> {Requeue 3, Requeue 5}"
  by (auto simp: reconcile_missing_def recreate_pod_def Let_def split: if_splits sum.splits)

lemma eviction_not_retried:
  assumes "ss_state st = ''failing_over''"
  shows "KReq (DeletePod ns' p) \<notin> set (reqs (reconcile_missing S st volume claim ns) w)"
proof -
  have "KReq (DeletePod ns' p) \<notin> set (reqs (force_detach_backing_pvc S vn) w)" for vn w
    by (auto simp: force_detach_reqs backing_query_def split: option.splits sum.splits)
  moreover have "KReq (DeletePod ns' p) \<notin> set (reqs (is_backing_pvc_attached S vn) w)" for vn w
    by (auto simp: reqs_def attached_obs backing_query_def split: option.splits)
  moreover have "KReq (DeletePod ns' p) \<notin> set (reqs (recreate_pod S st volume claim ns) w)" for w
    by (auto simp: recreate_pod_def save_patch_def Let_def dest!: pick_reset_reads split: sum.splits)
  ultimately show ?thesis
    using assms by (auto simp: reconcile_missing_def begin_failing_over_def Let_def)
qed

definition cluster0 :: cluster where
  "cluster0 = empty_cluster\<lparr>cl_nodes := [mk_node ''node-1'' False, mk_node ''node-2'' True]\<rparr>"


subsection \<open>Lemmas: the requests of a failover\<close>

definition failover_request :: "('s, 'z) csys_scheme \<Rightarrow> string \<Rightarrow> string \<Rightarrow> string \<Rightarrow> req \<Rightarrow> bool" where
  "failover_request S volume ns pod_nm q \<longleftrightarrow>
     q = backing_query S (volume_name volume) \<or> q = KReq ListVa \<or> q = KReq (ListPods ns None) \<or>
     (\<exists>va. q = KReq (DeleteVa va)) \<or> (\<exists>p. q = KReq (DeletePod ns p)) \<or>
     q = KReq (DeletePod (share_namespace S) pod_nm)"

lemma detach_requests:
  "q \<in> set (reqs (force_detach_backing_pvc S (volume_name volume)) w) \<Longrightarrow> failover_request S volume ns pod_nm q"
  by (auto simp: force_detach_reqs failover_request_def split: option.splits sum.splits)

lemma evict_requests:
  "q \<in> set (reqs (evict_workload_pods S claim ns) w) \<Longrightarrow> failover_request S volume ns pod_nm q"
  by (auto simp: evict_reqs failover_request_def split: if_splits sum.splits)

subsection \<open>Concrete clusters\<close>

definition cluster1 :: cluster where
  "cluster1 = cluster0\<lparr>
     cl_pvcs := [((''hcloud-csi-rwx'', ''pvc-1-backing''),
       \<lparr>pvc_name = Some ''pvc-1-backing'', pvc_namespace = Some ''hcloud-csi-rwx'', pvc_deletion_timestamp = None,
        pvc_spec = Some \<lparr>pvs_storage_class_name = None, pvs_access_modes = None, pvs_volume_name = Some ''pv-7''\<rparr>\<rparr>)],
     cl_vas := [\<lparr>va_name = Some ''va-0'', va_pv_name = Some ''pv-1''\<rparr>, \<lparr>va_name = Some ''va-1'', va_pv_name = Some ''pv-7''\<rparr>]\<rparr>"

definition cluster2 :: cluster where
  "cluster2 = cluster0\<lparr>cl_cms := [((''hcloud-csi-rwx'', ''state-pvc-1''),
     \<lparr>cm_meta_name = Some ''state-pvc-1'', cm_meta_namespace = Some ''hcloud-csi-rwx'',
      cm_annotations = None, cm_data = None\<rparr>)]\<rparr>"

text \<open>A server that cannot list the pods of a namespace.\<close>

definition flaky_srv :: "req \<Rightarrow> cluster \<Rightarrow> resp \<times> cluster" where
  "flaky_srv q c = (case q of KReq (ListPods ns None) \<Rightarrow> (KResp (api_error 500 ''InternalError''), c) | _ \<Rightarrow> mem_srv q c)"

definition flaky_csys :: "cluster csys" where
  "flaky_csys = mem_csys\<lparr>srv := flaky_srv\<rparr>"

lemma flaky_srv_eq: "srv flaky_csys = flaky_srv"
  by (simp add: flaky_csys_def)

lemma share_namespace_mem [simp]: "share_namespace mem_csys = ''hcloud-csi-rwx''" "share_namespace flaky_csys = ''hcloud-csi-rwx''"
  by (simp_all add: share_namespace_def env_or_def mem_csys_def flaky_csys_def)

lemma cluster_state_maps [simp]:
  "state_map mem_csys mem_cms v (wst (mem_world cluster0)) = None"
  by (simp add: state_map_def mem_cms_def mem_world_def cluster0_def empty_cluster_def)

lemma creates_on_cluster0: "list_ex is_create_pod (reqs (reconcile mem_csys pvc0) (mem_world cluster0))"
  by code_simp

lemma detaches_on_cluster1:
  "list_ex (\<lambda>q. q = KReq (DeleteVa ''va-1'')) (reqs (reconcile mem_csys pvc0) (mem_world cluster1))"
  by code_simp

lemma stable_cluster0: "stable_listing mem_csys (mem_world cluster0) [] (cl_nodes cluster0)"
proof -
  have same: "wst (after (pick_node mem_csys avoid) w) = wst w" for avoid w
    by (simp add: pick_node_def mem_csys_def after_acall wst_after_call split: sum.split)
  have "node_listing mem_csys w = Some ([], cl_nodes cluster0)" if "wst w = cluster0" for w
    using that by (simp add: node_listing_def Let_def answer_def wst_after_call mem_csys_def decode_def
        occupied_nodes_def cluster0_def empty_cluster_def List.map_filter_simps)
  then show ?thesis using same by (simp add: stable_listing_def mem_world_def)
qed

lemma flaky_saves: "is_ok (result (save_state flaky_csys ((ShareState_new ''pvc-1'')\<lparr>ss_state := ''failing_over''\<rparr>)) (mem_world cluster2))"
  by (simp add: save_state_obs(2) answer_def save_patch_def Let_def flaky_srv_eq flaky_srv_def mem_world_def
      cluster2_def state_cm_name_def volume_name_def replace_chars_def ShareState_new_def)

subsection \<open>Properties\<close>



text \<open>
  C3. After any history of reconciliations of one volume that starts without a state
  ConfigMap, the stored state satisfies the invariant of the machine: it is of this volume,
  in one of the three states, its prior nodes are distinct, and the node of a starting
  share-manager is not among them.
\<close>

theorem stored_state_invariant:
  assumes "state_store S cms" "\<forall>pvc\<in>set pvcs. bound_volume pvc = Some volume"
    and "state_map S cms volume (wst w) = None"
  shows "state_map S cms volume (wst (after (reconcile_all S pvcs) w)) = None \<or>
    (\<exists>st. stored_state S cms volume (wst (after (reconcile_all S pvcs) w)) = Some st \<and> share_inv volume st)"
proof -
  have "store_ok S cms volume (wst (after (reconcile_all S pvcs) w))" if "store_ok S cms volume (wst w)" for w
    using assms(2) that
    by (induction pvcs arbitrary: w) (auto intro: reconcile_store_ok [OF assms(1)])
  then have "store_ok S cms volume (wst (after (reconcile_all S pvcs) w))"
    using assms(3) by (simp add: store_ok_def)
  then show ?thesis using share_reachable_inv unfolding store_ok_def by blast
qed

theorem stored_state_invariant_witness:
  "state_map mem_csys mem_cms ''pvc-1'' (wst (after (reconcile_all mem_csys [pvc0, pvc0]) (mem_world empty_cluster))) = None \<or>
   (\<exists>st. stored_state mem_csys mem_cms ''pvc-1'' (wst (after (reconcile_all mem_csys [pvc0, pvc0]) (mem_world empty_cluster))) =
      Some st \<and> share_inv ''pvc-1'' st)"
  by (rule stored_state_invariant [OF mem_store.state_store_axioms]) simp_all

text \<open>
  C4. A share-manager pod is created only as the last request of a reconciliation, right
  after the chosen node was stored. Before that, in this order: a forced detach in which the
  attachments were listed and the deletion of each one of the backing volume was asked for,
  and then a probe that saw no attachment of the volume. Either is passed over when the backing
  claim cannot be read or is not bound; and the probe (not the forced detach) also counts as
  passed when the attachments cannot be listed, so the volume may still be attached then.
  Between the probe and the store only pods and nodes are listed. By the last of these listings the node of the pod is Ready and has no
  share-manager; it is not among the stored prior nodes, and is not the node the share-manager was on (unless that one had failed before).
\<close>

theorem created_after_detach:
  assumes "emits (reconcile S pvc) w = pre @ (KReq (CreatePod ns pod), r) # post"
    and "bound_volume pvc = Some volume"
    and "result (load_or_create_state S volume) w = Inr st"
  shows "post = [] \<and> ns = share_namespace S \<and>
    (\<exists>before detach probe picks st' node a.
       pre = before @ detach @ probe @ picks @ [(KReq (save_patch S st'), a)] \<and> is_ok (decode as_cm a) \<and>
       detach_asked S (volume_name volume) detach \<and> no_attachment_seen S (volume_name volume) probe \<and>
       (\<forall>q\<in>fst ` set picks. q = KReq (ListPods (share_namespace S) (Some ''rwx-volume'')) \<or> q = KReq ListNodes) \<and>
       chosen_well S picks (st\<lparr>ss_state := ''failing_over''\<rparr>) st' node \<and>
       pod_from_value S (share_pod_json S volume node (or_empty (pvc_name pvc)) (or_empty (pvc_namespace pvc))) = Inr pod)"
proof -
  let ?c = "or_empty (pvc_name pvc)" and ?n = "or_empty (pvc_namespace pvc)"
  let ?load = "load_or_create_state S volume" and ?w1 = "after (load_or_create_state S volume) w"
  have "reqs (reconcile S pvc) w \<noteq> []" using assms(1) by (simp add: reqs_def)
  then have em: "emits (reconcile S pvc) w = emits ?load w @ emits (reconcile_volume S st volume ?c ?n) ?w1"
    using assms(2,3) by (auto simp: reconcile_def reconcile_body_def split: if_splits)
  have load: "no_create (map fst (emits ?load w))" using no_create_parts(6) by (simp add: reqs_def)
  have "\<not> no_create (map fst (emits (reconcile S pvc) w))" unfolding assms(1) by simp
  then have "\<not> no_create (reqs (reconcile_volume S st volume ?c ?n) ?w1)"
    using load unfolding em by (simp add: reqs_def)
  then obtain before detach probe rest where
    split: "emits (reconcile_volume S st volume ?c ?n) ?w1 = before @ detach @ probe @ rest"
    and facts: "no_create (map fst (before @ detach))" "detach_asked S (volume_name volume) detach"
      "no_attachment_seen S (volume_name volume) probe"
    and "recreates S (st\<lparr>ss_state := ''failing_over''\<rparr>) volume ?c ?n rest"
    using reconcile_volume_emits [of S st volume ?c ?n ?w1] by (elim disjE exE conjE) simp_all
  then obtain picks st' node a pod' b where
    rest: "rest = picks @ [(KReq (save_patch S st'), a), (KReq (CreatePod (share_namespace S) pod'), b)]"
    and good: "\<forall>q\<in>fst ` set picks. q = KReq (ListPods (share_namespace S) (Some ''rwx-volume'')) \<or> q = KReq ListNodes"
      "is_ok (decode as_cm a)" "chosen_well S picks (st\<lparr>ss_state := ''failing_over''\<rparr>) st' node"
      "pod_from_value S (share_pod_json S volume node ?c ?n) = Inr pod'"
    unfolding recreates_def by blast
  let ?tr = "emits ?load w @ before @ detach @ probe @ picks @ [(KReq (save_patch S st'), a)]"
  have "no_create (map fst picks)" using good(1) by (auto simp: no_create_def)
  then have "no_create (map fst ?tr)" using load facts(1) no_attachment_seen_no_create [OF facts(3)] by simp
  with create_position [of ?tr "(KReq (CreatePod (share_namespace S) pod'), b)" pre "(KReq (CreatePod ns pod), r)" post]
  have "post = [] \<and> pre = ?tr \<and> (KReq (CreatePod ns pod), r) = (KReq (CreatePod (share_namespace S) pod'), b)"
    using assms(1) unfolding em split rest by simp
  note position = this
  show ?thesis
    by (rule conjI, use position in simp, rule conjI, use position in simp,
        rule exI [of _ "emits ?load w @ before"], rule exI [of _ detach], rule exI [of _ probe], rule exI [of _ picks],
        rule exI [of _ st'], rule exI [of _ node], rule exI [of _ a]) (use position facts(2,3) good in simp)
qed

theorem created_after_detach_witness:
  "\<exists>pre ns pod r post.
     emits (reconcile mem_csys pvc0) (mem_world cluster0) = pre @ (KReq (CreatePod ns pod), r) # post \<and>
     post = [] \<and> ns = share_namespace mem_csys \<and>
     (\<exists>before detach probe picks st' node a.
       pre = before @ detach @ probe @ picks @ [(KReq (save_patch mem_csys st'), a)] \<and> is_ok (decode as_cm a) \<and>
       detach_asked mem_csys (volume_name ''pvc-1'') detach \<and> no_attachment_seen mem_csys (volume_name ''pvc-1'') probe \<and>
       (\<forall>q\<in>fst ` set picks. q = KReq (ListPods (share_namespace mem_csys) (Some ''rwx-volume'')) \<or> q = KReq ListNodes) \<and>
       chosen_well mem_csys picks ((ShareState_new ''pvc-1'')\<lparr>ss_state := ''failing_over''\<rparr>) st' node \<and>
       pod_from_value mem_csys (share_pod_json mem_csys ''pvc-1'' node (or_empty (pvc_name pvc0)) (or_empty (pvc_namespace pvc0))) = Inr pod)"
proof -
  let ?em = "emits (reconcile mem_csys pvc0) (mem_world cluster0)"
  obtain q where "q \<in> set (map fst ?em)" "is_create_pod q"
    using creates_on_cluster0 by (auto simp: list_ex_iff reqs_def)
  then obtain ns pod r where "(KReq (CreatePod ns pod), r) \<in> set ?em"
    by (cases q rule: is_create_pod.cases) auto
  then obtain pre post where em: "?em = pre @ (KReq (CreatePod ns pod), r) # post" by (meson split_list)
  have "result (load_or_create_state mem_csys ''pvc-1'') (mem_world cluster0) = Inr (ShareState_new ''pvc-1'')"
    by (rule mem_store.load_missing) simp
  note facts = created_after_detach [OF em pvc0_facts(1) this]
  show ?thesis
    by (rule exI [of _ pre], rule exI [of _ ns], rule exI [of _ pod], rule exI [of _ r], rule exI [of _ post],
        rule conjI, rule em, rule facts)
qed

text \<open>
  C5. A failover writes ahead: it first stores that the volume is failing over (with the
  failed node among the prior nodes); if that is not stored nothing else is asked for; then
  only the backing volume is looked up, attachments are listed and deleted, workload pods
  are listed and deleted, and it reports success only when the deletion of the
  share-manager pod was the last request, to come back in three seconds.
\<close>

theorem failover_write_ahead:
  "\<exists>rest.
     reqs (start_failover S st volume claim ns pod_nm) w = KReq (save_patch S (suspended st)) # rest \<and>
     (\<forall>q\<in>set rest. failover_request S volume ns pod_nm q) \<and>
     (\<not> is_ok (decode as_cm (answer S (KReq (save_patch S (suspended st))) w)) \<longrightarrow> rest = []) \<and>
     (\<forall>a. result (start_failover S st volume claim ns pod_nm) w = Inr a \<longrightarrow>
        a = Requeue 3 \<and> rest \<noteq> [] \<and> last rest = KReq (DeletePod (share_namespace S) pod_nm))"
proof -
  let ?st1 = "suspended st"
  let ?w1 = "after (save_state S ?st1) w"
  let ?w2 = "after (force_detach_backing_pvc S (volume_name volume)) ?w1"
  have ok: "is_ok (result (save_state S ?st1) w) \<longleftrightarrow> is_ok (decode as_cm (answer S (KReq (save_patch S ?st1)) w))"
    by simp
  have "failover_request S volume ns pod_nm (KReq (DeletePod (share_namespace S) pod_nm))"
    by (simp add: failover_request_def)
  with ok show ?thesis
    unfolding start_failover_def Let_def failing_suspended
    by (cases "result (save_state S ?st1) w";
        cases "result (force_detach_backing_pvc S (volume_name volume)) ?w1";
        cases "result (evict_workload_pods S claim ns) ?w2")
       (auto intro: detach_requests evict_requests)
qed

theorem failover_write_ahead_witness:
  "\<exists>rest.
     reqs (start_failover mem_csys (ShareState_new ''pvc-1'') ''pvc-1'' ''data'' ''app'' ''share-manager-pvc-1'') (mem_world empty_cluster) =
       KReq (save_patch mem_csys (suspended (ShareState_new ''pvc-1''))) # rest \<and>
     (\<not> is_ok (decode as_cm (answer mem_csys (KReq (save_patch mem_csys (suspended (ShareState_new ''pvc-1'')))) (mem_world empty_cluster))) \<longrightarrow> rest = [])"
  using failover_write_ahead [of mem_csys "ShareState_new ''pvc-1''" "''pvc-1''" "''data''" "''app''"
      "''share-manager-pvc-1''" "mem_world empty_cluster"] by blast

text \<open>
  C6. What a reconciliation deletes is justified by what it read: a volume attachment only
  when a listing showed it with the persistent volume that the backing claim was bound to, a
  pod only when it is the share-manager of the volume or a listing of the claim's namespace
  showed it with the claim among its volumes; claims, services and ConfigMaps are never
  deleted.
\<close>

theorem reconcile_deletes_only:
  assumes "bound_volume pvc = Some volume"
    and "(q, r) \<in> set (emits (reconcile S pvc) w)"
  shows "delete_ok S volume (or_empty (pvc_name pvc)) (or_empty (pvc_namespace pvc)) (emits (reconcile S pvc) w) q"
proof -
  let ?c = "or_empty (pvc_name pvc)" and ?n = "or_empty (pvc_namespace pvc)"
  have "deletes_ok S volume ?c ?n (emits (reconcile_volume S st volume ?c ?n) w)" for st w
    by (auto simp: reconcile_volume_def Let_def split: sum.split
          intro!: deletes_ok_append deletes_ok_Cons deletes_ok_reconcile_pod deletes_ok_reconcile_missing)
  then have "deletes_ok S volume ?c ?n (emits (reconcile S pvc) w)"
    using assms(1) by (auto simp: reconcile_def reconcile_body_def split: sum.split intro!: deletes_ok_append)
  with assms(2) show ?thesis by (force simp: deletes_ok_def)
qed

theorem reconcile_deletes_only_witness:
  "\<exists>r. (KReq (DeleteVa ''va-1''), r) \<in> set (emits (reconcile mem_csys pvc0) (mem_world cluster1)) \<and>
     delete_ok mem_csys ''pvc-1'' (or_empty (pvc_name pvc0)) (or_empty (pvc_namespace pvc0))
       (emits (reconcile mem_csys pvc0) (mem_world cluster1)) (KReq (DeleteVa ''va-1''))"
proof -
  obtain r where "(KReq (DeleteVa ''va-1''), r) \<in> set (emits (reconcile mem_csys pvc0) (mem_world cluster1))"
    using detaches_on_cluster1 by (auto simp: list_ex_iff reqs_def)
  with reconcile_deletes_only [OF pvc0_facts(1) this] show ?thesis by blast
qed

text \<open>
  C15. The controller fails a volume over exactly when the phase of its share-manager pod is
  Failed, Unknown or Succeeded, or the pod is Running on a node that the API server does not show
  as Ready; an error in asking for the node counts as not Ready. Otherwise it asks for nothing
  but the node and, for a running pod that is not recorded yet, the update of the stored state.
  For a failed pod it stores the failing state right after the question for the node, if there
  was one. In every other phase, as Pending, the node is not even asked for: such a pod is left
  alone, also on a node that is not Ready, and looked at again in ten seconds.
\<close>

theorem failover_iff_failed:
  "(\<not> failed_pod S w pod \<longrightarrow>
      reqs (reconcile_pod S st volume claim ns pod_nm pod) w = node_question pod @ records S st pod) \<and>
   (failed_pod S w pod \<longrightarrow>
      (\<exists>rest. reqs (reconcile_pod S st volume claim ns pod_nm pod) w =
         node_question pod @ KReq (save_patch S (suspended st)) # rest)) \<and>
   (pod_phase pod \<notin> {''Running'', ''Failed'', ''Unknown'', ''Succeeded''} \<longrightarrow>
      reqs (reconcile_pod S st volume claim ns pod_nm pod) w = [] \<and>
      result (reconcile_pod S st volume claim ns pod_nm pod) w = Inr (Requeue 10))"
proof -
  let ?node = "Option.bind (pod_spec pod) ps_node_name"
  let ?r = "reqs (reconcile_pod S st volume claim ns pod_nm pod) w"
  have start: "\<exists>rest. reqs (start_failover S st volume claim ns pod_nm) w = KReq (save_patch S (suspended st)) # rest" for w
    by (simp add: start_failover_def Let_def failing_suspended)
  have running: "reqs (bindE (or_kube_err (save_state S st')) (\<lambda>_. State_Monad.return (Inr a))) w = [KReq (save_patch S st')]" for st' a w
    by (simp split: sum.split)
  have asked: "reqs (node_is_ready S n) w = [KReq (GetNode n)]" for n w by (simp add: node_is_ready_def)
  have healthy: "?r = node_question pod @ records S st pod" if "\<not> failed_pod S w pod"
    using that
    by (cases ?node)
       (auto simp: failed_pod_def node_question_def records_def pod_phase_def [symmetric] reconcile_pod_def Let_def running
          node_is_ready_iff asked simp del: reqs_bindE)
  have failed: "\<exists>rest. ?r = node_question pod @ KReq (save_patch S (suspended st)) # rest" if "failed_pod S w pod"
  proof (cases "pod_phase pod = ''Running''")
    case True
    with that obtain n where n: "?node = Some n" "\<not> result (node_is_ready S n) w"
      by (auto simp: failed_pod_def node_is_ready_iff)
    have "?r = KReq (GetNode n) # reqs (start_failover S st volume claim ns pod_nm) (after (node_is_ready S n) w)"
      using n True by (simp add: reconcile_pod_def Let_def pod_phase_def [symmetric] asked)
    then show ?thesis using start [of "after (node_is_ready S n) w"] n(1) True by (simp add: node_question_def)
  next
    case False
    then have "?r = reqs (start_failover S st volume claim ns pod_nm) w" "node_question pod = []"
      using that by (auto simp: failed_pod_def reconcile_pod_def pod_phase_def [symmetric] node_question_def split: option.split)
    then show ?thesis using start [of w] by auto
  qed
  have "?r = [] \<and> result (reconcile_pod S st volume claim ns pod_nm pod) w = Inr (Requeue 10)"
    if "pod_phase pod \<notin> {''Running'', ''Failed'', ''Unknown'', ''Succeeded''}"
    using that by (simp add: reconcile_pod_def Let_def pod_phase_def [symmetric])
  with healthy failed show ?thesis by blast
qed

theorem failover_iff_failed_witness:
  "\<not> failed_pod mem_csys (mem_world cluster0) (mk_pod ''share-manager-pvc-1'' ''node-2'' ''Running'') \<and>
   reqs (reconcile_pod mem_csys (ShareState_new ''pvc-1'') ''pvc-1'' ''data'' ''app'' ''share-manager-pvc-1''
          (mk_pod ''share-manager-pvc-1'' ''node-2'' ''Running'')) (mem_world cluster0) =
     [KReq (GetNode ''node-2''),
      KReq (save_patch mem_csys ((ShareState_new ''pvc-1'')\<lparr>ss_node := Some ''node-2'', ss_state := ''running''\<rparr>))] \<and>
   (\<exists>rest. reqs (reconcile_pod mem_csys (ShareState_new ''pvc-1'') ''pvc-1'' ''data'' ''app'' ''share-manager-pvc-1''
          (mk_pod ''share-manager-pvc-1'' ''node-9'' ''Running'')) (mem_world cluster0) =
     KReq (GetNode ''node-9'') # KReq (save_patch mem_csys (suspended (ShareState_new ''pvc-1''))) # rest)"
proof -
  let ?p = "mk_pod ''share-manager-pvc-1'' ''node-2'' ''Running''" and ?q = "mk_pod ''share-manager-pvc-1'' ''node-9'' ''Running''"
  have "result (node_is_ready mem_csys ''node-2'') (mem_world cluster0)" "\<not> result (node_is_ready mem_csys ''node-9'') (mem_world cluster0)"
    by code_simp+
  then have "\<not> failed_pod mem_csys (mem_world cluster0) ?p" "failed_pod mem_csys (mem_world cluster0) ?q"
    by (simp_all add: failed_pod_def node_is_ready_iff mk_pod_def pod_phase_def)
  moreover have "node_question ?p = [KReq (GetNode ''node-2'')]" "node_question ?q = [KReq (GetNode ''node-9'')]"
    "records mem_csys (ShareState_new ''pvc-1'') ?p =
      [KReq (save_patch mem_csys ((ShareState_new ''pvc-1'')\<lparr>ss_node := Some ''node-2'', ss_state := ''running''\<rparr>))]"
    by (simp_all add: node_question_def records_def mk_pod_def pod_phase_def ShareState_new_def)
  ultimately show ?thesis
    using failover_iff_failed [of mem_csys "mem_world cluster0" ?p "ShareState_new ''pvc-1''" "''pvc-1''" "''data''" "''app''" "''share-manager-pvc-1''"]
      failover_iff_failed [of mem_csys "mem_world cluster0" ?q "ShareState_new ''pvc-1''" "''pvc-1''" "''data''" "''app''" "''share-manager-pvc-1''"]
    by simp
qed

text \<open>
  C21. When the listings do not change between its two attempts, the node choice of a failover
  succeeds exactly when there is a Ready free node that was never used, or, if at least two
  nodes were used, one other than the last: the list of prior nodes is given up at the right
  moment, and it is not given up when it has a single entry.
\<close>

theorem pick_with_reset_exact:
  assumes "stable_listing S w occ nodes"
  shows "is_ok (fst (result (pick_node_with_reset S st) w)) \<longleftrightarrow>
    (\<exists>n. candidate_node occ nodes n \<and>
       (n \<notin> set (ss_prior_nodes st) \<or> 1 < length (ss_prior_nodes st) \<and> n \<noteq> last (ss_prior_nodes st)))"
proof -
  let ?prior = "ss_prior_nodes st"
  have first: "result (pick_node S ?prior) w = choose_node ?prior occ nodes"
    and again: "result (pick_node S [last ?prior]) (after (pick_node S ?prior) w) = choose_node [last ?prior] occ nodes"
    using assms by (simp_all add: stable_listing_def pick_node_result)
  show ?thesis
  proof (cases "choose_node ?prior occ nodes")
    case (Inl e)
    then have "\<And>n. candidate_node occ nodes n \<Longrightarrow> n \<in> set ?prior" using picker.choose_complete by blast
    then show ?thesis using Inl first again
      by (auto simp: pick_node_with_reset_def Let_def picker.choose_last_iff)
  next
    case (Inr n)
    then have "candidate_node occ nodes n \<and> n \<notin> set ?prior" by (rule picker.choose_sound)
    then show ?thesis using Inr first by (auto simp: pick_node_with_reset_def)
  qed
qed

theorem pick_with_reset_exact_witness:
  "stable_listing mem_csys (mem_world cluster0) [] (cl_nodes cluster0) \<and>
   \<not> is_ok (fst (result (pick_node_with_reset mem_csys
       ((ShareState_new ''pvc-1'')\<lparr>ss_prior_nodes := [''node-2'']\<rparr>)) (mem_world cluster0))) \<and>
   is_ok (fst (result (pick_node_with_reset mem_csys
       ((ShareState_new ''pvc-1'')\<lparr>ss_prior_nodes := [''node-2'', ''node-1'']\<rparr>)) (mem_world cluster0)))"
proof -
  have stable: "stable_listing mem_csys (mem_world cluster0) [] (cl_nodes cluster0)" by (rule stable_cluster0)
  have "candidate_node [] (cl_nodes cluster0) n \<longleftrightarrow> n = ''node-2''" for n
    by (auto simp: candidate_node_def cluster0_def mk_node_def node_ready_def node_name_or_default_def)
  then show ?thesis
    using stable pick_with_reset_exact [OF stable, of "(ShareState_new ''pvc-1'')\<lparr>ss_prior_nodes := [''node-2'']\<rparr>"]
      pick_with_reset_exact [OF stable, of "(ShareState_new ''pvc-1'')\<lparr>ss_prior_nodes := [''node-2'', ''node-1'']\<rparr>"]
    by simp
qed

text \<open>
  C28. Every claim is looked at again, or left alone for a reason. A claim that is not one of the
  driver's, is being deleted, or is not bound yet is not touched and nothing is asked for: it is
  looked at again in five minutes, when it changes, and in half a minute. A live claim is
  looked at again within a minute, whether its reconciliation succeeded or failed.
\<close>

theorem claim_revisited:
  "if \<not> is_rwx_pvc pvc then run_state (reconcile S pvc) w = (Inr (Requeue 300), w)
   else if pvc_deletion_timestamp pvc \<noteq> None then run_state (reconcile S pvc) w = (Inr AwaitChange, w)
   else if bound_volume pvc = None then run_state (reconcile S pvc) w = (Inr (Requeue 30), w)
   else \<exists>n\<le>60. next_action (result (reconcile S pvc) w) = Requeue n"
proof (cases "is_rwx_pvc pvc \<and> pvc_deletion_timestamp pvc = None \<and> bound_volume pvc \<noteq> None")
  case False
  then show ?thesis by (auto simp: reconcile_def reconcile_body_def run_state_eq)
next
  case live: True
  have "\<exists>n\<le>60. next_action (result (reconcile S pvc) w) = Requeue n"
  proof (cases "result (reconcile S pvc) w")
    case (Inl e)
    then show ?thesis by (simp add: next_action_def error_policy_def)
  next
    case (Inr a)
    then have "a \<in> {Requeue 3, Requeue 5, Requeue 10, Requeue 30, Requeue 60}"
      using live reconcile_pod_action reconcile_missing_action
      by (fastforce simp: reconcile_def reconcile_body_def reconcile_volume_def Let_def split: option.splits sum.splits if_splits)
    with Inr show ?thesis by (auto simp: next_action_def)
  qed
  with live show ?thesis by auto
qed

text \<open>
  C35. The controller does not repeat an eviction that failed: when the pod is gone, the state is
  stored as failing over and the workload pods cannot be listed, the reconciliation fails,
  and every later one that finds the stored state deletes no pod, so the workloads keep their
  mounts of the old endpoint.
\<close>

theorem eviction_failure_forgotten:
  assumes "ss_state st \<noteq> ''failing_over''" "claim \<noteq> []" "ns \<noteq> []"
    and "is_ok (result (save_state S (st\<lparr>ss_state := ''failing_over''\<rparr>)) w)"
    and "\<not> is_ok (decode as_pods (answer S (KReq (ListPods ns None)) (after (save_state S (st\<lparr>ss_state := ''failing_over''\<rparr>)) w)))"
  shows "\<not> is_ok (result (reconcile_missing S st volume claim ns) w) \<and>
    reqs (reconcile_missing S st volume claim ns) w =
      [KReq (save_patch S (st\<lparr>ss_state := ''failing_over''\<rparr>)), KReq (ListPods ns None)] \<and>
    (\<forall>w' p. KReq (DeletePod ns p) \<notin> set (reqs (reconcile_missing S (st\<lparr>ss_state := ''failing_over''\<rparr>) volume claim ns) w'))"
proof -
  let ?st1 = "st\<lparr>ss_state := ''failing_over''\<rparr>"
  let ?w1 = "after (save_state S ?st1) w"
  obtain e where e: "decode as_pods (answer S (KReq (ListPods ns None)) ?w1) = Inl e"
    using assms(5) by (cases "decode as_pods (answer S (KReq (ListPods ns None)) ?w1)") auto
  obtain u where u: "result (save_state S ?st1) w = Inr u"
    using assms(4) by (auto simp: is_ok_iff)
  have "result (begin_failing_over S st claim ns) w = Inl (kube_err (kube_display S e))"
    "reqs (begin_failing_over S st claim ns) w = [KReq (save_patch S ?st1), KReq (ListPods ns None)]"
    using assms(1,2,3) e u by (simp_all add: begin_failing_over_def Let_def evict_workload_pods_def)
  moreover have "KReq (DeletePod ns p) \<notin> set (reqs (reconcile_missing S ?st1 volume claim ns) w')" for w' p
    by (rule eviction_not_retried) simp
  ultimately show ?thesis by (simp add: reconcile_missing_def [of S st] Let_def)
qed

theorem eviction_failure_forgotten_witness:
  "\<not> is_ok (result (reconcile_missing flaky_csys (ShareState_new ''pvc-1'') ''pvc-1'' ''data'' ''app'') (mem_world cluster2)) \<and>
   (\<forall>w' p. KReq (DeletePod ''app'' p) \<notin> set (reqs (reconcile_missing flaky_csys
      ((ShareState_new ''pvc-1'')\<lparr>ss_state := ''failing_over''\<rparr>) ''pvc-1'' ''data'' ''app'') w'))"
proof -
  let ?st1 = "(ShareState_new ''pvc-1'')\<lparr>ss_state := ''failing_over''\<rparr>"
  have "ss_state (ShareState_new ''pvc-1'') \<noteq> ''failing_over''" by (simp add: ShareState_new_def)
  moreover have "is_ok (result (save_state flaky_csys ?st1) (mem_world cluster2))"
    by (rule flaky_saves)
  moreover have "\<not> is_ok (decode as_pods (answer flaky_csys (KReq (ListPods ''app'' None)) w))" for w
    by (simp add: flaky_csys_def answer_def flaky_srv_def api_error_def)
  ultimately show ?thesis
    using eviction_failure_forgotten [of "ShareState_new ''pvc-1''" "''data''" "''app''" flaky_csys "mem_world cluster2" "''pvc-1''"]
    by blast
qed

text \<open>
  C29. The events of a share-manager pod reach the claim it serves: a pod made from the
  specification of a volume is mapped back to the claim and namespace it was made for, and to
  nothing when they were unknown, provided decoding a pod keeps its labels.
\<close>

theorem pod_events_reach_claim:
  assumes "\<forall>j p. pod_from_value S j = Inr p \<longrightarrow>
      pod_labels p = map_option jlabels (Option.bind (jget ''metadata'' j) (jget ''labels''))"
    and "pod_from_value S (share_pod_json S volume node claim ns) = Inr pod"
  shows "pod_mapper pod = (if claim = [] \<or> ns = [] then None else Some (claim, ns))"
proof -
  have "pod_labels pod = Some (jlabels (JObj
      [(''app'', JStr DRIVER_NAME), (''rwx-volume'', JStr volume),
       (''rwx-pvc-name'', JStr claim), (''rwx-pvc-namespace'', JStr ns)]))"
    using assms by (simp add: share_pod_json_def jget_def Let_def)
  then show ?thesis
    by (simp add: pod_mapper_def jlabels_def bt_from_def bt_get_insert_gen List.map_filter_simps jstr_def Let_def)
qed

theorem pod_events_reach_claim_witness:
  "\<exists>pod. pod_from_value mem_csys (share_pod_json mem_csys ''pvc-1'' ''node-2'' ''data'' ''app'') = Inr pod \<and>
     pod_mapper pod = Some (''data'', ''app'')"
proof -
  let ?j = "share_pod_json mem_csys ''pvc-1'' ''node-2'' ''data'' ''app''"
  obtain pod where pod: "pod_from_value mem_csys ?j = Inr pod"
    by (simp add: mem_csys_def mem_pod_from_value_def)
  have "\<forall>j p. pod_from_value mem_csys j = Inr p \<longrightarrow>
      pod_labels p = map_option jlabels (Option.bind (jget ''metadata'' j) (jget ''labels''))"
    by (auto simp: mem_csys_def mem_pod_from_value_def)
  from pod_events_reach_claim [OF this pod] pod show ?thesis by simp
qed

end
