(* ===== verification/Csi.thy ===== *)
theory Csi
  imports Provision
begin

text \<open>
  \<open>src/csi.rs\<close>: the gRPC services of the CSI driver. Provisioning (\<open>create_volume\<close> with
  its two polling loops and the clean-up after a timeout, \<open>delete_volume\<close>), the node side
  (\<open>resolve_current_endpoint\<close>, \<open>node_publish_volume\<close>, \<open>node_unpublish_volume\<close>, commands
  run under a time limit) and the calls that answer a constant. A gRPC answer is a value of
  the sum of a \<open>grpc_Status\<close> and the response; sizes are 64-bit signed integers with the
  wrap-around of a release build written out.
\<close>

subsection \<open>Status and sizes\<close>

datatype Code = Internal | DeadlineExceeded | Unavailable | InvalidArgument | Unimplemented

datatype grpc_Status = Status (code: Code) (message: string)

definition GIB :: int where
  "GIB = 1073741824"

record CsiDriver =
  startup_poll :: "nat \<times> nat"  \<comment> \<open>attempts and delay in milliseconds\<close>

definition CsiDriver_new :: CsiDriver where
  "CsiDriver_new = \<lparr>startup_poll = (15, 2000)\<rparr>"

text \<open>\<open>fn st\<close>: any error that can be displayed, as an internal status.\<close>

definition st :: "string \<Rightarrow> grpc_Status" where
  "st err = Status Internal err"

definition wrap_i64 :: "int \<Rightarrow> int" where
  "wrap_i64 i = (i + 2 ^ 63) mod 2 ^ 64 - 2 ^ 63"

text \<open>Division of signed integers rounds towards zero.\<close>

definition trunc_div :: "int \<Rightarrow> int \<Rightarrow> int" where
  "trunc_div a b = sgn a * sgn b * (\<bar>a\<bar> div \<bar>b\<bar>)"

definition requested_gib :: "int option \<Rightarrow> int" where
  "requested_gib capacity =
     (case capacity of
        None \<Rightarrow> 10
      | Some required_bytes \<Rightarrow>
          if required_bytes > 0
          then wrap_i64 (trunc_div (wrap_i64 (wrap_i64 (required_bytes + GIB) - 1)) GIB)
          else 10)"

subsection \<open>Identity service\<close>

datatype plugin_capability = ControllerService

record GetPluginInfoResponse =
  pi_name :: string
  pi_vendor_version :: string

definition get_plugin_info :: "grpc_Status + GetPluginInfoResponse" where
  "get_plugin_info = Inr \<lparr>pi_name = DRIVER_NAME, pi_vendor_version = CARGO_PKG_VERSION\<rparr>"

definition get_plugin_capabilities :: "grpc_Status + plugin_capability list" where
  "get_plugin_capabilities = Inr [ControllerService]"

definition probe :: "grpc_Status + bool option" where
  "probe = Inr (Some True)"

subsection \<open>Controller service\<close>

record CreateVolumeRequest =
  cv_name :: string
  cv_capacity_range :: "int option"  \<comment> \<open>its \<open>required_bytes\<close>\<close>
  cv_parameters :: "string \<rightharpoonup> string"

record Volume =
  vl_volume_id :: string
  vl_capacity_bytes :: int
  vl_context :: "(string \<times> string) list"

text \<open>\<open>if api.get(name).await.is_err() { create }\<close>: for the claim and for the service.\<close>

definition ensure_backing_pvc ::
  "('s, 'z) sys_scheme \<Rightarrow> string \<Rightarrow> string \<Rightarrow> string \<Rightarrow> ('s, grpc_Status + unit) io" where
  "ensure_backing_pvc S name sz backing_sc =
     (let ns = share_namespace S in do {
      r \<leftarrow> kcall S (GetPvc ns (backing_pvc_name (volume_name name))) as_pvc;
      if is_ok r then State_Monad.return (Inr ())
      else case pvc_from_value S (backing_pvc_json S name sz backing_sc) of
             Inl e \<Rightarrow> State_Monad.return (Inl (st e))
           | Inr backing \<Rightarrow> do {
               c \<leftarrow> kcall S (CreatePvc ns backing) as_pvc;
               State_Monad.return (case c of
                   Inr _ \<Rightarrow> Inr () | Inl e \<Rightarrow> Inl (st (kube_display S e))) } })"

definition ensure_volume_service :: "('s, 'z) sys_scheme \<Rightarrow> string \<Rightarrow> ('s, grpc_Status + unit) io" where
  "ensure_volume_service S name =
     (let ns = share_namespace S in do {
      r \<leftarrow> kcall S (GetSvc ns (volume_name name)) as_svc;
      if is_ok r then State_Monad.return (Inr ())
      else case svc_from_value S (service_json S name) of
             Inl e \<Rightarrow> State_Monad.return (Inl (st e))
           | Inr svc \<Rightarrow> do {
               c \<leftarrow> kcall S (CreateSvc ns svc) as_svc;
               State_Monad.return (case c of
                   Inr _ \<Rightarrow> Inr () | Inl e \<Rightarrow> Inl (st (kube_display S e))) } })"

definition phase_of :: "Pod \<Rightarrow> string option" where
  "phase_of pod = Option.bind (pod_status pod) pst_phase"

text \<open>The loop that waits for a stuck pod to be gone.\<close>

fun wait_deleted :: "('s, 'z) sys_scheme \<Rightarrow> string \<Rightarrow> nat \<Rightarrow> nat \<Rightarrow> ('s, unit) io" where
  "wait_deleted S pod_nm delay 0 = State_Monad.return ()"
| "wait_deleted S pod_nm delay (Suc n) = do {
     r \<leftarrow> kcall S (GetPod (share_namespace S) pod_nm) as_pod;
     if \<not> is_ok r then State_Monad.return ()
     else do { _ \<leftarrow> sleep S delay; wait_deleted S pod_nm delay n } }"

definition replace_stuck_pod :: "('s, 'z) sys_scheme \<Rightarrow> CsiDriver \<Rightarrow> string \<Rightarrow> ('s, unit) io" where
  "replace_stuck_pod S d pod_nm = do {
     r \<leftarrow> kcall S (GetPod (share_namespace S) pod_nm) as_pod;
     case r of
       Inl _ \<Rightarrow> State_Monad.return ()
     | Inr existing_pod \<Rightarrow>
         if or_empty (phase_of existing_pod) = ''Pending'' then do {
           _ \<leftarrow> kcall S (DeletePod (share_namespace S) pod_nm) as_any;
           wait_deleted S pod_nm (snd (startup_poll d)) (fst (startup_poll d)) }
         else State_Monad.return () }"

definition ensure_share_pod ::
  "('s, 'z) sys_scheme \<Rightarrow> string \<Rightarrow> string \<Rightarrow> string \<Rightarrow> ('s, grpc_Status + unit) io" where
  "ensure_share_pod S name claim claim_ns =
     (let ns = share_namespace S; pod_nm = share_pod_name (volume_name name) in do {
      r \<leftarrow> kcall S (GetPod ns pod_nm) as_pod;
      if is_ok r then State_Monad.return (Inr ())
      else do {
        n \<leftarrow> pick_node S [];
        case n of
          Inl e \<Rightarrow> State_Monad.return (Inl (st e))
        | Inr node \<Rightarrow>
            (case pod_from_value S (share_pod_json S name node claim claim_ns) of
               Inl e \<Rightarrow> State_Monad.return (Inl (st e))
             | Inr pod \<Rightarrow> do {
                 c \<leftarrow> kcall S (CreatePod ns pod) as_pod;
                 State_Monad.return (case c of
                     Inr _ \<Rightarrow> Inr () | Inl e \<Rightarrow> Inl (st (kube_display S e))) }) } })"

text \<open>The loop that waits for the pod to run; \<open>None\<close> when the attempts are used up.\<close>

fun wait_running :: "('s, 'z) sys_scheme \<Rightarrow> string \<Rightarrow> nat \<Rightarrow> nat \<Rightarrow> ('s, string option) io" where
  "wait_running S pod_nm delay 0 = State_Monad.return None"
| "wait_running S pod_nm delay (Suc n) = do {
     r \<leftarrow> kcall S (GetPod (share_namespace S) pod_nm) as_pod;
     case r of
       Inr pod \<Rightarrow>
         if phase_of pod = Some ''Running''
         then State_Monad.return (Some (or_empty (Option.bind (pod_status pod) pst_pod_ip)))
         else do { _ \<leftarrow> sleep S delay; wait_running S pod_nm delay n }
     | Inl _ \<Rightarrow> do { _ \<leftarrow> sleep S delay; wait_running S pod_nm delay n } }"

definition clean_up :: "('s, 'z) sys_scheme \<Rightarrow> string \<Rightarrow> ('s, grpc_Status + Volume) io" where
  "clean_up S vn =
     (let ns = share_namespace S in do {
      _ \<leftarrow> kcall S (DeletePod ns (share_pod_name vn)) as_any;
      _ \<leftarrow> kcall S (DeletePvc ns (backing_pvc_name vn)) as_any;
      _ \<leftarrow> kcall S (DeleteSvc ns vn) as_any;
      State_Monad.return (Inl (Status DeadlineExceeded ''share-manager pod did not become ready'')) })"

definition created_volume :: "CreateVolumeRequest \<Rightarrow> string \<Rightarrow> Volume" where
  "created_volume req pod_ip =
     \<lparr>vl_volume_id = cv_name req,
      vl_capacity_bytes = wrap_i64 (requested_gib (cv_capacity_range req) * GIB),
      vl_context = [(''nfsEndpoint'', pod_ip @ '':/'' @ cv_name req)]\<rparr>"

definition create_volume ::
  "('s, 'z) sys_scheme \<Rightarrow> CsiDriver \<Rightarrow> CreateVolumeRequest \<Rightarrow> ('s, grpc_Status + Volume) io" where
  "create_volume S d req =
     (let name = cv_name req;
          gib = requested_gib (cv_capacity_range req);
          sz = show_int gib @ ''Gi'';
          claim = or_empty (cv_parameters req ''csi.storage.k8s.io/pvc/name'');
          claim_ns = or_empty (cv_parameters req ''csi.storage.k8s.io/pvc/namespace'');
          backing_sc = (case cv_parameters req ''backingStorageClass'' of
            Some c \<Rightarrow> c | None \<Rightarrow> backing_storage_class S);
          vn = volume_name name;
          pod_nm = share_pod_name vn in
      bindE (ensure_backing_pvc S name sz backing_sc) (\<lambda>_.
      bindE (ensure_volume_service S name) (\<lambda>_. do {
        _ \<leftarrow> replace_stuck_pod S d pod_nm;
        bindE (ensure_share_pod S name claim claim_ns) (\<lambda>_. do {
          ip \<leftarrow> wait_running S pod_nm (snd (startup_poll d)) (fst (startup_poll d));
          case ip of
            Some pod_ip \<Rightarrow> State_Monad.return (Inr (created_volume req pod_ip))
          | None \<Rightarrow> clean_up S vn }) })))"

definition delete_volume :: "('s, 'z) sys_scheme \<Rightarrow> string \<Rightarrow> ('s, grpc_Status + unit) io" where
  "delete_volume S name =
     (let vn = volume_name name; ns = share_namespace S in do {
      _ \<leftarrow> kcall S (DeletePod ns (share_pod_name vn)) as_any;
      _ \<leftarrow> kcall S (DeletePvc ns (backing_pvc_name vn)) as_any;
      _ \<leftarrow> kcall S (DeleteSvc ns vn) as_any;
      _ \<leftarrow> kcall S (DeleteCm ns (state_cm_name vn)) as_any;
      State_Monad.return (Inr ()) })"

text \<open>The calls with a constant answer.\<close>

definition controller_publish_volume :: "grpc_Status + (string \<times> string) list" where
  "controller_publish_volume = Inr []"

definition controller_unpublish_volume :: "grpc_Status + unit" where
  "controller_unpublish_volume = Inr ()"

definition validate_volume_capabilities :: "grpc_Status + unit option \<times> string" where
  "validate_volume_capabilities = Inr (None, [])"

definition list_volumes :: "grpc_Status + Volume list \<times> string" where
  "list_volumes = Inr ([], [])"

definition get_capacity :: "grpc_Status + int \<times> int option \<times> int option" where
  "get_capacity = Inr (1099511627776, None, None)"

datatype controller_capability = CreateDeleteVolume | PublishUnpublishVolume

definition controller_get_capabilities :: "grpc_Status + controller_capability list" where
  "controller_get_capabilities = Inr [CreateDeleteVolume, PublishUnpublishVolume]"

definition create_snapshot :: "grpc_Status + unit" where
  "create_snapshot = Inl (Status Unimplemented ''snapshots not supported'')"

definition delete_snapshot :: "grpc_Status + unit" where
  "delete_snapshot = Inl (Status Unimplemented ''snapshots not supported'')"

definition list_snapshots :: "grpc_Status + unit" where
  "list_snapshots = Inl (Status Unimplemented ''snapshots not supported'')"

definition controller_expand_volume :: "grpc_Status + unit" where
  "controller_expand_volume = Inl (Status Unimplemented ''expansion not yet supported'')"

definition controller_get_volume :: "grpc_Status + unit" where
  "controller_get_volume = Inl (Status Unimplemented ''controller_get_volume not supported'')"

definition controller_list_volume_health :: "grpc_Status + unit" where
  "controller_list_volume_health = Inl (Status Unimplemented ''volume health not supported'')"

definition controller_get_volume_health :: "grpc_Status + unit" where
  "controller_get_volume_health = Inl (Status Unimplemented ''volume health not supported'')"

definition get_snapshot :: "grpc_Status + unit" where
  "get_snapshot = Inl (Status Unimplemented ''snapshots not supported'')"

definition controller_modify_volume :: "grpc_Status + unit" where
  "controller_modify_volume = Inl (Status Unimplemented ''modify volume not supported'')"

subsection \<open>Node service\<close>

text \<open>
  The environment with the text of the error \<open>reqwest\<close> reports for a status code of
  400 to 599, a parameter. A client that cannot be built, a connection that fails and a
  request that takes longer than its five seconds are all error answers to \<open>HttpGet\<close>.
\<close>

record 's dsys = "'s sys" +
  http_status_display :: "nat \<Rightarrow> string \<Rightarrow> string"

definition http_json :: "('s, 'z) dsys_scheme \<Rightarrow> string \<Rightarrow> nat \<Rightarrow> ('s, anyhow_Error + json) io" where
  "http_json S url timeout_secs = do {
     r \<leftarrow> call S (HttpGet url timeout_secs);
     State_Monad.return (case r of
         HttpResp (Inl e) \<Rightarrow> Inl e
       | HttpResp (Inr (status, body)) \<Rightarrow>
           if 400 \<le> status \<and> status < 600 then Inl (http_status_display S status url) else body
       | _ \<Rightarrow> Inl bad_answer) }"

definition reported_endpoint :: "json \<Rightarrow> string option" where
  "reported_endpoint resp =
     (case Option.bind (jget ''endpoint'' resp) jstr of
        None \<Rightarrow> None | Some e \<Rightarrow> if e = [] then None else Some e)"

definition service_ip :: "Svc \<Rightarrow> string option" where
  "service_ip svc =
     (case Option.bind (svc_spec svc) svs_cluster_ip of
        None \<Rightarrow> None | Some ip \<Rightarrow> if ip = [] \<or> ip = ''None'' then None else Some ip)"

definition resolve_current_endpoint :: "('s, 'z) dsys_scheme \<Rightarrow> string \<Rightarrow> ('s, anyhow_Error + string) io" where
  "resolve_current_endpoint S volume_id =
     bindE (acall S (GetSvc (share_namespace S) (volume_name volume_id)) as_svc) (\<lambda>svc.
       case service_ip svc of
         None \<Rightarrow> State_Monad.return (Inl ''service has no cluster IP'')
       | Some cluster_ip \<Rightarrow>
           bindE (http_json S (''http://'' @ cluster_ip @ '':9500/endpoint'') 5) (\<lambda>resp.
             State_Monad.return (case reported_endpoint resp of
                 Some e \<Rightarrow> Inr e
               | None \<Rightarrow> Inl ''share-manager reported no endpoint'')))"

definition run_command ::
  "('s, 'z) sys_scheme \<Rightarrow> string \<Rightarrow> string list \<Rightarrow> nat \<Rightarrow> ('s, grpc_Status + unit) io" where
  "run_command S program args timeout_secs = do {
     r \<leftarrow> hcall S (CmdStatus program args timeout_secs);
     State_Monad.return (case as_status r of
         None \<Rightarrow> Inl (Status DeadlineExceeded (program @ '' timed out after '' @ show_nat timeout_secs @ ''s''))
       | Some (Inl e) \<Rightarrow> Inl (st e)
       | Some (Inr (success, status)) \<Rightarrow>
           if success then Inr () else Inl (Status Internal (program @ '' failed: '' @ status))) }"

text \<open>The two parts of an endpoint: \<open>split(':').next()\<close> and \<open>split(':').nth(1)\<close>.\<close>

definition endpoint_server :: "string \<Rightarrow> string" where
  "endpoint_server endpoint = (case split_on (CHR '':'') endpoint of s # _ \<Rightarrow> s | [] \<Rightarrow> [])"

definition endpoint_path :: "string \<Rightarrow> string" where
  "endpoint_path endpoint = (case split_on (CHR '':'') endpoint of _ # p # _ \<Rightarrow> p | _ \<Rightarrow> [])"

definition mount_args :: "string \<Rightarrow> string \<Rightarrow> string list" where
  "mount_args source target = [''-t'', ''nfs4'', ''-o'', ''vers=4,hard,timeo=30,retrans=3'', source, target]"

definition node_publish_volume ::
  "('s, 'z) dsys_scheme \<Rightarrow> string \<Rightarrow> string \<Rightarrow> ('s, grpc_Status + unit) io" where
  "node_publish_volume S vol_id target = do {
     ep \<leftarrow> resolve_current_endpoint S vol_id;
     case ep of
       Inl e \<Rightarrow> State_Monad.return (Inl (Status Unavailable (''NFS endpoint not resolvable: '' @ e)))
     | Inr endpoint \<Rightarrow> do {
         d \<leftarrow> hcall S (CreateDirAll target);
         case as_io d of
           Inl e \<Rightarrow> State_Monad.return (Inl (st e))
         | Inr _ \<Rightarrow>
             (let server = endpoint_server endpoint; path = endpoint_path endpoint in
              if server = [] \<or> path = [] then
                State_Monad.return (Inl (Status InvalidArgument (''malformed NFS endpoint '' @ debug_str endpoint)))
              else run_command S ''mount'' (mount_args (server @ '':'' @ path) target) 30) } }"

definition node_unpublish_volume :: "('s, 'z) sys_scheme \<Rightarrow> string \<Rightarrow> ('s, grpc_Status + unit) io" where
  "node_unpublish_volume S target = do {
     r \<leftarrow> run_command S ''umount'' [target] 20;
     _ \<leftarrow> (if is_ok r then State_Monad.return (Inr ())
          else run_command S ''umount'' [''-l'', target] 10);
     State_Monad.return (Inr ()) }"

datatype node_capability = StageUnstageVolume

definition node_get_capabilities :: "grpc_Status + node_capability list" where
  "node_get_capabilities = Inr [StageUnstageVolume]"

definition node_get_info :: "('s, 'z) sys_scheme \<Rightarrow> grpc_Status + string \<times> int" where
  "node_get_info S = Inr (case env_var S ''NODE_NAME'' of Some n \<Rightarrow> n | None \<Rightarrow> ''unknown'', 0)"

definition node_stage_volume :: "grpc_Status + unit" where
  "node_stage_volume = Inr ()"

definition node_unstage_volume :: "grpc_Status + unit" where
  "node_unstage_volume = Inr ()"

definition node_get_volume_stats :: "grpc_Status + unit" where
  "node_get_volume_stats = Inl (Status Unimplemented ''volume stats not supported'')"

definition node_expand_volume :: "grpc_Status + unit" where
  "node_expand_volume = Inl (Status Unimplemented ''expansion not yet supported'')"

definition node_get_volume_health :: "grpc_Status + unit" where
  "node_get_volume_health = Inl (Status Unimplemented ''volume health not supported'')"

definition node_get_storage_health :: "grpc_Status + unit" where
  "node_get_storage_health = Inl (Status Unimplemented ''storage health not supported'')"

subsection \<open>The socket of the driver\<close>

text \<open>\<open>main\<close>: a stale socket file is removed before the Unix listener is bound.\<close>

datatype listener = UnixListener string | TcpListener string

definition csi_endpoint :: "('s, 'z) sys_scheme \<Rightarrow> string" where
  "csi_endpoint S = (case env_var S ''CSI_ENDPOINT'' of Some e \<Rightarrow> e | None \<Rightarrow> ''unix:///csi/csi.sock'')"

definition csi_listener :: "('s, 'z) sys_scheme \<Rightarrow> ('s, listener) io" where
  "csi_listener S =
     (case strip_prefix ''unix://'' (csi_endpoint S) of
        Some path \<Rightarrow> do { _ \<leftarrow> hcall S (RemoveFile path); State_Monad.return (UnixListener path) }
      | None \<Rightarrow> State_Monad.return (TcpListener (csi_endpoint S)))"

subsection \<open>Lemmas: sizes\<close>

lemma wrap_i64_id [simp]: "- (2 ^ 63) \<le> i \<Longrightarrow> i < 2 ^ 63 \<Longrightarrow> wrap_i64 i = i"
  by (simp add: wrap_i64_def)

lemma wrap_i64_range: "- (2 ^ 63) \<le> wrap_i64 i \<and> wrap_i64 i < 2 ^ 63"
  by (simp add: wrap_i64_def)

lemma wrap_i64_above: "2 ^ 63 \<le> i \<Longrightarrow> i < 2 ^ 64 + 2 ^ 63 \<Longrightarrow> wrap_i64 i = i - 2 ^ 64"
proof -
  assume i: "2 ^ 63 \<le> i" "i < 2 ^ 64 + 2 ^ 63"
  have "(i + 2 ^ 63) mod 2 ^ 64 = (i + 2 ^ 63 - 2 ^ 64) mod 2 ^ 64" by (rule minus_mod_self2 [symmetric])
  also have "\<dots> = i + 2 ^ 63 - 2 ^ 64" using i by (intro mod_pos_pos_trivial) auto
  finally show ?thesis by (simp add: wrap_i64_def)
qed

lemma wrap_i64_wrap [simp]: "wrap_i64 (wrap_i64 i - 1) = wrap_i64 (i - 1)"
proof -
  have "wrap_i64 (wrap_i64 i - 1) = ((i + 2 ^ 63) mod 2 ^ 64 - 1) mod 2 ^ 64 - 2 ^ 63"
    unfolding wrap_i64_def [of "wrap_i64 i - 1"] by (simp add: wrap_i64_def)
  then show ?thesis by (simp add: mod_diff_left_eq wrap_i64_def algebra_simps)
qed

lemma trunc_div_pos [simp]: "0 \<le> a \<Longrightarrow> 0 < b \<Longrightarrow> trunc_div a b = a div b"
  by (cases "a = 0") (simp_all add: trunc_div_def)

lemma trunc_div_neg: "a < 0 \<Longrightarrow> 0 < b \<Longrightarrow> trunc_div a b = - ((- a) div b)"
  by (simp add: trunc_div_def)

lemma requested_gib_fits:
  assumes "0 < b" "b \<le> 2 ^ 63 - GIB"
  shows "requested_gib (Some b) = (b + GIB - 1) div GIB"
proof -
  have "0 \<le> (b + GIB - 1) div GIB" "(b + GIB - 1) div GIB < 2 ^ 63"
    using assms by (auto simp: GIB_def)
  moreover have "wrap_i64 (b + GIB - 1) = b + GIB - 1" using assms by (simp add: GIB_def)
  ultimately show ?thesis using assms by (simp add: requested_gib_def GIB_def)
qed

lemma requested_gib_wraps:
  assumes "2 ^ 63 - GIB < b" "b < 2 ^ 63"
  shows "requested_gib (Some b) < 0"
proof -
  have w: "wrap_i64 (b + GIB - 1) = b + GIB - 1 - 2 ^ 64"
    using assms by (intro wrap_i64_above) (simp_all add: GIB_def)
  let ?q = "(2 ^ 64 - (b + GIB - 1)) div GIB"
  have "0 < ?q" "?q \<le> 2 ^ 63" using assms by (auto simp: GIB_def)
  moreover have "trunc_div (b + GIB - 1 - 2 ^ 64) GIB = - ?q"
    using assms by (subst trunc_div_neg) (simp_all add: GIB_def)
  moreover have "0 < b" using assms by (simp add: GIB_def)
  ultimately show ?thesis using w by (simp add: requested_gib_def)
qed

subsection \<open>Properties: sizes\<close>

text \<open>
  C26. The size of a volume is the requested number of bytes rounded up to whole GiB: for
  every request of up to \<open>2^63 - 2^30\<close> bytes the capacity reported is at least the request
  and less than one GiB more; no request, or one that is not positive, gives 10 GiB. The first
  sum, of the request and one GiB, stays within 64 bits exactly for the requests below
  \<open>2^63 - 2^30\<close>. From there on it wraps around (a build with overflow checks panics): at
  \<open>2^63 - 2^30\<close> itself the subtraction of one wraps back and the size is still right, and
  for every larger request the size of the volume is negative.
\<close>

theorem requested_gib_exact:
  "requested_gib None = 10 \<and> (b \<le> 0 \<longrightarrow> requested_gib (Some b) = 10) \<and>
   (0 < b \<and> b \<le> 2 ^ 63 - GIB \<longrightarrow>
      1 \<le> requested_gib (Some b) \<and> b \<le> requested_gib (Some b) * GIB \<and> requested_gib (Some b) * GIB < b + GIB \<and>
      wrap_i64 (requested_gib (Some b) * GIB) = requested_gib (Some b) * GIB) \<and>
   (0 < b \<and> b < 2 ^ 63 \<longrightarrow> (wrap_i64 (b + GIB) = b + GIB \<longleftrightarrow> b < 2 ^ 63 - GIB)) \<and>
   (2 ^ 63 - GIB < b \<and> b < 2 ^ 63 \<longrightarrow> requested_gib (Some b) < 0)"
proof -
  have "1 \<le> g \<and> b \<le> g * GIB \<and> g * GIB < b + GIB \<and> wrap_i64 (g * GIB) = g * GIB"
    if "0 < b" "b \<le> 2 ^ 63 - GIB" "g = (b + GIB - 1) div GIB" for g
  proof -
    have "g * GIB = (b + GIB - 1) - (b + GIB - 1) mod GIB"
      using that(3) by (simp add: minus_mod_eq_div_mult [symmetric])
    moreover have "0 \<le> (b + GIB - 1) mod GIB" "(b + GIB - 1) mod GIB < GIB" by (simp_all add: GIB_def)
    ultimately have bounds: "b \<le> g * GIB" "g * GIB < b + GIB" by auto
    moreover have "1 \<le> g" using bounds(1) that(1) by (cases "g \<le> 0") (auto simp: GIB_def)
    moreover have "wrap_i64 (g * GIB) = g * GIB"
      using bounds that(1,2) by (intro wrap_i64_id) auto
    ultimately show ?thesis by blast
  qed
  moreover have "wrap_i64 (b + GIB) = b + GIB \<longleftrightarrow> b < 2 ^ 63 - GIB" if "0 < b" "b < 2 ^ 63"
    using that wrap_i64_range [of "b + GIB"] wrap_i64_id [of "b + GIB"] by (force simp: GIB_def)
  ultimately show ?thesis using requested_gib_fits [of b] requested_gib_wraps [of b] by (auto simp: requested_gib_def)
qed

theorem requested_gib_exact_witness:
  "1073741825 \<le> requested_gib (Some 1073741825) * GIB \<and> requested_gib (Some 9223372036854775807) < 0"
  using requested_gib_exact [of 1073741825] requested_gib_exact [of 9223372036854775807] by (simp add: GIB_def)

subsection \<open>Lemmas: the traces of provisioning\<close>

lemma traced_csi_parts [simp, traced_intro]:
  "traced (ensure_backing_pvc S name sz sc)" "replays S (ensure_backing_pvc S name sz sc)"
  "traced (ensure_volume_service S name)" "replays S (ensure_volume_service S name)"
  "traced (ensure_share_pod S name claim ns)" "replays S (ensure_share_pod S name claim ns)"
  "traced (clean_up S vn)" "replays S (clean_up S vn)"
  "traced (delete_volume S name)" "replays S (delete_volume S name)"
  by (simp_all add: ensure_backing_pvc_def ensure_volume_service_def ensure_share_pod_def clean_up_def
      delete_volume_def Let_def)

lemma traced_wait [simp, traced_intro]:
  "traced (wait_deleted S pod_nm delay n)" "traced (wait_running S pod_nm delay n)"
  "replays S (wait_deleted S pod_nm delay n)" "replays S (wait_running S pod_nm delay n)"
  by (induction n) simp_all

lemma traced_replace [simp, traced_intro]:
  "traced (replace_stuck_pod S d pod_nm)" "replays S (replace_stuck_pod S d pod_nm)"
  by (simp_all add: replace_stuck_pod_def)

lemma traced_create_volume [simp, traced_intro]:
  "traced (create_volume S d req)" "replays S (create_volume S d req)"
  by (simp_all add: create_volume_def Let_def)

abbreviation get_share_pod :: "('s, 'z) sys_scheme \<Rightarrow> string \<Rightarrow> req" where
  "get_share_pod S pod_nm \<equiv> KReq (GetPod (share_namespace S) pod_nm)"

lemma wait_deleted_reqs:
  "q \<in> set (reqs (wait_deleted S pod_nm delay n) w) \<Longrightarrow> q = get_share_pod S pod_nm \<or> q = HReq (Sleep delay)"
  by (induction n arbitrary: w) (auto split: if_splits)

lemma wait_running_reqs:
  "q \<in> set (reqs (wait_running S pod_nm delay n) w) \<Longrightarrow> q = get_share_pod S pod_nm \<or> q = HReq (Sleep delay)"
  by (induction n arbitrary: w) (auto split: if_splits sum.splits)

text \<open>The wait succeeds with the first answer that shows the pod running.\<close>

definition shows_running :: "resp \<Rightarrow> string \<Rightarrow> bool" where
  "shows_running r ip \<longleftrightarrow> (\<exists>pod. decode as_pod r = Inr pod \<and> phase_of pod = Some ''Running'' \<and>
     ip = or_empty (Option.bind (pod_status pod) pst_pod_ip))"

lemma wait_running_Some:
  assumes "result (wait_running S pod_nm delay n) w = Some ip"
  shows "\<exists>pre r. emits (wait_running S pod_nm delay n) w = pre @ [(get_share_pod S pod_nm, r)] \<and> shows_running r ip"
  using assms
proof (induction n arbitrary: w)
  case 0
  then show ?case by simp
next
  case (Suc n)
  let ?q = "get_share_pod S pod_nm"
  show ?case
  proof (cases "shows_running (answer S ?q w) ip \<and> emits (wait_running S pod_nm delay (Suc n)) w = [(?q, answer S ?q w)]")
    case True
    then show ?thesis by auto
  next
    case False
    let ?w1 = "after (sleep S delay) (after (kcall S (GetPod (share_namespace S) pod_nm) as_pod) w)"
    have "result (wait_running S pod_nm delay n) ?w1 = Some ip \<and>
        emits (wait_running S pod_nm delay (Suc n)) w =
          [(?q, answer S ?q w)] @ emits (sleep S delay) (after (kcall S (GetPod (share_namespace S) pod_nm) as_pod) w) @
            emits (wait_running S pod_nm delay n) ?w1"
      using Suc.prems False by (auto simp: shows_running_def split: sum.splits if_splits)
    with Suc.IH [of ?w1] show ?thesis by (metis append.assoc)
  qed
qed

lemma wait_running_None:
  assumes "result (wait_running S pod_nm delay n) w = None"
  shows "length (filter (\<lambda>q. q = get_share_pod S pod_nm) (reqs (wait_running S pod_nm delay n) w)) = n"
    and "(get_share_pod S pod_nm, r) \<in> set (emits (wait_running S pod_nm delay n) w) \<Longrightarrow> \<not> shows_running r ip"
  using assms
  by (induction n arbitrary: w) (auto simp: shows_running_def split: sum.splits if_splits)

text \<open>How long a program sleeps.\<close>

fun slept :: "req \<Rightarrow> nat" where
  "slept (HReq (Sleep ms)) = ms"
| "slept q = 0"

definition slept_total :: "req list \<Rightarrow> nat" where
  "slept_total qs = sum_list (map slept qs)"

lemma slept_total_simps [simp]:
  "slept_total [] = 0" "slept_total (q # qs) = slept q + slept_total qs"
  "slept_total (xs @ ys) = slept_total xs + slept_total ys"
  by (simp_all add: slept_total_def)

lemma slept_wait:
  "slept_total (reqs (wait_deleted S pod_nm delay n) w) \<le> n * delay"
  "slept_total (reqs (wait_running S pod_nm delay n) w) \<le> n * delay"
proof -
  show "slept_total (reqs (wait_deleted S pod_nm delay n) w) \<le> n * delay"
    by (induction n arbitrary: w) (auto intro: add_left_mono)
  show "slept_total (reqs (wait_running S pod_nm delay n) w) \<le> n * delay"
    by (induction n arbitrary: w) (auto split: sum.split)
qed

lemma slept_pick [simp]: "slept_total (reqs (pick_node S avoid) w) = 0"
  by (simp add: pick_node_def split: sum.split)

lemma slept_parts [simp]:
  "slept_total (reqs (ensure_backing_pvc S name sz sc) w) = 0"
  "slept_total (reqs (ensure_volume_service S name) w) = 0"
  "slept_total (reqs (ensure_share_pod S name claim ns) w) = 0"
  "slept_total (reqs (clean_up S vn) w) = 0"
  by (simp_all add: ensure_backing_pvc_def ensure_volume_service_def ensure_share_pod_def clean_up_def Let_def
      split: sum.split)

lemma slept_replace: "slept_total (reqs (replace_stuck_pod S d pod_nm) w) \<le> fst (startup_poll d) * snd (startup_poll d)"
  using slept_wait(1) by (auto simp: replace_stuck_pod_def split: sum.split)

text \<open>Requests that touch neither claims nor services by deleting them.\<close>

fun deletes_claim :: "req \<Rightarrow> bool" where
  "deletes_claim (KReq (DeletePvc _ _)) = True"
| "deletes_claim (KReq (DeleteSvc _ _)) = True"
| "deletes_claim _ = False"

definition keeps_claim :: "req list \<Rightarrow> bool" where
  "keeps_claim qs \<longleftrightarrow> (\<forall>q\<in>set qs. \<not> deletes_claim q)"

lemma keeps_claim_simps [simp]:
  "keeps_claim []" "keeps_claim (q # qs) \<longleftrightarrow> \<not> deletes_claim q \<and> keeps_claim qs"
  "keeps_claim (xs @ ys) \<longleftrightarrow> keeps_claim xs \<and> keeps_claim ys"
  by (auto simp: keeps_claim_def)

lemma keeps_claim_parts [simp]:
  "keeps_claim (reqs (pick_node S avoid) w)"
  "keeps_claim (reqs (ensure_backing_pvc S name sz sc) w)"
  "keeps_claim (reqs (ensure_volume_service S name) w)"
  "keeps_claim (reqs (wait_deleted S pod_nm delay n) w)"
  "keeps_claim (reqs (wait_running S pod_nm delay n) w)"
  by (simp_all add: pick_node_def ensure_backing_pvc_def ensure_volume_service_def Let_def split: sum.split)
     (auto simp: keeps_claim_def dest!: wait_deleted_reqs wait_running_reqs)

lemma keeps_claim_pods [simp]:
  "keeps_claim (reqs (ensure_share_pod S name claim ns) w)"
  "keeps_claim (reqs (replace_stuck_pod S d pod_nm) w)"
  by (simp_all add: ensure_share_pod_def replace_stuck_pod_def Let_def split: sum.split)

text \<open>The requests of the clean-up.\<close>

definition clean_up_requests :: "('s, 'z) sys_scheme \<Rightarrow> string \<Rightarrow> req list" where
  "clean_up_requests S name =
     [KReq (DeletePod (share_namespace S) (share_pod_name (volume_name name))),
      KReq (DeletePvc (share_namespace S) (backing_pvc_name (volume_name name))),
      KReq (DeleteSvc (share_namespace S) (volume_name name))]"

lemma clean_up_obs [simp]:
  "reqs (clean_up S (volume_name name)) w = clean_up_requests S name"
  "result (clean_up S vn) w = Inl (Status DeadlineExceeded ''share-manager pod did not become ready'')"
  by (simp_all add: clean_up_def clean_up_requests_def Let_def)

lemma ensure_internal:
  "result (ensure_backing_pvc S name sz sc) w = Inl e \<Longrightarrow> code e = Internal"
  "result (ensure_volume_service S name) w = Inl e \<Longrightarrow> code e = Internal"
  "result (ensure_share_pod S name claim ns) w = Inl e \<Longrightarrow> code e = Internal"
  by (auto simp: ensure_backing_pvc_def ensure_volume_service_def ensure_share_pod_def st_def Let_def
      split: sum.splits if_splits)

lemma create_volume_Inl:
  assumes "result (create_volume S d req) w = Inl e"
  shows "code e = DeadlineExceeded \<and>
      (\<exists>pre. reqs (create_volume S d req) w = pre @ clean_up_requests S (cv_name req) \<and> keeps_claim pre) \<or>
    code e = Internal \<and> keeps_claim (reqs (create_volume S d req) w)"
  using assms unfolding create_volume_def Let_def
  by (auto dest: ensure_internal split: sum.splits option.splits)

text \<open>A success comes from the last wait.\<close>

definition finish_volume ::
  "('s, 'z) sys_scheme \<Rightarrow> CsiDriver \<Rightarrow> CreateVolumeRequest \<Rightarrow> ('s, grpc_Status + Volume) io" where
  "finish_volume S d req = do {
     ip \<leftarrow> wait_running S (share_pod_name (volume_name (cv_name req))) (snd (startup_poll d)) (fst (startup_poll d));
     case ip of
       Some pod_ip \<Rightarrow> State_Monad.return (Inr (created_volume req pod_ip))
     | None \<Rightarrow> clean_up S (volume_name (cv_name req)) }"

lemma traced_finish [simp]: "traced (finish_volume S d req)"
  by (simp add: finish_volume_def)

lemma create_volume_Inr:
  assumes "result (create_volume S d req) w = Inr vol"
  shows "\<exists>pre w'. emits (create_volume S d req) w = pre @ emits (finish_volume S d req) w' \<and>
      keeps_claim (map fst pre) \<and> result (finish_volume S d req) w' = Inr vol"
proof -
  let ?n = "cv_name req"
  let ?sc = "case cv_parameters req ''backingStorageClass'' of Some c \<Rightarrow> c | None \<Rightarrow> backing_storage_class S"
  let ?A = "ensure_backing_pvc S ?n (show_int (requested_gib (cv_capacity_range req)) @ ''Gi'') ?sc"
  let ?B = "ensure_volume_service S ?n"
  let ?C = "replace_stuck_pod S d (share_pod_name (volume_name ?n))"
  let ?D = "ensure_share_pod S ?n (or_empty (cv_parameters req ''csi.storage.k8s.io/pvc/name''))
      (or_empty (cv_parameters req ''csi.storage.k8s.io/pvc/namespace''))"
  let ?w1 = "after ?A w" let ?w2 = "after ?B ?w1" let ?w3 = "after ?C ?w2" let ?w4 = "after ?D ?w3"
  have unfold: "create_volume S d req =
      bindE ?A (\<lambda>_. bindE ?B (\<lambda>_. do { _ \<leftarrow> ?C; bindE ?D (\<lambda>_. finish_volume S d req) }))"
    by (simp add: create_volume_def finish_volume_def Let_def)
  obtain a where a: "result ?A w = Inr a" using assms by (cases "result ?A w") (auto simp: unfold)
  obtain b where b: "result ?B ?w1 = Inr b" using assms a by (cases "result ?B ?w1") (auto simp: unfold)
  obtain c where c: "result ?D ?w3 = Inr c" using assms a b by (cases "result ?D ?w3") (auto simp: unfold)
  have "emits (create_volume S d req) w =
      (emits ?A w @ emits ?B ?w1 @ emits ?C ?w2 @ emits ?D ?w3) @ emits (finish_volume S d req) ?w4"
    using a b c by (simp add: unfold)
  moreover have "keeps_claim (map fst (emits ?A w @ emits ?B ?w1 @ emits ?C ?w2 @ emits ?D ?w3))"
    by (simp add: reqs_def [symmetric])
  moreover have "result (finish_volume S d req) ?w4 = Inr vol" using assms a b c by (simp add: unfold)
  ultimately show ?thesis by blast
qed

text \<open>
  What a failure is: either an internal error of one of the steps that provision, before the
  wait for the pod, or a wait that used up its attempts and the clean-up after it.
\<close>

definition made_pod :: "req \<times> resp \<Rightarrow> bool" where
  "made_pod qr \<longleftrightarrow> (\<exists>ns p. fst qr = KReq (CreatePod ns p)) \<and> is_ok (decode as_pod (snd qr))"

lemma made_pod_parts:
  "qr \<in> set (emits (ensure_backing_pvc S name sz sc) w) \<Longrightarrow> \<not> made_pod qr"
  "qr \<in> set (emits (ensure_volume_service S name) w) \<Longrightarrow> \<not> made_pod qr"
  "qr \<in> set (emits (wait_deleted S pod_nm delay n) w) \<Longrightarrow> \<not> made_pod qr"
  "qr \<in> set (emits (replace_stuck_pod S d pod_nm) w) \<Longrightarrow> \<not> made_pod qr"
proof -
  show "qr \<in> set (emits (ensure_backing_pvc S name sz sc) w) \<Longrightarrow> \<not> made_pod qr"
    "qr \<in> set (emits (ensure_volume_service S name) w) \<Longrightarrow> \<not> made_pod qr"
    by (auto simp: ensure_backing_pvc_def ensure_volume_service_def made_pod_def Let_def split: if_splits sum.splits)
  show waits: "\<not> made_pod qr" if "qr \<in> set (emits (wait_deleted S pod_nm delay n) w)" for pod_nm delay n w
    using wait_deleted_reqs [of "fst qr" S pod_nm delay n w] that by (auto simp: made_pod_def reqs_def)
  show "qr \<in> set (emits (replace_stuck_pod S d pod_nm) w) \<Longrightarrow> \<not> made_pod qr"
    by (auto simp: replace_stuck_pod_def dest: waits split: if_splits sum.splits) (simp_all add: made_pod_def)
qed

lemma made_pod_ensure:
  "result (ensure_share_pod S name claim ns) w = Inl e \<Longrightarrow> qr \<in> set (emits (ensure_share_pod S name claim ns) w) \<Longrightarrow>
    \<not> made_pod qr"
  by (auto simp: ensure_share_pod_def pick_node_def made_pod_def Let_def split: if_splits sum.splits)

lemma wait_running_None_reqs:
  "result (wait_running S pod_nm delay n) w = None \<Longrightarrow>
    reqs (wait_running S pod_nm delay n) w = concat (replicate n [get_share_pod S pod_nm, HReq (Sleep delay)])"
  by (induction n arbitrary: w) (auto split: sum.splits if_splits)

lemma create_volume_failed:
  assumes "result (create_volume S d req) w = Inl e"
  shows "(\<exists>pre w'. emits (create_volume S d req) w = pre @ emits (finish_volume S d req) w' \<and>
      keeps_claim (map fst pre) \<and> result (finish_volume S d req) w' = Inl e) \<or>
    code e = Internal \<and> keeps_claim (reqs (create_volume S d req) w) \<and>
      (\<forall>qr\<in>set (emits (create_volume S d req) w). \<not> made_pod qr)"
proof -
  let ?n = "cv_name req"
  let ?sc = "case cv_parameters req ''backingStorageClass'' of Some c \<Rightarrow> c | None \<Rightarrow> backing_storage_class S"
  let ?A = "ensure_backing_pvc S ?n (show_int (requested_gib (cv_capacity_range req)) @ ''Gi'') ?sc"
  let ?B = "ensure_volume_service S ?n"
  let ?C = "replace_stuck_pod S d (share_pod_name (volume_name ?n))"
  let ?D = "ensure_share_pod S ?n (or_empty (cv_parameters req ''csi.storage.k8s.io/pvc/name''))
      (or_empty (cv_parameters req ''csi.storage.k8s.io/pvc/namespace''))"
  let ?w1 = "after ?A w" let ?w2 = "after ?B ?w1" let ?w3 = "after ?C ?w2" let ?w4 = "after ?D ?w3"
  have unfold: "create_volume S d req =
      bindE ?A (\<lambda>_. bindE ?B (\<lambda>_. do { _ \<leftarrow> ?C; bindE ?D (\<lambda>_. finish_volume S d req) }))"
    by (simp add: create_volume_def finish_volume_def Let_def)
  consider (A) a where "result ?A w = Inl a"
    | (B) a b where "result ?A w = Inr a" "result ?B ?w1 = Inl b"
    | (D) a b c where "result ?A w = Inr a" "result ?B ?w1 = Inr b" "result ?D ?w3 = Inl c"
    | (ok) a b c where "result ?A w = Inr a" "result ?B ?w1 = Inr b" "result ?D ?w3 = Inr c"
    by (metis sum.exhaust_sel)
  then show ?thesis
  proof cases
    case ok
    have "emits (create_volume S d req) w =
        (emits ?A w @ emits ?B ?w1 @ emits ?C ?w2 @ emits ?D ?w3) @ emits (finish_volume S d req) ?w4"
      using ok by (simp add: unfold)
    moreover have "keeps_claim (map fst (emits ?A w @ emits ?B ?w1 @ emits ?C ?w2 @ emits ?D ?w3))"
      by (simp add: reqs_def [symmetric])
    moreover have "result (finish_volume S d req) ?w4 = Inl e" using assms ok by (simp add: unfold)
    ultimately show ?thesis by blast
  next
    case A
    then have "code e = Internal" "emits (create_volume S d req) w = emits ?A w"
      using assms by (auto simp: unfold dest: ensure_internal(1))
    moreover from this(2) have "reqs (create_volume S d req) w = reqs ?A w" by (simp add: reqs_def)
    ultimately show ?thesis by (intro disjI2) (auto dest: made_pod_parts(1))
  next
    case B
    then have "code e = Internal" "emits (create_volume S d req) w = emits ?A w @ emits ?B ?w1"
      using assms by (auto simp: unfold dest: ensure_internal(2))
    moreover from this(2) have "reqs (create_volume S d req) w = reqs ?A w @ reqs ?B ?w1" by (simp add: reqs_def)
    ultimately show ?thesis by (intro disjI2) (auto dest: made_pod_parts(1,2))
  next
    case D
    then have "code e = Internal"
        "emits (create_volume S d req) w = emits ?A w @ emits ?B ?w1 @ emits ?C ?w2 @ emits ?D ?w3"
      using assms by (auto simp: unfold dest: ensure_internal(3))
    moreover from this(2) have "reqs (create_volume S d req) w = reqs ?A w @ reqs ?B ?w1 @ reqs ?C ?w2 @ reqs ?D ?w3"
      by (simp add: reqs_def)
    ultimately show ?thesis using D(3) by (intro disjI2) (auto dest: made_pod_parts(1,2,4) made_pod_ensure)
  qed
qed

subsection \<open>Lemmas: what is created\<close>

text \<open>Why an object is created: a lookup of it failed, and it is the specified one.\<close>

fun create_ok :: "('s, 'z) sys_scheme \<Rightarrow> CreateVolumeRequest \<Rightarrow> trace \<Rightarrow> req \<Rightarrow> bool" where
  "create_ok S req tr (KReq (CreatePvc ns p)) \<longleftrightarrow> ns = share_namespace S \<and>
     (\<exists>r. (KReq (GetPvc ns (backing_pvc_name (volume_name (cv_name req)))), r) \<in> set tr \<and> \<not> is_ok (decode as_pvc r)) \<and>
     (\<exists>sc. pvc_from_value S (backing_pvc_json S (cv_name req) (show_int (requested_gib (cv_capacity_range req)) @ ''Gi'') sc) = Inr p)"
| "create_ok S req tr (KReq (CreateSvc ns s)) \<longleftrightarrow> ns = share_namespace S \<and>
     (\<exists>r. (KReq (GetSvc ns (volume_name (cv_name req))), r) \<in> set tr \<and> \<not> is_ok (decode as_svc r)) \<and>
     svc_from_value S (service_json S (cv_name req)) = Inr s"
| "create_ok S req tr (KReq (CreatePod ns p)) \<longleftrightarrow> ns = share_namespace S \<and>
     (\<exists>r. (get_share_pod S (share_pod_name (volume_name (cv_name req))), r) \<in> set tr \<and> \<not> is_ok (decode as_pod r)) \<and>
     (\<exists>node. pod_from_value S (share_pod_json S (cv_name req) node
        (or_empty (cv_parameters req ''csi.storage.k8s.io/pvc/name''))
        (or_empty (cv_parameters req ''csi.storage.k8s.io/pvc/namespace''))) = Inr p)"
| "create_ok S req tr (KReq (CreateCm _ _)) = False"
| "create_ok S req tr (KReq (PatchCm _ _ _)) = False"
| "create_ok S req tr q = True"

definition creates_ok :: "('s, 'z) sys_scheme \<Rightarrow> CreateVolumeRequest \<Rightarrow> trace \<Rightarrow> bool" where
  "creates_ok S req tr \<longleftrightarrow> (\<forall>q\<in>fst ` set tr. create_ok S req tr q)"

lemma create_ok_mono: "create_ok S req tr q \<Longrightarrow> set tr \<subseteq> set tr' \<Longrightarrow> create_ok S req tr' q"
  by (induction S req tr q rule: create_ok.induct) auto

lemma creates_ok_append:
  "creates_ok S req xs \<Longrightarrow> creates_ok S req ys \<Longrightarrow> creates_ok S req (xs @ ys)"
  unfolding creates_ok_def using create_ok_mono [of S req xs _ "xs @ ys"] create_ok_mono [of S req ys _ "xs @ ys"] by auto

lemma creates_ok_quiet:
  "\<forall>q\<in>set (reqs m w). \<forall>tr. create_ok S req tr q \<Longrightarrow> creates_ok S req (emits m w)"
  by (auto simp: creates_ok_def reqs_def)

lemma creates_ok_ensure:
  "creates_ok S req (emits (ensure_backing_pvc S (cv_name req) (show_int (requested_gib (cv_capacity_range req)) @ ''Gi'') sc) w)"
  "creates_ok S req (emits (ensure_volume_service S (cv_name req)) w)"
  by (auto simp: ensure_backing_pvc_def ensure_volume_service_def Let_def creates_ok_def split: sum.split)

lemma creates_ok_share_pod:
  "creates_ok S req (emits (ensure_share_pod S (cv_name req)
      (or_empty (cv_parameters req ''csi.storage.k8s.io/pvc/name''))
      (or_empty (cv_parameters req ''csi.storage.k8s.io/pvc/namespace''))) w)"
  by (auto simp: ensure_share_pod_def Let_def creates_ok_def dest!: reqs_emits pick_node_reads split: sum.split)

lemma creates_ok_pods:
  "creates_ok S req (emits (wait_running S pod_nm delay n) w)"
  "creates_ok S req (emits (replace_stuck_pod S d pod_nm) w)"
  "creates_ok S req (emits (clean_up S vn) w)"
proof -
  show "creates_ok S req (emits (wait_running S pod_nm delay n) w)"
    by (rule creates_ok_quiet) (auto dest!: wait_running_reqs)
  show "creates_ok S req (emits (replace_stuck_pod S d pod_nm) w)"
    by (rule creates_ok_quiet)
       (auto simp: replace_stuck_pod_def dest!: wait_deleted_reqs split: sum.splits if_splits)
  show "creates_ok S req (emits (clean_up S vn) w)"
    by (rule creates_ok_quiet) (auto simp: clean_up_def Let_def)
qed

lemma creates_ok_create_volume: "creates_ok S req (emits (create_volume S d req) w)"
  unfolding create_volume_def Let_def
  by (auto split: sum.split option.split
        intro!: creates_ok_append creates_ok_ensure creates_ok_share_pod creates_ok_pods)

subsection \<open>Lemmas: the node side\<close>

lemma traced_node [simp, traced_intro]:
  "traced (http_json S url t)" "traced (run_command S program args t)"
  by (simp_all add: http_json_def run_command_def)

lemma traced_node2 [simp, traced_intro]:
  "traced (resolve_current_endpoint S v)" "traced (node_unpublish_volume S target)"
  by (simp_all add: resolve_current_endpoint_def node_unpublish_volume_def)

lemma traced_publish [simp, traced_intro]: "traced (node_publish_volume S v target)"
  by (simp add: node_publish_volume_def Let_def)

definition endpoint_url :: "string \<Rightarrow> string" where
  "endpoint_url cluster_ip = ''http://'' @ cluster_ip @ '':9500/endpoint''"

text \<open>The trace of a resolution: the service, then its HTTP endpoint.\<close>

definition resolves :: "('s, 'z) dsys_scheme \<Rightarrow> string \<Rightarrow> trace \<Rightarrow> string \<Rightarrow> bool" where
  "resolves S v tr endpoint \<longleftrightarrow>
     (\<exists>r svc ip status body. tr = [(KReq (GetSvc (share_namespace S) (volume_name v)), r),
          (HttpGet (endpoint_url ip) 5, HttpResp (Inr (status, Inr body)))] \<and>
        decode as_svc r = Inr svc \<and> service_ip svc = Some ip \<and> \<not> (400 \<le> status \<and> status < 600) \<and>
        reported_endpoint body = Some endpoint)"

lemma resolve_Inr:
  "result (resolve_current_endpoint S v) w = Inr e \<Longrightarrow> resolves S v (emits (resolve_current_endpoint S v) w) e"
  by (auto simp: resolve_current_endpoint_def resolves_def endpoint_url_def http_json_def after_acall
      split: sum.splits option.splits resp.splits if_splits prod.splits)

lemma resolve_reqs:
  "q \<in> set (reqs (resolve_current_endpoint S v) w) \<Longrightarrow>
     q = KReq (GetSvc (share_namespace S) (volume_name v)) \<or> (\<exists>ip. q = HttpGet (endpoint_url ip) 5)"
  by (auto simp: resolve_current_endpoint_def http_json_def endpoint_url_def split: sum.splits option.splits)

lemma split_on_parts: "x \<in> set (split_on c s) \<Longrightarrow> c \<notin> set x"
proof (induction s arbitrary: x)
  case (Cons a s)
  then show ?case by (cases "split_on c s") (auto split: if_splits)
qed simp

lemma split_on_length: "length (split_on c s) = Suc (length (filter (\<lambda>x. x = c) s))"
proof (induction s)
  case (Cons a s)
  then show ?case by (cases "split_on c s") auto
qed simp

lemma slept_clean_up [simp]: "slept_total (clean_up_requests S name) = 0"
  by (simp add: clean_up_requests_def)

subsection \<open>Concrete clusters\<close>

definition req0 :: CreateVolumeRequest where
  "req0 = \<lparr>cv_name = ''pvc-1'', cv_capacity_range = Some 1, cv_parameters = (\<lambda>_. None)\<rparr>"

definition driver0 :: CsiDriver where
  "driver0 = \<lparr>startup_poll = (2, 1)\<rparr>"

definition running_cluster :: cluster where
  "running_cluster = empty_cluster\<lparr>cl_pods := [((''hcloud-csi-rwx'', ''share-manager-pvc-1''),
     mk_pod ''share-manager-pvc-1'' ''node-1'' ''Running'')]\<rparr>"

text \<open>A claim left by an earlier call, and a node that never brings the pod up.\<close>

definition claim_cluster :: cluster where
  "claim_cluster = empty_cluster\<lparr>cl_nodes := [mk_node ''node-1'' True],
     cl_pvcs := [((''hcloud-csi-rwx'', ''pvc-1-backing''),
       \<lparr>pvc_name = Some ''pvc-1-backing'', pvc_namespace = Some ''hcloud-csi-rwx'', pvc_deletion_timestamp = None,
        pvc_spec = None\<rparr>)]\<rparr>"

definition service_cluster :: cluster where
  "service_cluster = empty_cluster\<lparr>cl_svcs := [((''hcloud-csi-rwx'', ''pvc-1''),
     \<lparr>svc_name = Some ''pvc-1'', svc_spec = Some \<lparr>svs_cluster_ip = Some ''10.43.0.9''\<rparr>\<rparr>)]\<rparr>"

definition mem_dsys :: "cluster dsys" where
  "mem_dsys =
     \<lparr>srv = mem_srv, env_var = (\<lambda>_. None), kube_display = mem_display,
      pod_from_value = mem_pod_from_value, svc_from_value = mem_svc_from_value,
      pvc_from_value = mem_pvc_from_value, http_status_display = (\<lambda>n u. ''HTTP status '' @ show_nat n)\<rparr>"

text \<open>A share-manager that reports an endpoint.\<close>

definition live_dsys :: "cluster dsys" where
  "live_dsys = mem_dsys\<lparr>srv := (\<lambda>q c. case q of
       HttpGet url t \<Rightarrow> (HttpResp (Inr (200, Inr (JObj [(''endpoint'', JStr ''10.0.0.7:/pvc-1'')]))), c)
     | _ \<Rightarrow> mem_srv q c)\<rparr>"

lemma create_on_running: "is_ok (result (create_volume mem_sys driver0 req0) (mem_world running_cluster))"
  by code_simp

lemma create_on_claim:
  "result (create_volume mem_sys driver0 req0) (mem_world claim_cluster) =
     Inl (Status DeadlineExceeded ''share-manager pod did not become ready'')"
  by code_simp

subsection \<open>Properties: provisioning\<close>

text \<open>
  C11. A volume is reported as created only when the last thing the driver saw is its
  share-manager pod in phase Running; the answer carries the requested name, the rounded
  capacity and the endpoint made of the address of that pod, and neither the backing claim
  nor the service was deleted on the way.
\<close>

theorem create_volume_succeeds:
  assumes "result (create_volume S d req) w = Inr vol"
  shows "(\<exists>pre r ip. emits (create_volume S d req) w =
        pre @ [(get_share_pod S (share_pod_name (volume_name (cv_name req))), r)] \<and> shows_running r ip \<and>
      vl_volume_id vol = cv_name req \<and>
      vl_capacity_bytes vol = wrap_i64 (requested_gib (cv_capacity_range req) * GIB) \<and>
      vl_context vol = [(''nfsEndpoint'', ip @ '':/'' @ cv_name req)]) \<and>
    keeps_claim (reqs (create_volume S d req) w)"
proof -
  let ?pod = "share_pod_name (volume_name (cv_name req))"
  let ?wait = "wait_running S ?pod (snd (startup_poll d)) (fst (startup_poll d))"
  obtain pre w' where split: "emits (create_volume S d req) w = pre @ emits (finish_volume S d req) w'"
    and fin: "keeps_claim (map fst pre)" "result (finish_volume S d req) w' = Inr vol"
    using create_volume_Inr [OF assms] by blast
  then obtain ip where ip: "result ?wait w' = Some ip" "vol = created_volume req ip"
    by (auto simp: finish_volume_def split: option.splits)
  then have em: "emits (finish_volume S d req) w' = emits ?wait w'" by (simp add: finish_volume_def)
  obtain pre' r where last: "emits ?wait w' = pre' @ [(get_share_pod S ?pod, r)]" "shows_running r ip"
    using wait_running_Some [OF ip(1)] by blast
  have "keeps_claim (reqs (create_volume S d req) w)"
    using fin(1) keeps_claim_parts(5) by (simp add: reqs_def split em)
  moreover have "emits (create_volume S d req) w = (pre @ pre') @ [(get_share_pod S ?pod, r)]"
    using last(1) by (simp add: split em)
  ultimately show ?thesis using last(2) ip(2) unfolding created_volume_def by fastforce
qed

theorem create_volume_succeeds_witness:
  "\<exists>vol pre r ip. result (create_volume mem_sys driver0 req0) (mem_world running_cluster) = Inr vol \<and>
     emits (create_volume mem_sys driver0 req0) (mem_world running_cluster) =
       pre @ [(get_share_pod mem_sys (share_pod_name (volume_name (cv_name req0))), r)] \<and> shows_running r ip \<and>
     vl_context vol = [(''nfsEndpoint'', ip @ '':/'' @ cv_name req0)]"
proof -
  obtain vol where vol: "result (create_volume mem_sys driver0 req0) (mem_world running_cluster) = Inr vol"
    using create_on_running by (auto simp: is_ok_iff)
  from create_volume_succeeds [OF vol] vol show ?thesis by blast
qed

text \<open>
  C12. A failed CreateVolume asks for the deletion of pod, backing claim and service, or of
  neither claim nor service. A DeadlineExceeded means that the last thing it did was to look at
  the pod as often as configured, none of the answers showing it running, and then to ask for
  the deletion of the pod, the backing claim and the service of the volume, in this order and
  whatever was answered; no claim or service was deleted before. Any other error is Internal:
  then no pod was created and no claim and no service was deleted, so that a claim or service
  that the call has created stays in place for the retry.
\<close>

theorem create_volume_fails:
  assumes "result (create_volume S d req) w = Inl e"
  shows "code e = DeadlineExceeded \<and>
      (\<exists>pre polls cleaned. emits (create_volume S d req) w = pre @ polls @ cleaned \<and> keeps_claim (map fst pre) \<and>
        map fst polls = concat (replicate (fst (startup_poll d))
          [get_share_pod S (share_pod_name (volume_name (cv_name req))), HReq (Sleep (snd (startup_poll d)))]) \<and>
        (\<forall>(q, r)\<in>set polls. q = get_share_pod S (share_pod_name (volume_name (cv_name req))) \<longrightarrow>
          (\<forall>ip. \<not> shows_running r ip)) \<and>
        map fst cleaned = clean_up_requests S (cv_name req)) \<or>
    code e = Internal \<and> keeps_claim (reqs (create_volume S d req) w) \<and>
      (\<forall>qr\<in>set (emits (create_volume S d req) w). \<not> made_pod qr)"
  using create_volume_failed [OF assms]
proof (elim disjE exE conjE)
  let ?wait = "wait_running S (share_pod_name (volume_name (cv_name req))) (snd (startup_poll d)) (fst (startup_poll d))"
  fix pre w'
  assume split: "emits (create_volume S d req) w = pre @ emits (finish_volume S d req) w'"
    "keeps_claim (map fst pre)" "result (finish_volume S d req) w' = Inl e"
  then have none: "result ?wait w' = None" by (auto simp: finish_volume_def split: option.splits)
  let ?cleaned = "emits (clean_up S (volume_name (cv_name req))) (after ?wait w')"
  have "code e = DeadlineExceeded" "emits (create_volume S d req) w = pre @ emits ?wait w' @ ?cleaned"
    using split none by (auto simp: finish_volume_def)
  moreover have "map fst ?cleaned = clean_up_requests S (cv_name req)"
    by (simp add: reqs_def [symmetric])
  moreover have "map fst (emits ?wait w') = concat (replicate (fst (startup_poll d))
      [get_share_pod S (share_pod_name (volume_name (cv_name req))), HReq (Sleep (snd (startup_poll d)))])"
    using wait_running_None_reqs [OF none] by (simp add: reqs_def)
  moreover have "\<forall>(q, r)\<in>set (emits ?wait w'). q = get_share_pod S (share_pod_name (volume_name (cv_name req))) \<longrightarrow>
      (\<forall>ip. \<not> shows_running r ip)"
    using wait_running_None(2) [OF none] by blast
  ultimately show ?thesis using split(2) by blast
qed simp

theorem create_volume_fails_witness:
  "\<exists>pre polls cleaned. emits (create_volume mem_sys driver0 req0) (mem_world claim_cluster) = pre @ polls @ cleaned \<and>
     length polls = 2 * fst (startup_poll driver0) \<and> map fst cleaned = clean_up_requests mem_sys (cv_name req0)"
proof -
  from create_volume_fails [OF create_on_claim]
  obtain pre polls cleaned where *: "emits (create_volume mem_sys driver0 req0) (mem_world claim_cluster) = pre @ polls @ cleaned"
    "map fst polls = concat (replicate (fst (startup_poll driver0))
      [get_share_pod mem_sys (share_pod_name (volume_name (cv_name req0))), HReq (Sleep (snd (startup_poll driver0)))])"
    "map fst cleaned = clean_up_requests mem_sys (cv_name req0)"
    by auto
  have "length polls = 2 * fst (startup_poll driver0)"
    using arg_cong [OF *(2), of length] by (simp add: length_concat sum_list_replicate)
  with * show ?thesis by blast
qed

text \<open>
  C16. CreateVolume creates only what is missing: a backing claim, a service or a pod is created
  only after a lookup of it in the same call failed, in the driver's namespace and as the
  specification of this volume says; it never creates or changes a ConfigMap.
\<close>

theorem create_volume_creates_missing:
  assumes "(q, r) \<in> set (emits (create_volume S d req) w)"
  shows "create_ok S req (emits (create_volume S d req) w) q"
  using assms creates_ok_create_volume [of S req d w] by (force simp: creates_ok_def)

theorem create_volume_creates_missing_witness:
  "\<exists>q r. (q, r) \<in> set (emits (create_volume mem_sys driver0 req0) (mem_world claim_cluster)) \<and>
     (\<exists>ns p. q = KReq (CreatePod ns p)) \<and>
     create_ok mem_sys req0 (emits (create_volume mem_sys driver0 req0) (mem_world claim_cluster)) q"
proof -
  have "list_ex (\<lambda>q. case q of KReq (CreatePod ns p) \<Rightarrow> True | _ \<Rightarrow> False)
      (map fst (emits (create_volume mem_sys driver0 req0) (mem_world claim_cluster)))"
    by code_simp
  then obtain q r where qr: "(q, r) \<in> set (emits (create_volume mem_sys driver0 req0) (mem_world claim_cluster))"
    "case q of KReq (CreatePod ns p) \<Rightarrow> True | _ \<Rightarrow> False"
    by (auto simp: list_ex_iff)
  then have "\<exists>ns p. q = KReq (CreatePod ns p)" by (auto split: req.splits kreq.splits)
  with qr(1) create_volume_creates_missing [OF qr(1)] show ?thesis by blast
qed

text \<open>
  C32. The polling of CreateVolume is bounded: it sleeps at most twice the number of attempts
  times the delay, once for a stuck pod to go and once for the new one to run, whatever the
  API server answers.
\<close>

theorem create_volume_sleeps:
  "slept_total (reqs (create_volume S d req) w) \<le> 2 * (fst (startup_poll d) * snd (startup_poll d))"
proof -
  have replace: "slept_total (reqs (replace_stuck_pod S d p) w) \<le> 2 * (fst (startup_poll d) * snd (startup_poll d))" for p w
    using slept_replace [of S d p w] by simp
  have both: "slept_total (reqs (replace_stuck_pod S d p) w) +
      slept_total (reqs (wait_running S p (snd (startup_poll d)) (fst (startup_poll d))) w') \<le>
      2 * (fst (startup_poll d) * snd (startup_poll d))" for p w w'
    using add_mono [OF slept_replace slept_wait(2)] by (simp add: mult_2)
  show ?thesis
    unfolding create_volume_def Let_def
    by (simp add: replace both split: sum.split option.split)
qed

text \<open>
  C37. When the share-manager does not come up in time, the clean-up deletes the backing claim
  even when the first request of the call found that it already existed, so a retried
  CreateVolume can delete the data of a volume that was provisioned before.
\<close>

theorem timeout_deletes_existing_claim:
  assumes "is_ok (decode as_pvc (answer S (KReq (GetPvc (share_namespace S) (backing_pvc_name (volume_name (cv_name req))))) w))"
    and "result (create_volume S d req) w = Inl e" "code e = DeadlineExceeded"
  shows "\<exists>mid. reqs (create_volume S d req) w =
     KReq (GetPvc (share_namespace S) (backing_pvc_name (volume_name (cv_name req)))) #
     KReq (GetSvc (share_namespace S) (volume_name (cv_name req))) # mid @ clean_up_requests S (cv_name req)"
proof -
  obtain pre where pre: "reqs (create_volume S d req) w = pre @ clean_up_requests S (cv_name req)"
    using create_volume_Inl [OF assms(2)] assms(3) by auto
  have "\<exists>rest. reqs (create_volume S d req) w = KReq (GetPvc (share_namespace S) (backing_pvc_name (volume_name (cv_name req)))) #
      KReq (GetSvc (share_namespace S) (volume_name (cv_name req))) # rest"
    using assms(1) by (simp add: create_volume_def Let_def ensure_backing_pvc_def) (simp add: ensure_volume_service_def Let_def)
  then obtain rest where rest: "pre @ clean_up_requests S (cv_name req) =
      KReq (GetPvc (share_namespace S) (backing_pvc_name (volume_name (cv_name req)))) #
      KReq (GetSvc (share_namespace S) (volume_name (cv_name req))) # rest"
    using pre by auto
  obtain q1 q2 mid where "pre = q1 # q2 # mid"
    using rest by (cases pre; cases "tl pre") (auto simp: clean_up_requests_def)
  with pre rest show ?thesis by auto
qed

theorem timeout_deletes_existing_claim_witness:
  "\<exists>mid. reqs (create_volume mem_sys driver0 req0) (mem_world claim_cluster) =
     KReq (GetPvc (share_namespace mem_sys) (backing_pvc_name (volume_name (cv_name req0)))) #
     KReq (GetSvc (share_namespace mem_sys) (volume_name (cv_name req0))) # mid @ clean_up_requests mem_sys (cv_name req0)"
  by (rule timeout_deletes_existing_claim [OF _ create_on_claim])
     (simp_all add: answer_def mem_sys_def mem_world_def claim_cluster_def share_namespace_def env_or_def req0_def
        backing_pvc_name_def volume_name_def replace_chars_def lookup_or_404_def)

text \<open>
  DeleteVolume always succeeds and asks for the deletion of exactly the four objects of the
  volume: pod, backing claim, service and state ConfigMap, each once, whatever the answers.
\<close>

lemma delete_volume_deletes_all:
  "result (delete_volume S name) w = Inr () \<and>
   reqs (delete_volume S name) w =
     clean_up_requests S name @ [KReq (DeleteCm (share_namespace S) (state_cm_name (volume_name name)))]"
  by (simp add: delete_volume_def clean_up_requests_def Let_def)

lemma publish_command:
  assumes "(HReq (CmdStatus program args t), a) \<in> set (emits (node_publish_volume S v target) w)"
  shows "\<exists>tr endpoint b.
     emits (node_publish_volume S v target) w =
       tr @ [(HReq (CreateDirAll target), b), (HReq (CmdStatus program args t), a)] \<and>
     resolves S v tr endpoint \<and> endpoint_server endpoint \<noteq> [] \<and> endpoint_path endpoint \<noteq> [] \<and>
     program = ''mount'' \<and> t = 30 \<and>
     args = mount_args (endpoint_server endpoint @ '':'' @ endpoint_path endpoint) target"
proof -
  let ?em = "emits (node_publish_volume S v target) w"
  let ?res = "resolve_current_endpoint S v" let ?w1 = "after ?res w"
  have quiet: "(HReq (CmdStatus program args t), a) \<notin> set (emits ?res w)"
    by (auto dest!: reqs_emits resolve_reqs)
  obtain endpoint where ep: "result ?res w = Inr endpoint"
    using assms quiet by (cases "result ?res w") (auto simp: node_publish_volume_def Let_def)
  let ?dir = "HReq (CreateDirAll target)" and ?src = "endpoint_server endpoint @ '':'' @ endpoint_path endpoint"
  let ?cmd = "HReq (CmdStatus ''mount'' (mount_args ?src target) 30)"
  have parts: "endpoint_server endpoint \<noteq> [] \<and> endpoint_path endpoint \<noteq> [] \<and>
      ?em = emits ?res w @ [(?dir, answer S ?dir ?w1), (?cmd, answer S ?cmd (after (call S ?dir) ?w1))]"
    using assms quiet ep
    by (auto simp: node_publish_volume_def run_command_def Let_def after_hcall split: sum.splits if_splits)
  then have "(HReq (CmdStatus program args t), a) = (?cmd, answer S ?cmd (after (call S ?dir) ?w1))"
    using assms quiet by auto
  with parts resolve_Inr [OF ep] show ?thesis by auto
qed

subsection \<open>Properties: the node\<close>

text \<open>
  When the current endpoint cannot be resolved, NodePublishVolume fails at once with
  Unavailable and makes no call to the operating system: no directory, no mount.
\<close>

lemma publish_fails_fast:
  assumes "result (resolve_current_endpoint S v) w = Inl e"
  shows "result (node_publish_volume S v target) w = Inl (Status Unavailable (''NFS endpoint not resolvable: '' @ e)) \<and>
    (\<forall>h. HReq h \<notin> set (reqs (node_publish_volume S v target) w))"
  using assms by (auto simp: node_publish_volume_def Let_def dest!: resolve_reqs)

text \<open>
  C19. Every command NodePublishVolume runs is a mount of the endpoint that the share-manager
  reported in this very call, asked for at the address of the volume's service, after the
  target directory was made; it is the last request, with a limit of 30 seconds.
\<close>

theorem publish_mounts_current:
  assumes "(HReq (CmdStatus program args t), a) \<in> set (emits (node_publish_volume S v target) w)"
  shows "\<exists>tr endpoint b.
     emits (node_publish_volume S v target) w =
       tr @ [(HReq (CreateDirAll target), b), (HReq (CmdStatus program args t), a)] \<and>
     resolves S v tr endpoint \<and> endpoint_server endpoint \<noteq> [] \<and> endpoint_path endpoint \<noteq> [] \<and>
     program = ''mount'' \<and> t = 30 \<and>
     args = mount_args (endpoint_server endpoint @ '':'' @ endpoint_path endpoint) target"
  using publish_command [OF assms] .

theorem publish_mounts_current_witness:
  "\<exists>tr endpoint b a.
     emits (node_publish_volume live_dsys ''pvc-1'' ''/target'') (mem_world service_cluster) =
       tr @ [(HReq (CreateDirAll ''/target''), b),
             (HReq (CmdStatus ''mount'' (mount_args ''10.0.0.7:/pvc-1'' ''/target'') 30), a)] \<and>
     resolves live_dsys ''pvc-1'' tr endpoint"
proof -
  let ?q = "HReq (CmdStatus ''mount'' (mount_args ''10.0.0.7:/pvc-1'' ''/target'') 30)"
  have "list_ex (\<lambda>q. q = ?q) (map fst (emits (node_publish_volume live_dsys ''pvc-1'' ''/target'') (mem_world service_cluster)))"
    by code_simp
  then obtain a where "(?q, a) \<in> set (emits (node_publish_volume live_dsys ''pvc-1'' ''/target'') (mem_world service_cluster))"
    by (auto simp: list_ex_iff)
  from publish_mounts_current [OF this] show ?thesis by blast
qed

text \<open>
  C33. The source handed to mount is the reported endpoint, unchanged, exactly when the endpoint
  has one colon: an endpoint with an IPv6 address, or with a colon in the path, is cut.
\<close>

theorem mount_source_exact:
  "endpoint_server endpoint @ '':'' @ endpoint_path endpoint = endpoint \<longleftrightarrow>
     length (filter (\<lambda>c. c = CHR '':'') endpoint) = 1"
proof -
  let ?parts = "split_on (CHR '':'') endpoint"
  have none: "filter (\<lambda>c. c = CHR '':'') x = []" if "x \<in> set ?parts" for x
    using split_on_parts [OF that] by (induction x) auto
  have joined: "join '':'' ?parts = endpoint" using join_split_on [of "CHR '':''" endpoint] by simp
  consider a where "?parts = [a]" | a b where "?parts = [a, b]" | a b c cs where "?parts = a # b # c # cs"
    by (metis split_on_neq_Nil list.exhaust)
  then show ?thesis
  proof cases
    case 1
    then show ?thesis using joined none [of a] by (auto simp: endpoint_server_def endpoint_path_def)
  next
    case 2
    then show ?thesis using joined split_on_length [of "CHR '':''" endpoint]
      by (simp add: endpoint_server_def endpoint_path_def)
  next
    case 3
    have "length (filter (\<lambda>c. c = CHR '':'') (a @ '':'' @ b)) = 1" using 3 none [of a] none [of b] by simp
    moreover have "length (filter (\<lambda>c. c = CHR '':'') endpoint) \<noteq> 1"
      using split_on_length [of "CHR '':''" endpoint] 3 by simp
    ultimately have "a @ '':'' @ b \<noteq> endpoint" by metis
    with \<open>length (filter (\<lambda>c. c = CHR '':'') endpoint) \<noteq> 1\<close> 3 show ?thesis
      by (simp add: endpoint_server_def endpoint_path_def)
  qed
qed

text \<open>
  NodeUnpublishVolume always succeeds: it runs one umount, and a lazy one exactly when the
  first failed, each under a time limit.
\<close>

lemma unpublish_always_ok:
  "result (node_unpublish_volume S target) w = Inr () \<and>
   reqs (node_unpublish_volume S target) w =
     HReq (CmdStatus ''umount'' [target] 20) #
     (if is_ok (result (run_command S ''umount'' [target] 20) w) then []
      else [HReq (CmdStatus ''umount'' [''-l'', target] 10)])"
  by (simp add: node_unpublish_volume_def run_command_def)

end
