(* ===== verification/Lifecycle.thy ===== *)
theory Lifecycle
  imports Failover Csi
begin

text \<open>
  The objects of a volume over its life, across the CSI driver and the controller: every object
  that \<open>create_volume\<close> or \<open>reconcile\<close> creates is one that \<open>delete_volume\<close> deletes.
\<close>

subsection \<open>Every object that is created is deleted with the volume\<close>

text \<open>
  What is relied on of the Kubernetes object types: reading an object from JSON keeps its name.
\<close>

locale named_decoders =
  fixes S :: "('s, 'z) sys_scheme"
  assumes pod_named: "pod_from_value S j = Inr p \<Longrightarrow> jpath_str [''metadata'', ''name''] j = Some n \<Longrightarrow> pod_name p = Some n"
    and svc_named: "svc_from_value S j = Inr s \<Longrightarrow> jpath_str [''metadata'', ''name''] j = Some n \<Longrightarrow> svc_name s = Some n"
    and pvc_named: "pvc_from_value S j = Inr c \<Longrightarrow> jpath_str [''metadata'', ''name''] j = Some n \<Longrightarrow> pvc_name c = Some n"

text \<open>The deletion that undoes a creation.\<close>

fun deletion_of :: "req \<Rightarrow> req option" where
  "deletion_of (KReq (CreatePod ns p)) = map_option (\<lambda>n. KReq (DeletePod ns n)) (pod_name p)"
| "deletion_of (KReq (CreatePvc ns c)) = map_option (\<lambda>n. KReq (DeletePvc ns n)) (pvc_name c)"
| "deletion_of (KReq (CreateSvc ns s)) = map_option (\<lambda>n. KReq (DeleteSvc ns n)) (svc_name s)"
| "deletion_of (KReq (CreateCm ns c)) = map_option (\<lambda>n. KReq (DeleteCm ns n)) (cm_meta_name c)"
| "deletion_of q = None"

fun creates :: "req \<Rightarrow> bool" where
  "creates (KReq (CreatePod _ _)) = True"
| "creates (KReq (CreatePvc _ _)) = True"
| "creates (KReq (CreateSvc _ _)) = True"
| "creates (KReq (CreateCm _ _)) = True"
| "creates q = False"

definition volume_deletions :: "('s, 'z) sys_scheme \<Rightarrow> string \<Rightarrow> req set" where
  "volume_deletions S name =
     {KReq (DeletePod (share_namespace S) (share_pod_name (volume_name name))),
      KReq (DeletePvc (share_namespace S) (backing_pvc_name (volume_name name))),
      KReq (DeleteSvc (share_namespace S) (volume_name name)),
      KReq (DeleteCm (share_namespace S) (state_cm_name (volume_name name)))}"

definition undone :: "('s, 'z) sys_scheme \<Rightarrow> string \<Rightarrow> req \<Rightarrow> bool" where
  "undone S name q \<longleftrightarrow> (\<not> creates q \<or> (\<exists>d \<in> volume_deletions S name. deletion_of q = Some d))"

lemma delete_volume_reqs: "set (reqs (delete_volume S name) w) = volume_deletions S name"
  by (auto simp: delete_volume_def volume_deletions_def Let_def)

lemma json_names:
  "jpath_str [''metadata'', ''name''] (share_pod_json S v node claim ns) = Some (share_pod_name (volume_name v))"
  "jpath_str [''metadata'', ''name''] (service_json S v) = Some (volume_name v)"
  "jpath_str [''metadata'', ''name''] (backing_pvc_json S v sz sc) = Some (backing_pvc_name (volume_name v))"
  by (simp_all add: jpath_str_def share_pod_json_def service_json_def backing_pvc_json_def Let_def jget_def jstr_def)

definition all_undone :: "('s, 'z) sys_scheme \<Rightarrow> string \<Rightarrow> req list \<Rightarrow> bool" where
  "all_undone S name qs \<longleftrightarrow> (\<forall>q \<in> set qs. undone S name q)"

lemma all_undone_simps [simp]:
  "all_undone S name []" "all_undone S name (q # qs) \<longleftrightarrow> undone S name q \<and> all_undone S name qs"
  "all_undone S name (xs @ ys) \<longleftrightarrow> all_undone S name xs \<and> all_undone S name ys"
  by (auto simp: all_undone_def)

lemma undone_quiet [simp]: "\<not> creates q \<Longrightarrow> undone S name q"
  by (simp add: undone_def)

context named_decoders
begin

lemma undone_creations:
  "pod_from_value S (share_pod_json S v node claim ns) = Inr p \<Longrightarrow> undone S v (KReq (CreatePod (share_namespace S) p))"
  "svc_from_value S (service_json S v) = Inr s \<Longrightarrow> undone S v (KReq (CreateSvc (share_namespace S) s))"
  "pvc_from_value S (backing_pvc_json S v sz sc) = Inr c \<Longrightarrow> undone S v (KReq (CreatePvc (share_namespace S) c))"
  using pod_named [OF _ json_names(1)] svc_named [OF _ json_names(2)] pvc_named [OF _ json_names(3)]
  by (fastforce simp: undone_def volume_deletions_def)+

lemma create_volume_undone:
  assumes "q \<in> set (reqs (create_volume S d req) w)"
  shows "undone S (cv_name req) q"
proof -
  have "creates_ok S req (emits (create_volume S d req) w)" by (rule creates_ok_create_volume)
  with assms have "create_ok S req (emits (create_volume S d req) w) q" by (auto simp: creates_ok_def reqs_def)
  then show ?thesis using undone_creations [of "cv_name req"]
    by (cases q rule: creates.cases) auto
qed

end

lemma undone_reads [simp]:
  "undone S name (backing_query S vn)" "undone S name (KReq (save_patch S sst))"
  by (simp_all add: backing_query_def save_patch_def Let_def)

lemma undone_parts [simp]:
  "all_undone S name (reqs (force_detach_backing_pvc S vn) w)"
  "all_undone S name (reqs (evict_workload_pods S claim ns) w)"
  "all_undone S name (reqs (is_backing_pvc_attached S vn) w)"
  "all_undone S name (reqs (pick_node_with_reset S sst) w)"
  "all_undone S name (reqs (node_is_ready S n) w)"
  "all_undone S name (reqs (save_state S sst) w)"
  "all_undone S volume (reqs (load_or_create_state S volume) w)"
proof -
  show "all_undone S name (reqs (force_detach_backing_pvc S vn) w)"
    by (auto simp: force_detach_reqs all_undone_def split: option.splits sum.splits)
  show "all_undone S name (reqs (evict_workload_pods S claim ns) w)"
    by (auto simp: evict_reqs all_undone_def split: if_splits sum.splits)
  show "all_undone S name (reqs (is_backing_pvc_attached S vn) w)"
    by (auto simp: reqs_def attached_obs split: option.splits)
  show "all_undone S name (reqs (pick_node_with_reset S sst) w)"
    by (auto simp: all_undone_def dest: pick_reset_reads)
  show "all_undone S name (reqs (node_is_ready S n) w)"
    by (simp add: node_is_ready_def)
  show "all_undone S name (reqs (save_state S sst) w)"
    by (simp add: save_state_def split: sum.split)
  show "all_undone S volume (reqs (load_or_create_state S volume) w)"
    by (auto simp: load_or_create_state_def Let_def undone_def volume_deletions_def state_cm_def split: sum.splits)
qed

lemma undone_start [simp]:
  "all_undone S name (reqs (start_failover S sst volume claim ns pod_nm) w)"
  "all_undone S name (reqs (begin_failing_over S sst claim ns) w)"
  by (simp_all add: start_failover_def begin_failing_over_def Let_def split: sum.split)

lemma undone_reconcile_pod [simp]: "all_undone S name (reqs (reconcile_pod S sst volume claim ns pod_nm pod) w)"
  unfolding reconcile_pod_def Let_def
  by (cases "Option.bind (pod_spec pod) ps_node_name")
     (simp_all only: reqs_cases if_split option.case, simp_all split: sum.split)

text \<open>The same contract for the environment of the controller.\<close>

locale named_controller = named_decoders S
  for S :: "('s, 'z) csys_scheme"
begin

lemma recreate_undone: "all_undone S volume (reqs (recreate_pod S sst volume claim ns) w)"
  using undone_creations(1) [of volume]
  by (simp add: recreate_pod_def split: sum.split)

lemma ensure_service_undone: "all_undone S volume (reqs (ensure_service S volume) w)"
  using undone_creations(2) [of volume] by (auto simp: ensure_service_def Let_def split: sum.splits)

lemma reconcile_undone:
  assumes "bound_volume pvc = Some volume" "q \<in> set (reqs (reconcile S pvc) w)"
  shows "undone S volume q"
proof -
  have missing: "all_undone S volume (reqs (reconcile_missing S sst volume claim ns) w')" for sst claim ns w'
    by (simp add: reconcile_missing_def Let_def recreate_undone split: sum.split)
  have "all_undone S volume (reqs (reconcile S pvc) w)"
    using assms(1)
    by (simp add: reconcile_def reconcile_body_def reconcile_volume_def Let_def missing ensure_service_undone split: sum.split)
  with assms(2) show ?thesis by (simp add: all_undone_def)
qed

end

text \<open>Both contracts hold for the decoders of the in-memory API server.\<close>

lemma mem_named: "named_decoders S"
  if "pod_from_value S = mem_pod_from_value" "svc_from_value S = mem_svc_from_value" "pvc_from_value S = mem_pvc_from_value"
  using that by unfold_locales (auto simp: mem_pod_from_value_def mem_svc_from_value_def mem_pvc_from_value_def)

interpretation mem_names: named_decoders mem_sys
  by (rule mem_named) (simp_all add: mem_sys_def)

interpretation mem_controller: named_controller mem_csys
  unfolding named_controller_def by (rule mem_named) (simp_all add: mem_csys_def)

end
