(* ===== verification/Cluster.thy ===== *)
theory Cluster
  imports Lifecycle
begin

text \<open>
  What the controller and the driver achieve in a cluster. The objects of the cluster are a
  \<open>kview\<close> of the hidden state, and the locale \<open>kube_cluster\<close> states what is documented of the
  requests on them: reads answer from the view and change nothing, a creation adds the
  object, a deletion removes it now or later (finalizers, graceful deletion), and only the
  objects a request is about change. Over this contract the reconciliation of a live claim is
  followed to its effect: a missing share-manager is created again as soon as the volume is
  detached and a node is free, an unhealthy one is torn down, a running one is recorded.
\<close>

subsection \<open>The objects of a cluster\<close>

record kview =
  v_pods :: "string \<Rightarrow> string \<Rightarrow> Pod option"
  v_nodes :: "Node list"
  v_pvcs :: "string \<Rightarrow> string \<Rightarrow> Pvc option"
  v_svcs :: "string \<Rightarrow> string \<Rightarrow> Svc option"
  v_cms :: "string \<Rightarrow> string \<Rightarrow> ConfigMap option"
  v_vas :: "VolumeAttachment list"

fun is_read :: "kreq \<Rightarrow> bool" where
  "is_read (GetPod _ _) = True" | "is_read (ListPods _ _) = True"
| "is_read (GetNode _) = True" | "is_read ListNodes = True"
| "is_read (GetPvc _ _) = True" | "is_read (GetSvc _ _) = True"
| "is_read (GetCm _ _) = True" | "is_read ListVa = True"
| "is_read _ = False"

text \<open>The answer to a lookup: the object, or an error with code 404.\<close>

definition looked_up :: "'a option \<Rightarrow> ('a \<Rightarrow> kresp) \<Rightarrow> resp \<Rightarrow> bool" where
  "looked_up x mk r \<longleftrightarrow> (case x of Some a \<Rightarrow> r = KResp (mk a) | None \<Rightarrow> \<exists>e. r = KResp (RErr e) \<and> is_code 404 e)"

lemma looked_up_simps [simp]:
  "looked_up (Some a) mk r \<longleftrightarrow> r = KResp (mk a)"
  "looked_up None mk r \<longleftrightarrow> (\<exists>e. r = KResp (RErr e) \<and> is_code 404 e)"
  by (simp_all add: looked_up_def)

definition selects :: "string option \<Rightarrow> Pod \<Rightarrow> bool" where
  "selects sel p = (case sel of None \<Rightarrow> True | Some l \<Rightarrow> has_label l p)"

text \<open>A view with fewer pods, or with fewer attachments, and otherwise the same.\<close>

definition fewer_pods :: "kview \<Rightarrow> kview \<Rightarrow> bool" where
  "fewer_pods v' v \<longleftrightarrow> v' = v\<lparr>v_pods := v_pods v'\<rparr> \<and> (\<forall>ns. v_pods v' ns \<subseteq>\<^sub>m v_pods v ns)"

definition fewer_vas :: "kview \<Rightarrow> kview \<Rightarrow> bool" where
  "fewer_vas v' v \<longleftrightarrow> v' = v\<lparr>v_vas := v_vas v'\<rparr> \<and> set (v_vas v') \<subseteq> set (v_vas v)"

lemma fewer_refl [simp]: "fewer_pods v v" "fewer_vas v v"
  by (simp_all add: fewer_pods_def fewer_vas_def)

lemma fewer_pods_trans: "fewer_pods v2 v1 \<Longrightarrow> fewer_pods v1 v \<Longrightarrow> fewer_pods v2 v"
  unfolding fewer_pods_def by (metis (no_types, lifting) kview.unfold_congs(1) kview.update_convs(1) kview.surjective map_le_trans)

lemma fewer_vas_trans: "fewer_vas v2 v1 \<Longrightarrow> fewer_vas v1 v \<Longrightarrow> fewer_vas v2 v"
  unfolding fewer_vas_def by (cases v; cases v1; cases v2) auto

text \<open>
  The volume that the backing claim is bound to, whether it is attached to a node, and the
  nodes that are Ready and have no scheduled share-manager.
\<close>

definition backing_pv :: "('s, 'z) csys_scheme \<Rightarrow> kview \<Rightarrow> string \<Rightarrow> string option" where
  "backing_pv S v vn = Option.bind (v_pvcs v (share_namespace S) (backing_pvc_name vn)) bound_volume"

definition attached :: "('s, 'z) csys_scheme \<Rightarrow> kview \<Rightarrow> string \<Rightarrow> bool" where
  "attached S v vn \<longleftrightarrow> (\<exists>va\<in>set (v_vas v). backing_pv S v vn = Some (pv_of_va va))"

definition free_node :: "('s, 'z) csys_scheme \<Rightarrow> kview \<Rightarrow> string \<Rightarrow> bool" where
  "free_node S v n \<longleftrightarrow>
     (\<exists>nd\<in>set (v_nodes v). node_ready nd \<and> node_name_or_default nd = n) \<and>
     (\<forall>name p. v_pods v (share_namespace S) name = Some p \<longrightarrow> has_label ''rwx-volume'' p \<longrightarrow>
        Option.bind (pod_spec p) ps_node_name \<noteq> Some n)"

lemma fewer_podsD:
  assumes "fewer_pods v' v"
  shows "v_pods v' ns n = Some p \<Longrightarrow> v_pods v ns n = Some p" "v_nodes v' = v_nodes v"
    "v_pvcs v' = v_pvcs v" "v_svcs v' = v_svcs v" "v_cms v' = v_cms v" "v_vas v' = v_vas v"
proof -
  have eq: "v' = v\<lparr>v_pods := v_pods v'\<rparr>" and le: "v_pods v' ns \<subseteq>\<^sub>m v_pods v ns"
    using assms by (simp_all add: fewer_pods_def)
  show "v_pods v' ns n = Some p \<Longrightarrow> v_pods v ns n = Some p" using le by (auto simp: map_le_def dom_def)
  show "v_nodes v' = v_nodes v" "v_pvcs v' = v_pvcs v" "v_svcs v' = v_svcs v" "v_cms v' = v_cms v" "v_vas v' = v_vas v"
    using arg_cong [OF eq, of v_nodes] arg_cong [OF eq, of v_pvcs] arg_cong [OF eq, of v_svcs]
      arg_cong [OF eq, of v_cms] arg_cong [OF eq, of v_vas] by simp_all
qed

lemma fewer_vasD:
  assumes "fewer_vas v' v"
  shows "v_pods v' = v_pods v" "v_nodes v' = v_nodes v" "v_pvcs v' = v_pvcs v" "v_svcs v' = v_svcs v" "v_cms v' = v_cms v"
proof -
  have eq: "v' = v\<lparr>v_vas := v_vas v'\<rparr>" using assms by (simp add: fewer_vas_def)
  show "v_pods v' = v_pods v" "v_nodes v' = v_nodes v" "v_pvcs v' = v_pvcs v" "v_svcs v' = v_svcs v" "v_cms v' = v_cms v"
    using arg_cong [OF eq, of v_pods] arg_cong [OF eq, of v_nodes] arg_cong [OF eq, of v_pvcs]
      arg_cong [OF eq, of v_svcs] arg_cong [OF eq, of v_cms] by simp_all
qed

lemma free_node_fewer: "fewer_pods v' v \<Longrightarrow> free_node S v n \<Longrightarrow> free_node S v' n"
  by (auto simp: free_node_def fewer_podsD(2) dest: fewer_podsD(1))

lemma backing_fewer [simp]:
  "fewer_pods v' v \<Longrightarrow> backing_pv S v' vn = backing_pv S v vn"
  "fewer_pods v' v \<Longrightarrow> attached S v' vn = attached S v vn"
  by (simp_all add: backing_pv_def attached_def fewer_podsD)

lemma backing_frame [simp]:
  "backing_pv S (v\<lparr>v_cms := c\<rparr>) vn = backing_pv S v vn" "backing_pv S (v\<lparr>v_svcs := d\<rparr>) vn = backing_pv S v vn"
  "attached S (v\<lparr>v_cms := c\<rparr>) vn = attached S v vn" "attached S (v\<lparr>v_svcs := d\<rparr>) vn = attached S v vn"
  "free_node S (v\<lparr>v_cms := c\<rparr>) n = free_node S v n" "free_node S (v\<lparr>v_svcs := d\<rparr>) n = free_node S v n"
  by (simp_all add: backing_pv_def attached_def free_node_def)

text \<open>
  A node for the next share-manager: free, and not a suspect, or at least not the last of
  several suspects.
\<close>

definition usable_node :: "('s, 'z) csys_scheme \<Rightarrow> kview \<Rightarrow> ShareState \<Rightarrow> string \<Rightarrow> bool" where
  "usable_node S v sst n \<longleftrightarrow> free_node S v n \<and>
     (n \<notin> set (suspects sst) \<or> 1 < length (suspects sst) \<and> n \<noteq> last (suspects sst))"

text \<open>
  A Ready node that is not the last suspect.
\<close>

definition new_home :: "kview \<Rightarrow> ShareState \<Rightarrow> string \<Rightarrow> bool" where
  "new_home v sst node \<longleftrightarrow>
     (\<exists>nd\<in>set (v_nodes v). node_ready nd \<and> node_name_or_default nd = node) \<and>
     (suspects sst \<noteq> [] \<longrightarrow> node \<noteq> last (suspects sst))"

text \<open>
  The pod runs where the stored state says, on a node that no failover has left before: this is
  so from the first reconciliation that sees the pod running.
\<close>

definition recorded_on :: "ShareState \<Rightarrow> Pod \<Rightarrow> bool" where
  "recorded_on sst pod \<longleftrightarrow>
     (\<exists>n. Option.bind (pod_spec pod) ps_node_name = Some n \<and> ss_node sst = Some n \<and> n \<notin> set (ss_prior_nodes sst))"

lemma recorded_elsewhere:
  "new_home v sst node \<Longrightarrow> recorded_on sst pod \<Longrightarrow> Option.bind (pod_spec pod) ps_node_name \<noteq> Some node"
  by (auto simp: new_home_def recorded_on_def suspects_def)

text \<open>
  The share-manager of a volume was started on a node: its pod is there as it is specified for
  the node, and the stored state says so.
\<close>

definition started_on ::
  "('s, 'z) csys_scheme \<Rightarrow> ('s \<Rightarrow> kview) \<Rightarrow> string \<Rightarrow> string \<Rightarrow> string \<Rightarrow> string \<Rightarrow> 's \<Rightarrow> bool" where
  "started_on S view volume claim ns node s \<longleftrightarrow>
     (\<exists>spec pod sst.
        pod_from_value S (share_pod_json S volume node claim ns) = Inr spec \<and>
        v_pods (view s) (share_namespace S) (share_pod_name (volume_name volume)) = Some pod \<and>
        pod_name pod = pod_name spec \<and> pod_labels pod = pod_labels spec \<and> pod_spec pod = pod_spec spec \<and>
        stored_state S (\<lambda>s. v_cms (view s)) volume s = Some sst \<and>
        ss_node sst = Some node \<and> ss_state sst = ''starting'' \<and> node \<notin> set (ss_prior_nodes sst))"

lemma stored_state_view:
  "v_cms (view s') = v_cms (view s) \<Longrightarrow>
     stored_state S (\<lambda>s. v_cms (view s)) volume s' = stored_state S (\<lambda>s. v_cms (view s)) volume s"
  by (simp add: stored_state_def state_map_def)

lemma backing_query_reads [simp]: "\<exists>k. backing_query S vn = KReq k \<and> is_read k"
  "\<exists>k. backing_query S vn = KReq k \<and> (is_read k \<or> P k)"
  by (simp_all add: backing_query_def)

text \<open>A share-manager pod that has ended, or runs on a node that is not Ready.\<close>

definition ready_in :: "kview \<Rightarrow> string \<Rightarrow> bool" where
  "ready_in v n = (case find (\<lambda>x. node_name x = Some n) (v_nodes v) of Some nd \<Rightarrow> node_ready nd | None \<Rightarrow> False)"

definition unhealthy_in :: "kview \<Rightarrow> Pod \<Rightarrow> bool" where
  "unhealthy_in v pod \<longleftrightarrow>
     pod_phase pod \<in> {''Failed'', ''Unknown'', ''Succeeded''} \<or>
     pod_phase pod = ''Running'' \<and> (\<exists>n. Option.bind (pod_spec pod) ps_node_name = Some n \<and> \<not> ready_in v n)"

text \<open>
  What a tear-down asks for: the deletion of every attachment of the backing volume, of every
  pod with the claim, and of the share-manager pod.
\<close>

definition asks_teardown ::
  "('s, 'z) csys_scheme \<Rightarrow> kview \<Rightarrow> string \<Rightarrow> string \<Rightarrow> string \<Rightarrow> req list \<Rightarrow> bool" where
  "asks_teardown S v volume claim ns qs \<longleftrightarrow>
     (\<forall>va\<in>set (v_vas v). backing_pv S v (volume_name volume) = Some (pv_of_va va) \<longrightarrow>
        KReq (DeleteVa (va_name_or_default va)) \<in> set qs) \<and>
     (\<forall>n p. claim \<noteq> [] \<longrightarrow> ns \<noteq> [] \<longrightarrow> v_pods v ns n = Some p \<longrightarrow> has_claim claim p \<longrightarrow>
        KReq (DeletePod ns n) \<in> set qs) \<and>
     KReq (DeletePod (share_namespace S) (share_pod_name (volume_name volume))) \<in> set qs"

text \<open>The arm of the match on the share-manager pod.\<close>

definition pod_arm :: "('s, 'z) csys_scheme \<Rightarrow> ShareState \<Rightarrow> string \<Rightarrow> Pvc \<Rightarrow> Pod option \<Rightarrow> ('s, kube_Error + Action) io" where
  "pod_arm S sst volume pvc pod =
     (let claim = or_empty (pvc_name pvc); ns = or_empty (pvc_namespace pvc) in
      case pod of
        None \<Rightarrow> reconcile_missing S sst volume claim ns
      | Some p \<Rightarrow> reconcile_pod S sst volume claim ns (share_pod_name (volume_name volume)) p)"

subsection \<open>The contract\<close>

locale kube_cluster = state_store S "\<lambda>s. v_cms (view s)" + named_decoders S
  for S :: "('s, 'z) csys_scheme" and view :: "'s \<Rightarrow> kview" +
  fixes inv :: "'s \<Rightarrow> bool"
  assumes keeps: "inv s \<Longrightarrow> inv (snd (srv S q s))"
    and reads: "is_read k \<Longrightarrow> view (snd (srv S (KReq k) s)) = view s"
    and get_pod: "inv s \<Longrightarrow> looked_up (v_pods (view s) ns n) RPod (fst (srv S (KReq (GetPod ns n)) s))"
    and get_node: "inv s \<Longrightarrow>
      looked_up (find (\<lambda>x. node_name x = Some n) (v_nodes (view s))) RNode (fst (srv S (KReq (GetNode n)) s))"
    and get_pvc: "inv s \<Longrightarrow> looked_up (v_pvcs (view s) ns n) RPvc (fst (srv S (KReq (GetPvc ns n)) s))"
    and get_svc: "inv s \<Longrightarrow> looked_up (v_svcs (view s) ns n) RSvc (fst (srv S (KReq (GetSvc ns n)) s))"
    and list_nodes: "inv s \<Longrightarrow> fst (srv S (KReq ListNodes) s) = KResp (RNodes (v_nodes (view s)))"
    and list_vas: "inv s \<Longrightarrow> fst (srv S (KReq ListVa) s) = KResp (RVas (v_vas (view s)))"
    and list_pods: "inv s \<Longrightarrow> \<exists>ps. fst (srv S (KReq (ListPods ns sel)) s) = KResp (RPods ps) \<and>
      set ps = {p. selects sel p \<and> (\<exists>n. v_pods (view s) ns n = Some p)}"
    and pods_named: "inv s \<Longrightarrow> v_pods (view s) ns n = Some p \<Longrightarrow> pod_name_or_default p = n"
    and create_pod: "inv s \<Longrightarrow> pod_name p = Some n \<Longrightarrow> v_pods (view s) ns n = None \<Longrightarrow>
      \<exists>p'. fst (srv S (KReq (CreatePod ns p)) s) = KResp (RPod p') \<and>
        pod_name p' = pod_name p \<and> pod_labels p' = pod_labels p \<and> pod_spec p' = pod_spec p \<and>
        view (snd (srv S (KReq (CreatePod ns p)) s)) =
          (view s)\<lparr>v_pods := (v_pods (view s))(ns := (v_pods (view s) ns)(n \<mapsto> p'))\<rparr>"
    and create_svc: "inv s \<Longrightarrow> svc_name c = Some n \<Longrightarrow> v_svcs (view s) ns n = None \<Longrightarrow>
      \<exists>c'. fst (srv S (KReq (CreateSvc ns c)) s) = KResp (RSvc c') \<and> svc_name c' = svc_name c \<and>
        view (snd (srv S (KReq (CreateSvc ns c)) s)) =
          (view s)\<lparr>v_svcs := (v_svcs (view s))(ns := (v_svcs (view s) ns)(n \<mapsto> c'))\<rparr>"
    and delete_pod: "inv s \<Longrightarrow> fewer_pods (view (snd (srv S (KReq (DeletePod ns n)) s))) (view s)"
    and delete_va: "inv s \<Longrightarrow> fewer_vas (view (snd (srv S (KReq (DeleteVa n)) s))) (view s)"
    and cm_frame: "changes_cm q \<Longrightarrow> view (snd (srv S q s)) = (view s)\<lparr>v_cms := v_cms (view (snd (srv S q s)))\<rparr>"
    and pod_decodes: "\<exists>p. pod_from_value S (share_pod_json S vol n claim cns) = Inr p"
    and svc_decodes: "\<exists>c. svc_from_value S (service_json S vol) = Inr c"
begin

lemma inv_after: "replays S m \<Longrightarrow> inv (wst w) \<Longrightarrow> inv (wst (after m w))"
proof -
  have "inv s \<Longrightarrow> inv (fold (\<lambda>q s. snd (srv S q s)) qs s)" for qs s
    by (induction qs arbitrary: s) (auto simp: keeps)
  then show "replays S m \<Longrightarrow> inv (wst w) \<Longrightarrow> inv (wst (after m w))" by (simp add: replays_state)
qed

text \<open>What a program does to the view, from the requests it makes.\<close>

lemma view_rel:
  assumes "replays S m" "inv (wst w)" "\<And>v. R v v" "\<And>v1 v2 v3. R v3 v2 \<Longrightarrow> R v2 v1 \<Longrightarrow> R v3 v1"
    and "\<And>q s. q \<in> set (reqs m w) \<Longrightarrow> inv s \<Longrightarrow> R (view (snd (srv S q s))) (view s)"
  shows "R (view (wst (after m w))) (view (wst w))"
proof -
  have "inv s \<Longrightarrow> (\<And>q s. q \<in> set qs \<Longrightarrow> inv s \<Longrightarrow> R (view (snd (srv S q s))) (view s)) \<Longrightarrow>
      R (view (fold (\<lambda>q s. snd (srv S q s)) qs s)) (view s)" for qs s
  proof (induction qs arbitrary: s)
    case Nil
    then show ?case using assms(3) by simp
  next
    case (Cons q qs)
    then have "R (view (fold (\<lambda>q s. snd (srv S q s)) qs (snd (srv S q s)))) (view (snd (srv S q s)))"
      by (simp add: keeps)
    with assms(4) Cons.prems show ?case by auto
  qed
  with assms(1,2,5) show ?thesis by (simp add: replays_state)
qed

lemma view_reads:
  assumes "replays S m" "inv (wst w)" "\<forall>q\<in>set (reqs m w). \<exists>k. q = KReq k \<and> is_read k"
  shows "view (wst (after m w)) = view (wst w)"
  by (rule view_rel [where R = "(=)", OF assms(1,2)]) (use assms(3) reads in auto)

lemma view_evicts:
  assumes "replays S m" "inv (wst w)"
    "\<forall>q\<in>set (reqs m w). \<exists>k. q = KReq k \<and> (is_read k \<or> (\<exists>ns n. k = DeletePod ns n))"
  shows "fewer_pods (view (wst (after m w))) (view (wst w))"
proof (rule view_rel [where R = fewer_pods, OF assms(1,2)])
  show "fewer_pods v1 v3" if "fewer_pods v1 v2" "fewer_pods v2 v3" for v1 v2 v3
    using that by (rule fewer_pods_trans)
qed (use assms(3) reads delete_pod in fastforce)+

lemma view_detaches:
  assumes "replays S m" "inv (wst w)"
    "\<forall>q\<in>set (reqs m w). \<exists>k. q = KReq k \<and> (is_read k \<or> (\<exists>n. k = DeleteVa n))"
  shows "fewer_vas (view (wst (after m w))) (view (wst w))"
proof (rule view_rel [where R = fewer_vas, OF assms(1,2)])
  show "fewer_vas v1 v3" if "fewer_vas v1 v2" "fewer_vas v2 v3" for v1 v2 v3
    using that by (rule fewer_vas_trans)
qed (use assms(3) reads delete_va in fastforce)+

text \<open>The parts of a reconciliation.\<close>

lemma view_after_save:
  "view (wst (after (save_state S sst) w)) =
     (view (wst w))\<lparr>v_cms := v_cms (view (wst (after (save_state S sst) w)))\<rparr>"
proof -
  have "wst (after (save_state S sst) w) = snd (srv S (KReq (save_patch S sst)) (wst w))"
    by (simp add: save_state_def after_acall wst_after_call split: sum.split)
  then show ?thesis using cm_frame [of "KReq (save_patch S sst)" "wst w"] by simp
qed

lemma view_after_load:
  assumes "inv (wst w)"
  shows "view (wst (after (load_or_create_state S volume) w)) =
     (view (wst w))\<lparr>v_cms := v_cms (view (wst (after (load_or_create_state S volume) w)))\<rparr>"
proof (rule view_rel [where R = "\<lambda>v' v. v' = v\<lparr>v_cms := v_cms v'\<rparr>"])
  show "v3 = v1\<lparr>v_cms := v_cms v3\<rparr>" if "v3 = v2\<lparr>v_cms := v_cms v3\<rparr>" "v2 = v1\<lparr>v_cms := v_cms v2\<rparr>"
    for v1 v2 v3 :: kview using that by (cases v1; cases v2; cases v3) simp
  show "view (snd (srv S q s)) = (view s)\<lparr>v_cms := v_cms (view (snd (srv S q s)))\<rparr>"
    if "q \<in> set (reqs (load_or_create_state S volume) w)" for q s
  proof (cases "changes_cm q")
    case True
    then show ?thesis by (rule cm_frame)
  next
    case False
    with that have "\<exists>k. q = KReq k \<and> is_read k"
      by (auto simp: load_or_create_state_def Let_def split: sum.splits if_splits)
    with reads show ?thesis by auto
  qed
qed (use assms in simp_all)

lemma ensure_service_works:
  assumes "inv (wst w)"
  shows "result (ensure_service S volume) w = Inr ()"
    and "view (wst (after (ensure_service S volume) w)) =
      (view (wst w))\<lparr>v_svcs := v_svcs (view (wst (after (ensure_service S volume) w)))\<rparr>"
    and "v_svcs (view (wst (after (ensure_service S volume) w))) (share_namespace S) (volume_name volume) \<noteq> None"
proof -
  let ?ns = "share_namespace S" and ?vn = "volume_name volume"
  let ?w1 = "after (call S (KReq (GetSvc ?ns ?vn))) w"
  have found: "looked_up (v_svcs (view (wst w)) ?ns ?vn) RSvc (answer S (KReq (GetSvc ?ns ?vn)) w)"
    using get_svc [OF assms] by (simp add: answer_def)
  have w1: "view (wst ?w1) = view (wst w)" "inv (wst ?w1)" using reads keeps assms by (simp_all add: wst_after_call)
  obtain c where c: "svc_from_value S (service_json S volume) = Inr c" using svc_decodes by blast
  then have "svc_name c = Some ?vn" using svc_named json_names(2) by blast
  note made = create_svc [OF w1(2) this, of ?ns]
  have "result (ensure_service S volume) w = Inr () \<and>
    view (wst (after (ensure_service S volume) w)) =
      (view (wst w))\<lparr>v_svcs := v_svcs (view (wst (after (ensure_service S volume) w)))\<rparr> \<and>
    v_svcs (view (wst (after (ensure_service S volume) w))) ?ns ?vn \<noteq> None"
  proof (cases "v_svcs (view (wst w)) ?ns ?vn")
    case None
    then obtain c' e where "answer S (KReq (CreateSvc ?ns c)) ?w1 = KResp (RSvc c')"
      "view (snd (srv S (KReq (CreateSvc ?ns c)) (wst ?w1))) =
        (view (wst w))\<lparr>v_svcs := (v_svcs (view (wst w)))(?ns := (v_svcs (view (wst w)) ?ns)(?vn \<mapsto> c'))\<rparr>"
      "answer S (KReq (GetSvc ?ns ?vn)) w = KResp (RErr e)"
      using made found unfolding w1(1) by (auto simp: answer_def)
    with c show ?thesis by (simp add: ensure_service_def Let_def after_kcall wst_after_call)
  next
    case (Some a)
    with found w1(1) show ?thesis by (simp add: ensure_service_def Let_def after_kcall)
  qed
  then show "result (ensure_service S volume) w = Inr ()"
    and "view (wst (after (ensure_service S volume) w)) =
      (view (wst w))\<lparr>v_svcs := v_svcs (view (wst (after (ensure_service S volume) w)))\<rparr>"
    and "v_svcs (view (wst (after (ensure_service S volume) w))) ?ns ?vn \<noteq> None" by blast+
qed

lemma backing_answer:
  assumes "inv (wst w)"
  shows "pv_in_answer (answer S (backing_query S vn) w) = backing_pv S (view (wst w)) vn"
proof -
  have "looked_up (v_pvcs (view (wst w)) (share_namespace S) (backing_pvc_name vn)) RPvc (answer S (backing_query S vn) w)"
    using get_pvc [OF assms] by (simp add: answer_def backing_query_def)
  then show ?thesis
    by (cases "v_pvcs (view (wst w)) (share_namespace S) (backing_pvc_name vn)")
       (auto simp: pv_in_answer_def backing_pv_def)
qed

lemma vas_answer:
  assumes "inv (wst w)"
  shows "answer S (KReq ListVa) (after (call S (backing_query S vn)) w) = KResp (RVas (v_vas (view (wst w))))"
  using list_vas [OF keeps [OF assms]] reads [of "GetPvc (share_namespace S) (backing_pvc_name vn)" "wst w"]
  by (simp add: answer_def wst_after_call backing_query_def)

lemma force_detach_works:
  assumes "inv (wst w)"
  shows "result (force_detach_backing_pvc S vn) w = Inr ()"
    and "fewer_vas (view (wst (after (force_detach_backing_pvc S vn) w))) (view (wst w))"
    and "\<not> attached S (view (wst w)) vn \<Longrightarrow> view (wst (after (force_detach_backing_pvc S vn) w)) = view (wst w)"
    and "va \<in> set (v_vas (view (wst w))) \<Longrightarrow> backing_pv S (view (wst w)) vn = Some (pv_of_va va) \<Longrightarrow>
      KReq (DeleteVa (va_name_or_default va)) \<in> set (reqs (force_detach_backing_pvc S vn) w)"
proof -
  note obs = backing_answer [OF assms] vas_answer [OF assms]
  show "result (force_detach_backing_pvc S vn) w = Inr ()"
    by (simp add: force_detach_backing_pvc_def obs split: option.split)
  show "fewer_vas (view (wst (after (force_detach_backing_pvc S vn) w))) (view (wst w))"
    by (rule view_detaches [OF _ assms]) (auto simp: force_detach_reqs obs split: option.splits)
  show "view (wst (after (force_detach_backing_pvc S vn) w)) = view (wst w)" if "\<not> attached S (view (wst w)) vn"
    by (rule view_reads [OF _ assms])
       (use that in \<open>auto simp: force_detach_reqs obs attached_def split: option.splits\<close>)
  show "KReq (DeleteVa (va_name_or_default va)) \<in> set (reqs (force_detach_backing_pvc S vn) w)"
    if "va \<in> set (v_vas (view (wst w)))" "backing_pv S (view (wst w)) vn = Some (pv_of_va va)"
    using that by (auto simp: force_detach_reqs obs)
qed

lemma attached_works:
  assumes "inv (wst w)"
  shows "result (is_backing_pvc_attached S vn) w \<longleftrightarrow> attached S (view (wst w)) vn"
    and "view (wst (after (is_backing_pvc_attached S vn) w)) = view (wst w)"
proof -
  note obs = backing_answer [OF assms] vas_answer [OF assms]
  show "result (is_backing_pvc_attached S vn) w \<longleftrightarrow> attached S (view (wst w)) vn"
    by (auto simp: attached_obs(2) obs attached_def)
  show "view (wst (after (is_backing_pvc_attached S vn) w)) = view (wst w)"
    by (rule view_reads [OF _ assms])
       (auto simp: reqs_def attached_obs(1) obs split: option.splits)
qed

lemma evict_works:
  assumes "inv (wst w)"
  shows "result (evict_workload_pods S claim ns) w = Inr ()"
    and "fewer_pods (view (wst (after (evict_workload_pods S claim ns) w))) (view (wst w))"
    and "claim \<noteq> [] \<Longrightarrow> ns \<noteq> [] \<Longrightarrow> v_pods (view (wst w)) ns n = Some p \<Longrightarrow> has_claim claim p \<Longrightarrow>
      KReq (DeletePod ns n) \<in> set (reqs (evict_workload_pods S claim ns) w)"
proof -
  obtain ps where ps: "answer S (KReq (ListPods ns None)) w = KResp (RPods ps)"
    "set ps = {p. selects None p \<and> (\<exists>n. v_pods (view (wst w)) ns n = Some p)}"
    using list_pods [OF assms, of ns None] by (auto simp: answer_def)
  show "result (evict_workload_pods S claim ns) w = Inr ()"
    by (simp add: evict_workload_pods_def ps(1))
  show "fewer_pods (view (wst (after (evict_workload_pods S claim ns) w))) (view (wst w))"
    by (rule view_evicts [OF _ assms]) (auto simp: evict_reqs ps(1))
  show "KReq (DeletePod ns n) \<in> set (reqs (evict_workload_pods S claim ns) w)"
    if "claim \<noteq> []" "ns \<noteq> []" "v_pods (view (wst w)) ns n = Some p" "has_claim claim p"
  proof -
    have "p \<in> set (filter (has_claim claim) ps)" "pod_name_or_default p = n"
      using that ps(2) pods_named [OF assms] by (auto simp: selects_def)
    then show ?thesis using that(1,2) by (force simp: evict_reqs ps(1))
  qed
qed

lemma listing_works:
  assumes "inv (wst w)"
  shows "\<exists>occ. node_listing S w = Some (occ, v_nodes (view (wst w))) \<and>
    (\<forall>n. candidate_node occ (v_nodes (view (wst w))) n \<longleftrightarrow> free_node S (view (wst w)) n)"
proof -
  let ?q = "ListPods (share_namespace S) (Some ''rwx-volume'')"
  obtain ps where ps: "answer S (KReq ?q) w = KResp (RPods ps)"
    "set ps = {p. selects (Some ''rwx-volume'') p \<and> (\<exists>n. v_pods (view (wst w)) (share_namespace S) n = Some p)}"
    using list_pods [OF assms, of "share_namespace S" "Some ''rwx-volume''"] by (auto simp: answer_def)
  have nodes: "answer S (KReq ListNodes) (after (call S (KReq ?q)) w) = KResp (RNodes (v_nodes (view (wst w))))"
    using list_nodes [OF keeps [OF assms]] reads [of ?q "wst w"] by (simp add: answer_def wst_after_call)
  have "n \<in> set (occupied_nodes ps) \<longleftrightarrow>
      (\<exists>name p. v_pods (view (wst w)) (share_namespace S) name = Some p \<and> has_label ''rwx-volume'' p \<and>
         Option.bind (pod_spec p) ps_node_name = Some n)" for n
  proof -
    have "n \<in> set (occupied_nodes ps) \<longleftrightarrow> (\<exists>p\<in>set ps. Option.bind (pod_spec p) ps_node_name = Some n)"
      by (force simp: occupied_nodes_def List.map_filter_def)
    then show ?thesis unfolding ps(2) by (auto simp: selects_def)
  qed
  then have "candidate_node (occupied_nodes ps) (v_nodes (view (wst w))) n \<longleftrightarrow> free_node S (view (wst w)) n" for n
    unfolding candidate_node_def free_node_def by blast
  moreover have "node_listing S w = Some (occupied_nodes ps, v_nodes (view (wst w)))"
    by (simp add: node_listing_def ps(1) nodes)
  ultimately show ?thesis by blast
qed

lemma pick_keeps:
  assumes "inv (wst w)"
  shows "view (wst (after (pick_node S avoid) w)) = view (wst w)"
    and "view (wst (after (pick_node_with_reset S sst) w)) = view (wst w)"
proof -
  show "view (wst (after (pick_node S avoid) w)) = view (wst w)"
    by (rule view_reads [OF _ assms]) (auto dest!: pick_node_reads)
  show "view (wst (after (pick_node_with_reset S sst) w)) = view (wst w)"
    by (rule view_reads [OF _ assms]) (auto dest!: pick_reset_reads)
qed

lemma pick_node_works:
  assumes "inv (wst w)"
  shows "result (pick_node S avoid) w = Inr n \<Longrightarrow> free_node S (view (wst w)) n \<and> n \<notin> set avoid"
    and "result (pick_node S avoid) w = Inl e \<Longrightarrow> free_node S (view (wst w)) n \<Longrightarrow> n \<in> set avoid"
proof -
  obtain occ where occ: "node_listing S w = Some (occ, v_nodes (view (wst w)))"
    "\<forall>n. candidate_node occ (v_nodes (view (wst w))) n \<longleftrightarrow> free_node S (view (wst w)) n"
    using listing_works [OF assms] by blast
  then have res: "result (pick_node S avoid) w = choose_node avoid occ (v_nodes (view (wst w)))"
    by (simp add: pick_node_result)
  show "free_node S (view (wst w)) n \<and> n \<notin> set avoid" if "result (pick_node S avoid) w = Inr n"
    using that picker.choose_sound [of avoid occ _ n] occ(2) unfolding res by blast
  show "n \<in> set avoid" if "result (pick_node S avoid) w = Inl e" "free_node S (view (wst w)) n"
    using that picker.choose_complete [of avoid occ _ e n] occ(2) unfolding res by blast
qed

lemma pick_reset_works:
  assumes "inv (wst w)" "free_node S (view (wst w)) n"
    and "n \<notin> set (ss_prior_nodes sst) \<or> 1 < length (ss_prior_nodes sst) \<and> n \<noteq> last (ss_prior_nodes sst)"
  shows "\<exists>m st'. result (pick_node_with_reset S sst) w = (Inr m, st') \<and> free_node S (view (wst w)) m"
proof (cases "result (pick_node S (ss_prior_nodes sst)) w")
  case (Inr m)
  then show ?thesis using pick_node_works(1) [OF assms(1)] by (auto simp: pick_node_with_reset_def)
next
  case (Inl e)
  let ?w1 = "after (pick_node S (ss_prior_nodes sst)) w" and ?last = "[last (ss_prior_nodes sst)]"
  have w1: "inv (wst ?w1)" "view (wst ?w1) = view (wst w)"
    using inv_after [OF traced_pick_node(2) assms(1)] pick_keeps(1) [OF assms(1)] by simp_all
  have tried: "n \<in> set (ss_prior_nodes sst)" using pick_node_works(2) [OF assms(1) Inl assms(2)] .
  then obtain m where m: "result (pick_node S ?last) ?w1 = Inr m"
    using pick_node_works(2) [OF w1(1), of ?last _ n] assms(2,3) w1(2)
    by (cases "result (pick_node S ?last) ?w1") auto
  with pick_node_works(1) [OF w1(1) m] w1(2) tried Inl assms(3) show ?thesis
    by (auto simp: pick_node_with_reset_def Let_def)
qed

lemma save_works:
  assumes "stored_state S (\<lambda>s. v_cms (view s)) volume (wst w) = Some st0" "ss_volume sst = volume"
  shows "result (save_state S sst) w = Inr ()"
    and "stored_state S (\<lambda>s. v_cms (view s)) volume (wst (after (save_state S sst) w)) = Some sst"
proof -
  have there: "state_map S (\<lambda>s. v_cms (view s)) volume (wst w) \<noteq> None" using assms(1) by (rule stored_map)
  then show "result (save_state S sst) w = Inr ()" using save_load(1) [of sst w] assms(2) by simp
  have "wst (after (save_state S sst) w) = snd (srv S (KReq (save_patch S sst)) (wst w))"
    by (simp add: save_state_def after_acall wst_after_call split: sum.split)
  with stored_after_save [OF there assms(2)]
  show "stored_state S (\<lambda>s. v_cms (view s)) volume (wst (after (save_state S sst) w)) = Some sst" by simp
qed

lemma recreate_works:
  assumes "inv (wst w)" "stored_state S (\<lambda>s. v_cms (view s)) volume (wst w) = Some sst" "ss_volume sst = volume"
    and "v_pods (view (wst w)) (share_namespace S) (share_pod_name (volume_name volume)) = None"
    and "usable_node S (view (wst w)) sst n"
  shows "result (recreate_pod S sst volume claim ns) w = Inr (Requeue 5) \<and>
    (\<exists>node. new_home (view (wst w)) sst node \<and>
       started_on S view volume claim ns node (wst (after (recreate_pod S sst volume claim ns) w)))"
proof -
  let ?ns = "share_namespace S" and ?nm = "share_pod_name (volume_name volume)"
  let ?pick = "pick_node_with_reset S (remember_node sst)"
  obtain node st' where pk: "result ?pick w = (Inr node, st')" and free: "free_node S (view (wst w)) node"
    using pick_reset_works [OF assms(1), of n "remember_node sst"] assms(5)
    by (auto simp: usable_node_def remember_suspects)
  let ?st = "st'\<lparr>ss_node := Some node, ss_state := ''starting''\<rparr>"
  let ?w1 = "after ?pick w"
  let ?w2 = "after (save_state S ?st) ?w1"
  have vol: "ss_volume ?st = volume" using pick_reset_Inr(3) [OF pk] assms(3) by auto
  have v1: "view (wst ?w1) = view (wst w)" by (rule pick_keeps(2) [OF assms(1)])
  have "stored_state S (\<lambda>s. v_cms (view s)) volume (wst ?w1) = Some sst"
    using assms(2) stored_state_view [of view "wst ?w1" "wst w" S volume] by (simp add: v1)
  note saved = save_works [OF this vol]
  have inv2: "inv (wst ?w2)" by (intro inv_after assms(1)) simp_all
  have v2: "v_pods (view (wst ?w2)) = v_pods (view (wst w))"
    using arg_cong [OF view_after_save [of ?st ?w1], of v_pods] v1 by simp
  obtain spec where spec: "pod_from_value S (share_pod_json S volume node claim ns) = Inr spec"
    using pod_decodes by blast
  have "pod_name spec = Some ?nm" by (rule pod_named [OF spec json_names(1)])
  from create_pod [OF inv2 this, of ?ns] assms(4) v2 obtain pod where
    pod: "answer S (KReq (CreatePod ?ns spec)) ?w2 = KResp (RPod pod)"
      "pod_name pod = pod_name spec" "pod_labels pod = pod_labels spec" "pod_spec pod = pod_spec spec"
      "view (snd (srv S (KReq (CreatePod ?ns spec)) (wst ?w2))) =
        (view (wst ?w2))\<lparr>v_pods := (v_pods (view (wst ?w2)))(?ns := (v_pods (view (wst ?w2)) ?ns)(?nm \<mapsto> pod))\<rparr>"
    by (auto simp: answer_def)
  let ?w3 = "after (recreate_pod S sst volume claim ns) w"
  have end_state: "wst ?w3 = snd (srv S (KReq (CreatePod ?ns spec)) (wst ?w2))"
    using pk saved(1) spec pod(1) by (simp add: recreate_pod_def after_kcall wst_after_call)
  have "stored_state S (\<lambda>s. v_cms (view s)) volume (wst ?w3) = Some ?st"
    using saved(2) by (subst stored_state_view [of view _ "wst ?w2"]) (simp_all add: end_state pod(5))
  moreover have "v_pods (view (wst ?w3)) ?ns ?nm = Some pod" by (simp add: end_state pod(5))
  moreover have "node \<notin> set (ss_prior_nodes ?st)" using pick_reset_Inr(2) [OF pk] by simp
  ultimately have "started_on S view volume claim ns node (wst ?w3)"
    unfolding started_on_def using spec pod(2-4) by (intro exI [of _ spec] exI [of _ pod] exI [of _ ?st]) simp
  moreover have "result (recreate_pod S sst volume claim ns) w = Inr (Requeue 5)"
    using pk saved(1) spec pod(1) by (simp add: recreate_pod_def)
  moreover have "new_home (view (wst w)) sst node"
    using free pick_reset_avoids_last [OF pk] by (auto simp: free_node_def new_home_def remember_suspects)
  ultimately show ?thesis by blast
qed

lemma begin_works:
  fixes claim ns :: string
  assumes "inv (wst w)" "stored_state S (\<lambda>s. v_cms (view s)) volume (wst w) = Some sst" "ss_volume sst = volume"
  defines "st1 \<equiv> sst\<lparr>ss_state := ''failing_over''\<rparr>" and "w1 \<equiv> after (begin_failing_over S sst claim ns) w"
  shows "result (begin_failing_over S sst claim ns) w = Inr st1"
    and "stored_state S (\<lambda>s. v_cms (view s)) volume (wst w1) = Some st1"
    and "fewer_pods (view (wst w1)) ((view (wst w))\<lparr>v_cms := v_cms (view (wst w1))\<rparr>)"
proof -
  let ?w2 = "after (save_state S st1) w"
  have "ss_volume st1 = volume" using assms(3) by (simp add: st1_def)
  note saved = save_works [OF assms(2) this]
  have inv2: "inv (wst ?w2)" by (intro inv_after assms(1)) simp
  have evicted: "result (evict_workload_pods S claim ns) ?w2 = Inr ()"
    "fewer_pods (view (wst (after (evict_workload_pods S claim ns) ?w2))) (view (wst ?w2))"
    using evict_works [OF inv2] by simp_all
  have same: "sst = st1" if "ss_state sst = ''failing_over''" using that by (simp add: st1_def)
  have "result (begin_failing_over S sst claim ns) w = Inr st1 \<and>
    stored_state S (\<lambda>s. v_cms (view s)) volume (wst w1) = Some st1 \<and>
    fewer_pods (view (wst w1)) ((view (wst w))\<lparr>v_cms := v_cms (view (wst w1))\<rparr>)"
  proof (cases "ss_state sst = ''failing_over''")
    case True
    then show ?thesis using assms(2) same by (simp add: begin_failing_over_def w1_def)
  next
    case False
    then have w1: "w1 = after (evict_workload_pods S claim ns) ?w2"
      and "result (begin_failing_over S sst claim ns) w = Inr st1"
      using saved(1) evicted(1) by (simp_all add: begin_failing_over_def w1_def st1_def [symmetric])
    moreover have "v_cms (view (wst w1)) = v_cms (view (wst ?w2))"
      using fewer_podsD(5) [OF evicted(2)] by (simp add: w1)
    moreover have "(view (wst w))\<lparr>v_cms := v_cms (view (wst ?w2))\<rparr> = view (wst ?w2)"
      by (rule view_after_save [symmetric])
    ultimately show ?thesis using saved(2) evicted(2) stored_state_view [of view "wst w1" "wst ?w2" S volume] by simp
  qed
  then show "result (begin_failing_over S sst claim ns) w = Inr st1"
    and "stored_state S (\<lambda>s. v_cms (view s)) volume (wst w1) = Some st1"
    and "fewer_pods (view (wst w1)) ((view (wst w))\<lparr>v_cms := v_cms (view (wst w1))\<rparr>)" by blast+
qed

lemma missing_works:
  assumes "inv (wst w)" "stored_state S (\<lambda>s. v_cms (view s)) volume (wst w) = Some sst" "ss_volume sst = volume"
    and "v_pods (view (wst w)) (share_namespace S) (share_pod_name (volume_name volume)) = None"
    and "\<not> attached S (view (wst w)) (volume_name volume)" "usable_node S (view (wst w)) sst n"
  shows "result (reconcile_missing S sst volume claim ns) w = Inr (Requeue 5) \<and>
    (\<exists>node. new_home (view (wst w)) sst node \<and>
       started_on S view volume claim ns node (wst (after (reconcile_missing S sst volume claim ns) w)))"
proof -
  let ?vn = "volume_name volume" and ?st1 = "sst\<lparr>ss_state := ''failing_over''\<rparr>"
  let ?w1 = "after (begin_failing_over S sst claim ns) w"
  let ?w2 = "after (force_detach_backing_pvc S ?vn) ?w1"
  let ?w3 = "after (is_backing_pvc_attached S ?vn) ?w2"
  note begun = begin_works [OF assms(1,2,3), of claim ns]
  have inv1: "inv (wst ?w1)" and inv2: "inv (wst ?w2)" and inv3: "inv (wst ?w3)"
    by (intro inv_after assms(1); simp)+
  have det: "\<not> attached S (view (wst ?w1)) ?vn" using assms(5) backing_fewer(2) [OF begun(3), of S ?vn] by simp
  have v3: "view (wst ?w2) = view (wst ?w1)" "view (wst ?w3) = view (wst ?w1)"
    using force_detach_works(3) [OF inv1 det] attached_works(2) [OF inv2] by simp_all
  have gone: "v_pods (view (wst ?w1)) (share_namespace S) (share_pod_name ?vn) = None"
    using assms(4) fewer_podsD(1) [OF begun(3)] by (cases "v_pods (view (wst ?w1)) (share_namespace S) (share_pod_name ?vn)") auto
  have "usable_node S (view (wst ?w1)) ?st1 n"
    using assms(6) free_node_fewer [OF begun(3), of S n] by (auto simp: usable_node_def suspects_def)
  moreover have "stored_state S (\<lambda>s. v_cms (view s)) volume (wst ?w3) = Some ?st1"
    using begun(2) stored_state_view [of view "wst ?w3" "wst ?w1" S volume] v3(2) by simp
  ultimately have "result (recreate_pod S ?st1 volume claim ns) ?w3 = Inr (Requeue 5) \<and>
    (\<exists>node. new_home (view (wst ?w3)) ?st1 node \<and>
       started_on S view volume claim ns node (wst (after (recreate_pod S ?st1 volume claim ns) ?w3)))"
    using gone v3(2) assms(3) by (intro recreate_works inv3) simp_all
  then show ?thesis
    using begun(1) force_detach_works(1) [OF inv1] attached_works(1) [OF inv2] det v3 fewer_podsD(2) [OF begun(3)]
    by (auto simp: reconcile_missing_def Let_def new_home_def suspects_def)
qed

text \<open>Every reconciliation of a live bound claim gets as far as the pod lookup.\<close>

lemma reaches_pod:
  assumes "inv (wst w)" "bound_volume pvc = Some volume" "is_rwx_pvc pvc" "pvc_deletion_timestamp pvc = None"
    and "stored_state S (\<lambda>s. v_cms (view s)) volume (wst w) = Some sst \<or>
      state_map S (\<lambda>s. v_cms (view s)) volume (wst w) = None \<and> sst = ShareState_new volume"
  defines "arm \<equiv> pod_arm S sst volume pvc (v_pods (view (wst w)) (share_namespace S) (share_pod_name (volume_name volume)))"
  obtains w3 where "inv (wst w3)" "stored_state S (\<lambda>s. v_cms (view s)) volume (wst w3) = Some sst"
    "view (wst w3) = (view (wst w))\<lparr>v_svcs := v_svcs (view (wst w3)), v_cms := v_cms (view (wst w3))\<rparr>"
    "result (reconcile S pvc) w = result arm w3" "after (reconcile S pvc) w = after arm w3"
    "set (reqs arm w3) \<subseteq> set (reqs (reconcile S pvc) w)"
proof -
  let ?load = "load_or_create_state S volume" and ?svc = "ensure_service S volume"
  let ?nm = "share_pod_name (volume_name volume)"
  let ?get = "KReq (GetPod (share_namespace S) ?nm)"
  let ?w1 = "after ?load w"
  let ?w2 = "after ?svc ?w1"
  let ?w3 = "after (call S ?get) ?w2"
  have inv: "inv (wst ?w1)" "inv (wst ?w2)" "inv (wst ?w3)" by (intro inv_after assms(1); simp)+
  have loaded: "result ?load w = Inr sst" "stored_state S (\<lambda>s. v_cms (view s)) volume (wst ?w1) = Some sst"
    using assms(5) load_stored load_missing by blast+
  note served = ensure_service_works [OF inv(1), of volume]
  have v3: "view (wst ?w3) = view (wst ?w2)" using reads [of "GetPod (share_namespace S) ?nm"] by (simp add: wst_after_call)
  have view: "view (wst ?w3) = (view (wst w))\<lparr>v_svcs := v_svcs (view (wst ?w3)), v_cms := v_cms (view (wst ?w3))\<rparr>"
    unfolding v3 using served(2) view_after_load [OF assms(1), of volume]
    by (cases "view (wst w)"; cases "view (wst ?w1)"; cases "view (wst ?w2)") simp
  have pods: "v_pods (view (wst ?w2)) = v_pods (view (wst w))" using arg_cong [OF view, of v_pods] v3 by simp
  have cms: "v_cms (view (wst ?w3)) = v_cms (view (wst ?w1))" using arg_cong [OF served(2), of v_cms] v3 by simp
  have stored: "stored_state S (\<lambda>s. v_cms (view s)) volume (wst ?w3) = Some sst"
    using loaded(2) stored_state_view [of view "wst ?w3" "wst ?w1" S volume] cms by simp
  have "looked_up (v_pods (view (wst w)) (share_namespace S) ?nm) RPod (answer S ?get ?w2)"
    using get_pod [OF inv(2)] pods by (simp add: answer_def)
  then have arm: "result (reconcile S pvc) w = result arm ?w3" "after (reconcile S pvc) w = after arm ?w3"
    "set (reqs arm ?w3) \<subseteq> set (reqs (reconcile S pvc) w)"
    using assms(2-4) loaded(1) served(1)
    by (auto simp: reconcile_def reconcile_body_def reconcile_volume_def Let_def arm_def pod_arm_def after_kcall
        split: option.splits)
  show thesis by (rule that [OF inv(3) stored view arm])
qed

lemma recovers:
  assumes "inv (wst w)" "bound_volume pvc = Some volume" "is_rwx_pvc pvc" "pvc_deletion_timestamp pvc = None"
    and "stored_state S (\<lambda>s. v_cms (view s)) volume (wst w) = Some sst \<or>
      state_map S (\<lambda>s. v_cms (view s)) volume (wst w) = None \<and> sst = ShareState_new volume"
    and "ss_volume sst = volume"
    and "v_pods (view (wst w)) (share_namespace S) (share_pod_name (volume_name volume)) = None"
    and "\<not> attached S (view (wst w)) (volume_name volume)" "usable_node S (view (wst w)) sst n"
  shows "result (reconcile S pvc) w = Inr (Requeue 5) \<and>
    (\<exists>node. new_home (view (wst w)) sst node \<and>
       started_on S view volume (or_empty (pvc_name pvc)) (or_empty (pvc_namespace pvc)) node
         (wst (after (reconcile S pvc) w)))"
proof -
  let ?c = "or_empty (pvc_name pvc)" and ?n = "or_empty (pvc_namespace pvc)"
  obtain w3 where w3: "inv (wst w3)" "stored_state S (\<lambda>s. v_cms (view s)) volume (wst w3) = Some sst"
    "view (wst w3) = (view (wst w))\<lparr>v_svcs := v_svcs (view (wst w3)), v_cms := v_cms (view (wst w3))\<rparr>"
    "result (reconcile S pvc) w = result (reconcile_missing S sst volume ?c ?n) w3"
    "after (reconcile S pvc) w = after (reconcile_missing S sst volume ?c ?n) w3"
    using reaches_pod [OF assms(1-5)] assms(7) by (auto simp: pod_arm_def)
  obtain d e where v: "view (wst w3) = (view (wst w))\<lparr>v_svcs := d, v_cms := e\<rparr>" using w3(3) by blast
  have "result (reconcile_missing S sst volume ?c ?n) w3 = Inr (Requeue 5) \<and>
    (\<exists>node. new_home (view (wst w3)) sst node \<and>
       started_on S view volume ?c ?n node (wst (after (reconcile_missing S sst volume ?c ?n) w3)))"
    using assms(7-9) by (intro missing_works [OF w3(1,2) assms(6)]) (simp_all add: v usable_node_def)
  then show ?thesis using w3(4,5) by (simp add: new_home_def v)
qed

lemma node_ready_works:
  assumes "inv (wst w)"
  shows "result (node_is_ready S n) w = ready_in (view (wst w)) n"
    and "view (wst (after (node_is_ready S n) w)) = view (wst w)"
proof -
  have "looked_up (find (\<lambda>x. node_name x = Some n) (v_nodes (view (wst w)))) RNode (answer S (KReq (GetNode n)) w)"
    using get_node [OF assms] by (simp add: answer_def)
  then show "result (node_is_ready S n) w = ready_in (view (wst w)) n"
    by (cases "find (\<lambda>x. node_name x = Some n) (v_nodes (view (wst w)))") (auto simp: node_is_ready_def ready_in_def)
  show "view (wst (after (node_is_ready S n) w)) = view (wst w)"
    by (rule view_reads [OF _ assms]) (simp_all add: node_is_ready_def)
qed

lemma start_failover_works:
  fixes claim ns :: string
  assumes "inv (wst w)" "stored_state S (\<lambda>s. v_cms (view s)) volume (wst w) = Some sst" "ss_volume sst = volume"
  defines "m \<equiv> start_failover S sst volume claim ns (share_pod_name (volume_name volume))"
  shows "result m w = Inr (Requeue 3)"
    and "stored_state S (\<lambda>s. v_cms (view s)) volume (wst (after m w)) = Some (suspended sst)"
    and "asks_teardown S (view (wst w)) volume claim ns (reqs m w)"
proof -
  let ?vn = "volume_name volume"
  let ?w1 = "after (save_state S (suspended sst)) w"
  let ?w2 = "after (force_detach_backing_pvc S ?vn) ?w1"
  let ?w3 = "after (evict_workload_pods S claim ns) ?w2"
  let ?del = "KReq (DeletePod (share_namespace S) (share_pod_name ?vn))"
  have "ss_volume (suspended sst) = volume" using assms(3) by simp
  note saved = save_works [OF assms(2) this]
  have inv: "inv (wst ?w1)" "inv (wst ?w2)" "inv (wst ?w3)" by (intro inv_after assms(1); simp)+
  note detached = force_detach_works [OF inv(1), where vn = ?vn] and evicted = evict_works [OF inv(2), where claim = claim and ns = ns]
  have shape: "reqs m w = KReq (save_patch S (suspended sst)) # reqs (force_detach_backing_pvc S ?vn) ?w1 @
      reqs (evict_workload_pods S claim ns) ?w2 @ [?del]"
    "result m w = Inr (Requeue 3)" "wst (after m w) = snd (srv S ?del (wst ?w3))"
    using saved(1) detached(1) evicted(1)
    by (simp_all add: m_def start_failover_def Let_def failing_suspended after_kcall wst_after_call)
  show "result m w = Inr (Requeue 3)" by (rule shape(2))
  have "v_cms (view (wst (after m w))) = v_cms (view (wst ?w1))"
    using fewer_podsD(5) [OF delete_pod [OF inv(3)]] fewer_podsD(5) [OF evicted(2)] fewer_vasD(5) [OF detached(2)]
    by (simp add: shape(3))
  then show "stored_state S (\<lambda>s. v_cms (view s)) volume (wst (after m w)) = Some (suspended sst)"
    using saved(2) stored_state_view [of view "wst (after m w)" "wst ?w1" S volume] by simp
  obtain c where v1: "view (wst ?w1) = (view (wst w))\<lparr>v_cms := c\<rparr>" using view_after_save by blast
  have pods2: "v_pods (view (wst ?w2)) = v_pods (view (wst w))" using fewer_vasD(1) [OF detached(2)] v1 by simp
  show "asks_teardown S (view (wst w)) volume claim ns (reqs m w)"
    unfolding asks_teardown_def shape(1)
    using detached(4) evicted(3) by (auto simp: v1 pods2)
qed

lemma tears_down:
  assumes "inv (wst w)" "bound_volume pvc = Some volume" "is_rwx_pvc pvc" "pvc_deletion_timestamp pvc = None"
    and "stored_state S (\<lambda>s. v_cms (view s)) volume (wst w) = Some sst \<or>
      state_map S (\<lambda>s. v_cms (view s)) volume (wst w) = None \<and> sst = ShareState_new volume"
    and "ss_volume sst = volume"
    and "v_pods (view (wst w)) (share_namespace S) (share_pod_name (volume_name volume)) = Some pod"
    and "unhealthy_in (view (wst w)) pod"
  shows "result (reconcile S pvc) w = Inr (Requeue 3) \<and>
    stored_state S (\<lambda>s. v_cms (view s)) volume (wst (after (reconcile S pvc) w)) = Some (suspended sst) \<and>
    asks_teardown S (view (wst w)) volume (or_empty (pvc_name pvc)) (or_empty (pvc_namespace pvc)) (reqs (reconcile S pvc) w)"
proof -
  let ?c = "or_empty (pvc_name pvc)" and ?n = "or_empty (pvc_namespace pvc)" and ?nm = "share_pod_name (volume_name volume)"
  let ?m = "start_failover S sst volume ?c ?n ?nm"
  obtain w3 where w3: "inv (wst w3)" "stored_state S (\<lambda>s. v_cms (view s)) volume (wst w3) = Some sst"
    "view (wst w3) = (view (wst w))\<lparr>v_svcs := v_svcs (view (wst w3)), v_cms := v_cms (view (wst w3))\<rparr>"
    "result (reconcile S pvc) w = result (reconcile_pod S sst volume ?c ?n ?nm pod) w3"
    "after (reconcile S pvc) w = after (reconcile_pod S sst volume ?c ?n ?nm pod) w3"
    "set (reqs (reconcile_pod S sst volume ?c ?n ?nm pod) w3) \<subseteq> set (reqs (reconcile S pvc) w)"
    using reaches_pod [OF assms(1-5)] assms(7) by (auto simp: pod_arm_def)
  obtain d e where v: "view (wst w3) = (view (wst w))\<lparr>v_svcs := d, v_cms := e\<rparr>" using w3(3) by blast
  obtain w4 where w4: "inv (wst w4)" "view (wst w4) = view (wst w3)"
    "result (reconcile_pod S sst volume ?c ?n ?nm pod) w3 = result ?m w4"
    "after (reconcile_pod S sst volume ?c ?n ?nm pod) w3 = after ?m w4"
    "set (reqs ?m w4) \<subseteq> set (reqs (reconcile_pod S sst volume ?c ?n ?nm pod) w3)"
  proof (cases "pod_phase pod = ''Running''")
    case True
    then obtain n where n: "Option.bind (pod_spec pod) ps_node_name = Some n" "\<not> ready_in (view (wst w3)) n"
      using assms(8) by (auto simp: unhealthy_in_def v ready_in_def)
    then show ?thesis
      using that [of "after (node_is_ready S n) w3"] node_ready_works [OF w3(1), of n] True
        inv_after [OF traced_node_is_ready(2) w3(1)]
      by (auto simp: reconcile_pod_def Let_def pod_phase_def [symmetric])
  next
    case False
    then show ?thesis using that [of w3] assms(8) w3(1)
      by (auto simp: reconcile_pod_def Let_def pod_phase_def [symmetric] unhealthy_in_def)
  qed
  have "stored_state S (\<lambda>s. v_cms (view s)) volume (wst w4) = Some sst"
    using w3(2) stored_state_view [of view "wst w4" "wst w3" S volume] w4(2) by simp
  note torn = start_failover_works [OF w4(1) this assms(6), of ?c ?n]
  have "set (reqs ?m w4) \<subseteq> set (reqs (reconcile S pvc) w)" using w4(5) w3(6) by blast
  with torn(3) have "asks_teardown S (view (wst w)) volume ?c ?n (reqs (reconcile S pvc) w)"
    by (auto simp: asks_teardown_def w4(2) v subset_iff)
  with torn(1,2) show ?thesis by (simp add: w3(4,5) w4(3,4))
qed

text \<open>Both halves of a failover.\<close>

lemma fails_over:
  assumes "inv (wst w')" "bound_volume pvc = Some volume" "is_rwx_pvc pvc" "pvc_deletion_timestamp pvc = None"
    and "stored_state S (\<lambda>s. v_cms (view s)) volume (wst w') = Some (suspended sst)" "ss_volume sst = volume"
    and "v_pods (view (wst w')) (share_namespace S) (share_pod_name (volume_name volume)) = None"
    and "\<not> attached S (view (wst w')) (volume_name volume)" "usable_node S (view (wst w')) sst n"
  shows "result (reconcile S pvc) w' = Inr (Requeue 5) \<and>
    (\<exists>node. new_home (view (wst w')) sst node \<and> (recorded_on sst pod \<longrightarrow> Option.bind (pod_spec pod) ps_node_name \<noteq> Some node) \<and>
       started_on S view volume (or_empty (pvc_name pvc)) (or_empty (pvc_namespace pvc)) node
         (wst (after (reconcile S pvc) w')))"
proof -
  have same: "suspects (suspended sst) = suspects sst" by (simp add: suspects_def [of "suspended sst"])
  have "result (reconcile S pvc) w' = Inr (Requeue 5) \<and>
    (\<exists>node. new_home (view (wst w')) (suspended sst) node \<and>
       started_on S view volume (or_empty (pvc_name pvc)) (or_empty (pvc_namespace pvc)) node
         (wst (after (reconcile S pvc) w')))"
    using assms(5,6,9) by (intro recovers [OF assms(1-4) _ _ assms(7,8)]) (simp_all add: usable_node_def same)
  moreover have "new_home v (suspended sst) node \<longleftrightarrow> new_home v sst node" for v node by (simp add: new_home_def same)
  ultimately show ?thesis using recorded_elsewhere by blast
qed

text \<open>A running share-manager on a Ready node is recorded, and nothing else is changed.\<close>

lemma records_running:
  assumes "inv (wst w)" "bound_volume pvc = Some volume" "is_rwx_pvc pvc" "pvc_deletion_timestamp pvc = None"
    and "stored_state S (\<lambda>s. v_cms (view s)) volume (wst w) = Some sst \<or>
      state_map S (\<lambda>s. v_cms (view s)) volume (wst w) = None \<and> sst = ShareState_new volume"
    and "ss_volume sst = volume"
    and "v_pods (view (wst w)) (share_namespace S) (share_pod_name (volume_name volume)) = Some pod"
    and "pod_phase pod = ''Running''" "Option.bind (pod_spec pod) ps_node_name = Some node" "ready_in (view (wst w)) node"
  defines "w' \<equiv> after (reconcile S pvc) w"
  shows "result (reconcile S pvc) w = Inr (Requeue 60) \<and>
    stored_state S (\<lambda>s. v_cms (view s)) volume (wst w') = Some (sst\<lparr>ss_node := Some node, ss_state := ''running''\<rparr>) \<and>
    view (wst w') = (view (wst w))\<lparr>v_svcs := v_svcs (view (wst w')), v_cms := v_cms (view (wst w'))\<rparr>"
proof -
  let ?c = "or_empty (pvc_name pvc)" and ?n = "or_empty (pvc_namespace pvc)" and ?nm = "share_pod_name (volume_name volume)"
  let ?st = "sst\<lparr>ss_node := Some node, ss_state := ''running''\<rparr>"
  let ?m = "reconcile_pod S sst volume ?c ?n ?nm pod"
  obtain w3 where w3: "inv (wst w3)" "stored_state S (\<lambda>s. v_cms (view s)) volume (wst w3) = Some sst"
    "view (wst w3) = (view (wst w))\<lparr>v_svcs := v_svcs (view (wst w3)), v_cms := v_cms (view (wst w3))\<rparr>"
    "result (reconcile S pvc) w = result ?m w3" "w' = after ?m w3"
    using reaches_pod [OF assms(1-5)] assms(7) by (auto simp: pod_arm_def w'_def)
  obtain d e where v: "view (wst w3) = (view (wst w))\<lparr>v_svcs := d, v_cms := e\<rparr>" using w3(3) by blast
  let ?w4 = "after (node_is_ready S node) w3"
  have ready: "result (node_is_ready S node) w3" "view (wst ?w4) = view (wst w3)"
    using node_ready_works [OF w3(1), of node] assms(10) by (simp_all add: v ready_in_def)
  have stored4: "stored_state S (\<lambda>s. v_cms (view s)) volume (wst ?w4) = Some sst"
    using w3(2) stored_state_view [of view "wst ?w4" "wst w3" S volume] ready(2) by simp
  have "ss_volume ?st = volume" using assms(6) by simp
  note saved = save_works [OF stored4 this]
  have shape: "?m = do { r \<leftarrow> node_is_ready S node;
      if \<not> r then start_failover S sst volume ?c ?n ?nm
      else if ss_state sst \<noteq> ''running'' \<or> ss_node sst \<noteq> Some node
      then bindE (or_kube_err (save_state S ?st)) (\<lambda>_. State_Monad.return (Inr (Requeue 60)))
      else State_Monad.return (Inr (Requeue 60)) }"
    using assms(8,9) by (simp add: reconcile_pod_def Let_def pod_phase_def [symmetric])
  show ?thesis
  proof (cases "ss_state sst \<noteq> ''running'' \<or> ss_node sst \<noteq> Some node")
    case True
    then have m: "result ?m w3 = Inr (Requeue 60)" "after ?m w3 = after (save_state S ?st) ?w4"
      using ready(1) saved(1) by (simp_all add: shape)
    obtain c where "view (wst w') = (view (wst ?w4))\<lparr>v_cms := c\<rparr>"
      using view_after_save [of ?st ?w4] w3(5) m(2) by auto
    then have "view (wst w') = (view (wst w))\<lparr>v_svcs := d, v_cms := c\<rparr>" using ready(2) v by simp
    then have "view (wst w') = (view (wst w))\<lparr>v_svcs := v_svcs (view (wst w')), v_cms := v_cms (view (wst w'))\<rparr>" by simp
    with m saved(2) w3(4,5) show ?thesis by simp
  next
    case False
    then have "result ?m w3 = Inr (Requeue 60)" "after ?m w3 = ?w4" "?st = sst"
      using ready(1) by (simp_all add: shape)
    with stored4 w3(3-5) ready(2) show ?thesis by simp
  qed
qed

text \<open>CreateVolume for a volume that is there and served: it only looks.\<close>

lemma create_reuses:
  fixes req :: CreateVolumeRequest
  assumes "inv (wst w)" "0 < fst (startup_poll d)"
  defines "vn \<equiv> volume_name (cv_name req)" and "ns \<equiv> share_namespace S"
  assumes "v_pvcs (view (wst w)) (share_namespace S) (backing_pvc_name (volume_name (cv_name req))) = Some claim"
    and "v_svcs (view (wst w)) (share_namespace S) (volume_name (cv_name req)) = Some svc"
    and "v_pods (view (wst w)) (share_namespace S) (share_pod_name (volume_name (cv_name req))) = Some pod"
    and "phase_of pod = Some ''Running''"
  shows "result (create_volume S d req) w = Inr (created_volume req (or_empty (Option.bind (pod_status pod) pst_pod_ip)))"
    and "reqs (create_volume S d req) w =
      [KReq (GetPvc ns (backing_pvc_name vn)), KReq (GetSvc ns vn), KReq (GetPod ns (share_pod_name vn)),
       KReq (GetPod ns (share_pod_name vn)), KReq (GetPod ns (share_pod_name vn))]"
    and "view (wst (after (create_volume S d req) w)) = view (wst w)"
proof -
  let ?get = "KReq (GetPod ns (share_pod_name vn))"
  let ?w1 = "after (call S (KReq (GetPvc ns (backing_pvc_name vn)))) w"
  let ?w2 = "after (call S (KReq (GetSvc ns vn))) ?w1"
  let ?w3 = "after (call S ?get) ?w2"
  let ?w4 = "after (call S ?get) ?w3"
  have inv: "inv (wst ?w1)" "inv (wst ?w2)" "inv (wst ?w3)" "inv (wst ?w4)" by (intro inv_after assms(1); simp)+
  have view: "view (wst (after (call S (KReq k)) w)) = view (wst w)" if "is_read k" for k w
    using reads [OF that] by (simp add: wst_after_call)
  have answers: "answer S (KReq (GetPvc ns (backing_pvc_name vn))) w = KResp (RPvc claim)"
    "answer S (KReq (GetSvc ns vn)) ?w1 = KResp (RSvc svc)"
    "answer S ?get ?w2 = KResp (RPod pod)" "answer S ?get ?w3 = KResp (RPod pod)" "answer S ?get ?w4 = KResp (RPod pod)"
    using get_pvc [OF assms(1), of ns "backing_pvc_name vn"] get_svc [OF inv(1), of ns vn]
      get_pod [OF inv(2), of ns "share_pod_name vn"] get_pod [OF inv(3), of ns "share_pod_name vn"]
      get_pod [OF inv(4), of ns "share_pod_name vn"] assms(5-7)
    by (simp_all add: answer_def view vn_def ns_def)
  obtain k where k: "fst (startup_poll d) = Suc k" using assms(2) by (cases "fst (startup_poll d)") auto
  note defs = create_volume_def ensure_backing_pvc_def ensure_volume_service_def replace_stuck_pod_def
    ensure_share_pod_def Let_def after_kcall vn_def [symmetric] ns_def [symmetric]
  show "result (create_volume S d req) w = Inr (created_volume req (or_empty (Option.bind (pod_status pod) pst_pod_ip)))"
    "reqs (create_volume S d req) w =
      [KReq (GetPvc ns (backing_pvc_name vn)), KReq (GetSvc ns vn), ?get, ?get, ?get]"
    using assms(8) by (simp_all add: defs answers k)
  then show "view (wst (after (create_volume S d req) w)) = view (wst w)"
    by (intro view_reads assms(1)) simp_all
qed

end

subsection \<open>The contract holds for the in-memory server\<close>

definition mem_view :: "cluster \<Rightarrow> kview" where
  "mem_view c = \<lparr>v_pods = (\<lambda>ns n. map_of (cl_pods c) (ns, n)), v_nodes = cl_nodes c,
     v_pvcs = (\<lambda>ns n. map_of (cl_pvcs c) (ns, n)), v_svcs = (\<lambda>ns n. map_of (cl_svcs c) (ns, n)),
     v_cms = mem_cms c, v_vas = cl_vas c\<rparr>"

text \<open>Each pod is stored once, under its own name.\<close>

definition mem_ok :: "cluster \<Rightarrow> bool" where
  "mem_ok c \<longleftrightarrow> distinct (map fst (cl_pods c)) \<and> (\<forall>((ns, n), p)\<in>set (cl_pods c). pod_name_or_default p = n)"

lemma mem_ok_step: "mem_ok c \<Longrightarrow> mem_ok (snd (mem_srv q c))"
proof (induction q c rule: mem_srv.induct)
  case (1 k c)
  have sub: "distinct (map fst (without x m)) \<and> set (without x m) \<subseteq> set m" if "distinct (map fst m)" for x and m :: "('a \<times> 'b) list"
    using that by (auto simp: without_def distinct_map_filter)
  show ?case
  proof (cases k)
    case (CreatePod ns p)
    then show ?thesis using 1
      by (auto simp: mem_ok_def Let_def pod_name_or_default_def map_of_eq_None_iff split: option.split)
  next
    case (DeletePod ns n)
    then show ?thesis using 1 sub [of "cl_pods c" "(ns, n)"] by (auto simp: mem_ok_def)
  qed (use 1 in \<open>auto simp: mem_ok_def Let_def split: option.split\<close>)
qed simp_all

lemma find_filter: "find P xs = (case filter P xs of [] \<Rightarrow> None | x # _ \<Rightarrow> Some x)"
  by (induction xs) auto

lemma mem_srv_eq [simp]: "srv mem_csys = mem_srv"
  by (simp add: mem_csys_def)

lemma mem_404 [simp]: "\<exists>e. api_error 404 x = RErr e \<and> is_code 404 e"
  by (simp add: api_error_def is_code_def)

lemma mem_reads: "is_read k \<Longrightarrow> snd (mem_srv (KReq k) c) = c"
  by (cases k) simp_all

lemma mem_lists_pods:
  assumes "mem_ok c"
  shows "set (filter (\<lambda>p. case sel of None \<Rightarrow> True | Some l \<Rightarrow> has_label l p)
       (map snd (filter (\<lambda>e. fst (fst e) = ns) (cl_pods c)))) =
     {p. selects sel p \<and> (\<exists>n. map_of (cl_pods c) (ns, n) = Some p)}"
proof -
  have "map_of (cl_pods c) k = Some p \<longleftrightarrow> (k, p) \<in> set (cl_pods c)" for k p
    using assms by (simp add: mem_ok_def)
  then show ?thesis by (force simp: selects_def)
qed

lemma mem_creates_pod:
  assumes "pod_name p = Some n" "v_pods (mem_view c) ns n = None"
  shows "\<exists>p'. fst (mem_srv (KReq (CreatePod ns p)) c) = KResp (RPod p') \<and>
    pod_name p' = pod_name p \<and> pod_labels p' = pod_labels p \<and> pod_spec p' = pod_spec p \<and>
    mem_view (snd (mem_srv (KReq (CreatePod ns p)) c)) =
      (mem_view c)\<lparr>v_pods := (v_pods (mem_view c))(ns := (v_pods (mem_view c) ns)(n \<mapsto> p'))\<rparr>"
  using assms by (simp add: mem_view_def mem_cms_def Let_def fun_eq_iff map_add_def split: option.split)

lemma mem_creates_svc:
  assumes "svc_name x = Some n" "v_svcs (mem_view c) ns n = None"
  shows "\<exists>x'. fst (mem_srv (KReq (CreateSvc ns x)) c) = KResp (RSvc x') \<and> svc_name x' = svc_name x \<and>
    mem_view (snd (mem_srv (KReq (CreateSvc ns x)) c)) =
      (mem_view c)\<lparr>v_svcs := (v_svcs (mem_view c))(ns := (v_svcs (mem_view c) ns)(n \<mapsto> x'))\<rparr>"
  using assms by (simp add: mem_view_def mem_cms_def Let_def fun_eq_iff map_add_def split: option.split)

lemma mem_deletes:
  "fewer_pods (mem_view (snd (mem_srv (KReq (DeletePod ns n)) c))) (mem_view c)"
  "fewer_vas (mem_view (snd (mem_srv (KReq (DeleteVa n)) c))) (mem_view c)"
  by (auto simp: fewer_pods_def fewer_vas_def mem_view_def map_le_def map_of_without mem_cms_def fun_eq_iff)

lemma mem_cm_frame: "changes_cm q \<Longrightarrow>
    mem_view (snd (mem_srv q c)) = (mem_view c)\<lparr>v_cms := v_cms (mem_view (snd (mem_srv q c)))\<rparr>"
  by (induction q c rule: mem_srv.induct; simp)
     (rename_tac k c, case_tac k; simp add: Let_def mem_view_def split: option.split)

interpretation mem_cluster: kube_cluster mem_csys mem_view mem_ok
proof -
  have "state_store mem_csys (\<lambda>s. v_cms (mem_view s))"
    using mem_store.state_store_axioms by (simp add: mem_view_def)
  moreover have "named_decoders mem_csys" by (rule mem_named) (simp_all add: mem_csys_def)
  moreover have "kube_cluster_axioms mem_csys mem_view mem_ok"
  proof (rule kube_cluster_axioms.intro, unfold mem_srv_eq)
    show "looked_up (find (\<lambda>x. node_name x = Some n) (v_nodes (mem_view c))) RNode (fst (mem_srv (KReq (GetNode n)) c))" for n c
      by (simp add: find_filter mem_view_def split: list.split)
    show "\<exists>ps. fst (mem_srv (KReq (ListPods ns sel)) c) = KResp (RPods ps) \<and>
        set ps = {p. selects sel p \<and> (\<exists>n. v_pods (mem_view c) ns n = Some p)}" if "mem_ok c" for ns sel c
      using mem_lists_pods [OF that, of sel ns] by (simp add: mem_view_def)
    show "pod_name_or_default p = n" if "mem_ok c" "v_pods (mem_view c) ns n = Some p" for c ns n p
      using that by (auto simp: mem_ok_def mem_view_def dest!: map_of_SomeD)
    show "mem_view (snd (mem_srv (KReq k) c)) = mem_view c" if "is_read k" for k c
      using mem_reads [OF that] by simp
    show "\<exists>p. pod_from_value mem_csys (share_pod_json mem_csys vol n cl cns) = Inr p"
      "\<exists>c. svc_from_value mem_csys (service_json mem_csys vol) = Inr c" for vol n cl cns
      by (simp_all add: mem_csys_def mem_pod_from_value_def mem_svc_from_value_def)
  qed (rule mem_ok_step mem_creates_pod mem_creates_svc mem_deletes mem_cm_frame; assumption | 
       simp add: mem_view_def lookup_or_404_def looked_up_def split: option.split)+
  ultimately show "kube_cluster mem_csys mem_view mem_ok" by (simp add: kube_cluster_def)
qed

subsection \<open>Properties\<close>

text \<open>A claim that the controller looks after, and the state of its volume: stored, or not there yet.\<close>

definition live_claim :: "Pvc \<Rightarrow> string \<Rightarrow> bool" where
  "live_claim pvc volume \<longleftrightarrow> bound_volume pvc = Some volume \<and> is_rwx_pvc pvc \<and> pvc_deletion_timestamp pvc = None"

definition holds_state :: "('s, 'z) csys_scheme \<Rightarrow> ('s \<Rightarrow> kview) \<Rightarrow> string \<Rightarrow> 's \<Rightarrow> ShareState \<Rightarrow> bool" where
  "holds_state S view volume s sst \<longleftrightarrow> ss_volume sst = volume \<and>
     (stored_state S (\<lambda>s. v_cms (view s)) volume s = Some sst \<or>
      state_map S (\<lambda>s. v_cms (view s)) volume s = None \<and> sst = ShareState_new volume)"

lemma live_claimD:
  assumes "live_claim pvc volume"
  shows "bound_volume pvc = Some volume" "is_rwx_pvc pvc" "pvc_deletion_timestamp pvc = None"
  using assms by (simp_all add: live_claim_def)

lemma holds_stateD:
  assumes "holds_state S view volume s sst"
  shows "stored_state S (\<lambda>s. v_cms (view s)) volume s = Some sst \<or>
      state_map S (\<lambda>s. v_cms (view s)) volume s = None \<and> sst = ShareState_new volume"
    and "ss_volume sst = volume"
  using assms by (simp_all add: holds_state_def)

definition share_pod_in :: "('s, 'z) csys_scheme \<Rightarrow> kview \<Rightarrow> string \<Rightarrow> Pod option" where
  "share_pod_in S v volume = v_pods v (share_namespace S) (share_pod_name (volume_name volume))"

text \<open>A cluster whose recorded share-manager has failed, and the cluster after one reconciliation.\<close>

definition state3 :: ShareState where
  "state3 = (ShareState_new ''pvc-1'')\<lparr>ss_node := Some ''node-1'', ss_state := ''running''\<rparr>"

definition cluster3 :: cluster where
  "cluster3 = cluster0
     \<lparr>cl_pods := [((''hcloud-csi-rwx'', ''share-manager-pvc-1''), mk_pod ''share-manager-pvc-1'' ''node-1'' ''Failed'')],
      cl_cms := [((''hcloud-csi-rwx'', ''state-pvc-1''), state_cm mem_csys ''state-pvc-1'' state3)]\<rparr>"


lemma cluster_facts [simp]:
  "live_claim pvc0 ''pvc-1''" "mem_ok cluster0" "mem_ok cluster3"
  "share_pod_in mem_csys (mem_view cluster0) ''pvc-1'' = None"
  "share_pod_in mem_csys (mem_view cluster3) ''pvc-1'' = Some (mk_pod ''share-manager-pvc-1'' ''node-1'' ''Failed'')"
  "holds_state mem_csys mem_view ''pvc-1'' cluster0 (ShareState_new ''pvc-1'')"
  by (simp_all add: live_claim_def mem_ok_def cluster3_def cluster0_def empty_cluster_def pod_name_or_default_def
      mk_pod_def share_pod_in_def mem_view_def holds_state_def state_map_def mem_cms_def ShareState_new_def
      share_pod_name_def volume_name_def replace_chars_def)


lemma no_pods_usable:
  assumes "cl_pods c = []" "cl_nodes c = cl_nodes cluster0" "cl_vas c = []"
  shows "share_pod_in mem_csys (mem_view c) v = None" "\<not> attached mem_csys (mem_view c) vn"
    "set (suspects sst) \<subseteq> {''node-1''} \<Longrightarrow> usable_node mem_csys (mem_view c) sst ''node-2''"
  using assms by (auto simp: share_pod_in_def mem_view_def attached_def usable_node_def free_node_def cluster0_def
      empty_cluster_def mk_node_def node_ready_def node_name_or_default_def)

lemma suspects_examples: "set (suspects (ShareState_new v)) = {}" "set (suspects state3) = {''node-1''}"
  by (simp_all add: ShareState_new_def state3_def suspects_def)




text \<open>
  C10. A share-manager that is gone is started again by the very next reconciliation of its claim,
  when the backing volume is not attached and a node is usable: afterwards the pod is there as
  specified for a Ready node other than the last suspect, and the stored state names that node.
\<close>

theorem missing_pod_recreated:
  assumes "kube_cluster S view ok" "live_claim pvc volume" "ok (wst w)" "holds_state S view volume (wst w) sst"
    and "share_pod_in S (view (wst w)) volume = None" "\<not> attached S (view (wst w)) (volume_name volume)"
    and "usable_node S (view (wst w)) sst n"
  shows "result (reconcile S pvc) w = Inr (Requeue 5) \<and>
    (\<exists>node. new_home (view (wst w)) sst node \<and>
       started_on S view volume (or_empty (pvc_name pvc)) (or_empty (pvc_namespace pvc)) node
         (wst (after (reconcile S pvc) w)))"
  by (rule kube_cluster.recovers [OF assms(1,3) live_claimD [OF assms(2)] holds_stateD [OF assms(4)]
        assms(5) [unfolded share_pod_in_def] assms(6,7)])

theorem missing_pod_recreated_witness:
  "result (reconcile mem_csys pvc0) (mem_world cluster0) = Inr (Requeue 5) \<and>
    (\<exists>node. new_home (mem_view cluster0) (ShareState_new ''pvc-1'') node \<and>
       started_on mem_csys mem_view ''pvc-1'' (or_empty (pvc_name pvc0)) (or_empty (pvc_namespace pvc0)) node
         (wst (after (reconcile mem_csys pvc0) (mem_world cluster0))))"
proof -
  have wst: "wst (mem_world cluster0) = cluster0" by (simp add: mem_world_def)
  have "cl_pods cluster0 = []" "cl_vas cluster0 = []" by (simp_all add: cluster0_def empty_cluster_def)
  note usable = no_pods_usable(1,2) [OF this(1) refl this(2)]
    no_pods_usable(3) [OF this(1) refl this(2), of "ShareState_new ''pvc-1''", simplified suspects_examples, OF empty_subsetI]
  show ?thesis
    using missing_pod_recreated [OF mem_cluster.kube_cluster_axioms cluster_facts(1), of "mem_world cluster0"
        "ShareState_new ''pvc-1''" "''node-2''"] usable cluster_facts unfolding wst by blast
qed

text \<open>
  A running share-manager is recorded and left alone: when its pod runs on a Ready node, a
  reconciliation leaves that node and the state running stored, comes back in a minute, and
  changes nothing in the cluster but the state and, if it was missing, the service.
\<close>

lemma running_pod_recorded:
  assumes "kube_cluster S view ok" "live_claim pvc volume" "ok (wst w)" "holds_state S view volume (wst w) sst"
    and "share_pod_in S (view (wst w)) volume = Some pod" "pod_phase pod = ''Running''"
    and "Option.bind (pod_spec pod) ps_node_name = Some node" "ready_in (view (wst w)) node"
  shows "let w' = after (reconcile S pvc) w in
    result (reconcile S pvc) w = Inr (Requeue 60) \<and>
    stored_state S (\<lambda>s. v_cms (view s)) volume (wst w') = Some (sst\<lparr>ss_node := Some node, ss_state := ''running''\<rparr>) \<and>
    view (wst w') = (view (wst w))\<lparr>v_svcs := v_svcs (view (wst w')), v_cms := v_cms (view (wst w'))\<rparr>"
  unfolding Let_def
  by (rule kube_cluster.records_running [OF assms(1,3) live_claimD [OF assms(2)] holds_stateD [OF assms(4)]
        assms(5) [unfolded share_pod_in_def] assms(6-8)])

definition cluster5 :: cluster where
  "cluster5 = cluster0\<lparr>cl_pods := [((''hcloud-csi-rwx'', ''share-manager-pvc-1''), mk_pod ''share-manager-pvc-1'' ''node-2'' ''Running'')]\<rparr>"

text \<open>
  C17. CreateVolume is idempotent: for a volume whose backing claim and service exist and whose
  share-manager runs it only looks these up, changes nothing, does not wait, and answers with
  the volume again, at the current address of the share-manager. The capacity in the answer is
  that of the request: the size of the claim that is already there is not compared with it.
\<close>

theorem create_volume_idempotent:
  assumes "kube_cluster S view ok" "ok (wst w)" "0 < fst (startup_poll d)"
    and "v_pvcs (view (wst w)) (share_namespace S) (backing_pvc_name (volume_name (cv_name req))) = Some claim"
    and "v_svcs (view (wst w)) (share_namespace S) (volume_name (cv_name req)) = Some svc"
    and "share_pod_in S (view (wst w)) (cv_name req) = Some pod" "phase_of pod = Some ''Running''"
  shows "result (create_volume S d req) w = Inr (created_volume req (or_empty (Option.bind (pod_status pod) pst_pod_ip))) \<and>
    (\<forall>q\<in>set (reqs (create_volume S d req) w). \<exists>k. q = KReq k \<and> is_read k) \<and>
    view (wst (after (create_volume S d req) w)) = view (wst w)"
  using kube_cluster.create_reuses [OF assms(1-5) assms(6) [unfolded share_pod_in_def] assms(7)] by simp

definition cluster6 :: cluster where
  "cluster6 = cluster5\<lparr>
     cl_pvcs := [((''hcloud-csi-rwx'', ''pvc-1-backing''),
       \<lparr>pvc_name = Some ''pvc-1-backing'', pvc_namespace = Some ''hcloud-csi-rwx'', pvc_deletion_timestamp = None, pvc_spec = None\<rparr>)],
     cl_svcs := [((''hcloud-csi-rwx'', ''pvc-1''), \<lparr>svc_name = Some ''pvc-1'', svc_spec = None\<rparr>)]\<rparr>"

theorem create_volume_idempotent_witness:
  "\<exists>req. result (create_volume mem_csys CsiDriver_new req) (mem_world cluster6) = Inr (created_volume req ''10.255.0.1'') \<and>
     mem_view (wst (after (create_volume mem_csys CsiDriver_new req) (mem_world cluster6))) = mem_view (wst (mem_world cluster6))"
proof -
  let ?req = "\<lparr>cv_name = ''pvc-1'', cv_capacity_range = None, cv_parameters = Map.empty\<rparr>"
  let ?pod = "mk_pod ''share-manager-pvc-1'' ''node-2'' ''Running''"
  have "mem_ok (wst (mem_world cluster6))" "0 < fst (startup_poll CsiDriver_new)"
    "v_pvcs (mem_view (wst (mem_world cluster6))) (share_namespace mem_csys) (backing_pvc_name (volume_name (cv_name ?req))) =
      Some \<lparr>pvc_name = Some ''pvc-1-backing'', pvc_namespace = Some ''hcloud-csi-rwx'', pvc_deletion_timestamp = None, pvc_spec = None\<rparr>"
    "v_svcs (mem_view (wst (mem_world cluster6))) (share_namespace mem_csys) (volume_name (cv_name ?req)) =
      Some \<lparr>svc_name = Some ''pvc-1'', svc_spec = None\<rparr>"
    "share_pod_in mem_csys (mem_view (wst (mem_world cluster6))) (cv_name ?req) = Some ?pod"
    "phase_of ?pod = Some ''Running''"
    by (simp_all add: mem_world_def mem_ok_def cluster6_def cluster5_def cluster0_def empty_cluster_def pod_name_or_default_def
        mk_pod_def share_pod_in_def mem_view_def share_pod_name_def volume_name_def replace_chars_def backing_pvc_name_def
        phase_of_def CsiDriver_new_def)
  from create_volume_idempotent [OF mem_cluster.kube_cluster_axioms this]
  show ?thesis by (intro exI [of _ ?req]) (simp add: mk_pod_def)
qed

end
