(* ===== verification/Recovery.thy ===== *)
theory Recovery
  imports Api_Server Json_Text
begin

text \<open>
  \<open>src/recovery.rs\<close>: the HTTP service that keeps the NFSv4 clients of every share-manager
  host in a ConfigMap, one entry per ganesha start (\<open>version\<close>). The handlers are
  read-modify-write sequences on the API server; bodies and entries are JSON, whose
  (de)serialisation is a parameter. The abstract view of a ConfigMap is the current version
  and, for every version, the map from clients to revoked file handles; the theorems give
  each handler as an operation on that view, under the contract of the API server
  (\<open>configmap_api\<close>) and of the serialisation (\<open>client_codec\<close>).
\<close>

subsection \<open>Data\<close>

type_synonym clients = "(string, string list) btree"

record RecoveryBackendInput =
  in_hostname :: "string option"
  in_version :: string

record RecoveryBackendStatus =
  rs_id :: string
  rs_typ :: string
  rs_hostname :: string
  rs_clients :: "string list"

text \<open>A status code and a message.\<close>

type_synonym ApiError = "nat \<times> string"

record 's rsys = "'s sys" +
  input_from_slice :: "string \<Rightarrow> string + RecoveryBackendInput"
  clients_from_str :: "string \<Rightarrow> clients option"
  clients_to_string :: "clients \<Rightarrow> string + string"

definition namespace :: "('s, 'z) sys_scheme \<Rightarrow> string" where
  "namespace S =
     (case env_var S ''RECOVERY_BACKEND_NAMESPACE'' of
        Some v \<Rightarrow> if v = [] then ''hcloud-csi-rwx'' else v
      | None \<Rightarrow> ''hcloud-csi-rwx'')"

definition cm_name :: "string \<Rightarrow> string" where
  "cm_name hostname = ''recovery-backend-'' @ hostname"

definition bad_request :: "string \<Rightarrow> ApiError" where
  "bad_request e = (400, e)"

text \<open>\<open>while let Some(rest) = data.strip_suffix(&[0])\<close>\<close>

definition strip_nuls :: "string \<Rightarrow> string" where
  "strip_nuls body = rev (dropWhile (\<lambda>c. c = CHR 0x00) (rev body))"

definition parse_input :: "('s, 'z) rsys_scheme \<Rightarrow> string \<Rightarrow> ApiError + RecoveryBackendInput" where
  "parse_input S body = map_err bad_request (input_from_slice S (strip_nuls body))"

text \<open>\<open>StatusCode::from_u16\<close> accepts 100 to 999.\<close>

definition kube_error :: "('s, 'z) sys_scheme \<Rightarrow> kube_Error \<Rightarrow> ApiError" where
  "kube_error S e =
     ((case e of
         Api resp \<Rightarrow> if 100 \<le> er_code resp \<and> er_code resp < 1000 then er_code resp else 500
       | OtherKube _ \<Rightarrow> 500),
      kube_display S e)"

definition cm_call ::
  "('s, 'z) sys_scheme \<Rightarrow> kreq \<Rightarrow> ('s, ApiError + ConfigMap) io" where
  "cm_call S q = do { r \<leftarrow> kcall S q as_cm; State_Monad.return (map_err (kube_error S) r) }"

text \<open>A merge patch of annotations and data.\<close>

definition cm_patch ::
  "(string, string) btree option \<Rightarrow> (string, string) btree option \<Rightarrow> CmPatch" where
  "cm_patch annotations data =
     \<lparr>pt_name = None, pt_namespace = None, pt_annotations = annotations, pt_data = data\<rparr>"

definition unwrap_map :: "(string, string) btree option \<Rightarrow> (string, string) btree" where
  "unwrap_map m = (case m of Some b \<Rightarrow> b | None \<Rightarrow> bt_empty)"

subsection \<open>Handlers\<close>

definition create :: "('s, 'z) rsys_scheme \<Rightarrow> string \<Rightarrow> ('s, ApiError + nat) io" where
  "create S body =
     (case parse_input S body of
        Inl e \<Rightarrow> State_Monad.return (Inl e)
      | Inr input \<Rightarrow>
          (case in_hostname input of
             None \<Rightarrow> State_Monad.return (Inl (400, ''hostname required in body''))
           | Some hostname \<Rightarrow>
               (let name = cm_name hostname;
                    annotations = bt_from [(''version'', in_version input)];
                    data = bt_from [(in_version input, ''{}'')];
                    cm = \<lparr>cm_meta_name = Some name, cm_meta_namespace = Some (namespace S),
                          cm_annotations = Some annotations, cm_data = Some data\<rparr> in do {
                c \<leftarrow> kcall S (CreateCm (namespace S) cm) as_cm;
                case c of
                  Inr _ \<Rightarrow> State_Monad.return (Inr 200)
                | Inl e \<Rightarrow>
                    if is_code 409 e then
                      bindE (cm_call S (PatchCm (namespace S) name (cm_patch (Some annotations) (Some data))))
                        (\<lambda>_. State_Monad.return (Inr 200))
                    else State_Monad.return (Inl (kube_error S e)) })))"

definition cm_version :: "ConfigMap \<Rightarrow> string" where
  "cm_version cm = or_empty (opt_get (cm_annotations cm) ''version'')"

definition end_grace_patch :: "ConfigMap \<Rightarrow> string \<Rightarrow> CmPatch" where
  "end_grace_patch cm version =
     (let old_version = cm_version cm;
          annotations = bt_insert ''version'' version (unwrap_map (cm_annotations cm));
          data = bt_or_insert version ''{}'' (bt_remove old_version (unwrap_map (cm_data cm)))
      in cm_patch (Some annotations) (Some data))"

definition end_grace :: "('s, 'z) rsys_scheme \<Rightarrow> string \<Rightarrow> string \<Rightarrow> ('s, ApiError + nat) io" where
  "end_grace S hostname body =
     (case parse_input S body of
        Inl e \<Rightarrow> State_Monad.return (Inl e)
      | Inr input \<Rightarrow>
          bindE (cm_call S (GetCm (namespace S) (cm_name hostname))) (\<lambda>cm.
          bindE (cm_call S (PatchCm (namespace S) (cm_name hostname) (end_grace_patch cm (in_version input)))) (\<lambda>_.
            State_Monad.return (Inr 200))))"

text \<open>\<open>serde_json::from_str(&data_str).unwrap_or_default()\<close> on the entry of a version.\<close>

definition version_clients :: "('s, 'z) rsys_scheme \<Rightarrow> ConfigMap \<Rightarrow> string \<Rightarrow> clients" where
  "version_clients S cm version =
     (case clients_from_str S (or_empty (opt_get (cm_data cm) version)) of
        Some m \<Rightarrow> m | None \<Rightarrow> bt_empty)"

text \<open>The entry of a version is replaced, all other entries are written as they were read.\<close>

definition clients_patch ::
  "('s, 'z) rsys_scheme \<Rightarrow> ConfigMap \<Rightarrow> string \<Rightarrow> clients \<Rightarrow> ApiError + CmPatch" where
  "clients_patch S cm version data =
     (case clients_to_string S data of
        Inl e \<Rightarrow> Inl (500, e)
      | Inr new_data \<Rightarrow>
          Inr (cm_patch None (Some (bt_insert version new_data (unwrap_map (cm_data cm))))))"

definition write_clients ::
  "('s, 'z) rsys_scheme \<Rightarrow> string \<Rightarrow> ConfigMap \<Rightarrow> string \<Rightarrow> clients \<Rightarrow> ('s, ApiError + nat) io" where
  "write_clients S hostname cm version data =
     (case clients_patch S cm version data of
        Inl e \<Rightarrow> State_Monad.return (Inl e)
      | Inr patch \<Rightarrow>
          bindE (cm_call S (PatchCm (namespace S) (cm_name hostname) patch)) (\<lambda>_.
            State_Monad.return (Inr 200)))"

definition add_client_id ::
  "('s, 'z) rsys_scheme \<Rightarrow> string \<Rightarrow> string \<Rightarrow> string \<Rightarrow> ('s, ApiError + nat) io" where
  "add_client_id S hostname client_id body =
     (case parse_input S body of
        Inl e \<Rightarrow> State_Monad.return (Inl e)
      | Inr input \<Rightarrow>
          bindE (cm_call S (GetCm (namespace S) (cm_name hostname))) (\<lambda>cm.
            write_clients S hostname cm (in_version input)
              (bt_or_insert client_id [] (version_clients S cm (in_version input)))))"

definition remove_client_id ::
  "('s, 'z) rsys_scheme \<Rightarrow> string \<Rightarrow> string \<Rightarrow> ('s, ApiError + nat) io" where
  "remove_client_id S hostname client_id =
     bindE (cm_call S (GetCm (namespace S) (cm_name hostname))) (\<lambda>cm.
       write_clients S hostname cm (cm_version cm)
         (bt_remove client_id (version_clients S cm (cm_version cm))))"

definition read_client_ids ::
  "('s, 'z) rsys_scheme \<Rightarrow> string \<Rightarrow> ('s, ApiError + RecoveryBackendStatus) io" where
  "read_client_ids S hostname =
     bindE (cm_call S (GetCm (namespace S) (cm_name hostname))) (\<lambda>cm.
       State_Monad.return (Inr
         \<lparr>rs_id = hostname, rs_typ = ''recoveryBackendStatus'', rs_hostname = hostname,
          rs_clients = bt_keys (version_clients S cm (cm_version cm))\<rparr>))"

text \<open>\<open>entry(client_id).or_default().push(revoke_fh)\<close>\<close>

definition push_revoked :: "string \<Rightarrow> string \<Rightarrow> clients \<Rightarrow> clients" where
  "push_revoked client_id revoke_fh m =
     bt_insert client_id ((case bt_get m client_id of Some fhs \<Rightarrow> fhs | None \<Rightarrow> []) @ [revoke_fh]) m"

definition add_revoke_fh ::
  "('s, 'z) rsys_scheme \<Rightarrow> string \<Rightarrow> string \<Rightarrow> string \<Rightarrow> string \<Rightarrow> ('s, ApiError + nat) io" where
  "add_revoke_fh S hostname client_id revoke_fh body =
     (case parse_input S body of
        Inl e \<Rightarrow> State_Monad.return (Inl e)
      | Inr input \<Rightarrow>
          bindE (cm_call S (GetCm (namespace S) (cm_name hostname))) (\<lambda>cm.
            write_clients S hostname cm (in_version input)
              (push_revoked client_id revoke_fh (version_clients S cm (in_version input)))))"

definition healthz :: string where
  "healthz = ''ok''"

subsection \<open>Routing and authentication\<close>

datatype Method = GET | POST | PUT | DELETE | OtherMethod

text \<open>
  A request as the routes see it. The router hands a HEAD request to the handler of GET and
  drops the body of its answer, so the method of such a request is \<open>GET\<close> here.
\<close>

record HttpRequest =
  hr_method :: Method
  hr_path :: "string list"  \<comment> \<open>the decoded segments of the path\<close>
  hr_authorization :: "string option"  \<comment> \<open>the header, when it is visible ASCII\<close>
  hr_body :: string

datatype reply = ReplyStatus nat | ReplyClients RecoveryBackendStatus | ReplyText string

definition require_bearer ::
  "string option \<Rightarrow> string option \<Rightarrow> ('s, ApiError + 'a) io \<Rightarrow> ('s, ApiError + 'a) io" where
  "require_bearer token authorization run_next =
     (case token of
        None \<Rightarrow> run_next
      | Some expected \<Rightarrow>
          if Option.bind authorization (strip_prefix ''Bearer '') = Some expected then run_next
          else State_Monad.return (Inl (401, ''invalid or missing token'')))"

definition as_reply :: "('a \<Rightarrow> reply) \<Rightarrow> ('s, ApiError + 'a) io \<Rightarrow> ('s, ApiError + reply) io" where
  "as_reply f m = bindE m (\<lambda>a. State_Monad.return (Inr (f a)))"

text \<open>
  The table of routes; \<open>None\<close> for a path and method that is not in it. What is answered then
  (404 or 405, or 401 where the token check also wraps the fallback) is up to the library.
\<close>

definition recovery_handler :: "('s, 'z) rsys_scheme \<Rightarrow> HttpRequest \<Rightarrow> ('s, ApiError + reply) io option" where
  "recovery_handler S r =
     (if take 2 (hr_path r) \<noteq> [''v1'', ''recoverybackend''] then None
      else case drop 2 (hr_path r) of
        [] \<Rightarrow> if hr_method r = POST then Some (as_reply ReplyStatus (create S (hr_body r))) else None
      | [hostname] \<Rightarrow>
          if hr_method r = PUT then Some (as_reply ReplyStatus (end_grace S hostname (hr_body r)))
          else if hr_method r = GET then Some (as_reply ReplyClients (read_client_ids S hostname))
          else None
      | [hostname, clientid] \<Rightarrow>
          if hr_method r = PUT then Some (as_reply ReplyStatus (add_client_id S hostname clientid (hr_body r)))
          else if hr_method r = DELETE then Some (as_reply ReplyStatus (remove_client_id S hostname clientid))
          else None
      | [hostname, clientid, revokefh] \<Rightarrow>
          if hr_method r = PUT
          then Some (as_reply ReplyStatus (add_revoke_fh S hostname clientid revokefh (hr_body r)))
          else None
      | _ \<Rightarrow> None)"

definition recovery_routes ::
  "('s, 'z) rsys_scheme \<Rightarrow> string option \<Rightarrow> HttpRequest \<Rightarrow> ('s, ApiError + reply) io option" where
  "recovery_routes S token r =
     map_option (require_bearer token (hr_authorization r)) (recovery_handler S r)"

text \<open>\<open>main\<close>: the health route is merged in without the token check.\<close>

definition recovery_app ::
  "('s, 'z) rsys_scheme \<Rightarrow> string option \<Rightarrow> HttpRequest \<Rightarrow> ('s, ApiError + reply) io option" where
  "recovery_app S token r =
     (if hr_path r = [''v1'', ''healthz'']
      then (if hr_method r = GET then Some (State_Monad.return (Inr (ReplyText healthz))) else None)
      else recovery_routes S token r)"

definition recovery_listen :: "('s, 'z) sys_scheme \<Rightarrow> string" where
  "recovery_listen S = (case env_var S ''RECOVERY_BACKEND_LISTEN'' of Some l \<Rightarrow> l | None \<Rightarrow> ''0.0.0.0:9503'')"

text \<open>The token of \<open>main\<close>: unset or empty switches authentication off.\<close>

definition recovery_token :: "('s, 'z) sys_scheme \<Rightarrow> string option" where
  "recovery_token S =
     (case env_var S ''RECOVERY_BACKEND_TOKEN'' of
        Some t \<Rightarrow> if t = [] then None else Some t
      | None \<Rightarrow> None)"

subsection \<open>Lemmas: traces\<close>

lemma traced_cm_call [simp, traced_intro]: "traced (cm_call S q)"
  by (simp add: cm_call_def)

lemma cm_call_obs [simp]:
  "result (cm_call S q) w = map_err (kube_error S) (decode as_cm (answer S (KReq q) w))"
  "after (cm_call S q) w = after (call S (KReq q)) w"
  "reqs (cm_call S q) w = [KReq q]"
  by (simp_all add: cm_call_def after_kcall)

lemma traced_handlers [simp, traced_intro]:
  "traced (write_clients S h cm v d)" "traced (create S body)" "traced (end_grace S h body)"
  "traced (read_client_ids S h)"
  by (simp_all add: write_clients_def create_def end_grace_def read_client_ids_def Let_def)

lemma traced_client_handlers [simp, traced_intro]:
  "traced (add_client_id S h c body)" "traced (remove_client_id S h c)" "traced (add_revoke_fh S h c f body)"
  by (simp_all add: add_client_id_def remove_client_id_def add_revoke_fh_def)

subsection \<open>The abstract view\<close>

text \<open>
  The contract of the serialised clients: what is written can be read back, what is read
  is an ordered map, the empty object is the empty map, and an empty text is no JSON.
\<close>

locale client_codec =
  fixes enc :: "clients \<Rightarrow> string + string" and dec :: "string \<Rightarrow> clients option"
  assumes dec_enc: "bt_wf m \<Longrightarrow> \<exists>t. enc m = Inr t \<and> dec t = Some m"
    and dec_wf: "dec t = Some m \<Longrightarrow> bt_wf m"
    and dec_empty: "dec ''{}'' = Some bt_empty"
    and dec_blank: "dec [] = None"

locale recovery_store = configmap_api "srv S" cms + client_codec "clients_to_string S" "clients_from_str S"
  for S :: "('s, 'z) rsys_scheme" and cms :: "'s \<Rightarrow> string \<Rightarrow> string \<Rightarrow> ConfigMap option"

text \<open>The ConfigMap of a host, well formed, and nothing else touched.\<close>

definition host_map ::
  "('s, 'z) rsys_scheme \<Rightarrow> ('s \<Rightarrow> string \<Rightarrow> string \<Rightarrow> ConfigMap option) \<Rightarrow> string \<Rightarrow> 's \<Rightarrow> ConfigMap option" where
  "host_map S cms hostname s = cms s (namespace S) (cm_name hostname)"

text \<open>The abstract state of a host: its version and the clients of every version.\<close>

type_synonym recovery_db = "string \<times> (string \<Rightarrow> clients)"

definition recovery_view ::
  "('s, 'z) rsys_scheme \<Rightarrow> ('s \<Rightarrow> string \<Rightarrow> string \<Rightarrow> ConfigMap option) \<Rightarrow> string \<Rightarrow> 's \<Rightarrow> recovery_db option" where
  "recovery_view S cms hostname s =
     (case host_map S cms hostname s of
        None \<Rightarrow> None
      | Some cm \<Rightarrow> if wf_cm cm then Some (cm_version cm, version_clients S cm) else None)"

definition only_host ::
  "('s, 'z) rsys_scheme \<Rightarrow> ('s \<Rightarrow> string \<Rightarrow> string \<Rightarrow> ConfigMap option) \<Rightarrow> string \<Rightarrow> 's \<Rightarrow> 's \<Rightarrow> bool" where
  "only_host S cms hostname s s' \<longleftrightarrow>
     (\<forall>a b. (a, b) \<noteq> (namespace S, cm_name hostname) \<longrightarrow> cms s' a b = cms s a b)"

text \<open>The operations on the abstract state.\<close>

definition spec_add :: "string \<Rightarrow> string \<Rightarrow> recovery_db \<Rightarrow> recovery_db" where
  "spec_add version client_id db = (fst db, (snd db)(version := bt_or_insert client_id [] (snd db version)))"

definition spec_remove :: "string \<Rightarrow> recovery_db \<Rightarrow> recovery_db" where
  "spec_remove client_id db = (fst db, (snd db)(fst db := bt_remove client_id (snd db (fst db))))"

definition spec_revoke :: "string \<Rightarrow> string \<Rightarrow> string \<Rightarrow> recovery_db \<Rightarrow> recovery_db" where
  "spec_revoke version client_id fh db = (fst db, (snd db)(version := push_revoked client_id fh (snd db version)))"

definition spec_start :: "string \<Rightarrow> recovery_db \<Rightarrow> recovery_db" where
  "spec_start version db = (version, (snd db)(version := bt_empty))"

lemma recovery_viewE:
  assumes "recovery_view S cms h s = Some db"
  obtains cm where "cms s (namespace S) (cm_name h) = Some cm" "wf_cm cm" "db = (cm_version cm, version_clients S cm)"
  using assms by (auto simp: recovery_view_def host_map_def split: option.splits if_splits)

lemma unwrap_map_wf [simp]:
  "wf_cm cm \<Longrightarrow> bt_wf (unwrap_map (cm_data cm))" "wf_cm cm \<Longrightarrow> bt_wf (unwrap_map (cm_annotations cm))"
  by (auto simp: wf_cm_def unwrap_map_def bt.wf_empty split: option.splits)

lemma bt_get_unwrap [simp]: "bt_get (unwrap_map m) k = opt_get m k"
  by (simp add: unwrap_map_def bt_empty_def split: option.split)

lemma push_revoked_wf [simp]: "bt_wf m \<Longrightarrow> bt_wf (push_revoked c fh m)"
  by (simp add: push_revoked_def bt_wf_insert)

context recovery_store
begin

lemma version_clients_wf [simp]: "bt_wf (version_clients S cm v)"
  by (auto simp: version_clients_def dec_wf bt.wf_empty split: option.split)

text \<open>A patch of a host's ConfigMap that is answered.\<close>

lemma patch_host:
  assumes "cms (wst w) (namespace S) (cm_name h) = Some cm" "wf_cm cm"
  shows "result (cm_call S (PatchCm (namespace S) (cm_name h) p)) w = Inr (merge_cm cm p)"
    and "recovery_view S cms h (wst (after (cm_call S (PatchCm (namespace S) (cm_name h) p)) w)) =
      Some (cm_version (merge_cm cm p), version_clients S (merge_cm cm p))"
    and "only_host S cms h (wst w) (wst (after (cm_call S (PatchCm (namespace S) (cm_name h) p)) w))"
  using patch_merges [OF assms(1), of p] wf_merge_cm [OF assms(2), of p]
  by (simp_all add: answer_def wst_after_call recovery_view_def host_map_def only_host_def)

lemma get_host:
  assumes "cms (wst w) (namespace S) (cm_name h) = Some cm"
  shows "result (cm_call S (GetCm (namespace S) (cm_name h))) w = Inr cm"
    and "cms (wst (after (cm_call S (GetCm (namespace S) (cm_name h))) w)) = cms (wst w)"
  using get_found [OF assms] get_reads by (simp_all add: answer_def wst_after_call)

text \<open>
  Replacing the entry of one version, from a ConfigMap that may have been read before
  another write to the same entry.
\<close>

lemma write_clients_stale:
  assumes "cms (wst w) (namespace S) (cm_name h) = Some cur" "wf_cm cur" "wf_cm cm" "bt_wf m"
    and "\<And>k. k \<noteq> v \<Longrightarrow> opt_get (cm_data cm) k = opt_get (cm_data cur) k"
  shows "result (write_clients S h cm v m) w = Inr 200 \<and>
    recovery_view S cms h (wst (after (write_clients S h cm v m) w)) =
      Some (cm_version cur, (version_clients S cur)(v := m)) \<and>
    only_host S cms h (wst w) (wst (after (write_clients S h cm v m) w)) \<and>
    (\<exists>cm'. cms (wst (after (write_clients S h cm v m) w)) (namespace S) (cm_name h) = Some cm' \<and> wf_cm cm' \<and>
       (\<forall>k. k \<noteq> v \<longrightarrow> opt_get (cm_data cm') k = opt_get (cm_data cur) k))"
proof -
  obtain t where t: "clients_to_string S m = Inr t" "clients_from_str S t = Some m"
    using dec_enc [OF assms(4)] by blast
  let ?p = "cm_patch None (Some (bt_insert v t (unwrap_map (cm_data cm))))"
  have merged: "opt_get (cm_data (merge_cm cur ?p)) k = (if k = v then Some t else opt_get (cm_data cur) k)" for k
    using assms(3,5) by (auto simp: merge_cm_def cm_patch_def bt_wf_insert bt_get_insert_gen split: option.split)
  have "version_clients S (merge_cm cur ?p) = (version_clients S cur)(v := m)"
    using t(2) by (auto simp: version_clients_def merged fun_eq_iff)
  moreover have "cm_version (merge_cm cur ?p) = cm_version cur"
    by (simp add: cm_version_def merge_cm_def cm_patch_def merge_map_def)
  moreover have "cms (wst (after (cm_call S (PatchCm (namespace S) (cm_name h) ?p)) w)) (namespace S) (cm_name h) =
      Some (merge_cm cur ?p)"
    using patch_merges [OF assms(1), of ?p] by (simp add: wst_after_call)
  ultimately show ?thesis
    using patch_host [OF assms(1,2), of ?p] t(1) merged wf_merge_cm [OF assms(2), of ?p]
    by (simp add: write_clients_def clients_patch_def)
qed

lemma write_clients_refines:
  assumes "cms (wst w) (namespace S) (cm_name h) = Some cm" "wf_cm cm" "bt_wf m"
  shows "result (write_clients S h cm v m) w = Inr 200 \<and>
    recovery_view S cms h (wst (after (write_clients S h cm v m) w)) =
      Some (cm_version cm, (version_clients S cm)(v := m)) \<and>
    only_host S cms h (wst w) (wst (after (write_clients S h cm v m) w))"
  using write_clients_stale [OF assms(1,2,2,3)] by blast

lemma add_client_refines:
  assumes "recovery_view S cms h (wst w) = Some db" "parse_input S body = Inr input"
  shows "result (add_client_id S h c body) w = Inr 200 \<and>
    recovery_view S cms h (wst (after (add_client_id S h c body) w)) = Some (spec_add (in_version input) c db) \<and>
    only_host S cms h (wst w) (wst (after (add_client_id S h c body) w))"
proof -
  obtain cm where cm: "cms (wst w) (namespace S) (cm_name h) = Some cm" "wf_cm cm" "db = (cm_version cm, version_clients S cm)"
    using assms(1) by (rule recovery_viewE)
  let ?w1 = "after (cm_call S (GetCm (namespace S) (cm_name h))) w"
  have "cms (wst ?w1) (namespace S) (cm_name h) = Some cm" using get_host(2) [OF cm(1)] cm(1) by simp
  from write_clients_refines [OF this cm(2), of "bt_or_insert c [] (version_clients S cm (in_version input))" "in_version input"]
  show ?thesis using get_host [OF cm(1)] cm(3) assms(2)
    by (simp add: add_client_id_def spec_add_def bt_wf_or_insert only_host_def del: cm_call_obs)
qed

lemma remove_client_refines:
  assumes "recovery_view S cms h (wst w) = Some db"
  shows "result (remove_client_id S h c) w = Inr 200 \<and>
    recovery_view S cms h (wst (after (remove_client_id S h c) w)) = Some (spec_remove c db) \<and>
    only_host S cms h (wst w) (wst (after (remove_client_id S h c) w))"
proof -
  obtain cm where cm: "cms (wst w) (namespace S) (cm_name h) = Some cm" "wf_cm cm" "db = (cm_version cm, version_clients S cm)"
    using assms(1) by (rule recovery_viewE)
  let ?w1 = "after (cm_call S (GetCm (namespace S) (cm_name h))) w"
  have "cms (wst ?w1) (namespace S) (cm_name h) = Some cm" using get_host(2) [OF cm(1)] cm(1) by simp
  from write_clients_refines [OF this cm(2), of "bt_remove c (version_clients S cm (cm_version cm))" "cm_version cm"]
  show ?thesis using get_host [OF cm(1)] cm(3)
    by (simp add: remove_client_id_def spec_remove_def bt_wf_remove only_host_def del: cm_call_obs)
qed

lemma revoke_refines:
  assumes "recovery_view S cms h (wst w) = Some db" "parse_input S body = Inr input"
  shows "result (add_revoke_fh S h c fh body) w = Inr 200 \<and>
    recovery_view S cms h (wst (after (add_revoke_fh S h c fh body) w)) = Some (spec_revoke (in_version input) c fh db) \<and>
    only_host S cms h (wst w) (wst (after (add_revoke_fh S h c fh body) w))"
proof -
  obtain cm where cm: "cms (wst w) (namespace S) (cm_name h) = Some cm" "wf_cm cm" "db = (cm_version cm, version_clients S cm)"
    using assms(1) by (rule recovery_viewE)
  let ?w1 = "after (cm_call S (GetCm (namespace S) (cm_name h))) w"
  have "cms (wst ?w1) (namespace S) (cm_name h) = Some cm" using get_host(2) [OF cm(1)] cm(1) by simp
  from write_clients_refines [OF this cm(2), of "push_revoked c fh (version_clients S cm (in_version input))" "in_version input"]
  show ?thesis using get_host [OF cm(1)] cm(3) assms(2)
    by (simp add: add_revoke_fh_def spec_revoke_def only_host_def del: cm_call_obs)
qed

text \<open>The two handlers that set the version.\<close>

lemma create_existing_refines:
  assumes "recovery_view S cms h (wst w) = Some db" "parse_input S body = Inr input" "in_hostname input = Some h"
  shows "result (create S body) w = Inr 200 \<and>
    recovery_view S cms h (wst (after (create S body) w)) = Some (spec_start (in_version input) db) \<and>
    only_host S cms h (wst w) (wst (after (create S body) w))"
proof -
  obtain cm where cm: "cms (wst w) (namespace S) (cm_name h) = Some cm" "wf_cm cm" "db = (cm_version cm, version_clients S cm)"
    using assms(1) by (rule recovery_viewE)
  let ?v = "in_version input"
  let ?a = "bt_from [(''version'', ?v)]" and ?d = "bt_from [(?v, ''{}'')]"
  let ?new = "\<lparr>cm_meta_name = Some (cm_name h), cm_meta_namespace = Some (namespace S),
      cm_annotations = Some ?a, cm_data = Some ?d\<rparr>"
  let ?w1 = "after (call S (KReq (CreateCm (namespace S) ?new))) w" and ?p = "cm_patch (Some ?a) (Some ?d)"
  obtain e where conflict: "answer S (KReq (CreateCm (namespace S) ?new)) w = KResp (RErr e)" "is_code 409 e"
    and same: "cms (wst ?w1) = cms (wst w)"
    using create_conflict [OF _ cm(1), of ?new] by (auto simp: answer_def wst_after_call)
  have cm1: "cms (wst ?w1) (namespace S) (cm_name h) = Some cm" using same cm(1) by simp
  have ver: "cm_version (merge_cm cm ?p) = ?v"
    by (simp add: cm_version_def merge_cm_def cm_patch_def)
  have "version_clients S (merge_cm cm ?p) = (version_clients S cm)(?v := bt_empty)"
    by (auto simp: version_clients_def merge_cm_def cm_patch_def dec_empty fun_eq_iff)
  with ver patch_host [OF cm1 cm(2), of ?p] show ?thesis
    using conflict assms(2,3) same cm(3)
    by (simp add: create_def Let_def after_kcall spec_start_def only_host_def del: cm_call_obs)
qed

lemma create_new_refines:
  assumes "host_map S cms h (wst w) = None" "parse_input S body = Inr input" "in_hostname input = Some h"
  shows "result (create S body) w = Inr 200 \<and>
    recovery_view S cms h (wst (after (create S body) w)) = Some (in_version input, \<lambda>_. bt_empty) \<and>
    only_host S cms h (wst w) (wst (after (create S body) w))"
proof -
  let ?v = "in_version input"
  let ?new = "\<lparr>cm_meta_name = Some (cm_name h), cm_meta_namespace = Some (namespace S),
      cm_annotations = Some (bt_from [(''version'', ?v)]), cm_data = Some (bt_from [(?v, ''{}'')])\<rparr>"
  have "cms (wst w) (namespace S) (cm_name h) = None" using assms(1) by (simp add: host_map_def)
  from create_new [OF _ this, of ?new] have made:
    "answer S (KReq (CreateCm (namespace S) ?new)) w = KResp (RCm ?new)"
    "cms (snd (srv S (KReq (CreateCm (namespace S) ?new)) (wst w))) =
       (\<lambda>a b. if a = namespace S \<and> b = cm_name h then Some ?new else cms (wst w) a b)"
    by (simp_all add: answer_def)
  have "version_clients S ?new = (\<lambda>_. bt_empty)"
    by (auto simp: version_clients_def dec_empty dec_blank fun_eq_iff)
  moreover have "cm_version ?new = ?v" "wf_cm ?new" by (simp_all add: cm_version_def wf_cm_def)
  ultimately show ?thesis using made assms(2,3)
    by (simp add: create_def Let_def after_kcall wst_after_call recovery_view_def host_map_def only_host_def)
qed

lemma end_grace_refines:
  assumes "recovery_view S cms h (wst w) = Some db" "parse_input S body = Inr input"
  shows "result (end_grace S h body) w = Inr 200 \<and>
    recovery_view S cms h (wst (after (end_grace S h body) w)) =
      Some (in_version input, if in_version input = fst db then (snd db)(fst db := bt_empty) else snd db) \<and>
    only_host S cms h (wst w) (wst (after (end_grace S h body) w))"
proof -
  obtain cm where cm: "cms (wst w) (namespace S) (cm_name h) = Some cm" "wf_cm cm" "db = (cm_version cm, version_clients S cm)"
    using assms(1) by (rule recovery_viewE)
  let ?v = "in_version input" and ?old = "cm_version cm" and ?p = "end_grace_patch cm (in_version input)"
  let ?w1 = "after (cm_call S (GetCm (namespace S) (cm_name h))) w"
  have cm1: "cms (wst ?w1) (namespace S) (cm_name h) = Some cm" using get_host(2) [OF cm(1)] cm(1) by simp
  have ver: "cm_version (merge_cm cm ?p) = ?v"
    using cm(2) by (simp add: cm_version_def merge_cm_def end_grace_patch_def cm_patch_def Let_def
        bt_wf_insert bt_get_insert_gen)
  have data: "opt_get (cm_data (merge_cm cm ?p)) k =
      (if k = ?v \<and> (k = ?old \<or> opt_get (cm_data cm) k = None) then Some ''{}'' else opt_get (cm_data cm) k)" for k
    using cm(2) by (auto simp: merge_cm_def end_grace_patch_def cm_patch_def Let_def bt_wf_or_insert bt_wf_remove
        bt_get_or_insert bt_get_remove_gen split: option.split)
  have "version_clients S (merge_cm cm ?p) = (if ?v = ?old then (version_clients S cm)(?old := bt_empty) else version_clients S cm)"
    by (auto simp: version_clients_def data dec_empty dec_blank fun_eq_iff)
  with ver patch_host [OF cm1 cm(2), of ?p] show ?thesis
    using get_host [OF cm(1)] cm(3) assms(2) by (simp add: end_grace_def only_host_def del: cm_call_obs)
qed

lemma read_refines:
  assumes "recovery_view S cms h (wst w) = Some db"
  shows "result (read_client_ids S h) w = Inr \<lparr>rs_id = h, rs_typ = ''recoveryBackendStatus'', rs_hostname = h,
      rs_clients = bt_keys (snd db (fst db))\<rparr>"
    and "cms (wst (after (read_client_ids S h) w)) = cms (wst w)"
proof -
  obtain cm where cm: "cms (wst w) (namespace S) (cm_name h) = Some cm" "wf_cm cm" "db = (cm_version cm, version_clients S cm)"
    using assms(1) by (rule recovery_viewE)
  show "result (read_client_ids S h) w = Inr \<lparr>rs_id = h, rs_typ = ''recoveryBackendStatus'', rs_hostname = h,
      rs_clients = bt_keys (snd db (fst db))\<rparr>"
    using get_host(1) [OF cm(1)] cm(3) by (simp add: read_client_ids_def del: cm_call_obs)
  show "cms (wst (after (read_client_ids S h) w)) = cms (wst w)"
    using get_host [OF cm(1)] by (simp add: read_client_ids_def del: cm_call_obs)
qed

end

subsection \<open>The contracts hold for the in-memory server with JSON text\<close>

definition clients_json :: "clients \<Rightarrow> json" where
  "clients_json m = JObj (map (\<lambda>(k, fhs). (k, JArr (map JStr fhs))) m)"

definition strings_of_json :: "json \<Rightarrow> string list option" where
  "strings_of_json j = (case j of JArr xs \<Rightarrow> those (map jstr xs) | _ \<Rightarrow> None)"

definition clients_of_json :: "json \<Rightarrow> clients option" where
  "clients_of_json j =
     (case j of
        JObj kvs \<Rightarrow> map_option bt_from (those (map (\<lambda>(k, v). map_option (Pair k) (strings_of_json v)) kvs))
      | _ \<Rightarrow> None)"

definition input_of_json :: "json \<Rightarrow> RecoveryBackendInput option" where
  "input_of_json j =
     (case Option.bind (jget ''version'' j) jstr of
        None \<Rightarrow> None
      | Some v \<Rightarrow>
          (case jget ''hostname'' j of
             None \<Rightarrow> Some \<lparr>in_hostname = None, in_version = v\<rparr>
           | Some JNull \<Rightarrow> Some \<lparr>in_hostname = None, in_version = v\<rparr>
           | Some (JStr h) \<Rightarrow> Some \<lparr>in_hostname = Some h, in_version = v\<rparr>
           | Some _ \<Rightarrow> None))"

definition mem_rsys :: "cluster rsys" where
  "mem_rsys =
     \<lparr>srv = mem_srv, env_var = (\<lambda>_. None), kube_display = mem_display,
      pod_from_value = mem_pod_from_value, svc_from_value = mem_svc_from_value,
      pvc_from_value = mem_pvc_from_value,
      input_from_slice = (\<lambda>t. case Option.bind (parse_json t) input_of_json of
        None \<Rightarrow> Inl ''invalid input'' | Some i \<Rightarrow> Inr i),
      clients_from_str = (\<lambda>t. Option.bind (parse_json t) clients_of_json),
      clients_to_string = (\<lambda>m. Inr (print_json (clients_json m)))\<rparr>"

lemma those_Some [simp]: "those (map (\<lambda>x. Some (f x)) xs) = Some (map f xs)"
  by (induction xs) simp_all

lemma strings_of_json_arr [simp]: "strings_of_json (JArr (map JStr fhs)) = Some fhs"
  by (simp add: strings_of_json_def comp_def jstr_def)

lemma bt_from_wf: "bt_wf m \<Longrightarrow> bt_from m = m"
proof (rule bt_ext)
  assume wf: "bt_wf m"
  show "bt_wf (bt_from m)" by (simp add: bt_from_def bt_wf_fold_insert bt.wf_empty)
  fix k show "bt_get (bt_from m) k = bt_get m k"
    using wf by (simp add: bt_from_def bt_get_fold_insert bt_wf_def strict_sorted_iff bt_empty_def split: option.split)
qed

lemma clients_of_clients_json: "bt_wf m \<Longrightarrow> clients_of_json (clients_json m) = Some m"
  by (simp add: clients_of_json_def clients_json_def comp_def case_prod_unfold bt_from_wf)

lemma clients_of_json_wf: "clients_of_json j = Some m \<Longrightarrow> bt_wf m"
  by (auto simp: clients_of_json_def bt_from_def bt_wf_fold_insert bt.wf_empty split: json.splits)

interpretation mem_recovery: recovery_store mem_rsys mem_cms
proof -
  have "configmap_api (srv mem_rsys) mem_cms"
    by (simp add: mem_rsys_def mem.configmap_api_axioms)
  moreover have "client_codec (clients_to_string mem_rsys) (clients_from_str mem_rsys)"
  proof
    show "bt_wf m \<Longrightarrow> \<exists>t. clients_to_string mem_rsys m = Inr t \<and> clients_from_str mem_rsys t = Some m" for m
      by (simp add: mem_rsys_def clients_of_clients_json)
    show "clients_from_str mem_rsys t = Some m \<Longrightarrow> bt_wf m" for t m
      by (auto simp: mem_rsys_def clients_of_json_wf split: bind_splits)
    show "clients_from_str mem_rsys ''{}'' = Some bt_empty" by code_simp
    show "clients_from_str mem_rsys [] = None" by code_simp
  qed
  ultimately show "recovery_store mem_rsys mem_cms" by (simp add: recovery_store_def)
qed

subsection \<open>Sequences of calls\<close>

text \<open>The calls of one host, with the version a body carries.\<close>

datatype recovery_op =
    Create string | EndGrace string | AddClient string string | RemoveClient string
  | AddRevoke string string string

definition run_op ::
  "('s, 'z) rsys_scheme \<Rightarrow> (recovery_op \<Rightarrow> string) \<Rightarrow> string \<Rightarrow> recovery_op \<Rightarrow> ('s, ApiError + nat) io" where
  "run_op S body h c =
     (case c of
        Create v \<Rightarrow> create S (body c)
      | EndGrace v \<Rightarrow> end_grace S h (body c)
      | AddClient v cid \<Rightarrow> add_client_id S h cid (body c)
      | RemoveClient cid \<Rightarrow> remove_client_id S h cid
      | AddRevoke v cid fh \<Rightarrow> add_revoke_fh S h cid fh (body c))"

fun spec_op :: "recovery_op \<Rightarrow> recovery_db \<Rightarrow> recovery_db" where
  "spec_op (Create v) db = spec_start v db"
| "spec_op (EndGrace v) db = (if v = fst db then spec_start v db else (v, snd db))"
| "spec_op (AddClient v c) db = spec_add v c db"
| "spec_op (RemoveClient c) db = spec_remove c db"
| "spec_op (AddRevoke v c fh) db = spec_revoke v c fh db"

fun run_ops ::
  "('s, 'z) rsys_scheme \<Rightarrow> (recovery_op \<Rightarrow> string) \<Rightarrow> string \<Rightarrow> recovery_op list \<Rightarrow> ('s, (ApiError + nat) list) io" where
  "run_ops S body h [] = State_Monad.return []"
| "run_ops S body h (c # cs) = do {
     r \<leftarrow> run_op S body h c;
     rs \<leftarrow> run_ops S body h cs;
     State_Monad.return (r # rs) }"




definition db_wf :: "recovery_db \<Rightarrow> bool" where
  "db_wf db \<longleftrightarrow> (\<forall>v. bt_wf (snd db v))"




text \<open>
  The bodies of the calls: each parses to the version of the call, and the body of the first
  one, whose path has no host, names the host.
\<close>

definition good_bodies :: "('s, 'z) rsys_scheme \<Rightarrow> (recovery_op \<Rightarrow> string) \<Rightarrow> string \<Rightarrow> bool" where
  "good_bodies S body h \<longleftrightarrow>
     (\<forall>c. case c of
        Create v \<Rightarrow> parse_input S (body c) = Inr \<lparr>in_hostname = Some h, in_version = v\<rparr>
      | EndGrace v \<Rightarrow> map_option in_version (case_sum (\<lambda>_. None) Some (parse_input S (body c))) = Some v
      | AddClient v _ \<Rightarrow> map_option in_version (case_sum (\<lambda>_. None) Some (parse_input S (body c))) = Some v
      | AddRevoke v _ _ \<Rightarrow> map_option in_version (case_sum (\<lambda>_. None) Some (parse_input S (body c))) = Some v
      | RemoveClient _ \<Rightarrow> True)"

lemma good_bodiesD:
  assumes "good_bodies S body h"
  shows "parse_input S (body (Create v)) = Inr \<lparr>in_hostname = Some h, in_version = v\<rparr>"
    and "\<exists>i. parse_input S (body (EndGrace v)) = Inr i \<and> in_version i = v"
    and "\<exists>i. parse_input S (body (AddClient v c)) = Inr i \<and> in_version i = v"
    and "\<exists>i. parse_input S (body (AddRevoke v c fh)) = Inr i \<and> in_version i = v"
  using assms [unfolded good_bodies_def, rule_format, of "Create v"]
    assms [unfolded good_bodies_def, rule_format, of "EndGrace v"]
    assms [unfolded good_bodies_def, rule_format, of "AddClient v c"]
    assms [unfolded good_bodies_def, rule_format, of "AddRevoke v c fh"]
  by (auto split: sum.splits)

context recovery_store
begin

lemma run_op_refines:
  assumes "good_bodies S body h" "recovery_view S cms h (wst w) = Some db"
  shows "result (run_op S body h c) w = Inr 200 \<and>
    recovery_view S cms h (wst (after (run_op S body h c) w)) = Some (spec_op c db) \<and>
    only_host S cms h (wst w) (wst (after (run_op S body h c) w))"
proof (cases c)
  case (Create v)
  then show ?thesis using create_existing_refines [OF assms(2) good_bodiesD(1) [OF assms(1)]] by (simp add: run_op_def)
next
  case (EndGrace v)
  obtain i where "parse_input S (body (EndGrace v)) = Inr i" "in_version i = v"
    using good_bodiesD(2) [OF assms(1)] by blast
  then show ?thesis using EndGrace end_grace_refines [OF assms(2)] by (auto simp: run_op_def spec_start_def)
next
  case (AddClient v cid)
  obtain i where "parse_input S (body (AddClient v cid)) = Inr i" "in_version i = v"
    using good_bodiesD(3) [OF assms(1)] by blast
  then show ?thesis using AddClient add_client_refines [OF assms(2)] by (auto simp: run_op_def)
next
  case (RemoveClient cid)
  then show ?thesis using remove_client_refines [OF assms(2)] by (simp add: run_op_def)
next
  case (AddRevoke v cid fh)
  obtain i where "parse_input S (body (AddRevoke v cid fh)) = Inr i" "in_version i = v"
    using good_bodiesD(4) [OF assms(1)] by blast
  then show ?thesis using AddRevoke revoke_refines [OF assms(2)] by (auto simp: run_op_def)
qed

lemma only_host_trans:
  "only_host S cms h s1 s2 \<Longrightarrow> only_host S cms h s2 s3 \<Longrightarrow> only_host S cms h s1 s3"
  by (simp add: only_host_def)

lemma run_ops_refine:
  assumes "good_bodies S body h"
  shows "recovery_view S cms h (wst w) = Some db \<Longrightarrow>
    result (run_ops S body h cs) w = map (\<lambda>_. Inr 200) cs \<and>
    recovery_view S cms h (wst (after (run_ops S body h cs) w)) = Some (fold spec_op cs db) \<and>
    only_host S cms h (wst w) (wst (after (run_ops S body h cs) w))"
proof (induction cs arbitrary: w db)
  case Nil
  then show ?case by (simp add: only_host_def)
next
  case (Cons c cs)
  then show ?case using run_op_refines [OF assms Cons.prems, of c] only_host_trans by fastforce
qed

lemma view_wf: "recovery_view S cms h s = Some db \<Longrightarrow> db_wf db"
  by (auto simp: db_wf_def elim!: recovery_viewE)

end

subsection \<open>Concrete hosts\<close>

definition body0 :: "recovery_op \<Rightarrow> string" where
  "body0 c =
     print_json (case c of
        Create v \<Rightarrow> JObj [(''hostname'', JStr ''h1''), (''version'', JStr v)]
      | EndGrace v \<Rightarrow> JObj [(''version'', JStr v)]
      | AddClient v _ \<Rightarrow> JObj [(''version'', JStr v)]
      | AddRevoke v _ _ \<Rightarrow> JObj [(''version'', JStr v)]
      | RemoveClient _ \<Rightarrow> JNull)"

definition host_cluster :: cluster where
  "host_cluster = empty_cluster\<lparr>cl_cms := [((''hcloud-csi-rwx'', ''recovery-backend-h1''),
     \<lparr>cm_meta_name = Some ''recovery-backend-h1'', cm_meta_namespace = Some ''hcloud-csi-rwx'',
      cm_annotations = Some (bt_from [(''version'', ''V1'')]),
      cm_data = Some (bt_from [(''V1'', print_json (clients_json [(''c1'', [])]))])\<rparr>)]\<rparr>"

lemma strip_nuls_json: "last s \<noteq> CHR 0x00 \<Longrightarrow> s \<noteq> [] \<Longrightarrow> strip_nuls s = s"
  by (cases s rule: rev_cases) (simp_all add: strip_nuls_def)

lemma strip_nuls_print_obj: "strip_nuls (print_json (JObj kvs)) = print_json (JObj kvs)"
  by (rule strip_nuls_json) simp_all

lemma good_body0: "good_bodies mem_rsys body0 ''h1''"
  by (auto simp: good_bodies_def parse_input_def body0_def strip_nuls_print_obj mem_rsys_def input_of_json_def
      jget_def jstr_def simp del: print_json.simps split: recovery_op.split)

lemma host_cluster_view:
  "\<exists>cl. recovery_view mem_rsys mem_cms ''h1'' (wst (mem_world host_cluster)) = Some (''V1'', cl) \<and> cl ''V1'' = [(''c1'', [])]"
proof -
  have "bt_wf [(''c1'', [] :: string list)]" by (simp add: bt_wf_def)
  then show ?thesis
    by (simp add: recovery_view_def host_map_def mem_cms_def mem_world_def host_cluster_def namespace_def cm_name_def
        mem_rsys_def wf_cm_def cm_version_def version_clients_def clients_of_clients_json)
qed

text \<open>
  Two calls at the same time. The API server as the first call sees it while a second one is
  pending: before the first patch is applied, all the requests of the second call are. The
  state holds, beside that of the server, what the second call has answered.
\<close>

definition overtaken ::
  "('s, 'z) rsys_scheme \<Rightarrow> ('s, 'a) io \<Rightarrow> ('s \<times> 'a option) rsys" where
  "overtaken S other =
     \<lparr>srv = (\<lambda>q (s, over).
        let (s1, over1) =
          (case (q, over) of
             (KReq (PatchCm _ _ _), None) \<Rightarrow>
               (wst (after other \<lparr>wst = s, wlog = []\<rparr>), Some (result other \<lparr>wst = s, wlog = []\<rparr>))
           | _ \<Rightarrow> (s, over));
            (r, s2) = srv S q s1
        in (r, (s2, over1))),
      env_var = env_var S, kube_display = kube_display S,
      pod_from_value = pod_from_value S, svc_from_value = svc_from_value S, pvc_from_value = pvc_from_value S,
      input_from_slice = input_from_slice S, clients_from_str = clients_from_str S,
      clients_to_string = clients_to_string S\<rparr>"

lemma overtaken_env [simp]:
  "namespace (overtaken S other) = namespace S" "parse_input (overtaken S other) = parse_input S"
  "version_clients (overtaken S other) = version_clients S" "kube_error (overtaken S other) = kube_error S"
  "clients_patch (overtaken S other) = clients_patch S"
  by (simp_all add: overtaken_def namespace_def parse_input_def version_clients_def kube_error_def
      clients_patch_def fun_eq_iff)

lemma overtaken_srv:
  "srv (overtaken S other) (KReq (GetCm ns n)) (s, r) =
     (fst (srv S (KReq (GetCm ns n)) s), (snd (srv S (KReq (GetCm ns n)) s), r))"
  "srv (overtaken S other) (KReq (PatchCm ns n p)) (s, None) =
     (let w = after other \<lparr>wst = s, wlog = []\<rparr>
      in (answer S (KReq (PatchCm ns n p)) w,
          (wst (after (call S (KReq (PatchCm ns n p))) w), Some (result other \<lparr>wst = s, wlog = []\<rparr>))))"
  by (simp_all add: overtaken_def answer_def wst_after_call Let_def split_beta)

lemma write_overtaken:
  fixes w :: "('s \<times> 'a option) world"
  assumes "wst w = (s, None)" "clients_patch S cm v m = Inr p"
  shows "result (write_clients (overtaken S other) h cm v m) w =
      result (write_clients S h cm v m) (after other \<lparr>wst = s, wlog = []\<rparr>)"
    and "wst (after (write_clients (overtaken S other) h cm v m) w) =
      (wst (after (write_clients S h cm v m) (after other \<lparr>wst = s, wlog = []\<rparr>)), Some (result other \<lparr>wst = s, wlog = []\<rparr>))"
  using assms by (simp_all add: write_clients_def answer_def wst_after_call overtaken_srv Let_def split: sum.split)

context recovery_store
begin

lemma add_client_keeps:
  assumes "cms (wst w) (namespace S) (cm_name h) = Some cm" "wf_cm cm" "parse_input S body = Inr input"
  shows "result (add_client_id S h c body) w = Inr 200 \<and>
    (\<exists>cm'. cms (wst (after (add_client_id S h c body) w)) (namespace S) (cm_name h) = Some cm' \<and> wf_cm cm' \<and>
       cm_version cm' = cm_version cm \<and>
       (\<forall>k. k \<noteq> in_version input \<longrightarrow> opt_get (cm_data cm') k = opt_get (cm_data cm) k))"
proof -
  let ?v = "in_version input" and ?w1 = "after (cm_call S (GetCm (namespace S) (cm_name h))) w"
  have "cms (wst ?w1) (namespace S) (cm_name h) = Some cm" using get_host(2) [OF assms(1)] assms(1) by simp
  from write_clients_stale [OF this assms(2,2), of "bt_or_insert c [] (version_clients S cm ?v)" ?v]
  show ?thesis
    using get_host(1) [OF assms(1)] assms(3)
    by (auto simp: add_client_id_def bt_wf_or_insert recovery_view_def host_map_def simp del: cm_call_obs)
qed

lemma racing_adds:
  fixes w :: "('s \<times> (ApiError + nat) option) world"
  assumes "wst w = (s, None)" "recovery_view S cms h s = Some db"
    and "parse_input S body1 = Inr i1" "in_version i1 = v" "parse_input S body2 = Inr i2" "in_version i2 = v"
  shows "result (add_client_id (overtaken S (add_client_id S h c2 body2)) h c1 body1) w = Inr 200 \<and>
    (\<exists>s'. wst (after (add_client_id (overtaken S (add_client_id S h c2 body2)) h c1 body1) w) = (s', Some (Inr 200)) \<and>
       recovery_view S cms h s' = Some (spec_add v c1 db))"
proof -
  let ?other = "add_client_id S h c2 body2" and ?get = "GetCm (namespace S) (cm_name h)"
  let ?S = "overtaken S ?other"
  obtain cm where cm: "cms s (namespace S) (cm_name h) = Some cm" "wf_cm cm" "db = (cm_version cm, version_clients S cm)"
    using assms(2) by (rule recovery_viewE)
  let ?m = "bt_or_insert c1 [] (version_clients S cm v)"
  have wf: "bt_wf ?m" by (simp add: bt_wf_or_insert)
  define w1 where "w1 = after (cm_call ?S ?get) w"
  define s1 where "s1 = snd (srv S (KReq ?get) s)"
  have get: "result (cm_call ?S ?get) w = Inr cm" "wst w1 = (s1, None)"
    using get_found [OF cm(1)] assms(1) by (simp_all add: w1_def s1_def answer_def wst_after_call overtaken_srv)
  have at1: "cms s1 (namespace S) (cm_name h) = Some cm" using get_reads cm(1) by (simp add: s1_def)
  define w2 where "w2 = after ?other \<lparr>wst = s1, wlog = []\<rparr>"
  obtain cur where cur: "result ?other \<lparr>wst = s1, wlog = []\<rparr> = Inr 200"
      "cms (wst w2) (namespace S) (cm_name h) = Some cur" "wf_cm cur" "cm_version cur = cm_version cm"
      "\<forall>k. k \<noteq> v \<longrightarrow> opt_get (cm_data cur) k = opt_get (cm_data cm) k"
    using add_client_keeps [of "\<lparr>wst = s1, wlog = []\<rparr>" h cm body2 i2 c2] at1 cm(2) assms(5,6) by (auto simp: w2_def)
  have others: "version_clients S cur k = version_clients S cm k" if "k \<noteq> v" for k
    using cur(5) that by (simp add: version_clients_def)
  have written: "result (write_clients S h cm v ?m) w2 = Inr 200"
      "recovery_view S cms h (wst (after (write_clients S h cm v ?m) w2)) =
         Some (cm_version cur, (version_clients S cur)(v := ?m))"
    using write_clients_stale [OF cur(2,3) cm(2) wf, of v] cur(5) by simp_all
  moreover have "(version_clients S cur)(v := ?m) = (version_clients S cm)(v := ?m)"
    using others by (auto simp: fun_eq_iff)
  moreover obtain p where p: "clients_patch S cm v ?m = Inr p"
    using dec_enc [OF wf] by (auto simp: clients_patch_def)
  note wrote = write_overtaken [OF get(2) p, of ?other h, folded w2_def]
  have run: "result (add_client_id ?S h c1 body1) w = result (write_clients ?S h cm v ?m) w1"
      "after (add_client_id ?S h c1 body1) w = after (write_clients ?S h cm v ?m) w1"
    using get(1) assms(3,4) by (simp_all add: add_client_id_def w1_def del: cm_call_obs)
  ultimately show ?thesis
    using cm(3) cur(1,4) by (simp add: run wrote spec_add_def)
qed

end

subsection \<open>Properties\<close>



text \<open>
  A client that was added is listed: after an add for the current version the service
  reads back exactly the clients it listed before and the new one, in ascending order and
  without duplicates.
\<close>

lemma added_client_is_listed:
  assumes "recovery_store S cms" "recovery_view S cms h (wst w) = Some db"
    and "parse_input S body = Inr input" "in_version input = fst db"
  shows "\<exists>st. result (read_client_ids S h) (after (add_client_id S h c body) w) = Inr st \<and>
    set (rs_clients st) = insert c (set (bt_keys (snd db (fst db)))) \<and> sorted_wrt (<) (rs_clients st)"
proof -
  have after_add: "recovery_view S cms h (wst (after (add_client_id S h c body) w)) = Some (spec_add (fst db) c db)"
    using recovery_store.add_client_refines [OF assms(1,2,3), of c] assms(4) by simp
  let ?m = "snd db (fst db)"
  have wf: "bt_wf ?m"
    using assms(2) recovery_store.version_clients_wf [OF assms(1)] by (auto elim!: recovery_viewE)
  then have wf': "bt_wf (bt_or_insert c [] ?m)" by (rule bt_wf_or_insert)
  have "set (bt_keys (bt_or_insert c [] ?m)) = insert c (set (bt_keys ?m))"
    using bt.set_keys [OF wf'] bt.set_keys [OF wf] by (auto simp: dom_def bt_get_or_insert split: if_splits)
  then show ?thesis
    using recovery_store.read_refines(1) [OF assms(1) after_add] bt.sorted_keys [OF wf'] by (simp add: spec_add_def)
qed

text \<open>
  C38. A restarted ganesha finds no clients: it announces itself with a fresh version and then
  reads; the announcement makes that version current with no clients, so the list is empty
  although the clients of the version before are still in the ConfigMap.
\<close>

theorem restart_hides_clients:
  assumes "recovery_store S cms" "good_bodies S body h" "recovery_view S cms h (wst w) = Some db" "v \<noteq> fst db"
  shows "(\<exists>st. result (read_client_ids S h) (after (run_op S body h (Create v)) w) = Inr st \<and> rs_clients st = []) \<and>
    (\<exists>db'. recovery_view S cms h (wst (after (run_op S body h (Create v)) w)) = Some db' \<and>
       snd db' (fst db) = snd db (fst db))"
proof -
  have view: "recovery_view S cms h (wst (after (run_op S body h (Create v)) w)) = Some (spec_start v db)"
    using recovery_store.run_op_refines [OF assms(1,2,3), of "Create v"] by simp
  from recovery_store.read_refines(1) [OF assms(1) this] view assms(4) show ?thesis
    by (simp add: spec_start_def bt_keys_def bt_empty_def)
qed

theorem restart_hides_clients_witness:
  "\<exists>st. result (read_client_ids mem_rsys ''h1'') (after (run_op mem_rsys body0 ''h1'' (Create ''V2'')) (mem_world host_cluster)) =
     Inr st \<and> rs_clients st = []"
proof -
  obtain cl where cl: "recovery_view mem_rsys mem_cms ''h1'' (wst (mem_world host_cluster)) = Some (''V1'', cl)"
    using host_cluster_view by blast
  from restart_hides_clients [OF mem_recovery.recovery_store_axioms good_body0 cl, of "''V2''"] show ?thesis by simp
qed

text \<open>
  C39. The end of grace does the opposite of what it is for: called with the current version,
  as ganesha does, it forgets the clients of that version; called with another one, the
  clients of the old version stay in the ConfigMap, because a merge patch cannot remove them.
\<close>

theorem end_grace_effect:
  assumes "recovery_store S cms" "good_bodies S body h" "recovery_view S cms h (wst w) = Some db"
  shows "\<exists>db'. recovery_view S cms h (wst (after (run_op S body h (EndGrace v)) w)) = Some db' \<and> fst db' = v \<and>
    (v = fst db \<longrightarrow> snd db' v = bt_empty) \<and> (v \<noteq> fst db \<longrightarrow> snd db' (fst db) = snd db (fst db))"
  using recovery_store.run_op_refines [OF assms, of "EndGrace v"] by (auto simp: spec_start_def)

theorem end_grace_effect_witness:
  "\<exists>db'. recovery_view mem_rsys mem_cms ''h1'' (wst (after (run_op mem_rsys body0 ''h1'' (EndGrace ''V1'')) (mem_world host_cluster))) =
     Some db' \<and> snd db' ''V1'' = bt_empty"
proof -
  obtain cl where cl: "recovery_view mem_rsys mem_cms ''h1'' (wst (mem_world host_cluster)) = Some (''V1'', cl)"
    using host_cluster_view by blast
  from end_grace_effect [OF mem_recovery.recovery_store_axioms good_body0 cl, of "''V1''"] show ?thesis by auto
qed

text \<open>
  C40. Two clients added at the same time can overwrite each other. The handler reads the
  ConfigMap and then patches the whole entry of the version; when a second add for the same
  version runs between the read and the patch of the first, both are answered with 200, the
  client of the first is recorded and that of the second, new one is not. One after the
  other, the same two calls record both.
\<close>

theorem racing_adds_lose_one:
  assumes "recovery_store S cms" "wst w = (s, None)" "recovery_view S cms h s = Some db"
    and "parse_input S body1 = Inr i1" "in_version i1 = v" "parse_input S body2 = Inr i2" "in_version i2 = v"
    and "bt_get (snd db v) c2 = None" "c1 \<noteq> c2" "wst w0 = s"
  shows "result (add_client_id (overtaken S (add_client_id S h c2 body2)) h c1 body1) w = Inr 200 \<and>
    (\<exists>s' db'. wst (after (add_client_id (overtaken S (add_client_id S h c2 body2)) h c1 body1) w) = (s', Some (Inr 200)) \<and>
       recovery_view S cms h s' = Some db' \<and> bt_get (snd db' v) c1 \<noteq> None \<and> bt_get (snd db' v) c2 = None) \<and>
    (\<exists>db'. recovery_view S cms h (wst (after (add_client_id S h c1 body1) (after (add_client_id S h c2 body2) w0))) = Some db' \<and>
       bt_get (snd db' v) c1 \<noteq> None \<and> bt_get (snd db' v) c2 \<noteq> None)"
proof -
  have view: "recovery_view S cms h (wst w0) = Some db" using assms(3,10) by simp
  have second: "recovery_view S cms h (wst (after (add_client_id S h c2 body2) w0)) = Some (spec_add v c2 db)"
    using recovery_store.add_client_refines [OF assms(1) view assms(6), of c2] assms(7) by simp
  have both: "recovery_view S cms h (wst (after (add_client_id S h c1 body1) (after (add_client_id S h c2 body2) w0))) =
      Some (spec_add v c1 (spec_add v c2 db))"
    using recovery_store.add_client_refines [OF assms(1) second assms(4), of c1] assms(5) by simp
  show ?thesis
    using recovery_store.racing_adds [OF assms(1-7), of c2 c1] both assms(8,9)
    by (auto simp: spec_add_def bt_get_or_insert)
qed

theorem racing_adds_lose_one_witness:
  "\<exists>s' db'. wst (after (add_client_id (overtaken mem_rsys (add_client_id mem_rsys ''h1'' ''c3'' (body0 (AddClient ''V1'' ''c3''))))
       ''h1'' ''c2'' (body0 (AddClient ''V1'' ''c2''))) \<lparr>wst = (wst (mem_world host_cluster), None), wlog = []\<rparr>) = (s', Some (Inr 200)) \<and>
     recovery_view mem_rsys mem_cms ''h1'' s' = Some db' \<and> bt_get (snd db' ''V1'') ''c2'' \<noteq> None \<and> bt_get (snd db' ''V1'') ''c3'' = None"
proof -
  obtain cl where cl: "recovery_view mem_rsys mem_cms ''h1'' (wst (mem_world host_cluster)) = Some (''V1'', cl)"
    "cl ''V1'' = [(''c1'', [])]" using host_cluster_view by blast
  obtain i1 i2 where "parse_input mem_rsys (body0 (AddClient ''V1'' ''c2'')) = Inr i1" "in_version i1 = ''V1''"
    "parse_input mem_rsys (body0 (AddClient ''V1'' ''c3'')) = Inr i2" "in_version i2 = ''V1''"
    using good_bodiesD(3) [OF good_body0] by metis
  from racing_adds_lose_one [OF mem_recovery.recovery_store_axioms _ cl(1) this, of
      "\<lparr>wst = (wst (mem_world host_cluster), None), wlog = []\<rparr>" "''c3''" "''c2''" "mem_world host_cluster"] cl(2)
  show ?thesis by auto
qed

text \<open>
  C27. Only the health route is open. With a token configured, every other route of the service
  answers 401 and does nothing, not even a read, unless the authorization header is the word
  Bearer, a space and exactly the token; with the right header, or without a configured token,
  the handler of the route runs unchanged.
\<close>

theorem token_guards_routes:
  assumes "recovery_app S token r = Some m"
  shows "hr_path r = [''v1'', ''healthz''] \<and> run_state m w = (Inr (ReplyText ''ok''), w) \<or>
    (\<exists>handler. recovery_handler S r = Some handler \<and>
       run_state m w =
        (case token of
           None \<Rightarrow> run_state handler w
         | Some t \<Rightarrow> if hr_authorization r = Some (''Bearer '' @ t) then run_state handler w
                     else (Inl (401, ''invalid or missing token''), w)))"
proof (cases "hr_path r = [''v1'', ''healthz'']")
  case True
  then show ?thesis using assms by (auto simp: recovery_app_def healthz_def run_state_eq split: if_splits)
next
  case False
  then obtain handler where h: "recovery_handler S r = Some handler"
    and m: "m = require_bearer token (hr_authorization r) handler"
    using assms by (auto simp: recovery_app_def recovery_routes_def)
  have "Option.bind a (strip_prefix ''Bearer '') = Some t \<longleftrightarrow> a = Some (''Bearer '' @ t)" for a t
    by (cases a) (simp_all only: strip_prefix_iff bind.simps option.inject, simp_all)
  then show ?thesis using h by (simp add: m require_bearer_def run_state_eq split: option.split)
qed

theorem token_guards_routes_witness:
  "\<exists>m. recovery_app mem_rsys (Some ''s3cret'')
       \<lparr>hr_method = GET, hr_path = [''v1'', ''recoverybackend'', ''h1''], hr_authorization = Some ''Bearer wrong'', hr_body = []\<rparr> = Some m \<and>
     run_state m (mem_world host_cluster) = (Inl (401, ''invalid or missing token''), mem_world host_cluster)"
proof -
  let ?r = "\<lparr>hr_method = GET, hr_path = [''v1'', ''recoverybackend'', ''h1''], hr_authorization = Some ''Bearer wrong'', hr_body = []\<rparr>"
  obtain m where m: "recovery_app mem_rsys (Some ''s3cret'') ?r = Some m"
    by (simp add: recovery_app_def recovery_routes_def recovery_handler_def)
  from token_guards_routes [OF m, of "mem_world host_cluster"] m show ?thesis by auto
qed

text \<open>
  C34. Bodies are checked before anything is done: trailing zero bytes are ignored, and a body
  that does not parse is answered with 400 on every route that takes one, without a request
  to the API server.
\<close>

theorem bodies_checked:
  "parse_input S (body @ replicate n (CHR 0x00)) = parse_input S body \<and>
   (parse_input S body = Inl e \<longrightarrow> fst e = 400 \<and>
      run_state (create S body) w = (Inl e, w) \<and> run_state (end_grace S h body) w = (Inl e, w) \<and>
      run_state (add_client_id S h c body) w = (Inl e, w) \<and> run_state (add_revoke_fh S h c f body) w = (Inl e, w))"
proof -
  have "dropWhile (\<lambda>c. c = CHR 0x00) (replicate n (CHR 0x00) @ xs) = dropWhile (\<lambda>c. c = CHR 0x00) xs" for xs
    by (induction n) simp_all
  then have "strip_nuls (body @ replicate n (CHR 0x00)) = strip_nuls body" by (simp add: strip_nuls_def)
  then show ?thesis
    by (auto simp: parse_input_def map_err_def bad_request_def create_def end_grace_def add_client_id_def
        add_revoke_fh_def run_state_eq split: sum.splits)
qed

theorem bodies_checked_witness:
  "run_state (create mem_rsys ''not json'') (mem_world host_cluster) = (Inl (400, ''invalid input''), mem_world host_cluster)"
proof -
  have "parse_input mem_rsys ''not json'' = Inl (400, ''invalid input'')" by code_simp
  then show ?thesis using bodies_checked [of mem_rsys "''not json''" 0 "(400, ''invalid input'')" "mem_world host_cluster"] by simp
qed

end
