(* ===== verification/Exec.thy ===== *)
theory Exec
  imports World
begin

text \<open>
  \<open>src/exec.rs\<close>: running commands and long-lived processes. The traits \<open>CommandRunner\<close>,
  \<open>ProcessSpawner\<close> and \<open>ProcessHandle\<close> are the record \<open>exec\<close> of operations (a process
  handle is a number); \<open>SystemExec\<close> implements them by operating-system calls, \<open>FakeExec\<close>
  by a script of rules that records every invocation. What the callers rely on is the locale
  \<open>executor\<close>, which both implementations satisfy.
\<close>

subsection \<open>Outcomes and errors\<close>

record Outcome =
  oc_success :: bool
  oc_code :: "int option"
  oc_stdout :: string

definition Outcome_ok :: Outcome where
  "Outcome_ok = \<lparr>oc_success = True, oc_code = Some 0, oc_stdout = []\<rparr>"

definition Outcome_failed :: "int \<Rightarrow> Outcome" where
  "Outcome_failed code = \<lparr>oc_success = False, oc_code = Some code, oc_stdout = []\<rparr>"

definition with_stdout :: "Outcome \<Rightarrow> string \<Rightarrow> Outcome" where
  "with_stdout oc s = oc\<lparr>oc_stdout := s\<rparr>"

datatype ExecError = Spawn string | Timeout string nat

fun show_ExecError :: "ExecError \<Rightarrow> string" where
  "show_ExecError (Spawn e) = ''failed to spawn: '' @ e"
| "show_ExecError (Timeout program secs) = program @ '' timed out after '' @ show_nat secs @ ''s''"

subsection \<open>The traits\<close>

record 's exec =
  ex_run :: "string \<Rightarrow> string list \<Rightarrow> nat option \<Rightarrow> ('s, ExecError + Outcome) io"
  ex_spawn :: "string \<Rightarrow> string list \<Rightarrow> ('s, ExecError + nat) io"
  ex_is_running :: "nat \<Rightarrow> ('s, bool) io"
  ex_start_kill :: "nat \<Rightarrow> ('s, unit) io"
  ex_wait_with_timeout :: "nat \<Rightarrow> nat \<Rightarrow> ('s, bool) io"

subsection \<open>The operating system\<close>

definition system_run ::
  "('s, 'z) sys_scheme \<Rightarrow> string \<Rightarrow> string list \<Rightarrow> nat option \<Rightarrow> ('s, ExecError + Outcome) io" where
  "system_run S program args timeout = do {
     r \<leftarrow> hcall S (CmdOutput program args timeout);
     State_Monad.return (case r of
         HOutput None \<Rightarrow>
           (case timeout of Some secs \<Rightarrow> Inl (Timeout program secs) | None \<Rightarrow> Inl (Spawn bad_answer))
       | HOutput (Some (Inl e)) \<Rightarrow> Inl (Spawn e)
       | HOutput (Some (Inr (success, code, stdout))) \<Rightarrow>
           Inr \<lparr>oc_success = success, oc_code = code, oc_stdout = stdout\<rparr>
       | _ \<Rightarrow> Inl (Spawn bad_answer)) }"

definition system_spawn ::
  "('s, 'z) sys_scheme \<Rightarrow> string \<Rightarrow> string list \<Rightarrow> ('s, ExecError + nat) io" where
  "system_spawn S program args = do {
     r \<leftarrow> hcall S (SpawnChild program args);
     State_Monad.return (case r of
         HSpawned (Inr h) \<Rightarrow> Inr h
       | HSpawned (Inl e) \<Rightarrow> Inl (Spawn e)
       | _ \<Rightarrow> Inl (Spawn bad_answer)) }"

text \<open>
  \<open>try_wait().ok().flatten().is_none()\<close>: the answer to \<open>TryWait\<close> is an error or whether the
  process has exited; an error counts as running.
\<close>

definition system_is_running :: "('s, 'z) sys_scheme \<Rightarrow> nat \<Rightarrow> ('s, bool) io" where
  "system_is_running S h = do {
     r \<leftarrow> hcall S (TryWait h);
     State_Monad.return (case r of HTryWait (Inr exited) \<Rightarrow> \<not> exited | _ \<Rightarrow> True) }"

definition system_start_kill :: "('s, 'z) sys_scheme \<Rightarrow> nat \<Rightarrow> ('s, unit) io" where
  "system_start_kill S h = do { _ \<leftarrow> hcall S (StartKill h); State_Monad.return () }"

definition system_wait_with_timeout :: "('s, 'z) sys_scheme \<Rightarrow> nat \<Rightarrow> nat \<Rightarrow> ('s, bool) io" where
  "system_wait_with_timeout S h secs = do {
     r \<leftarrow> hcall S (WaitChild h secs);
     State_Monad.return (case r of HWait (Some (Inr ())) \<Rightarrow> True | _ \<Rightarrow> False) }"

definition SystemExec :: "('s, 'z) sys_scheme \<Rightarrow> 's exec" where
  "SystemExec S =
     \<lparr>ex_run = system_run S, ex_spawn = system_spawn S, ex_is_running = system_is_running S,
      ex_start_kill = system_start_kill S, ex_wait_with_timeout = system_wait_with_timeout S\<rparr>"

lemma SystemExec_simps [simp]:
  "ex_run (SystemExec S) = system_run S" "ex_spawn (SystemExec S) = system_spawn S"
  "ex_is_running (SystemExec S) = system_is_running S" "ex_start_kill (SystemExec S) = system_start_kill S"
  "ex_wait_with_timeout (SystemExec S) = system_wait_with_timeout S"
  by (simp_all add: SystemExec_def)

lemma traced_system [simp, traced_intro]:
  "traced (system_run S p a t)" "traced (system_spawn S p a)" "traced (system_is_running S h)"
  "traced (system_start_kill S h)" "traced (system_wait_with_timeout S h n)"
  by (simp_all add: system_run_def system_spawn_def system_is_running_def system_start_kill_def system_wait_with_timeout_def)

lemma reqs_system [simp]:
  "reqs (system_run S p a t) w = [HReq (CmdOutput p a t)]" "reqs (system_spawn S p a) w = [HReq (SpawnChild p a)]"
  "reqs (system_is_running S h) w = [HReq (TryWait h)]" "reqs (system_start_kill S h) w = [HReq (StartKill h)]"
  "reqs (system_wait_with_timeout S h n) w = [HReq (WaitChild h n)]"
  by (simp_all add: system_run_def system_spawn_def system_is_running_def system_start_kill_def system_wait_with_timeout_def)

subsection \<open>The scripted double\<close>

record Invocation =
  inv_program :: string
  inv_args :: "string list"

definition joined :: "Invocation \<Rightarrow> string" where
  "joined iv = inv_program iv @ '' '' @ join '' '' (inv_args iv)"

definition usize_MAX :: nat where
  "usize_MAX = 18446744073709551615"

text \<open>A spawned process: the polls it still reports as alive, and whether it was killed.\<close>

record FakeChild =
  fc_remaining :: nat
  fc_killed :: bool

record FakeExec =
  fk_calls :: "Invocation list"
  fk_rules :: "(Invocation \<Rightarrow> (ExecError + Outcome) option) list"
  fk_spawn_fails :: bool
  fk_alive_polls :: nat
  fk_children :: "FakeChild list"

definition FakeExec_new :: FakeExec where
  "FakeExec_new =
     \<lparr>fk_calls = [], fk_rules = [], fk_spawn_fails = False, fk_alive_polls = usize_MAX, fk_children = []\<rparr>"

definition call_lines :: "FakeExec \<Rightarrow> string list" where
  "call_lines f = map joined (fk_calls f)"

definition ran :: "string \<Rightarrow> FakeExec \<Rightarrow> bool" where
  "ran needle f = list_ex (\<lambda>c. contains c needle) (call_lines f)"

definition on :: "string \<Rightarrow> Outcome \<Rightarrow> FakeExec \<Rightarrow> FakeExec" where
  "on needle oc f =
     f\<lparr>fk_rules := fk_rules f @ [\<lambda>iv. if contains (joined iv) needle then Some (Inr oc) else None]\<rparr>"

definition on_error :: "string \<Rightarrow> FakeExec \<Rightarrow> FakeExec" where
  "on_error needle f =
     f\<lparr>fk_rules := fk_rules f @
        [\<lambda>iv. if contains (joined iv) needle then Some (Inl (Spawn ''fake spawn failure'')) else None]\<rparr>"

definition failing_spawn :: "FakeExec \<Rightarrow> FakeExec" where
  "failing_spawn f = f\<lparr>fk_spawn_fails := True\<rparr>"

definition alive_for :: "nat \<Rightarrow> FakeExec \<Rightarrow> FakeExec" where
  "alive_for n f = f\<lparr>fk_alive_polls := n\<rparr>"

definition record_call :: "string \<Rightarrow> string list \<Rightarrow> FakeExec \<Rightarrow> FakeExec" where
  "record_call program args f =
     f\<lparr>fk_calls := fk_calls f @ [\<lparr>inv_program = program, inv_args = args\<rparr>]\<rparr>"

fun first_rule :: "(Invocation \<Rightarrow> (ExecError + Outcome) option) list \<Rightarrow> Invocation \<Rightarrow> ExecError + Outcome" where
  "first_rule [] iv = Inr Outcome_ok"
| "first_rule (rule # rules) iv = (case rule iv of Some r \<Rightarrow> r | None \<Rightarrow> first_rule rules iv)"

text \<open>The double acts on its own state only.\<close>

definition on_fake :: "(FakeExec \<Rightarrow> 'a \<times> FakeExec) \<Rightarrow> (FakeExec, 'a) io" where
  "on_fake f = State (\<lambda>w. let (a, s') = f (wst w) in (a, w\<lparr>wst := s'\<rparr>))"

definition fake_run :: "string \<Rightarrow> string list \<Rightarrow> nat option \<Rightarrow> (FakeExec, ExecError + Outcome) io" where
  "fake_run program args timeout =
     on_fake (\<lambda>f. (first_rule (fk_rules f) \<lparr>inv_program = program, inv_args = args\<rparr>, record_call program args f))"

definition fake_spawn :: "string \<Rightarrow> string list \<Rightarrow> (FakeExec, ExecError + nat) io" where
  "fake_spawn program args =
     on_fake (\<lambda>f.
       let f' = record_call program args f in
       if fk_spawn_fails f' then (Inl (Spawn ''fake spawn failure''), f')
       else (Inr (length (fk_children f')),
             f'\<lparr>fk_children := fk_children f' @ [\<lparr>fc_remaining = fk_alive_polls f', fc_killed = False\<rparr>]\<rparr>))"

definition child_is_running :: "FakeChild \<Rightarrow> bool \<times> FakeChild" where
  "child_is_running c =
     (if fc_killed c \<or> fc_remaining c = 0 then (False, c)
      else if fc_remaining c \<noteq> usize_MAX then (True, c\<lparr>fc_remaining := fc_remaining c - 1\<rparr>)
      else (True, c))"

definition on_child :: "nat \<Rightarrow> (FakeChild \<Rightarrow> 'a \<times> FakeChild) \<Rightarrow> 'a \<Rightarrow> FakeExec \<Rightarrow> 'a \<times> FakeExec" where
  "on_child h g dflt f =
     (if h < length (fk_children f)
      then let (a, c) = g (fk_children f ! h) in (a, f\<lparr>fk_children := (fk_children f)[h := c]\<rparr>)
      else (dflt, f))"

definition FakeExec_exec :: "FakeExec exec" where
  "FakeExec_exec =
     \<lparr>ex_run = fake_run, ex_spawn = fake_spawn,
      ex_is_running = (\<lambda>h. on_fake (on_child h child_is_running False)),
      ex_start_kill = (\<lambda>h. on_fake (on_child h (\<lambda>c. ((), c\<lparr>fc_killed := True\<rparr>)) ())),
      ex_wait_with_timeout = (\<lambda>h secs. on_fake (\<lambda>f. (True, f)))\<rparr>"

subsection \<open>The contract of an executor\<close>

fun runs_command :: "hreq \<Rightarrow> bool" where
  "runs_command (CmdOutput _ _ _) = True"
| "runs_command (SpawnChild _ _) = True"
| "runs_command _ = False"

text \<open>
  Every command and every process that is started is recorded once, in order; nothing else
  is: neither the operations on a handle nor any other call to the operating system.
\<close>

locale executor =
  fixes S :: "('s, 'z) sys_scheme" and X :: "'s exec" and invoked :: "'s world \<Rightarrow> Invocation list"
  assumes run_records: "invoked (after (ex_run X p a t) w) = invoked w @ [\<lparr>inv_program = p, inv_args = a\<rparr>]"
    and spawn_records: "invoked (after (ex_spawn X p a) w) = invoked w @ [\<lparr>inv_program = p, inv_args = a\<rparr>]"
    and handle_keeps: "invoked (after (ex_is_running X h) w) = invoked w"
      "invoked (after (ex_start_kill X h) w) = invoked w"
      "invoked (after (ex_wait_with_timeout X h secs) w) = invoked w"
    and host_keeps: "\<not> runs_command q \<Longrightarrow> invoked (after (hcall S q) w) = invoked w"

subsection \<open>Both implementations satisfy it\<close>

definition invocation_of :: "req \<times> resp \<Rightarrow> Invocation option" where
  "invocation_of e =
     (case fst e of
        HReq (CmdOutput p a t) \<Rightarrow> Some \<lparr>inv_program = p, inv_args = a\<rparr>
      | HReq (SpawnChild p a) \<Rightarrow> Some \<lparr>inv_program = p, inv_args = a\<rparr>
      | _ \<Rightarrow> None)"

definition logged :: "'s world \<Rightarrow> Invocation list" where
  "logged w = List.map_filter invocation_of (wlog w)"

lemma wlog_after_call: "wlog (after (call S q) w) = wlog w @ [(q, answer S q w)]"
  using traced_log [OF traced_call, of S q w] by simp

lemma logged_hcall:
  "logged (after (hcall S q) w) = logged w @ (case invocation_of (HReq q, HResp HUnit) of None \<Rightarrow> [] | Some i \<Rightarrow> [i])"
  by (simp add: logged_def after_hcall wlog_after_call List.map_filter_def invocation_of_def split: option.split hreq.split)

interpretation system: executor S "SystemExec S" logged
  for S :: "('s, 'z) sys_scheme"
  by unfold_locales
     (auto simp: system_run_def system_spawn_def system_is_running_def system_start_kill_def
        system_wait_with_timeout_def logged_hcall invocation_of_def split: hreq.splits)

text \<open>The double over a file system that always answers and leaves it alone.\<close>

definition fake_sys :: "FakeExec sys" where
  "fake_sys =
     \<lparr>srv = (\<lambda>q f. (HResp (HIo (Inr ())), f)), env_var = (\<lambda>_. None), kube_display = (\<lambda>_. []),
      pod_from_value = (\<lambda>_. Inl []), svc_from_value = (\<lambda>_. Inl []), pvc_from_value = (\<lambda>_. Inl [])\<rparr>"

lemma wst_on_fake: "wst (after (on_fake f) w) = snd (f (wst w))"
  by (simp add: on_fake_def after_def split_beta)

lemma on_child_calls: "fk_calls (snd (on_child h g d f)) = fk_calls f"
  by (simp add: on_child_def split_beta)

interpretation fake: executor fake_sys FakeExec_exec "\<lambda>w. fk_calls (wst w)"
  by unfold_locales
     (simp_all add: FakeExec_exec_def fake_run_def fake_spawn_def wst_on_fake on_child_calls record_call_def Let_def
        after_hcall wst_after_call fake_sys_def)

end
