(* ===== verification/Block.thy ===== *)
theory Block
  imports Exec
begin

text \<open>
  \<open>src/block.rs\<close>: the block device of a share-manager. Commands go through the record of
  operations \<open>exec\<close>, the file system and the clock through host requests. The loop that
  waits for the device is a recursion on fuel whose result is \<open>None\<close> when the fuel is used
  up; with a clock that advances at least as much as a sleep lasts, the fuel of
  \<open>wait_for_device\<close> is enough for every device and every timeout.
\<close>

subsection \<open>Waiting for the device\<close>

fun wait_loop :: "('s, 'z) sys_scheme \<Rightarrow> string \<Rightarrow> nat \<Rightarrow> nat \<Rightarrow> ('s, (anyhow_Error + string) option) io" where
  "wait_loop S dev_path deadline 0 = State_Monad.return None"
| "wait_loop S dev_path deadline (Suc fuel) = do {
     r \<leftarrow> hcall S (TryExists dev_path);
     case as_bool r of
       Inl e \<Rightarrow> State_Monad.return (Some (Inl e))
     | Inr found \<Rightarrow>
         if found then do {
           c \<leftarrow> hcall S (Canonicalize dev_path);
           State_Monad.return (Some (as_path c)) }
         else do {
           now \<leftarrow> hcall S Now;
           if deadline \<le> as_now now
           then State_Monad.return (Some (Inl (''timeout waiting for device '' @ dev_path)))
           else do { _ \<leftarrow> sleep S 500; wait_loop S dev_path deadline fuel } } }"

text \<open>Each round but the last sleeps half a second, so a round per half second and two more are enough.\<close>

definition wait_fuel :: "nat \<Rightarrow> nat" where
  "wait_fuel timeout = timeout div 500 + 2"

definition wait_for_device ::
  "('s, 'z) sys_scheme \<Rightarrow> string \<Rightarrow> nat \<Rightarrow> ('s, (anyhow_Error + string) option) io" where
  "wait_for_device S dev_path timeout = do {
     now \<leftarrow> hcall S Now;
     wait_loop S dev_path (as_now now + timeout) (wait_fuel timeout) }"

subsection \<open>File system and mounting\<close>

definition ensure_filesystem :: "'s exec \<Rightarrow> string \<Rightarrow> ('s, anyhow_Error + unit) io" where
  "ensure_filesystem X device = do {
     probe \<leftarrow> ex_run X ''blkid'' [''-c'', ''/dev/null'', device] None;
     if (case probe of Inr oc \<Rightarrow> oc_success oc | Inl _ \<Rightarrow> False) then State_Monad.return (Inr ())
     else do {
       out \<leftarrow> ex_run X ''mkfs.ext4'' [''-F'', device] None;
       State_Monad.return (case out of
           Inl e \<Rightarrow> Inl (''failed to run mkfs.ext4: '' @ show_ExecError e)
         | Inr oc \<Rightarrow> if oc_success oc then Inr ()
                    else Inl (''mkfs.ext4 exited with code '' @ debug_code (oc_code oc))) } }"

definition mount_device ::
  "('s, 'z) sys_scheme \<Rightarrow> 's exec \<Rightarrow> string \<Rightarrow> string \<Rightarrow> ('s, anyhow_Error + unit) io" where
  "mount_device S X device mount_point = do {
     d \<leftarrow> hcall S (CreateDirAll mount_point);
     case as_io d of
       Inl e \<Rightarrow> State_Monad.return (Inl e)
     | Inr _ \<Rightarrow> do {
         out \<leftarrow> ex_run X ''mount'' [''-t'', ''ext4'', device, mount_point] None;
         State_Monad.return (case out of
             Inl e \<Rightarrow> Inl (''failed to run mount: '' @ show_ExecError e)
           | Inr oc \<Rightarrow> if oc_success oc then Inr ()
                      else Inl (''mount '' @ device @ '' at '' @ mount_point @ '' exited with code '' @
                                debug_code (oc_code oc))) } }"

text \<open>After a failed umount the mount point is looked at, and both outcomes are a success.\<close>

definition unmount_device ::
  "('s, 'z) sys_scheme \<Rightarrow> 's exec \<Rightarrow> string \<Rightarrow> ('s, anyhow_Error + unit) io" where
  "unmount_device S X mount_point = do {
     out \<leftarrow> ex_run X ''umount'' [mount_point] None;
     case out of
       Inl e \<Rightarrow> State_Monad.return (Inl (''failed to run umount: '' @ show_ExecError e))
     | Inr oc \<Rightarrow>
         if oc_success oc then State_Monad.return (Inr ())
         else do { _ \<leftarrow> hcall S (PathExists mount_point); State_Monad.return (Inr ()) } }"

definition set_export_mode :: "'s exec \<Rightarrow> string \<Rightarrow> string \<Rightarrow> ('s, unit) io" where
  "set_export_mode X mount_point mode = do {
     _ \<leftarrow> ex_run X ''chmod'' [mode, mount_point] None;
     State_Monad.return () }"

text \<open>\<open>Path::join\<close> with a relative name.\<close>

definition path_join :: "string \<Rightarrow> string \<Rightarrow> string" where
  "path_join dir name = (if dir = [] \<or> last dir = CHR ''/'' then dir @ name else dir @ ''/'' @ name)"

definition health_check :: "('s, 'z) sys_scheme \<Rightarrow> string \<Rightarrow> ('s, bool) io" where
  "health_check S mount_point =
     (let probe = path_join mount_point ''.hcloud-csi-rwx.health'' in do {
      r \<leftarrow> hcall S (WriteFile probe ''ok'');
      case as_io r of
        Inr _ \<Rightarrow> do { _ \<leftarrow> hcall S (RemoveFile probe); State_Monad.return True }
      | Inl _ \<Rightarrow> State_Monad.return False })"

definition check_root :: "('s, 'z) sys_scheme \<Rightarrow> ('s, bool) io" where
  "check_root S = do { r \<leftarrow> hcall S EffectiveUid; State_Monad.return (as_uid r = Some 0) }"

definition valid_export_mode :: "string \<Rightarrow> bool" where
  "valid_export_mode mode \<longleftrightarrow>
     3 \<le> length mode \<and> length mode \<le> 4 \<and> list_all (\<lambda>c. CHR ''0'' \<le> c \<and> c \<le> CHR ''7'') mode"

subsection \<open>Lemmas: the wait ends\<close>

lemma traced_wait_loop [traced_intro]: "traced (wait_loop S dev deadline fuel)"
  by (induction fuel) (auto intro!: traced_intro)

text \<open>
  What the loop relies on: a clock that the request \<open>Now\<close> reads, that no request turns back
  and that a sleep advances by at least its length.
\<close>

locale clock =
  fixes S :: "('s, 'z) sys_scheme" and time :: "'s \<Rightarrow> nat"
  assumes now_reads: "fst (srv S (HReq Now) s) = HResp (HNow (time s))"
    and never_back: "time s \<le> time (snd (srv S q s))"
    and sleep_lasts: "time s + ms \<le> time (snd (srv S (HReq (Sleep ms)) s))"
begin

lemma answer_now: "result (hcall S Now) w = HNow (time (wst w))"
  by (simp add: answer_def now_reads)

lemma time_hcall: "time (wst w) \<le> time (wst (after (hcall S q) w))"
  by (simp add: after_hcall wst_after_call never_back)

lemma wait_loop_ends:
  assumes "deadline + 500 \<le> time (wst w) + 500 * fuel"  "0 < fuel"
  shows "result (wait_loop S dev deadline fuel) w \<noteq> None"
  using assms
proof (induction fuel arbitrary: w)
  case 0
  then show ?case by simp
next
  case (Suc fuel)
  let ?w1 = "after (hcall S (TryExists dev)) w"
  let ?w2 = "after (hcall S Now) ?w1"
  let ?w3 = "after (sleep S 500) ?w2"
  have later: "time (wst w) \<le> time (wst ?w1)" "time (wst ?w1) \<le> time (wst ?w2)"
    "time (wst ?w2) + 500 \<le> time (wst ?w3)"
    using time_hcall sleep_lasts by (simp_all add: after_sleep wst_after_call)
  show ?case
  proof (cases "as_bool (result (hcall S (TryExists dev)) w) = Inr False \<and> time (wst ?w1) < deadline")
    case True
    then have "time (wst w) < deadline" using later(1) by simp
    then have "0 < fuel" using Suc.prems(1) by (cases fuel) auto
    moreover have "deadline + 500 \<le> time (wst ?w3) + 500 * fuel" using later Suc.prems(1) by simp
    ultimately have "result (wait_loop S dev deadline fuel) ?w3 \<noteq> None" by (rule Suc.IH [rotated])
    then show ?thesis using True by (simp add: answer_now as_now_def del: result_hcall)
  next
    case False
    then show ?thesis
      by (auto simp: answer_now as_now_def simp del: result_hcall split: sum.split)
  qed
qed

lemma wait_ends: "result (wait_for_device S dev timeout) w \<noteq> None"
proof -
  let ?w1 = "after (hcall S Now) w"
  have "time (wst w) + timeout + 500 \<le> time (wst ?w1) + 500 * wait_fuel timeout"
    using time_hcall [of w Now] by (simp add: wait_fuel_def)
  then have "result (wait_loop S dev (time (wst w) + timeout) (wait_fuel timeout)) ?w1 \<noteq> None"
    by (rule wait_loop_ends) (simp add: wait_fuel_def)
  then show ?thesis by (simp add: wait_for_device_def answer_now as_now_def del: result_hcall)
qed

text \<open>If the device never appears the loop ends with the timeout, and not before the deadline.\<close>

lemma wait_loop_missing:
  assumes "result (wait_loop S dev deadline fuel) w = Some r"
    and "\<And>a. (HReq (TryExists dev), a) \<in> set (emits (wait_loop S dev deadline fuel) w) \<Longrightarrow> a = HResp (HBool (Inr False))"
  shows "r = Inl (''timeout waiting for device '' @ dev) \<and>
    deadline \<le> time (wst (after (wait_loop S dev deadline fuel) w))"
  using assms
proof (induction fuel arbitrary: w)
  case 0
  then show ?case by simp
next
  case (Suc fuel)
  let ?w1 = "after (hcall S (TryExists dev)) w"
  let ?w2 = "after (hcall S Now) ?w1"
  let ?w3 = "after (sleep S 500) ?w2"
  have first: "answer S (HReq (TryExists dev)) w = HResp (HBool (Inr False))"
    using Suc.prems(2) by (simp add: traced_wait_loop)
  show ?case
  proof (cases "deadline \<le> time (wst ?w1)")
    case True
    then have "deadline \<le> time (wst ?w2)" using time_hcall [of ?w1 Now] by simp
    then show ?thesis
      using True Suc.prems(1) first answer_now [of ?w1]
      by (auto simp: as_now_def as_bool_def)
  next
    case False
    have step: "result (wait_loop S dev deadline (Suc fuel)) w = result (wait_loop S dev deadline fuel) ?w3"
      "after (wait_loop S dev deadline (Suc fuel)) w = after (wait_loop S dev deadline fuel) ?w3"
      "set (emits (wait_loop S dev deadline fuel) ?w3) \<subseteq> set (emits (wait_loop S dev deadline (Suc fuel)) w)"
      using False first answer_now [of ?w1] by (auto simp: as_now_def as_bool_def traced_wait_loop)
    show ?thesis
      using Suc.IH [of ?w3] Suc.prems step by (simp del: wait_loop.simps) blast
  qed
qed

end

text \<open>A host whose clock stands still except for sleeps, and where the device never appears.\<close>

definition idle_sys :: "nat sys" where
  "idle_sys =
     \<lparr>srv = (\<lambda>q t. case q of
        HReq Now \<Rightarrow> (HResp (HNow t), t)
      | HReq (Sleep ms) \<Rightarrow> (HResp HUnit, t + ms)
      | HReq (TryExists p) \<Rightarrow> (HResp (HBool (Inr False)), t)
      | _ \<Rightarrow> (HResp HUnit, t)),
      env_var = (\<lambda>_. None), kube_display = (\<lambda>_. []),
      pod_from_value = (\<lambda>_. Inl []), svc_from_value = (\<lambda>_. Inl []), pvc_from_value = (\<lambda>_. Inl [])\<rparr>"

interpretation idle: clock idle_sys "\<lambda>t. t"
  by unfold_locales (auto simp: idle_sys_def split: req.split hreq.split)

subsection \<open>Lemmas: the commands\<close>

text \<open>Whether \<open>blkid\<close> was run and reported a file system.\<close>

definition probed :: "ExecError + Outcome \<Rightarrow> bool" where
  "probed r = (case r of Inr oc \<Rightarrow> oc_success oc | Inl _ \<Rightarrow> False)"

definition blkid_call :: "string \<Rightarrow> Invocation" where
  "blkid_call device = \<lparr>inv_program = ''blkid'', inv_args = [''-c'', ''/dev/null'', device]\<rparr>"

definition mkfs_call :: "string \<Rightarrow> Invocation" where
  "mkfs_call device = \<lparr>inv_program = ''mkfs.ext4'', inv_args = [''-F'', device]\<rparr>"

context executor
begin

lemma filesystem_commands:
  "(if probed (result (ex_run X ''blkid'' [''-c'', ''/dev/null'', device] None) w)
    then invoked (after (ensure_filesystem X device) w) = invoked w @ [blkid_call device] \<and>
         result (ensure_filesystem X device) w = Inr ()
    else invoked (after (ensure_filesystem X device) w) = invoked w @ [blkid_call device, mkfs_call device] \<and>
         is_ok (result (ensure_filesystem X device) w) =
           probed (result (ex_run X ''mkfs.ext4'' [''-F'', device] None)
                     (after (ex_run X ''blkid'' [''-c'', ''/dev/null'', device] None) w)))"
  by (auto simp: ensure_filesystem_def run_records probed_def blkid_call_def mkfs_call_def split: sum.splits)

lemma mount_commands:
  "invoked (after (mount_device S X device mount_point) w) =
     invoked w @
     (if is_ok (as_io (result (hcall S (CreateDirAll mount_point)) w))
      then [\<lparr>inv_program = ''mount'', inv_args = [''-t'', ''ext4'', device, mount_point]\<rparr>] else [])"
  by (auto simp: mount_device_def run_records host_keeps simp del: result_hcall split: sum.splits)

lemma unmount_commands:
  "invoked (after (unmount_device S X mount_point) w) =
     invoked w @ [\<lparr>inv_program = ''umount'', inv_args = [mount_point]\<rparr>]"
  by (auto simp: unmount_device_def run_records host_keeps simp del: result_hcall split: sum.splits)

lemma chmod_commands:
  "invoked (after (set_export_mode X mount_point mode) w) =
     invoked w @ [\<lparr>inv_program = ''chmod'', inv_args = [mode, mount_point]\<rparr>]"
  by (simp add: set_export_mode_def run_records)

end

subsection \<open>Properties\<close>

text \<open>
  C24. \<open>wait_for_device\<close> always returns, whatever the device and the timeout, as long as
  sleeping advances the clock. If the device never appears the result is the timeout error,
  and it comes no earlier than the timeout.
\<close>

theorem wait_for_device_returns:
  assumes "clock S time"
  shows "\<exists>r. result (wait_for_device S dev timeout) w = Some r \<and>
    ((\<forall>a. (HReq (TryExists dev), a) \<in> set (emits (wait_for_device S dev timeout) w) \<longrightarrow>
          a = HResp (HBool (Inr False))) \<longrightarrow>
     r = Inl (''timeout waiting for device '' @ dev) \<and>
     time (wst w) + timeout \<le> time (wst (after (wait_for_device S dev timeout) w)))"
proof -
  let ?loop = "wait_loop S dev (time (wst w) + timeout) (wait_fuel timeout)"
  let ?w1 = "after (hcall S Now) w"
  have unfold: "result (wait_for_device S dev timeout) w = result ?loop ?w1"
    "after (wait_for_device S dev timeout) w = after ?loop ?w1"
    "set (emits ?loop ?w1) \<subseteq> set (emits (wait_for_device S dev timeout) w)"
    using clock.answer_now [OF assms, of w]
    by (auto simp: wait_for_device_def as_now_def traced_wait_loop)
  obtain r where r: "result (wait_for_device S dev timeout) w = Some r"
    using clock.wait_ends [OF assms, of dev timeout w] by auto
  have missing: "r = Inl (''timeout waiting for device '' @ dev) \<and>
      time (wst w) + timeout \<le> time (wst (after (wait_for_device S dev timeout) w))"
    if "\<forall>a. (HReq (TryExists dev), a) \<in> set (emits (wait_for_device S dev timeout) w) \<longrightarrow>
          a = HResp (HBool (Inr False))"
    unfolding unfold(2)
    by (rule clock.wait_loop_missing [OF assms]) (use r unfold(1) in simp, use that unfold(3) in blast)
  show ?thesis by (rule exI [of _ r]) (use r missing in simp)
qed

theorem wait_for_device_returns_witness:
  "clock idle_sys (\<lambda>t. t) \<and>
   (\<exists>r. result (wait_for_device idle_sys ''/dev/sdb'' 1200) \<lparr>wst = 7, wlog = []\<rparr> = Some r \<and>
     r = Inl (''timeout waiting for device '' @ ''/dev/sdb'') \<and>
     1207 \<le> wst (after (wait_for_device idle_sys ''/dev/sdb'' 1200) \<lparr>wst = 7, wlog = []\<rparr>))"
proof -
  have "\<forall>e \<in> set (emits (wait_for_device idle_sys ''/dev/sdb'' 1200) \<lparr>wst = 7, wlog = []\<rparr>).
      fst e = HReq (TryExists ''/dev/sdb'') \<longrightarrow> snd e = HResp (HBool (Inr False))"
    by code_simp
  then have "\<forall>a. (HReq (TryExists ''/dev/sdb''), a) \<in> set (emits (wait_for_device idle_sys ''/dev/sdb'' 1200) \<lparr>wst = 7, wlog = []\<rparr>) \<longrightarrow>
      a = HResp (HBool (Inr False))"
    by (metis fst_conv snd_conv)
  then show ?thesis
    using wait_for_device_returns [OF idle.clock_axioms, of "''/dev/sdb''" 1200 "\<lparr>wst = 7, wlog = []\<rparr>"]
    by (simp add: idle.clock_axioms)
qed

text \<open>
  C25. A device is formatted exactly when \<open>blkid\<close> did not report success on it, with the
  commands in this order and no other: a device on which a file system was found is never
  handed to \<open>mkfs.ext4\<close>; in every other case, also when \<open>blkid\<close> could not be started, it is.
\<close>

theorem format_iff_unprobed:
  "let probe = system_run S ''blkid'' [''-c'', ''/dev/null'', device] None;
       mkfs = system_run S ''mkfs.ext4'' [''-F'', device] None;
       fs = ensure_filesystem (SystemExec S) device
   in if probed (result probe w)
      then logged (after fs w) = logged w @ [blkid_call device] \<and> result fs w = Inr ()
      else logged (after fs w) = logged w @ [blkid_call device, mkfs_call device] \<and>
           is_ok (result fs w) = probed (result mkfs (after probe w))"
  unfolding Let_def
  using system.filesystem_commands [where S = S and device = device and w = w]
  by simp

end
