(* ===== verification/Nfs.thy ===== *)
theory Nfs
  imports Block "HOL-Library.Word"
begin

text \<open>
  \<open>src/nfs.rs\<close>: the configuration of the NFS server and the life cycle of its process.
  \<open>render\<close> is the text of the configuration file, line by line; integers have the width of
  the source. The main lemmas: a validated value carries no character that has a meaning in the
  configuration syntax, so the structure of a rendered file does not depend on the values.
\<close>

subsection \<open>Export configuration\<close>

record ExportConfig =
  ec_export_id :: "16 word"
  ec_export_path :: string
  ec_pseudo_path :: string
  ec_lease_lifetime :: "32 word"
  ec_grace_period :: "32 word"
  ec_allowed_clients :: string
  ec_monitoring_port :: "16 word"

definition ExportConfig_default :: ExportConfig where
  "ExportConfig_default =
     \<lparr>ec_export_id = 1,
      ec_export_path = ''/export'',
      ec_pseudo_path = ''/'',
      ec_lease_lifetime = 60,
      ec_grace_period = 90,
      ec_allowed_clients = ''10.0.0.0/8, 172.16.0.0/12, 192.168.0.0/16'',
      ec_monitoring_port = 9587\<rparr>"

definition is_ascii_alphanumeric :: "char \<Rightarrow> bool" where
  "is_ascii_alphanumeric c \<longleftrightarrow>
     (CHR ''0'' \<le> c \<and> c \<le> CHR ''9'') \<or> (CHR ''A'' \<le> c \<and> c \<le> CHR ''Z'') \<or> (CHR ''a'' \<le> c \<and> c \<le> CHR ''z'')"

definition config_char :: "char \<Rightarrow> bool" where
  "config_char c \<longleftrightarrow> is_ascii_alphanumeric c \<or> c \<in> set ''-_./, *:''"

definition validate_config_value :: "string \<Rightarrow> anyhow_Error + unit" where
  "validate_config_value v =
     (if v = [] then Inl ''empty value not allowed in ganesha config''
      else if \<not> list_all config_char v
      then Inl (''invalid character in ganesha config value: '' @ debug_str v)
      else Inr ())"

subsection \<open>The configuration file\<close>

definition show_word :: "'a::len word \<Rightarrow> string" where
  "show_word n = show_nat (unat n)"

definition lines :: "string list \<Rightarrow> string" where
  "lines ls = concat (map (\<lambda>l. l @ [CHR 0x0A]) ls)"

definition open_export :: "ExportConfig \<Rightarrow> bool" where
  "open_export cfg \<longleftrightarrow> trim (ec_allowed_clients cfg) = ''*'' \<or> trim (ec_allowed_clients cfg) = ''0.0.0.0/0''"

definition export_access :: "ExportConfig \<Rightarrow> string" where
  "export_access cfg = (if open_export cfg then ''RW'' else ''None'')"

definition client_block :: "ExportConfig \<Rightarrow> string list" where
  "client_block cfg =
     (if open_export cfg then []
      else
        [''    CLIENT {'',
         ''        Clients = '' @ ec_allowed_clients cfg @ '';'',
         ''        Access_Type = RW;'',
         ''        Squash = None;'',
         ''        SecType = sys;'',
         ''    }''])"

definition metrics_block :: "ExportConfig \<Rightarrow> string list" where
  "metrics_block cfg =
     (if ec_monitoring_port cfg = 0 then []
      else
        [''    Enable_Metrics = true;'',
         ''    Monitoring_Port = '' @ show_word (ec_monitoring_port cfg) @ '';''])"

definition render_lines :: "ExportConfig \<Rightarrow> string list" where
  "render_lines cfg =
      [''NFS_Core_Param'',
       ''{'',
       ''    Enable_UDP = false;'',
       ''    fsid_device = false;'',
       ''    Bind_addr = 0.0.0.0;'',
       ''    Protocols = 4;''] @
     metrics_block cfg @
      [''}'',
       [],
       ''LOG {'',
       ''    Default_Log_Level = INFO;'',
       ''    Facility {'',
       ''        name = FILE;'',
       ''        destination = '' @ [CHR 0x22] @ ''/proc/1/fd/1'' @ [CHR 0x22] @ '';'',
       ''        enable = active;'',
       ''    }'',
       ''}'',
       [],
       ''NFSV4'',
       ''{'',
       ''    Lease_Lifetime = '' @ show_word (ec_lease_lifetime cfg) @ '';'',
       ''    Grace_Period = '' @ show_word (ec_grace_period cfg) @ '';'',
       ''    Minor_Versions = 0, 1, 2;'',
       ''    RecoveryBackend = hcloud;'',
       ''    Only_Numeric_Owners = true;'',
       ''}'',
       [],
       ''Export_Defaults'',
       ''{'',
       ''    Protocols = 4;'',
       ''    Transports = TCP;'',
       ''    Access_Type = None;'',
       ''    SecType = sys;'',
       ''    Squash = None;'',
       ''}'',
       [],
       ''EXPORT'',
       ''{'',
       ''    Export_Id = '' @ show_word (ec_export_id cfg) @ '';'',
       ''    Path = '' @ ec_export_path cfg @ '';'',
       ''    Pseudo = '' @ ec_pseudo_path cfg @ '';'',
       ''    Protocols = 4;'',
       ''    Transports = TCP;'',
       ''    Access_Type = '' @ export_access cfg @ '';'',
       ''    Squash = None;'',
       ''    SecType = sys;'',
       ''    Filesystem_id = '' @ show_word (ec_export_id cfg) @ ''.0;''] @
     client_block cfg @
      [''    FSAL {'',
       ''        Name = VFS;'',
       ''    }'',
       ''}'']"

definition render :: "ExportConfig \<Rightarrow> string" where
  "render cfg = lines (render_lines cfg)"

definition endpoint :: "string \<Rightarrow> string \<Rightarrow> string" where
  "endpoint svc_ip pseudo_path = svc_ip @ '':'' @ pseudo_path"

subsection \<open>The server process\<close>

record Ganesha =
  gn_child :: "nat option"
  gn_config_path :: string

definition Ganesha_new :: "('s, 'z) sys_scheme \<Rightarrow> string \<Rightarrow> ('s, Ganesha) io" where
  "Ganesha_new S config_dir = do {
     _ \<leftarrow> hcall S (CreateDirAll config_dir);
     State_Monad.return \<lparr>gn_child = None, gn_config_path = path_join config_dir ''ganesha.conf''\<rparr> }"

definition ganesha_start ::
  "('s, 'z) sys_scheme \<Rightarrow> 's exec \<Rightarrow> ExportConfig \<Rightarrow> Ganesha \<Rightarrow> ('s, anyhow_Error + Ganesha) io" where
  "ganesha_start S X cfg g = do {
     r \<leftarrow> hcall S (WriteFile (gn_config_path g) (render cfg));
     case as_io r of
       Inl e \<Rightarrow> State_Monad.return (Inl e)
     | Inr _ \<Rightarrow> do {
         c \<leftarrow> ex_spawn X ''ganesha.nfsd'' [''-F'', ''-p'', ''/var/run/ganesha.pid'', ''-f'', gn_config_path g];
         State_Monad.return (case c of
             Inl e \<Rightarrow> Inl (''failed to spawn ganesha.nfsd: '' @ show_ExecError e)
           | Inr child \<Rightarrow> Inr (g\<lparr>gn_child := Some child\<rparr>)) } }"

definition ganesha_is_running :: "'s exec \<Rightarrow> Ganesha \<Rightarrow> ('s, bool) io" where
  "ganesha_is_running X g =
     (case gn_child g of Some c \<Rightarrow> ex_is_running X c | None \<Rightarrow> State_Monad.return False)"

definition ganesha_stop :: "'s exec \<Rightarrow> Ganesha \<Rightarrow> ('s, Ganesha) io" where
  "ganesha_stop X g =
     (case gn_child g of
        Some c \<Rightarrow> do {
          _ \<leftarrow> ex_start_kill X c;
          _ \<leftarrow> ex_wait_with_timeout X c 5;
          State_Monad.return (g\<lparr>gn_child := None\<rparr>) }
      | None \<Rightarrow> State_Monad.return g)"

definition ganesha_drop :: "'s exec \<Rightarrow> Ganesha \<Rightarrow> ('s, unit) io" where
  "ganesha_drop X g =
     (case gn_child g of Some c \<Rightarrow> ex_start_kill X c | None \<Rightarrow> State_Monad.return ())"

subsection \<open>Lemmas: no value changes the structure of the file\<close>

text \<open>The characters with a meaning in the syntax of the configuration file.\<close>

definition structural :: "char \<Rightarrow> bool" where
  "structural c \<longleftrightarrow> c \<in> set ''{};=#'' \<union> {CHR 0x0A, CHR 0x22}"

definition skeleton :: "string \<Rightarrow> string" where
  "skeleton s = filter structural s"

lemma skeleton_append [simp]: "skeleton (s @ t) = skeleton s @ skeleton t"
  by (simp add: skeleton_def)

lemma digit_not_structural: "is_digit c \<Longrightarrow> \<not> structural c"
  by (auto simp: is_digit_def structural_def)

lemma skeleton_show_word [simp]: "skeleton (show_word n) = []"
proof -
  have "list_all is_digit (show_nat (unat n))" by simp
  then show ?thesis
    by (auto simp: skeleton_def show_word_def filter_empty_conv list_all_iff digit_not_structural)
qed

lemma config_char_not_structural: "config_char c \<Longrightarrow> \<not> structural c"
  by (auto simp: config_char_def is_ascii_alphanumeric_def structural_def less_eq_char_def)

lemma skeleton_valid: "validate_config_value v = Inr () \<Longrightarrow> skeleton v = []"
  by (auto simp: validate_config_value_def skeleton_def filter_empty_conv list_all_iff
      config_char_not_structural split: if_splits)

lemma skeleton_lines: "skeleton (lines ls) = concat (map (\<lambda>l. skeleton l @ [CHR 0x0A]) ls)"
  by (induction ls) (simp_all add: lines_def skeleton_def structural_def)

lemma skeleton_render:
  assumes "skeleton (ec_export_path a) = skeleton (ec_export_path b)"
    and "skeleton (ec_pseudo_path a) = skeleton (ec_pseudo_path b)"
    and "skeleton (ec_allowed_clients a) = skeleton (ec_allowed_clients b)"
    and "open_export a = open_export b"
    and "ec_monitoring_port a = 0 \<longleftrightarrow> ec_monitoring_port b = 0"
  shows "skeleton (render a) = skeleton (render b)"
  unfolding render_def render_lines_def client_block_def metrics_block_def export_access_def assms(4,5)
  by (simp only: if_distrib [of "map _"] if_distrib [of concat] skeleton_append skeleton_lines list.map map_append
      concat_append assms(1-3) skeleton_show_word)

context executor
begin

lemma start_commands:
  "invoked (after (ganesha_start S X cfg g) w) =
     invoked w @
     (if is_ok (as_io (result (hcall S (WriteFile (gn_config_path g) (render cfg))) w))
      then [\<lparr>inv_program = ''ganesha.nfsd'',
             inv_args = [''-F'', ''-p'', ''/var/run/ganesha.pid'', ''-f'', gn_config_path g]\<rparr>] else [])"
  by (auto simp: ganesha_start_def spawn_records host_keeps simp del: result_hcall split: sum.splits)

lemma process_keeps:
  "invoked (after (Ganesha_new S dir) w) = invoked w"
  "invoked (after (ganesha_is_running X g) w) = invoked w"
  "invoked (after (ganesha_stop X g) w) = invoked w"
  "invoked (after (ganesha_drop X g) w) = invoked w"
  by (simp_all add: Ganesha_new_def ganesha_is_running_def ganesha_stop_def ganesha_drop_def
      host_keeps handle_keeps split: option.split)

end

end
