(* ===== verification/Share_Manager.thy ===== *)
theory Share_Manager
  imports Nfs
begin

text \<open>
  \<open>src/sharemanager.rs\<close>, \<open>src/api.rs\<close> and the command line of \<open>src/main.rs\<close>: the process
  that mounts a volume, exports it and reports its state over HTTP. The shared cell
  (\<open>Arc<RwLock<ShareState>>\<close>) is the list of the states written to it, oldest first: the HTTP
  handlers read the last one. What the \<open>select!\<close> of the health loop waits for is a list of
  events; when the list is used up the loop is still running and its result is \<open>None\<close>.
\<close>

subsection \<open>The HTTP interface\<close>

record ApiShareState =
  api_ready :: bool
  api_endpoint :: "string option"
  api_volume :: string
  api_error :: "string option"

definition new_state :: "string \<Rightarrow> ApiShareState" where
  "new_state volume = \<lparr>api_ready = False, api_endpoint = None, api_volume = volume, api_error = None\<rparr>"

definition json_opt :: "string option \<Rightarrow> json" where
  "json_opt s = (case s of None \<Rightarrow> JNull | Some t \<Rightarrow> JStr t)"

definition ApiShareState_to_json :: "ApiShareState \<Rightarrow> json" where
  "ApiShareState_to_json s =
     JObj [(''ready'', JBool (api_ready s)), (''endpoint'', json_opt (api_endpoint s)),
           (''volume'', JStr (api_volume s)), (''error'', json_opt (api_error s))]"

text \<open>A status code and a body, which is a text or a JSON value.\<close>

type_synonym http_answer = "nat \<times> (string + json)"

definition healthz_handler :: "ApiShareState \<Rightarrow> http_answer" where
  "healthz_handler s = (if api_ready s then (200, Inl ''ok'') else (503, Inl ''not ready''))"

definition endpoint_handler :: "ApiShareState \<Rightarrow> http_answer" where
  "endpoint_handler s = (if api_ready s then 200 else 503, Inr (ApiShareState_to_json s))"

definition state_handler :: "ApiShareState \<Rightarrow> http_answer" where
  "state_handler s = (200, Inr (ApiShareState_to_json s))"

definition app :: "string \<Rightarrow> ApiShareState \<Rightarrow> http_answer" where
  "app path s =
     (if path = ''/healthz'' then healthz_handler s
      else if path = ''/endpoint'' then endpoint_handler s
      else if path = ''/state'' then state_handler s
      else (404, Inl []))"

subsection \<open>Settings\<close>

record Settings =
  st_device :: string
  st_volume :: string
  st_mount_point :: string
  st_api_listen :: string
  st_svc_ip :: string
  st_ganesha_dir :: string
  st_device_timeout :: "64 word"
  st_skip_mount :: bool
  st_lease_lifetime :: "32 word"
  st_grace_period :: "32 word"
  st_allowed_clients :: string
  st_export_mode :: string
  st_monitoring_port :: "16 word"

definition Settings_default :: Settings where
  "Settings_default =
     \<lparr>st_device = ''/export'',
      st_volume = ''vol'',
      st_mount_point = ''/export'',
      st_api_listen = ''0.0.0.0:9500'',
      st_svc_ip = ''10.0.0.1'',
      st_ganesha_dir = ''/var/run/ganesha'',
      st_device_timeout = 120,
      st_skip_mount = True,
      st_lease_lifetime = 60,
      st_grace_period = 90,
      st_allowed_clients = ''10.0.0.0/8, 172.16.0.0/12, 192.168.0.0/16'',
      st_export_mode = ''0777'',
      st_monitoring_port = 9587\<rparr>"

definition validate :: "Settings \<Rightarrow> anyhow_Error + unit" where
  "validate s =
     (case validate_config_value (st_volume s) of
        Inl e \<Rightarrow> Inl e
      | Inr _ \<Rightarrow>
         (case validate_config_value (st_mount_point s) of
            Inl e \<Rightarrow> Inl e
          | Inr _ \<Rightarrow>
             (case validate_config_value (st_allowed_clients s) of
                Inl e \<Rightarrow> Inl e
              | Inr _ \<Rightarrow>
                  if \<not> valid_export_mode (st_export_mode s)
                  then Inl (''invalid --export-mode '' @ debug_str (st_export_mode s) @ '', expected octal like 0777'')
                  else Inr ())))"

definition pseudo_path :: "Settings \<Rightarrow> string" where
  "pseudo_path s = ''/'' @ st_volume s"

definition export_config :: "Settings \<Rightarrow> ExportConfig" where
  "export_config s =
     \<lparr>ec_export_id = 1,
      ec_export_path = st_mount_point s,
      ec_pseudo_path = pseudo_path s,
      ec_lease_lifetime = st_lease_lifetime s,
      ec_grace_period = st_grace_period s,
      ec_allowed_clients = st_allowed_clients s,
      ec_monitoring_port = st_monitoring_port s\<rparr>"

definition Settings_endpoint :: "Settings \<Rightarrow> string" where
  "Settings_endpoint s = endpoint (st_svc_ip s) (pseudo_path s)"

definition print_config :: "string \<Rightarrow> string \<Rightarrow> 16 word \<Rightarrow> string" where
  "print_config volume mount_point export_id =
     render (ExportConfig_default\<lparr>ec_export_id := export_id, ec_export_path := mount_point,
                                  ec_pseudo_path := ''/'' @ volume\<rparr>)"

subsection \<open>Why a run ended\<close>

datatype ExitReason = Signal | GaneshaDied | VolumeUnhealthy

definition is_clean :: "ExitReason \<Rightarrow> bool" where
  "is_clean r = (case r of Signal \<Rightarrow> True | _ \<Rightarrow> False)"

fun ExitReason_message :: "ExitReason \<Rightarrow> string" where
  "ExitReason_message Signal = ''received SIGINT, shutting down''"
| "ExitReason_message GaneshaDied = ''ganesha process exited''"
| "ExitReason_message VolumeUnhealthy = ''volume health check failed''"

definition exit_code :: "anyhow_Error + ExitReason \<Rightarrow> int" where
  "exit_code r = (case r of Inr x \<Rightarrow> if is_clean x then 0 else 1 | Inl _ \<Rightarrow> 1)"

subsection \<open>The shared cell\<close>

definition set_error :: "string \<Rightarrow> ApiShareState \<Rightarrow> ApiShareState" where
  "set_error msg s = s\<lparr>api_ready := False, api_error := Some msg\<rparr>"

definition mark_unhealthy :: "string \<Rightarrow> ApiShareState \<Rightarrow> ApiShareState" where
  "mark_unhealthy msg s = s\<lparr>api_ready := False, api_error := Some msg\<rparr>"

definition mark_ready :: "string \<Rightarrow> ApiShareState \<Rightarrow> ApiShareState" where
  "mark_ready ep s = s\<lparr>api_ready := True, api_endpoint := Some ep, api_error := None\<rparr>"

definition write_cell :: "(ApiShareState \<Rightarrow> ApiShareState) \<Rightarrow> ApiShareState list \<Rightarrow> ApiShareState list" where
  "write_cell f cell = cell @ [f (last cell)]"

subsection \<open>Preparing the volume\<close>

definition prepare_volume ::
  "('s, 'z) sys_scheme \<Rightarrow> 's exec \<Rightarrow> Settings \<Rightarrow> ('s, (anyhow_Error + string) option) io" where
  "prepare_volume S X settings = do {
     dev \<leftarrow> (if st_skip_mount settings then State_Monad.return (Some (Inr (st_mount_point settings)))
            else do {
              found \<leftarrow> wait_for_device S (st_device settings) (1000 * unat (st_device_timeout settings));
              case found of
                None \<Rightarrow> State_Monad.return None
              | Some (Inl e) \<Rightarrow> State_Monad.return (Some (Inl e))
              | Some (Inr d) \<Rightarrow> do {
                  r \<leftarrow> bindE (ensure_filesystem X d) (\<lambda>_.
                         bindE (mount_device S X d (st_mount_point settings)) (\<lambda>_.
                           State_Monad.return (Inr d)));
                  State_Monad.return (Some r) } });
     case dev of
       Some (Inr d) \<Rightarrow> do {
         _ \<leftarrow> set_export_mode X (st_mount_point settings) (st_export_mode settings);
         State_Monad.return dev }
     | _ \<Rightarrow> State_Monad.return dev }"

subsection \<open>The health loop\<close>

datatype loop_event = Tick | Shutdown

definition health_tick ::
  "('s, 'z) sys_scheme \<Rightarrow> 's exec \<Rightarrow> Ganesha \<Rightarrow> string \<Rightarrow> ('s, ExitReason option) io" where
  "health_tick S X g mount_point = do {
     running \<leftarrow> ganesha_is_running X g;
     if \<not> running then State_Monad.return (Some GaneshaDied)
     else do {
       healthy \<leftarrow> health_check S mount_point;
       State_Monad.return (if \<not> healthy then Some VolumeUnhealthy else None) } }"

fun health_loop ::
  "('s, 'z) sys_scheme \<Rightarrow> 's exec \<Rightarrow> Ganesha \<Rightarrow> string \<Rightarrow> loop_event list \<Rightarrow> ApiShareState list \<Rightarrow>
   ('s, ExitReason option \<times> ApiShareState list) io" where
  "health_loop S X g mount_point [] cell = State_Monad.return (None, cell)"
| "health_loop S X g mount_point (Tick # evs) cell = do {
     t \<leftarrow> health_tick S X g mount_point;
     case t of
       Some reason \<Rightarrow> State_Monad.return (Some reason, write_cell (mark_unhealthy (ExitReason_message reason)) cell)
     | None \<Rightarrow> health_loop S X g mount_point evs cell }"
| "health_loop S X g mount_point (Shutdown # evs) cell = State_Monad.return (Some Signal, cell)"

subsection \<open>A whole run\<close>

text \<open>The server is dropped at every end of the function, after the unmount.\<close>

definition release ::
  "('s, 'z) sys_scheme \<Rightarrow> 's exec \<Rightarrow> Settings \<Rightarrow> Ganesha \<Rightarrow> ('s, unit) io" where
  "release S X settings g = do {
     _ \<leftarrow> (if \<not> st_skip_mount settings
          then do { _ \<leftarrow> unmount_device S X (st_mount_point settings); State_Monad.return () }
          else State_Monad.return ());
     ganesha_drop X g }"

definition run ::
  "('s, 'z) sys_scheme \<Rightarrow> 's exec \<Rightarrow> Settings \<Rightarrow> ApiShareState list \<Rightarrow> loop_event list \<Rightarrow>
   ('s, (anyhow_Error + ExitReason) option \<times> ApiShareState list) io" where
  "run S X settings cell shutdown =
     (case validate settings of
        Inl e \<Rightarrow> State_Monad.return (Some (Inl e), cell)
      | Inr _ \<Rightarrow> do {
          prep \<leftarrow> prepare_volume S X settings;
          case prep of
            None \<Rightarrow> State_Monad.return (None, cell)
          | Some (Inl e) \<Rightarrow> State_Monad.return (Some (Inl e), write_cell (set_error e) cell)
          | Some (Inr dev) \<Rightarrow> do {
              g \<leftarrow> Ganesha_new S (st_ganesha_dir settings);
              started \<leftarrow> ganesha_start S X (export_config settings) g;
              case started of
                Inl e \<Rightarrow> do {
                  _ \<leftarrow> release S X settings g;
                  State_Monad.return (Some (Inl e), write_cell (set_error e) cell) }
              | Inr g \<Rightarrow> do {
                  out \<leftarrow> health_loop S X g (st_mount_point settings) shutdown
                           (write_cell (mark_ready (Settings_endpoint settings)) cell);
                  case fst out of
                    None \<Rightarrow> State_Monad.return (None, snd out)
                  | Some reason \<Rightarrow> do {
                      g \<leftarrow> ganesha_stop X g;
                      _ \<leftarrow> release S X settings g;
                      State_Monad.return (Some (Inr reason), snd out) } } } })"

subsection \<open>The command line\<close>

datatype Command =
    PrintConfig (pc_volume: string) (pc_mount_point: string) (pc_export_id: "16 word")
  | Run (rn_device: string) (rn_volume: string) (rn_mount_point: string) (rn_api_listen: string)
        (rn_svc_ip: string) (rn_ganesha_dir: string) (rn_device_timeout: "64 word") (rn_skip_mount: bool)
        (rn_lease_lifetime: "32 word") (rn_grace_period: "32 word") (rn_allowed_clients: string)
        (rn_export_mode: string) (rn_monitoring_port: "16 word")

fun into_settings :: "Command \<Rightarrow> (Settings \<times> string) option" where
  "into_settings (Run device volume mount_point api_listen svc_ip ganesha_dir device_timeout skip_mount
      lease_lifetime grace_period allowed_clients export_mode monitoring_port) =
     Some
      (\<lparr>st_device = device, st_volume = volume, st_mount_point = mount_point, st_api_listen = api_listen,
        st_svc_ip = svc_ip, st_ganesha_dir = ganesha_dir, st_device_timeout = device_timeout,
        st_skip_mount = skip_mount, st_lease_lifetime = lease_lifetime, st_grace_period = grace_period,
        st_allowed_clients = allowed_clients, st_export_mode = export_mode,
        st_monitoring_port = monitoring_port\<rparr>, api_listen)"
| "into_settings (PrintConfig volume mount_point export_id) = None"

datatype main_end = Printed string | Exit int | Failed anyhow_Error

text \<open>
  \<open>main\<close> after the arguments are parsed, without the HTTP server that it starts beside the run.
  The error text has a dash, written as its UTF-8 bytes.
\<close>

definition sm_main ::
  "('s, 'z) sys_scheme \<Rightarrow> Command option \<Rightarrow> loop_event list \<Rightarrow> ('s, main_end option \<times> ApiShareState list) io" where
  "sm_main S command shutdown =
     (case command of
        None \<Rightarrow> State_Monad.return
          (Some (Failed (''no subcommand given '' @ [CHR 0xE2, CHR 0x80, CHR 0x94] @ '' use `run` (see --help)'')), [])
      | Some cmd \<Rightarrow>
         (case into_settings cmd of
            None \<Rightarrow> State_Monad.return
              (Some (Printed (print_config (pc_volume cmd) (pc_mount_point cmd) (pc_export_id cmd))), [])
          | Some (settings, listen) \<Rightarrow> do {
              root \<leftarrow> check_root S;
              if \<not> root then State_Monad.return (Some (Exit 1), [])
              else do {
                out \<leftarrow> run S (SystemExec S) settings [new_state (st_volume settings)] shutdown;
                State_Monad.return (map_option (\<lambda>r. Exit (exit_code r)) (fst out), snd out) } }))"

text \<open>
  The HTTP server: what binding the socket and serving on it return is up to the network.
\<close>

definition serve_api_on :: "string + unit \<Rightarrow> anyhow_Error + unit" where
  "serve_api_on served = map_err (\<lambda>e. ''API server error: '' @ e) served"

definition serve_api :: "string \<Rightarrow> string + unit \<Rightarrow> string + unit \<Rightarrow> anyhow_Error + unit" where
  "serve_api listen bound served =
     (case bound of
        Inl e \<Rightarrow> Inl (''failed to bind API on '' @ listen @ '': '' @ e)
      | Inr _ \<Rightarrow> serve_api_on served)"

text \<open>
  The whole process: \<open>main\<close> with the server's task beside it. The task is still serving
  (\<open>None\<close>) or returns once the process has made \<open>n\<close> requests. A task that returns an error
  calls \<open>std::process::exit(1)\<close>: the process has then made these requests and makes no more.
\<close>

definition sm_process ::
  "('s, 'z) sys_scheme \<Rightarrow> Command option \<Rightarrow> loop_event list \<Rightarrow>
   (nat \<times> (string + unit) \<times> (string + unit)) option \<Rightarrow> 's world \<Rightarrow> main_end option \<times> trace" where
  "sm_process S command shutdown api w =
     (let ended = fst (result (sm_main S command shutdown) w);
          tr = emits (sm_main S command shutdown) w in
      case (Option.bind command into_settings, api) of
        (Some (settings, listen), Some (n, bound, served)) \<Rightarrow>
          if result (check_root S) w \<and> \<not> is_ok (serve_api listen bound served) \<and>
             0 < n \<and> (n < length tr \<or> ended = None)
          then (Some (Exit 1), take n tr) else (ended, tr)
      | _ \<Rightarrow> (ended, tr))"

subsection \<open>Lemmas\<close>

lemma validate_Inr:
  assumes "validate s = Inr u"
  shows "validate_config_value (st_volume s) = Inr ()" "validate_config_value (st_mount_point s) = Inr ()"
    "validate_config_value (st_allowed_clients s) = Inr ()" "valid_export_mode (st_export_mode s)"
  using assms by (auto simp: validate_def split: sum.splits if_splits)

text \<open>The run got as far as a running server.\<close>

definition started :: "('s, 'z) sys_scheme \<Rightarrow> 's exec \<Rightarrow> Settings \<Rightarrow> 's world \<Rightarrow> Ganesha \<Rightarrow> bool" where
  "started S X s w g \<longleftrightarrow>
     validate s = Inr () \<and> (\<exists>dev. result (prepare_volume S X s) w = Some (Inr dev)) \<and>
     (let w1 = after (prepare_volume S X s) w; new = Ganesha_new S (st_ganesha_dir s)
      in result (ganesha_start S X (export_config s) (result new w1)) (after new w1) = Inr g)"

text \<open>The volume could not be prepared, or the server on it did not start.\<close>

definition start_failed :: "('s, 'z) sys_scheme \<Rightarrow> 's exec \<Rightarrow> Settings \<Rightarrow> 's world \<Rightarrow> anyhow_Error \<Rightarrow> bool" where
  "start_failed S X s w e \<longleftrightarrow>
     validate s = Inr () \<and>
     (result (prepare_volume S X s) w = Some (Inl e) \<or>
      (\<exists>dev. result (prepare_volume S X s) w = Some (Inr dev)) \<and>
      (let w1 = after (prepare_volume S X s) w; new = Ganesha_new S (st_ganesha_dir s)
       in result (ganesha_start S X (export_config s) (result new w1)) (after new w1) = Inl e))"

lemma prepared_starts:
  assumes "validate s = Inr u"
  shows "result (prepare_volume S X s) w = None \<or> (\<exists>g. started S X s w g) \<or> (\<exists>e. start_failed S X s w e)"
proof -
  let ?new = "Ganesha_new S (st_ganesha_dir s)" and ?w1 = "after (prepare_volume S X s) w"
  obtain y where "result (ganesha_start S X (export_config s) (result ?new ?w1)) (after ?new ?w1) = y" by simp
  then show ?thesis
    using assms by (cases "result (prepare_volume S X s) w"; cases "the (result (prepare_volume S X s) w)"; cases y)
      (simp_all add: started_def start_failed_def Let_def)
qed

definition degraded :: "ExitReason \<Rightarrow> bool" where
  "degraded reason \<longleftrightarrow> reason = GaneshaDied \<or> reason = VolumeUnhealthy"

lemma exit_code_exact: "exit_code res = (if res = Inr Signal then 0 else 1)"
  by (auto simp: exit_code_def is_clean_def split: sum.split ExitReason.split)

lemma health_tick_degraded: "result (health_tick S X g mp) w = Some reason \<Longrightarrow> degraded reason"
  by (auto simp: health_tick_def degraded_def split: if_splits)

lemma health_loop_cell:
  "(snd (result (health_loop S X g mp evs cell) w) = cell \<and>
      fst (result (health_loop S X g mp evs cell) w) = (if Shutdown \<in> set evs then Some Signal else None)) \<or>
   (\<exists>reason. degraded reason \<and> Tick \<in> set evs \<and> fst (result (health_loop S X g mp evs cell) w) = Some reason \<and>
      snd (result (health_loop S X g mp evs cell) w) = write_cell (mark_unhealthy (ExitReason_message reason)) cell)"
proof (induction S X g mp evs cell arbitrary: w rule: health_loop.induct)
  case (2 S X g mp evs cell)
  show ?case
  proof (cases "result (health_tick S X g mp) w")
    case None
    then show ?thesis using "2.IH" [of "after (health_tick S X g mp) w"]
      by (cases "Shutdown \<in> set evs") auto
  next
    case (Some reason)
    then show ?thesis using health_tick_degraded [of S X g mp w] by simp
  qed
qed auto

lemma health_loop_ends:
  "Shutdown \<in> set evs \<Longrightarrow> fst (result (health_loop S X g mp evs cell) w) \<noteq> None"
  by (induction S X g mp evs cell arbitrary: w rule: health_loop.induct) (auto split: option.split)

lemma run_prepared_ends:
  assumes "result (prepare_volume S X s) w \<noteq> None" and "Shutdown \<in> set evs"
  shows "\<exists>r. fst (result (run S X s cell evs) w) = Some r"
  using assms(1)
  by (auto simp: run_def split: sum.split option.split)
     (erule notE [OF health_loop_ends [OF assms(2)]])

lemma prepare_ends:
  assumes "clock S time"
  shows "result (prepare_volume S X s) w \<noteq> None"
  using clock.wait_ends [OF assms, of "st_device s" "1000 * unat (st_device_timeout s)" w]
  by (auto simp: prepare_volume_def split: option.split sum.split)

lemma run_cell:
  "let r = fst (result (run S X s [st] evs) w); cell = snd (result (run S X s [st] evs) w);
       ready = mark_ready (st_svc_ip s @ '':/'' @ st_volume s) st
   in (\<forall>res. r = Some res \<longrightarrow> exit_code res = (if res = Inr Signal then 0 else 1)) \<and>
      ((\<exists>e. validate s = Inl e \<and> cell = [st] \<and> r = Some (Inl e)) \<or>
       (validate s = Inr () \<and> result (prepare_volume S X s) w = None \<and> cell = [st] \<and> r = None) \<or>
       (\<exists>e. start_failed S X s w e \<and> cell = [st, set_error e st] \<and> r = Some (Inl e)) \<or>
       (\<exists>g. started S X s w g \<and> cell = [st, ready] \<and> r = (if Shutdown \<in> set evs then Some (Inr Signal) else None)) \<or>
       (\<exists>g reason. started S X s w g \<and> degraded reason \<and> Tick \<in> set evs \<and> r = Some (Inr reason) \<and>
          cell = [st, ready, mark_unhealthy (ExitReason_message reason) ready]))"
proof (cases "\<exists>g. started S X s w g")
  case True
  then obtain g dev where st: "started S X s w g" "validate s = Inr ()" "result (prepare_volume S X s) w = Some (Inr dev)"
    by (auto simp: started_def)
  let ?cell = "[st, mark_ready (st_svc_ip s @ '':/'' @ st_volume s) st]"
  let ?new = "Ganesha_new S (st_ganesha_dir s)" and ?w1 = "after (prepare_volume S X s) w"
  let ?w3 = "after (ganesha_start S X (export_config s) (result ?new ?w1)) (after ?new ?w1)"
  let ?out = "result (health_loop S X g (st_mount_point s) evs ?cell) ?w3"
  have "result (run S X s [st] evs) w = (map_option Inr (fst ?out), snd ?out)"
    using st
    by (auto simp: run_def started_def Let_def write_cell_def Settings_endpoint_def endpoint_def pseudo_path_def
        split: option.split)
  then have out: "fst (result (run S X s [st] evs) w) = map_option Inr (fst ?out)"
      "snd (result (run S X s [st] evs) w) = snd ?out"
    by simp_all
  show ?thesis
    unfolding Let_def out exit_code_exact
    using st(1) health_loop_cell [of S X g "st_mount_point s" evs ?cell ?w3]
    by (elim disjE exE conjE) (simp_all add: write_cell_def, blast+)
next
  case False
  show ?thesis
  proof (cases "\<exists>e. start_failed S X s w e")
    case True
    then obtain e where e: "start_failed S X s w e" ..
    then have "result (run S X s [st] evs) w = (Some (Inl e), [st, set_error e st])"
      by (auto simp: run_def start_failed_def Let_def write_cell_def)
    with e show ?thesis by (simp add: exit_code_exact)
  next
    case failed: False
    show ?thesis
    proof (cases "validate s")
      case (Inl e)
      then show ?thesis by (simp add: run_def exit_code_exact)
    next
      case (Inr u)
      then have "result (prepare_volume S X s) w = None"
        using False failed prepared_starts [OF Inr, of S X w] by auto
      with Inr show ?thesis by (simp add: run_def)
    qed
  qed
qed

text \<open>A ready state is only published by a started run, with its endpoint.\<close>

lemma run_ready:
  assumes "pub \<in> set (snd (result (run S X s [new_state v] evs) w))" and "api_ready pub"
  shows "api_endpoint pub = Some (st_svc_ip s @ '':/'' @ st_volume s) \<and> (\<exists>g. started S X s w g)"
  using assms run_cell [of S X s "new_state v" evs w]
  by (auto simp: Let_def new_state_def set_error_def mark_ready_def mark_unhealthy_def)

text \<open>The requests of a run on the operating system.\<close>

lemma traced_block [simp, traced_intro]:
  "traced (wait_for_device S dev t)" "traced (ensure_filesystem (SystemExec S) dev)"
  "traced (mount_device S (SystemExec S) dev mp)" "traced (unmount_device S (SystemExec S) mp)"
  "traced (set_export_mode (SystemExec S) mp mode)" "traced (health_check S mp)"
  by (simp_all add: wait_for_device_def traced_wait_loop ensure_filesystem_def mount_device_def unmount_device_def
      set_export_mode_def health_check_def Let_def)

lemma traced_ganesha [simp, traced_intro]:
  "traced (Ganesha_new S dir)" "traced (ganesha_start S (SystemExec S) cfg g)" "traced (ganesha_is_running (SystemExec S) g)"
  "traced (ganesha_stop (SystemExec S) g)" "traced (ganesha_drop (SystemExec S) g)"
  by (simp_all add: Ganesha_new_def ganesha_start_def ganesha_is_running_def ganesha_stop_def ganesha_drop_def)

lemma traced_prepare [simp, traced_intro]: "traced (prepare_volume S (SystemExec S) s)"
  by (simp add: prepare_volume_def)

lemma traced_health [simp, traced_intro]:
  "traced (health_tick S (SystemExec S) g mp)" "traced (health_loop S (SystemExec S) g mp evs cell)"
proof -
  show tick: "traced (health_tick S (SystemExec S) g mp)" by (simp add: health_tick_def)
  show "traced (health_loop S (SystemExec S) g mp evs cell)"
  proof (induction evs)
    case (Cons ev evs)
    with tick show ?case by (cases ev) simp_all
  qed simp
qed

lemma traced_release [simp, traced_intro]: "traced (release S (SystemExec S) s g)"
  by (simp add: release_def)

lemma traced_run [simp, traced_intro]: "traced (run S (SystemExec S) s cell evs)"
  by (simp add: run_def)

definition unmounts :: "req \<Rightarrow> bool" where
  "unmounts q \<longleftrightarrow> (\<exists>a t. q = HReq (CmdOutput ''umount'' a t))"

lemma unmounts_iff [simp]: "unmounts (HReq h) \<longleftrightarrow> (\<exists>a t. h = CmdOutput ''umount'' a t)"
  by (simp add: unmounts_def)

lemma wait_no_unmount: "q \<in> set (reqs (wait_loop S dev deadline fuel) w) \<Longrightarrow> \<not> unmounts q"
  by (induction fuel arbitrary: w) (auto simp: traced_wait_loop split: sum.splits if_splits)

lemma prepare_no_unmount: "q \<in> set (reqs (prepare_volume S (SystemExec S) s) w) \<Longrightarrow> \<not> unmounts q"
  by (auto simp: prepare_volume_def wait_for_device_def ensure_filesystem_def mount_device_def set_export_mode_def
      traced_wait_loop dest: wait_no_unmount split: sum.splits if_splits option.splits)

lemma start_no_unmount:
  "q \<in> set (reqs (Ganesha_new S dir) w) \<Longrightarrow> \<not> unmounts q"
  "q \<in> set (reqs (ganesha_start S (SystemExec S) cfg g) w) \<Longrightarrow> \<not> unmounts q"
  by (auto simp: Ganesha_new_def ganesha_start_def split: sum.splits)

lemma loop_no_unmount: "q \<in> set (reqs (health_loop S (SystemExec S) g mp evs cell) w) \<Longrightarrow> \<not> unmounts q"
proof (induction evs arbitrary: w)
  case (Cons ev evs)
  have "q \<in> set (reqs (health_tick S (SystemExec S) g mp) w) \<Longrightarrow> \<not> unmounts q"
    by (auto simp: health_tick_def ganesha_is_running_def health_check_def Let_def split: option.splits sum.splits if_splits)
  with Cons show ?case by (cases ev) (auto split: option.splits)
qed simp

text \<open>A run that ended after its server was up killed and awaited it before any unmount.\<close>

lemma run_stops_first:
  assumes "fst (result (run S (SystemExec S) s cell evs) w) = Some (Inr reason)"
  shows "\<exists>pre h post. reqs (run S (SystemExec S) s cell evs) w = pre @ [HReq (StartKill h), HReq (WaitChild h 5)] @ post \<and>
    (\<forall>q\<in>set pre. \<not> unmounts q)"
proof -
  let ?X = "SystemExec S" and ?new = "Ganesha_new S (st_ganesha_dir s)" and ?w1 = "after (prepare_volume S (SystemExec S) s) w"
  let ?start = "ganesha_start S ?X (export_config s) (result ?new ?w1)"
  let ?w2 = "after ?start (after ?new ?w1)"
  let ?cell = "write_cell (mark_ready (Settings_endpoint s)) cell"
  obtain dev g where ok: "validate s = Inr ()" "result (prepare_volume S ?X s) w = Some (Inr dev)"
    "result ?start (after ?new ?w1) = Inr g"
    using assms by (auto simp: run_def split: sum.splits option.splits)
  let ?loop = "health_loop S ?X g (st_mount_point s) evs ?cell"
  have ended: "fst (result ?loop ?w2) = Some reason"
    using assms ok by (auto simp: run_def split: option.splits)
  obtain h where h: "gn_child g = Some h"
    using ok(3) by (auto simp: ganesha_start_def split: sum.splits)
  let ?pre = "reqs (prepare_volume S ?X s) w @ reqs ?new ?w1 @ reqs ?start (after ?new ?w1) @ reqs ?loop ?w2"
  have "\<exists>post. reqs (run S ?X s cell evs) w = ?pre @ [HReq (StartKill h), HReq (WaitChild h 5)] @ post"
    using ok ended h by (simp add: run_def ganesha_stop_def)
  moreover have "\<forall>q\<in>set ?pre. \<not> unmounts q"
    using prepare_no_unmount start_no_unmount loop_no_unmount by (simp add: ball_Un) blast
  ultimately show ?thesis by blast
qed

text \<open>The exit code of the process.\<close>

lemma main_run_end:
  assumes "into_settings cmd = Some (s, listen)"
  shows "fst (result (sm_main S (Some cmd) evs) w) =
    (if result (check_root S) w
     then map_option (\<lambda>r. Exit (exit_code r))
       (fst (result (run S (SystemExec S) s [new_state (st_volume s)] evs) (after (check_root S) w)))
     else Some (Exit 1))"
  using assms by (simp add: sm_main_def)

lemma exit_code_0: "exit_code r = 0 \<longleftrightarrow> r = Inr Signal" "exit_code r \<in> {0, 1}"
  by (auto simp: exit_code_exact)

context executor
begin

lemma health_keeps:
  "invoked (after (health_check S mp) w) = invoked w"
  "invoked (after (health_tick S X g mp) w) = invoked w"
proof -
  show check: "invoked (after (health_check S mp) w) = invoked w" for w
    by (auto simp: health_check_def Let_def host_keeps simp del: result_hcall split: sum.split)
  show "invoked (after (health_tick S X g mp) w) = invoked w"
    by (simp add: health_tick_def check process_keeps)
qed

lemma loop_keeps: "invoked (after (health_loop S X g mp evs cell) w) = invoked w"
proof (induction evs arbitrary: w)
  case (Cons ev evs)
  then show ?case by (cases ev) (auto simp: health_keeps split: option.split)
qed simp

lemma release_commands:
  "invoked (after (release S X s g) w) =
     invoked w @ (if st_skip_mount s then [] else [\<lparr>inv_program = ''umount'', inv_args = [st_mount_point s]\<rparr>])"
  by (simp add: release_def unmount_commands process_keeps)

lemma prepare_commands:
  assumes "st_skip_mount s"
  shows "invoked (after (prepare_volume S X s) w) =
     invoked w @ [\<lparr>inv_program = ''chmod'', inv_args = [st_export_mode s, st_mount_point s]\<rparr>]"
  using assms by (simp add: prepare_volume_def chmod_commands)

text \<open>Once the volume is prepared, a finished run adds the server and, if it mounted, the unmount.\<close>

lemma run_commands:
  assumes "validate s = Inr ()" "result (prepare_volume S X s) w = Some (Inr dev)"
    and "fst (result (run S X s cell evs) w) = Some r"
  shows "\<exists>cs. invoked (after (run S X s cell evs) w) = invoked (after (prepare_volume S X s) w) @ cs @
       (if st_skip_mount s then [] else [\<lparr>inv_program = ''umount'', inv_args = [st_mount_point s]\<rparr>]) \<and>
     (\<forall>c \<in> set cs. inv_program c = ''ganesha.nfsd'')"
  using assms
  by (auto simp: run_def release_commands process_keeps loop_keeps start_commands split: sum.splits option.splits)

end

text \<open>A node without an operating system: every request is answered as a success.\<close>

definition easy_sys :: "unit sys" where
  "easy_sys =
     \<lparr>srv = (\<lambda>q s. (case q of
        HReq (CmdOutput p a t) \<Rightarrow> HResp (HOutput (Some (Inr (True, Some 0, []))))
      | HReq (SpawnChild p a) \<Rightarrow> HResp (HSpawned (Inr 1))
      | HReq (TryExists p) \<Rightarrow> HResp (HBool (Inr True))
      | HReq (Canonicalize p) \<Rightarrow> HResp (HPath (Inr p))
      | HReq (TryWait h) \<Rightarrow> HResp (HTryWait (Inr False))
      | HReq EffectiveUid \<Rightarrow> HResp (HUid 0)
      | _ \<Rightarrow> HResp (HIo (Inr ())), s)),
      env_var = (\<lambda>_. None), kube_display = (\<lambda>_. []),
      pod_from_value = (\<lambda>_. Inl []), svc_from_value = (\<lambda>_. Inl []), pvc_from_value = (\<lambda>_. Inl [])\<rparr>"

lemma easy_run: "fst (result (run easy_sys (SystemExec easy_sys) Settings_default cell [Shutdown]) w) = Some (Inr Signal)"
proof -
  have "validate Settings_default = Inr ()" by code_simp
  moreover have "st_skip_mount Settings_default" by (simp add: Settings_default_def)
  ultimately show ?thesis
    by (simp add: run_def prepare_volume_def set_export_mode_def Ganesha_new_def ganesha_start_def system_spawn_def
        easy_sys_def answer_def as_io_def)
qed

subsection \<open>Properties\<close>

text \<open>
  C14. A configuration rendered from validated settings has the structure of the default
  configuration: braces, semicolons, equals signs, quotes, comment signs and line breaks come
  in the same number and order, whatever the volume name, the mount point and the client list
  are. Only the choice between an open and a restricted export, and metrics on or off, adds or
  removes a block.
\<close>

theorem render_injection_safe:
  assumes "validate s = Inr ()"
  shows "skeleton (render (export_config s)) =
    skeleton (render (ExportConfig_default
      \<lparr>ec_allowed_clients := (if open_export (export_config s) then ''*'' else ''10.0.0.0/8''),
       ec_monitoring_port := (if st_monitoring_port s = 0 then 0 else 9587)\<rparr>))"
proof -
  have empty: "skeleton (st_volume s) = []" "skeleton (st_mount_point s) = []" "skeleton (st_allowed_clients s) = []"
    using validate_Inr [OF assms] by (simp_all add: skeleton_valid)
  have literals: "skeleton ''/export'' = []" "skeleton ''/'' = []" "skeleton ''*'' = []" "skeleton ''10.0.0.0/8'' = []"
    "trim ''*'' = ''*''" "trim ''10.0.0.0/8'' = ''10.0.0.0/8''"
    by code_simp+
  have pseudo: "skeleton (pseudo_path s) = []"
    using skeleton_append [of "''/''" "st_volume s"] literals(2) empty(1) by (simp add: pseudo_path_def)
  show ?thesis
    by (rule skeleton_render)
       (simp_all only: export_config_def ExportConfig_default_def pseudo empty literals
         open_export_def ExportConfig.simps if_distrib [of skeleton] if_distrib [of trim] append.simps, simp_all)
qed

theorem render_injection_safe_witness:
  "validate Settings_default = Inr () \<and>
   skeleton (render (export_config Settings_default)) =
    skeleton (render (ExportConfig_default
      \<lparr>ec_allowed_clients := (if open_export (export_config Settings_default) then ''*'' else ''10.0.0.0/8''),
       ec_monitoring_port := (if st_monitoring_port Settings_default = 0 then 0 else 9587)\<rparr>))"
proof -
  have "validate Settings_default = Inr ()" by code_simp
  from render_injection_safe [OF this] this show ?thesis by blast
qed



text \<open>
  C22. A run ends once it is told to: for every settings, every initial state and every schedule
  with a shutdown in it, the run returns, as long as sleeping advances the clock.
\<close>

theorem run_ends:
  assumes "clock S time" and "Shutdown \<in> set evs"
  shows "\<exists>r. fst (result (run S X s cell evs) w) = Some r"
  by (rule run_prepared_ends [OF prepare_ends [OF assms(1)] assms(2)])

theorem run_ends_witness:
  "clock idle_sys (\<lambda>t. t) \<and> Shutdown \<in> set [Tick, Shutdown] \<and>
   (\<exists>r. fst (result (run idle_sys (SystemExec idle_sys) Settings_default [new_state ''vol''] [Tick, Shutdown])
       \<lparr>wst = 0, wlog = []\<rparr>) = Some r)"
  using run_ends [OF idle.clock_axioms, of "[Tick, Shutdown]"] idle.clock_axioms by simp

text \<open>
  C23. What a run leaves behind on the node. When the volume was mounted by CSI, the only
  commands are one chmod and the server: nothing is formatted, mounted or unmounted. When
  the run mounted it itself, every finished run, also one whose server did not start, ends
  with the unmount of the same mount point; and a server that was started is killed and
  awaited before any unmount.
\<close>

theorem run_unmounts_own_mount:
  assumes "validate s = Inr ()" and "result (prepare_volume S (SystemExec S) s) w = Some (Inr dev)"
    and "fst (result (run S (SystemExec S) s cell evs) w) = Some r"
  shows "\<exists>cs. logged (after (run S (SystemExec S) s cell evs) w) =
       logged (after (prepare_volume S (SystemExec S) s) w) @ cs @
       (if st_skip_mount s then [] else [\<lparr>inv_program = ''umount'', inv_args = [st_mount_point s]\<rparr>]) \<and>
     (\<forall>c \<in> set cs. inv_program c = ''ganesha.nfsd'') \<and>
     (st_skip_mount s \<longrightarrow> logged (after (prepare_volume S (SystemExec S) s) w) =
        logged w @ [\<lparr>inv_program = ''chmod'', inv_args = [st_export_mode s, st_mount_point s]\<rparr>]) \<and>
     (is_ok r \<longrightarrow> (\<exists>pre h post. reqs (run S (SystemExec S) s cell evs) w =
          pre @ [HReq (StartKill h), HReq (WaitChild h 5)] @ post \<and> (\<forall>q\<in>set pre. \<not> unmounts q)))"
proof -
  have "\<exists>pre h post. reqs (run S (SystemExec S) s cell evs) w = pre @ [HReq (StartKill h), HReq (WaitChild h 5)] @ post \<and>
      (\<forall>q\<in>set pre. \<not> unmounts q)" if ok: "is_ok r"
  proof -
    obtain reason where "r = Inr reason" using ok by (auto simp: is_ok_iff)
    with assms(3) show ?thesis by (intro run_stops_first) simp
  qed
  then show ?thesis using system.run_commands [OF assms] system.prepare_commands [of s S w] by blast
qed

definition own_mount :: Settings where
  "own_mount = Settings_default\<lparr>st_device := ''/dev/sdb'', st_device_timeout := 0, st_skip_mount := False\<rparr>"

theorem run_unmounts_own_mount_witness:
  "\<exists>cs. logged (after (run easy_sys (SystemExec easy_sys) own_mount [new_state ''vol''] [Tick, Shutdown]) \<lparr>wst = (), wlog = []\<rparr>) =
       logged (after (prepare_volume easy_sys (SystemExec easy_sys) own_mount) \<lparr>wst = (), wlog = []\<rparr>) @ cs @
       [\<lparr>inv_program = ''umount'', inv_args = [''/export'']\<rparr>]"
proof -
  let ?w = "\<lparr>wst = (), wlog = []\<rparr>"
  have "validate own_mount = Inr ()" by code_simp
  moreover have prep: "result (prepare_volume easy_sys (SystemExec easy_sys) own_mount) ?w = Some (Inr ''/dev/sdb'')"
    by code_simp
  moreover obtain r where
    "fst (result (run easy_sys (SystemExec easy_sys) own_mount [new_state ''vol''] [Tick, Shutdown]) ?w) = Some r"
    using run_prepared_ends [of easy_sys _ own_mount ?w "[Tick, Shutdown]"] prep by fastforce
  moreover have "\<not> st_skip_mount own_mount" "st_mount_point own_mount = ''/export''"
    by (simp_all add: own_mount_def Settings_default_def)
  ultimately show ?thesis
    using run_unmounts_own_mount [of own_mount easy_sys ?w "''/dev/sdb''" "[new_state ''vol'']" "[Tick, Shutdown]" r]
    by (simp only: if_False) blast
qed

text \<open>
  C18. The process exits with code 0 only after an orderly shutdown. It does so exactly when it
  ran as root, the run ended with the signal and no failure of its HTTP server cut it short;
  every other end (not root, rejected settings, no device, no server, a dead server, an
  unwritable volume, an HTTP server that cannot listen) has code 1, so that the pod reaches the
  phase that the failover controller reacts to.
\<close>

theorem exit_zero_only_signal:
  assumes "into_settings cmd = Some (s, listen)"
  shows "(fst (sm_process S (Some cmd) evs api w) = Some (Exit 0) \<longleftrightarrow>
      result (check_root S) w \<and>
      fst (result (run S (SystemExec S) s [new_state (st_volume s)] evs) (after (check_root S) w)) = Some (Inr Signal) \<and>
      snd (sm_process S (Some cmd) evs api w) = emits (sm_main S (Some cmd) evs) w) \<and>
    fst (sm_process S (Some cmd) evs api w) \<in> {None, Some (Exit 0), Some (Exit 1)}"
proof -
  let ?ended = "fst (result (sm_main S (Some cmd) evs) w)" and ?tr = "emits (sm_main S (Some cmd) evs) w"
  have zero: "?ended = Some (Exit 0) \<longleftrightarrow> result (check_root S) w \<and>
      fst (result (run S (SystemExec S) s [new_state (st_volume s)] evs) (after (check_root S) w)) = Some (Inr Signal)"
    unfolding main_run_end [OF assms] by (auto simp: exit_code_0)
  have codes: "?ended \<in> {None, Some (Exit 0), Some (Exit 1)}"
    unfolding main_run_end [OF assms] using exit_code_0(2)
    by (cases "fst (result (run S (SystemExec S) s [new_state (st_volume s)] evs) (after (check_root S) w))") auto
  have "sm_process S (Some cmd) evs api w = (?ended, ?tr) \<or>
      (\<exists>n. (n < length ?tr \<or> ?ended = None) \<and> sm_process S (Some cmd) evs api w = (Some (Exit 1), take n ?tr))"
    using assms by (auto simp: sm_process_def Let_def split: option.split)
  then show ?thesis
  proof (elim disjE exE conjE)
    fix n assume cut: "n < length ?tr" "sm_process S (Some cmd) evs api w = (Some (Exit 1), take n ?tr)"
    then have "take n ?tr \<noteq> ?tr" by (metis length_take min.strict_order_iff min.commute)
    with cut(2) show ?thesis by simp
  qed (use zero codes in auto)
qed

definition run_cmd :: Command where
  "run_cmd = Run ''/export'' ''vol'' ''/export'' ''0.0.0.0:9500'' ''10.0.0.1'' ''/var/run/ganesha'' 120 True 60 90
     ''10.0.0.0/8, 172.16.0.0/12, 192.168.0.0/16'' ''0777'' 9587"

theorem exit_zero_only_signal_witness:
  "fst (sm_process easy_sys (Some run_cmd) [Shutdown] None \<lparr>wst = (), wlog = []\<rparr>) = Some (Exit 0) \<and>
   fst (sm_process easy_sys (Some run_cmd) [Shutdown] (Some (1, Inl ''in use'', Inr ())) \<lparr>wst = (), wlog = []\<rparr>) \<in>
     {None, Some (Exit 0), Some (Exit 1)}"
proof -
  let ?w = "\<lparr>wst = (), wlog = []\<rparr>"
  have cmd: "into_settings run_cmd = Some (Settings_default, ''0.0.0.0:9500'')"
    by (simp add: run_cmd_def Settings_default_def)
  have "result (check_root easy_sys) ?w" by code_simp
  moreover have "snd (sm_process easy_sys (Some run_cmd) [Shutdown] None ?w) = emits (sm_main easy_sys (Some run_cmd) [Shutdown]) ?w"
    by (simp add: sm_process_def Let_def cmd)
  ultimately show ?thesis
    using exit_zero_only_signal [OF cmd, of easy_sys "[Shutdown]" None ?w] easy_run
      exit_zero_only_signal [OF cmd, of easy_sys "[Shutdown]" "Some (1, Inl ''in use'', Inr ())" ?w] by blast
qed

end
