(* ===== verification/Testing.thy ===== *)
theory Testing
  imports World
begin

text \<open>
  \<open>src/testing.rs\<close>: the scripted API server of the unit tests and the objects it serves.
  A response is a status code and a JSON value. The name that the \<open>http\<close> crate gives to a
  status code is a parameter. The lemmas show what a test may rely on: the first route that
  matches answers, and every request is recorded once and in order.
\<close>

subsection \<open>Requests and responses\<close>

record Seen =
  sn_method :: string
  sn_path :: string
  sn_body :: string

definition summary :: "Seen \<Rightarrow> string" where
  "summary s = sn_method s @ '' '' @ sn_path s"

type_synonym http_reply = "nat \<times> json"
type_synonym responder = "Seen \<Rightarrow> http_reply option"

record FakeApi =
  fa_seen :: "Seen list"
  fa_routes :: "responder list"
  fa_fallback :: "http_reply option"

definition FakeApi_new :: FakeApi where
  "FakeApi_new = \<lparr>fa_seen = [], fa_routes = [], fa_fallback = None\<rparr>"

definition route :: "string \<Rightarrow> nat \<Rightarrow> json \<Rightarrow> responder" where
  "route needle status body s = (if contains (summary s) needle then Some (status, body) else None)"

definition fake_on :: "string \<Rightarrow> nat \<Rightarrow> json \<Rightarrow> FakeApi \<Rightarrow> FakeApi" where
  "fake_on needle status body f = f\<lparr>fa_routes := fa_routes f @ [route needle status body]\<rparr>"

definition fake_ok :: "string \<Rightarrow> json \<Rightarrow> FakeApi \<Rightarrow> FakeApi" where
  "fake_ok needle body f = fake_on needle 200 body f"

definition status_json :: "string \<Rightarrow> string \<Rightarrow> nat \<Rightarrow> json" where
  "status_json msg reason status =
     JObj [(''kind'', JStr ''Status''), (''apiVersion'', JStr ''v1''), (''status'', JStr ''Failure''),
           (''message'', JStr msg), (''reason'', JStr reason), (''code'', JNum (int status))]"

definition fake_err :: "(nat \<Rightarrow> string option) \<Rightarrow> string \<Rightarrow> nat \<Rightarrow> FakeApi \<Rightarrow> FakeApi" where
  "fake_err canonical_reason needle status f =
     (let reason = (case canonical_reason status of Some r \<Rightarrow> r | None \<Rightarrow> ''Error'')
      in fake_on needle status (status_json (''fake '' @ reason) reason status) f)"

definition default_response :: "nat \<Rightarrow> json \<Rightarrow> FakeApi \<Rightarrow> FakeApi" where
  "default_response status body f = f\<lparr>fa_fallback := Some (status, body)\<rparr>"

subsection \<open>What was seen\<close>

definition summaries :: "FakeApi \<Rightarrow> string list" where
  "summaries f = map summary (fa_seen f)"

definition called :: "string \<Rightarrow> FakeApi \<Rightarrow> bool" where
  "called needle f = list_ex (\<lambda>s. contains s needle) (summaries f)"

definition count :: "string \<Rightarrow> FakeApi \<Rightarrow> nat" where
  "count needle f = length (filter (\<lambda>s. contains s needle) (summaries f))"

definition bodies :: "string \<Rightarrow> FakeApi \<Rightarrow> string list" where
  "bodies needle f = map sn_body (filter (\<lambda>s. contains (summary s) needle) (fa_seen f))"

subsection \<open>Answering\<close>

fun first_route :: "responder list \<Rightarrow> Seen \<Rightarrow> http_reply option" where
  "first_route [] s = None"
| "first_route (r # rs) s = (case r s of Some a \<Rightarrow> Some a | None \<Rightarrow> first_route rs s)"

definition no_route :: "Seen \<Rightarrow> http_reply" where
  "no_route s = (404, status_json (''fake: no route for '' @ summary s) ''NotFound'' 404)"

definition fake_call :: "Seen \<Rightarrow> FakeApi \<Rightarrow> http_reply \<times> FakeApi" where
  "fake_call entry f =
     ((case first_route (fa_routes f) entry of
         Some a \<Rightarrow> a
       | None \<Rightarrow> (case fa_fallback f of Some a \<Rightarrow> a | None \<Rightarrow> no_route entry)),
      f\<lparr>fa_seen := fa_seen f @ [entry]\<rparr>)"

subsection \<open>Objects for the tests\<close>

definition node_fixture :: "string \<Rightarrow> bool \<Rightarrow> json" where
  "node_fixture name ready =
     JObj [(''apiVersion'', JStr ''v1''), (''kind'', JStr ''Node''),
           (''metadata'', JObj [(''name'', JStr name)]),
           (''status'', JObj [(''conditions'', JArr
             [JObj [(''type'', JStr ''Ready''), (''status'', JStr (if ready then ''True'' else ''False''))]])])]"

definition list_fixture :: "string \<Rightarrow> string \<Rightarrow> json list \<Rightarrow> json" where
  "list_fixture api_version kind items =
     JObj [(''apiVersion'', JStr api_version), (''kind'', JStr kind),
           (''metadata'', JObj [(''resourceVersion'', JStr ''1'')]),
           (''items'', JArr items)]"

definition node_list_fixture :: "(string \<times> bool) list \<Rightarrow> json" where
  "node_list_fixture nodes = list_fixture ''v1'' ''NodeList'' (map (\<lambda>(n, r). node_fixture n r) nodes)"

definition pod_fixture :: "string \<Rightarrow> string \<Rightarrow> string \<Rightarrow> json" where
  "pod_fixture name node_nm phase =
     JObj [(''apiVersion'', JStr ''v1''), (''kind'', JStr ''Pod''),
           (''metadata'', JObj [(''name'', JStr name), (''namespace'', JStr ''hcloud-csi-rwx''),
             (''labels'', JObj [(''app'', JStr ''hcloud-csi-rwx''), (''rwx-volume'', JStr ''vol'')])]),
           (''spec'', JObj [(''nodeName'', JStr node_nm)]),
           (''status'', JObj [(''phase'', JStr phase), (''podIP'', JStr ''10.255.0.1'')])]"

definition pod_list_fixture :: "json list \<Rightarrow> json" where
  "pod_list_fixture pods = list_fixture ''v1'' ''PodList'' pods"

definition empty_list_fixture :: "string \<Rightarrow> json" where
  "empty_list_fixture kind = list_fixture ''v1'' kind []"

text \<open>\<open>spec["volumeName"] = json!(v)\<close> appends the key to the object.\<close>

definition pvc_fixture :: "string \<Rightarrow> string \<Rightarrow> string \<Rightarrow> string list \<Rightarrow> string option \<Rightarrow> json" where
  "pvc_fixture name ns sc modes volume_nm =
     (let spec = [(''storageClassName'', JStr sc), (''accessModes'', JArr (map JStr modes)),
                  (''resources'', JObj [(''requests'', JObj [(''storage'', JStr ''10Gi'')])])] @
                 (case volume_nm of Some v \<Rightarrow> [(''volumeName'', JStr v)] | None \<Rightarrow> [])
      in JObj [(''apiVersion'', JStr ''v1''), (''kind'', JStr ''PersistentVolumeClaim''),
               (''metadata'', JObj [(''name'', JStr name), (''namespace'', JStr ns)]),
               (''spec'', JObj spec),
               (''status'', JObj [(''phase'', JStr ''Bound'')])])"

definition state_cm_fixture :: "string \<Rightarrow> string \<Rightarrow> json" where
  "state_cm_fixture name state_text =
     JObj [(''apiVersion'', JStr ''v1''), (''kind'', JStr ''ConfigMap''),
           (''metadata'', JObj [(''name'', JStr name), (''namespace'', JStr ''hcloud-csi-rwx'')]),
           (''data'', JObj [(''state.json'', JStr state_text)])]"

definition service_fixture :: "string \<Rightarrow> string \<Rightarrow> json" where
  "service_fixture name cluster_ip =
     JObj [(''apiVersion'', JStr ''v1''), (''kind'', JStr ''Service''),
           (''metadata'', JObj [(''name'', JStr name), (''namespace'', JStr ''hcloud-csi-rwx'')]),
           (''spec'', JObj [(''clusterIP'', JStr cluster_ip), (''type'', JStr ''ClusterIP'')])]"

definition volume_attachment_fixture :: "string \<Rightarrow> string \<Rightarrow> json" where
  "volume_attachment_fixture name pv =
     JObj [(''apiVersion'', JStr ''storage.k8s.io/v1''), (''kind'', JStr ''VolumeAttachment''),
           (''metadata'', JObj [(''name'', JStr name)]),
           (''spec'', JObj [(''attacher'', JStr ''csi.hetzner.cloud''), (''nodeName'', JStr ''n1''),
             (''source'', JObj [(''persistentVolumeName'', JStr pv)])]),
           (''status'', JObj [(''attached'', JBool True)])]"

definition va_list_fixture :: "json list \<Rightarrow> json" where
  "va_list_fixture items = list_fixture ''storage.k8s.io/v1'' ''VolumeAttachmentList'' items"

subsection \<open>Lemmas\<close>

text \<open>A test: a script of routes, then requests one after the other.\<close>

definition scripted :: "(string \<times> nat \<times> json) list \<Rightarrow> FakeApi" where
  "scripted script = fold (\<lambda>(needle, status, body). fake_on needle status body) script FakeApi_new"

fun serve :: "Seen list \<Rightarrow> FakeApi \<Rightarrow> http_reply list \<times> FakeApi" where
  "serve [] f = ([], f)"
| "serve (q # qs) f = (let (a, f') = fake_call q f; (rs, f'') = serve qs f' in (a # rs, f''))"

definition script_answer :: "(string \<times> nat \<times> json) list \<Rightarrow> Seen \<Rightarrow> http_reply" where
  "script_answer script q =
     (case List.find (\<lambda>r. contains (summary q) (fst r)) script of
        Some r \<Rightarrow> snd r | None \<Rightarrow> no_route q)"

lemma fold_fake_on:
  "fold (\<lambda>(needle, status, body). fake_on needle status body) script f =
     f\<lparr>fa_routes := fa_routes f @ map (\<lambda>(needle, status, body). route needle status body) script\<rparr>"
  by (induction script arbitrary: f) (auto simp: fake_on_def)

lemma first_route_find:
  "first_route (map (\<lambda>(needle, status, body). route needle status body) script) q =
     map_option snd (List.find (\<lambda>r. contains (summary q) (fst r)) script)"
  by (induction script) (auto simp: route_def)

lemma serve_scripted:
  assumes "fa_routes f = map (\<lambda>(needle, status, body). route needle status body) script" "fa_fallback f = None"
  shows "fst (serve qs f) = map (script_answer script) qs \<and> fa_seen (snd (serve qs f)) = fa_seen f @ qs"
  using assms
proof (induction qs arbitrary: f)
  case (Cons q qs)
  let ?f = "f\<lparr>fa_seen := fa_seen f @ [q]\<rparr>"
  have "fst (fake_call q f) = script_answer script q" "snd (fake_call q f) = ?f"
    using Cons.prems by (auto simp: fake_call_def first_route_find script_answer_def split: option.split)
  then show ?case using Cons.IH [of ?f] Cons.prems by (simp add: split_beta Let_def)
qed simp

lemma count_filter: "count needle f = length (bodies needle f)"
  by (simp add: count_def bodies_def summaries_def filter_map comp_def)

lemma called_iff: "called needle f \<longleftrightarrow> bodies needle f \<noteq> []"
  by (auto simp: called_def bodies_def summaries_def list_ex_iff filter_empty_conv)

subsection \<open>Properties\<close>

text \<open>
  The scripted API server does what the tests rely on: over any script and any sequence of
  requests, each request is answered by the first entry of the script that it contains, and
  with the 404 status otherwise; every request is recorded once and in order, and the three
  queries of a test agree on what was recorded.
\<close>

lemma fake_api_scripted:
  "let f = snd (serve qs (scripted script))
   in fst (serve qs (scripted script)) = map (script_answer script) qs \<and> fa_seen f = qs \<and>
      count needle f = length (filter (\<lambda>q. contains (summary q) needle) qs) \<and>
      bodies needle f = map sn_body (filter (\<lambda>q. contains (summary q) needle) qs) \<and>
      (called needle f \<longleftrightarrow> 0 < count needle f)"
proof -
  have "scripted script = FakeApi_new\<lparr>fa_routes := map (\<lambda>(needle, status, body). route needle status body) script\<rparr>"
    by (simp add: scripted_def fold_fake_on FakeApi_new_def)
  then have "fst (serve qs (scripted script)) = map (script_answer script) qs \<and> fa_seen (snd (serve qs (scripted script))) = qs"
    using serve_scripted [of "scripted script" script qs] by (simp add: FakeApi_new_def)
  then show ?thesis by (simp add: Let_def count_filter called_iff bodies_def)
qed

end
