(* ===== verification/Test_Support.thy ===== *)
theory Test_Support
  imports Nfs Testing "HOL-Library.Code_Target_Nat"
begin

text \<open>
  What the translated unit tests share. A test is a definition of type \<open>bool\<close>: the conjunction
  of the assertions of the source, over the model of the code under test and of the test doubles,
  and the lemma beside it evaluates it in the kernel. So the model is held against every
  expectation that the authors of the program wrote down. Nothing here stands for code of the
  program: the helpers are the assertion macros, a host for the calls that the tests leave to the
  real one, and equations that make the evaluation of \<open>contains\<close> short.
\<close>

subsection \<open>Assertions\<close>

definition ok_and :: "'e + 'a \<Rightarrow> ('a \<Rightarrow> bool) \<Rightarrow> bool" where
  "ok_and r P = (case r of Inr a \<Rightarrow> P a | Inl _ \<Rightarrow> False)"

definition err_and :: "'e + 'a \<Rightarrow> ('e \<Rightarrow> bool) \<Rightarrow> bool" where
  "err_and r P = (case r of Inl e \<Rightarrow> P e | Inr _ \<Rightarrow> False)"

definition is_err :: "'e + 'a \<Rightarrow> bool" where
  "is_err r = (\<not> is_ok r)"

text \<open>The result of a program, the state and the log it leaves.\<close>

definition run_test :: "'s \<Rightarrow> ('s, 'a) io \<Rightarrow> 'a \<times> 's \<times> trace" where
  "run_test s m = (case run_state m \<lparr>wst = s, wlog = []\<rparr> of (a, w) \<Rightarrow> (a, wst w, wlog w))"

lemma run_test_eq: "run_test s m = (let w = \<lparr>wst = s, wlog = []\<rparr> in (result m w, wst (after m w), wlog (after m w)))"
  by (simp add: run_test_def result_def after_def split_beta Let_def)

subsection \<open>The host of the tests\<close>

text \<open>
  A machine with the given files beside a writable \<open>/tmp\<close>, and a clock that only sleeping
  advances. \<open>tick\<close> is how sleeping changes the state, \<open>time\<close> the clock in it.
\<close>

definition in_tmp :: "string \<Rightarrow> bool" where
  "in_tmp p = (strip_prefix ''/tmp'' p \<noteq> None)"

fun host_call :: "string list \<Rightarrow> ('s \<Rightarrow> nat) \<Rightarrow> (nat \<Rightarrow> 's \<Rightarrow> 's) \<Rightarrow> hreq \<Rightarrow> 's \<Rightarrow> hresp \<times> 's" where
  "host_call files time tick (CreateDirAll p) s =
     (HIo (if in_tmp p then Inr () else Inl ''Permission denied (os error 13)''), s)"
| "host_call files time tick (WriteFile p text) s =
     (HIo (if in_tmp p then Inr () else Inl ''No such file or directory (os error 2)''), s)"
| "host_call files time tick (RemoveFile p) s = (HIo (Inr ()), s)"
| "host_call files time tick (TryExists p) s = (HBool (Inr (p \<in> set files)), s)"
| "host_call files time tick (PathExists p) s = (HBool (Inr (p \<in> set files)), s)"
| "host_call files time tick (Canonicalize p) s = (HPath (Inr p), s)"
| "host_call files time tick Now s = (HNow (time s), s)"
| "host_call files time tick (Sleep ms) s = (HUnit, tick ms s)"
| "host_call files time tick (CmdStatus p args secs) s = (HStatus (Some (Inl ''No such file or directory (os error 2)'')), s)"
| "host_call files time tick q s = (HUnit, s)"

definition test_host :: "string list \<Rightarrow> ('s \<Rightarrow> nat) \<Rightarrow> (nat \<Rightarrow> 's \<Rightarrow> 's) \<Rightarrow> 's sys" where
  "test_host files time tick =
     \<lparr>srv = (\<lambda>q s. case q of
        HReq h \<Rightarrow> (case host_call files time tick h s of (r, s') \<Rightarrow> (HResp r, s'))
      | _ \<Rightarrow> (HResp HUnit, s)),
      env_var = (\<lambda>_. None), kube_display = (\<lambda>_. []),
      pod_from_value = (\<lambda>_. Inl []), svc_from_value = (\<lambda>_. Inl []), pvc_from_value = (\<lambda>_. Inl [])\<rparr>"

text \<open>Beside the command double, whose state has no clock, and alone.\<close>

definition still_host :: "string list \<Rightarrow> FakeExec sys" where
  "still_host files = test_host files (\<lambda>_. 0) (\<lambda>_ f. f)"

definition clock_host :: "string list \<Rightarrow> nat sys" where
  "clock_host files = test_host files (\<lambda>t. t) (+)"

text \<open>\<open>std::fs::read_to_string\<close> of a file that the code under test wrote.\<close>

fun last_written :: "string \<Rightarrow> trace \<Rightarrow> string option" where
  "last_written p [] = None"
| "last_written p ((q, r) # tr) =
     (case last_written p tr of
        Some t \<Rightarrow> Some t
      | None \<Rightarrow> (case q of HReq (WriteFile p' t) \<Rightarrow> if p' = p then Some t else None | _ \<Rightarrow> None))"

subsection \<open>Evaluating \<open>contains\<close>\<close>

fun starts_with :: "string \<Rightarrow> string \<Rightarrow> bool" where
  "starts_with s [] = True"
| "starts_with [] (p # ps) = False"
| "starts_with (c # cs) (p # ps) = (if c = p then starts_with cs ps else False)"

lemma starts_with_strip: "starts_with s p \<longleftrightarrow> strip_prefix p s \<noteq> None"
  by (induction s p rule: starts_with.induct) auto

lemma contains_code [code]:
  "contains [] needle = (needle = [])"
  "contains (c # cs) needle = (if starts_with (c # cs) needle then True else contains cs needle)"
  by (simp_all add: starts_with_strip)

text \<open>A needle without a line end is found in a text of lines when it is found in one of them.\<close>

definition newline :: char where
  "newline = CHR 0x0A"

lemma strip_prefix_line:
  "newline \<notin> set needle \<Longrightarrow> strip_prefix needle (l @ newline # rest) \<noteq> None \<longleftrightarrow> strip_prefix needle l \<noteq> None"
  by (induction needle l rule: strip_prefix.induct) auto

lemma contains_line:
  assumes "newline \<notin> set needle" "needle \<noteq> []"
  shows "contains (l @ newline # rest) needle \<longleftrightarrow> contains l needle \<or> contains rest needle"
proof (induction l)
  case Nil
  then show ?case using assms by (cases needle) auto
next
  case (Cons c l)
  then show ?case using strip_prefix_line [OF assms(1), of "c # l" rest] by auto
qed

lemma contains_lines:
  assumes "newline \<notin> set needle" "needle \<noteq> []"
  shows "contains (lines ls @ rest) needle \<longleftrightarrow> list_ex (\<lambda>l. contains l needle) ls \<or> contains rest needle"
  by (induction ls) (simp_all add: lines_def contains_line [OF assms, unfolded newline_def] )

fun any_line :: "string list \<Rightarrow> string \<Rightarrow> bool" where
  "any_line [] needle = False"
| "any_line (l # ls) needle = (if contains l needle then True else any_line ls needle)"

definition has_line :: "string list \<Rightarrow> string \<Rightarrow> bool" where
  "has_line ls needle =
     (if needle = [] \<or> newline \<in> set needle then contains (lines ls) needle else any_line ls needle)"

lemma any_line_iff: "any_line ls needle \<longleftrightarrow> list_ex (\<lambda>l. contains l needle) ls"
  by (induction ls) auto

lemma contains_render [code_unfold]: "contains (render cfg) = has_line (render_lines cfg)"
proof
  fix needle
  show "contains (render cfg) needle = has_line (render_lines cfg) needle"
    using contains_lines [of needle "render_lines cfg" "[]"] by (auto simp: render_def has_line_def any_line_iff)
qed

end
