(* ===== verification/Host_Tests.thy ===== *)
theory Host_Tests
  imports Share_Manager Json_Text Test_Support
begin

text \<open>
  The unit tests of the share-manager's side: \<open>src/exec.rs\<close>, \<open>src/block.rs\<close>, \<open>src/nfs.rs\<close>,
  \<open>src/api.rs\<close>, \<open>src/sharemanager.rs\<close> and \<open>src/main.rs\<close>. Commands go to the double
  \<open>FakeExec\<close>, files to \<open>test_host\<close>. Left out are the tests of real processes, sockets and the
  argument parser.
\<close>

abbreviation fakeX :: "FakeExec exec" where
  "fakeX \<equiv> FakeExec_exec"

subsection \<open>\<open>exec.rs\<close>\<close>

definition fake_records_and_defaults_to_success :: bool where
  "fake_records_and_defaults_to_success =
     (let (out, fake, _) = run_test FakeExec_new (ex_run fakeX ''mount'' [''-t'', ''nfs4''] None)
      in ok_and out oc_success \<and> call_lines fake = [''mount -t nfs4''] \<and> ran ''nfs4'' fake)"

definition fake_rules_match_by_substring :: bool where
  "fake_rules_match_by_substring =
     (let ((blkid, mount), _) = run_test (on ''blkid'' (Outcome_failed 2) FakeExec_new) (do {
            a \<leftarrow> ex_run fakeX ''blkid'' [''/dev/sda''] None;
            b \<leftarrow> ex_run fakeX ''mount'' [''/dev/sda''] None;
            State_Monad.return (a, b) })
      in ok_and blkid (\<lambda>oc. \<not> oc_success oc) \<and> ok_and mount oc_success)"

definition fake_can_fail_to_spawn :: bool where
  "fake_can_fail_to_spawn =
     is_err (fst (run_test (on_error ''mkfs'' FakeExec_new) (ex_run fakeX ''mkfs.ext4'' [''-F''] None)))"

definition fake_process_lifecycle :: bool where
  "fake_process_lifecycle =
     (let (p, fake, _) = run_test (alive_for 2 FakeExec_new) (ex_spawn fakeX ''ganesha.nfsd'' [''-F''])
      in ok_and p (\<lambda>h.
           let (a, fake, _) = run_test fake (ex_is_running fakeX h);
               (b, fake, _) = run_test fake (ex_is_running fakeX h);
               (c, fake, _) = run_test fake (ex_is_running fakeX h)
           in a \<and> b \<and> \<not> c \<and> ran ''ganesha.nfsd'' fake))"

definition fake_process_kill_stops_it :: bool where
  "fake_process_kill_stops_it =
     (let (p, fake, _) = run_test FakeExec_new (ex_spawn fakeX ''ganesha.nfsd'' [])
      in ok_and p (\<lambda>h.
           let (a, fake, _) = run_test fake (ex_is_running fakeX h);
               (_, fake, _) = run_test fake (ex_start_kill fakeX h);
               (b, fake, _) = run_test fake (ex_is_running fakeX h)
           in a \<and> \<not> b))"

definition fake_spawn_failure :: bool where
  "fake_spawn_failure =
     is_err (fst (run_test (failing_spawn FakeExec_new) (ex_spawn fakeX ''ganesha.nfsd'' [])))"

definition outcome_helpers_and_error_display :: bool where
  "outcome_helpers_and_error_display \<longleftrightarrow>
     oc_success Outcome_ok \<and>
     oc_code (Outcome_failed 3) = Some 3 \<and>
     oc_stdout (with_stdout Outcome_ok ''x'') = ''x'' \<and>
     contains (show_ExecError (Spawn ''boom'')) ''boom'' \<and>
     contains (show_ExecError (Timeout ''mount'' 5)) ''mount''"

lemma exec_tests:
  "fake_records_and_defaults_to_success" "fake_rules_match_by_substring" "fake_can_fail_to_spawn"
  "fake_process_lifecycle" "fake_process_kill_stops_it" "fake_spawn_failure" "outcome_helpers_and_error_display"
  by code_simp+

subsection \<open>\<open>block.rs\<close>\<close>

definition existing_filesystem_skips_mkfs :: bool where
  "existing_filesystem_skips_mkfs =
     (let (r, fake, _) = run_test FakeExec_new (ensure_filesystem fakeX ''/dev/sdb'')
      in is_ok r \<and> ran ''blkid -c /dev/null /dev/sdb'' fake \<and> \<not> ran ''mkfs.ext4'' fake)"

definition missing_filesystem_triggers_mkfs :: bool where
  "missing_filesystem_triggers_mkfs =
     (let (r, fake, _) = run_test (on ''blkid'' (Outcome_failed 2) FakeExec_new) (ensure_filesystem fakeX ''/dev/sdb'')
      in is_ok r \<and> ran ''mkfs.ext4 -F /dev/sdb'' fake)"

definition mkfs_failure_is_reported :: bool where
  "mkfs_failure_is_reported =
     (let fake = on ''mkfs.ext4'' (Outcome_failed 1) (on ''blkid'' (Outcome_failed 2) FakeExec_new)
      in err_and (fst (run_test fake (ensure_filesystem fakeX ''/dev/sdb''))) (\<lambda>e. contains e ''mkfs.ext4 exited''))"

definition mkfs_spawn_error_is_reported :: bool where
  "mkfs_spawn_error_is_reported =
     (let fake = on_error ''mkfs.ext4'' (on ''blkid'' (Outcome_failed 2) FakeExec_new)
      in err_and (fst (run_test fake (ensure_filesystem fakeX ''/dev/sdb''))) (\<lambda>e. contains e ''failed to run mkfs.ext4''))"

definition mount_uses_ext4_and_reports_failure :: bool where
  "mount_uses_ext4_and_reports_failure =
     (let mp = ''/tmp/hcloud-csi-rwx-mount-test'';
          (r, fake, _) = run_test FakeExec_new (mount_device (still_host []) fakeX ''/dev/sdb'' mp);
          (bad, _) = run_test (on ''mount'' (Outcome_failed 32) FakeExec_new)
                       (mount_device (still_host []) fakeX ''/dev/sdb'' mp)
      in is_ok r \<and> ran (''mount -t ext4 /dev/sdb '' @ mp) fake \<and>
         err_and bad (\<lambda>e. contains e ''exited with code''))"

definition unmount_tolerates_missing_mountpoint :: bool where
  "unmount_tolerates_missing_mountpoint =
     (let (r, fake, _) = run_test (on ''umount'' (Outcome_failed 1) FakeExec_new)
            (unmount_device (still_host [''/tmp'']) fakeX ''/definitely/not/mounted/anywhere'')
      in is_ok r \<and> ran ''umount'' fake)"

definition unmount_warns_when_path_still_exists :: bool where
  "unmount_warns_when_path_still_exists =
     (let (r, fake, _) = run_test (on ''umount'' (Outcome_failed 1) FakeExec_new)
            (unmount_device (still_host [''/tmp'']) fakeX ''/tmp'')
      in is_ok r \<and> ran ''umount /tmp'' fake)"

definition unmount_success_path :: bool where
  "unmount_success_path =
     is_ok (fst (run_test FakeExec_new (unmount_device (still_host [''/tmp'']) fakeX ''/tmp'')))"

definition unmount_spawn_error_is_reported :: bool where
  "unmount_spawn_error_is_reported =
     is_err (fst (run_test (on_error ''umount'' FakeExec_new) (unmount_device (still_host [''/tmp'']) fakeX ''/tmp'')))"

text \<open>The calls on the failing doubles return; only the first double is looked at.\<close>

definition set_export_mode_covers_all_branches :: bool where
  "set_export_mode_covers_all_branches =
     (let (_, fake, _) = run_test FakeExec_new (set_export_mode fakeX ''/export'' ''0777'');
          (u, _) = run_test (on ''chmod'' (Outcome_failed 1) FakeExec_new) (set_export_mode fakeX ''/export'' ''0777'');
          (v, _) = run_test (on_error ''chmod'' FakeExec_new) (set_export_mode fakeX ''/export'' ''0777'')
      in ran ''chmod 0777 /export'' fake \<and> u = () \<and> v = ())"

definition health_check_roundtrip :: bool where
  "health_check_roundtrip \<longleftrightarrow>
     fst (run_test 0 (health_check (clock_host []) ''/tmp/hcloud-csi-rwx-health-test'')) \<and>
     \<not> fst (run_test 0 (health_check (clock_host []) ''/no/such/dir/at/all''))"

definition wait_for_device_finds_and_times_out :: bool where
  "wait_for_device_finds_and_times_out =
     (let dev = ''/tmp/hcloud-csi-rwx-dev-test'';
          (found, _) = run_test 0 (wait_for_device (clock_host [dev]) dev 1000);
          (lost, _) = run_test 0 (wait_for_device (clock_host []) ''/dev/nonexistent-hcloud-test'' 50)
      in (case found of Some r \<Rightarrow> ok_and r (\<lambda>p. contains p ''hcloud-csi-rwx-dev-test'') | None \<Rightarrow> False) \<and>
         (case lost of Some r \<Rightarrow> err_and r (\<lambda>e. contains e ''timeout waiting for device'') | None \<Rightarrow> False))"

definition export_mode_validation :: bool where
  "export_mode_validation \<longleftrightarrow>
     valid_export_mode ''0777'' \<and> valid_export_mode ''755'' \<and> \<not> valid_export_mode ''0778'' \<and>
     \<not> valid_export_mode ''77'' \<and> \<not> valid_export_mode ''07777'' \<and> \<not> valid_export_mode ''rwx''"

lemma block_tests:
  "existing_filesystem_skips_mkfs" "missing_filesystem_triggers_mkfs" "mkfs_failure_is_reported"
  "mkfs_spawn_error_is_reported" "mount_uses_ext4_and_reports_failure" "unmount_tolerates_missing_mountpoint"
  "unmount_warns_when_path_still_exists" "unmount_success_path" "unmount_spawn_error_is_reported"
  "set_export_mode_covers_all_branches" "health_check_roundtrip" "wait_for_device_finds_and_times_out"
  "export_mode_validation"
  by code_simp+

subsection \<open>\<open>nfs.rs\<close>\<close>

definition endpoint_joins_ip_and_pseudo :: bool where
  "endpoint_joins_ip_and_pseudo \<longleftrightarrow> endpoint ''10.0.0.1'' ''/vol'' = ''10.0.0.1:/vol''"

definition config_value_validation :: bool where
  "config_value_validation \<longleftrightarrow>
     is_ok (validate_config_value ''pvc-1234'') \<and>
     is_ok (validate_config_value ''10.0.0.0/8, 192.168.0.0/16'') \<and>
     is_ok (validate_config_value ''*'') \<and>
     is_err (validate_config_value '''') \<and>
     is_err (validate_config_value (''a;'' @ [newline] @ ''EXPORT {''))"

definition render_open_export_has_no_client_block :: bool where
  "render_open_export_has_no_client_block =
     list_all (\<lambda>clients.
       \<not> contains (render (ExportConfig_default\<lparr>ec_allowed_clients := clients\<rparr>)) ''CLIENT {'' \<and>
       contains (render (ExportConfig_default\<lparr>ec_allowed_clients := clients\<rparr>)) ''Access_Type = RW;'')
     [''*'', ''0.0.0.0/0'']"

definition render_metrics_toggle :: bool where
  "render_metrics_toggle \<longleftrightarrow>
     contains (render ExportConfig_default) ''Enable_Metrics = true;'' \<and>
     contains (render ExportConfig_default) ''Monitoring_Port = 9587;'' \<and>
     \<not> contains (render (ExportConfig_default\<lparr>ec_monitoring_port := 0\<rparr>)) ''Enable_Metrics'' \<and>
     \<not> contains (render (ExportConfig_default\<lparr>ec_monitoring_port := 0\<rparr>)) ''Monitoring_Port''"

definition render_interpolates_all_fields :: bool where
  "render_interpolates_all_fields =
     (let cfg = \<lparr>ec_export_id = 7, ec_export_path = ''/export/x'', ec_pseudo_path = ''/x'',
                 ec_lease_lifetime = 30, ec_grace_period = 45, ec_allowed_clients = ''10.1.0.0/16'',
                 ec_monitoring_port = 1234\<rparr>
      in list_all (contains (render cfg))
        [''Export_Id = 7;'', ''Path = /export/x;'', ''Pseudo = /x;'', ''Lease_Lifetime = 30;'',
         ''Grace_Period = 45;'', ''Filesystem_id = 7.0;'', ''Clients = 10.1.0.0/16;'',
         ''Monitoring_Port = 1234;'', ''RecoveryBackend = hcloud;'', ''Name = VFS;''])"

lemma render_tests:
  "endpoint_joins_ip_and_pseudo" "config_value_validation" "render_open_export_has_no_client_block"
  by code_simp+

lemma render_tests_2:
  "render_metrics_toggle"
  by code_simp

lemma render_tests_3:
  "render_interpolates_all_fields"
  by code_simp

text \<open>A server of a test, started on the double; the tests end when the start fails.\<close>

definition started_ganesha :: "string \<Rightarrow> (FakeExec, anyhow_Error + Ganesha) io" where
  "started_ganesha dir = do {
     g \<leftarrow> Ganesha_new (still_host []) dir;
     ganesha_start (still_host []) fakeX ExportConfig_default g }"

definition ganesha_start_writes_config_and_spawns :: bool where
  "ganesha_start_writes_config_and_spawns =
     (let (started, fake, log) = run_test FakeExec_new (started_ganesha ''/tmp/hcloud-ganesha-start'')
      in ok_and started (\<lambda>g.
           let (running, fake', _) = run_test fake (ganesha_is_running fakeX g);
               (g', fake'', _) = run_test fake' (ganesha_stop fakeX g);
               (later, _) = run_test fake'' (ganesha_is_running fakeX g')
           in (case last_written (gn_config_path g) log of
                 Some written \<Rightarrow> contains written ''EXPORT'' | None \<Rightarrow> False) \<and>
              ran ''ganesha.nfsd -F -p /var/run/ganesha.pid -f'' fake \<and> running \<and> \<not> later))"

definition ganesha_reports_spawn_failure :: bool where
  "ganesha_reports_spawn_failure =
     (let (g, fake, _) = run_test (failing_spawn FakeExec_new) (Ganesha_new (still_host []) ''/tmp/hcloud-ganesha-fail'');
          (started, fake, _) = run_test fake (ganesha_start (still_host []) fakeX ExportConfig_default g);
          (running, _) = run_test fake (ganesha_is_running fakeX g)
      in err_and started (\<lambda>e. contains e ''failed to spawn ganesha.nfsd'') \<and> \<not> running)"

definition ganesha_detects_dead_process :: bool where
  "ganesha_detects_dead_process =
     (let (started, fake, _) = run_test (alive_for 1 FakeExec_new) (started_ganesha ''/tmp/hcloud-ganesha-dead'')
      in ok_and started (\<lambda>g.
           let (a, fake', _) = run_test fake (ganesha_is_running fakeX g);
               (b, _) = run_test fake' (ganesha_is_running fakeX g)
           in a \<and> \<not> b))"

definition ganesha_stop_without_start_is_noop :: bool where
  "ganesha_stop_without_start_is_noop =
     (let (running, _) = run_test FakeExec_new (do {
            g \<leftarrow> Ganesha_new (still_host []) ''/tmp/hcloud-ganesha-noop'';
            g \<leftarrow> ganesha_stop fakeX g;
            ganesha_is_running fakeX g })
      in \<not> running)"

definition ganesha_drop_kills_child :: bool where
  "ganesha_drop_kills_child =
     (let (started, fake, _) = run_test FakeExec_new (started_ganesha ''/tmp/hcloud-ganesha-drop'')
      in ok_and started (\<lambda>g.
           let (_, fake', _) = run_test fake (ganesha_drop fakeX g)
           in ran ''ganesha.nfsd'' fake'))"

lemma ganesha_tests:
  "ganesha_start_writes_config_and_spawns"
  by code_simp

lemma ganesha_tests_2:
  "ganesha_reports_spawn_failure" "ganesha_detects_dead_process" "ganesha_stop_without_start_is_noop"
  "ganesha_drop_kills_child"
  by code_simp+

subsection \<open>\<open>api.rs\<close>\<close>

definition healthz_flips_with_readiness :: bool where
  "healthz_flips_with_readiness =
     (let s = new_state ''vol''
      in fst (app ''/healthz'' s) = 503 \<and> fst (app ''/healthz'' (s\<lparr>api_ready := True\<rparr>)) = 200)"

text \<open>\<open>body["member"]\<close>, a missing member is null.\<close>

definition body_member :: "http_answer \<Rightarrow> string \<Rightarrow> json" where
  "body_member a k =
     (case snd a of
        Inr j \<Rightarrow> (case jget k j of Some v \<Rightarrow> v | None \<Rightarrow> JNull)
      | Inl _ \<Rightarrow> JNull)"

definition endpoint_is_unavailable_until_ready :: bool where
  "endpoint_is_unavailable_until_ready =
     (let s = new_state ''vol'';
          a = app ''/endpoint'' (s\<lparr>api_ready := True, api_endpoint := Some ''10.0.0.1:/vol''\<rparr>)
      in fst (app ''/endpoint'' s) = 503 \<and> fst a = 200 \<and>
         body_member a ''endpoint'' = JStr ''10.0.0.1:/vol'' \<and> body_member a ''ready'' = JBool True)"

definition state_endpoint_always_answers :: bool where
  "state_endpoint_always_answers =
     (let a = app ''/state'' ((new_state ''my-pvc'')\<lparr>api_error := Some ''boom''\<rparr>)
      in fst a = 200 \<and> body_member a ''volume'' = JStr ''my-pvc'' \<and> body_member a ''error'' = JStr ''boom'' \<and>
         body_member a ''ready'' = JBool False)"

definition fresh_state_has_sane_defaults :: bool where
  "fresh_state_has_sane_defaults =
     (let s = new_state ''v''
      in \<not> api_ready s \<and> api_endpoint s = None \<and> api_error s = None \<and> api_volume s = ''v'' \<and>
         contains (print_json (ApiShareState_to_json s)) ([CHR 0x22] @ ''ready'' @ [CHR 0x22] @ '':false''))"

lemma api_tests:
  "healthz_flips_with_readiness" "endpoint_is_unavailable_until_ready" "state_endpoint_always_answers"
  "fresh_state_has_sane_defaults"
  by code_simp+

subsection \<open>\<open>sharemanager.rs\<close>\<close>

definition test_settings :: "string \<Rightarrow> Settings" where
  "test_settings dir = Settings_default\<lparr>st_ganesha_dir := dir, st_mount_point := ''/tmp''\<rparr>"

definition validation_rejects_injection_and_bad_mode :: bool where
  "validation_rejects_injection_and_bad_mode \<longleftrightarrow>
     is_ok (validate Settings_default) \<and>
     is_err (validate (Settings_default\<lparr>st_volume := ''a;'' @ [newline] @ ''EXPORT {''\<rparr>)) \<and>
     err_and (validate (Settings_default\<lparr>st_export_mode := ''0999''\<rparr>))
       (\<lambda>e. contains e ''invalid --export-mode'') \<and>
     is_err (validate (Settings_default\<lparr>st_allowed_clients := [CHR 0x22] @ ''x'' @ [CHR 0x22]\<rparr>)) \<and>
     is_err (validate (Settings_default\<lparr>st_mount_point := []\<rparr>))"

definition derived_values :: bool where
  "derived_values =
     (let s = Settings_default\<lparr>st_volume := ''pvc-1'', st_svc_ip := ''10.1.2.3''\<rparr>; cfg = export_config s
      in pseudo_path s = ''/pvc-1'' \<and> Settings_endpoint s = ''10.1.2.3:/pvc-1'' \<and>
         ec_pseudo_path cfg = ''/pvc-1'' \<and> ec_export_id cfg = 1 \<and> ec_monitoring_port cfg = 9587)"

definition exit_reason_semantics :: bool where
  "exit_reason_semantics \<longleftrightarrow>
     is_clean Signal \<and> \<not> is_clean GaneshaDied \<and> \<not> is_clean VolumeUnhealthy \<and>
     contains (ExitReason_message GaneshaDied) ''ganesha'' \<and>
     contains (ExitReason_message VolumeUnhealthy) ''health'' \<and>
     contains (ExitReason_message Signal) ''SIGINT''"

definition state_transitions :: bool where
  "state_transitions =
     (let a = set_error ''boom'' (new_state ''v''); b = mark_ready ''1.2.3.4:/v'' a; c = mark_unhealthy ''dead'' b
      in \<not> api_ready a \<and> api_error a = Some ''boom'' \<and>
         api_ready b \<and> api_error b = None \<and> api_endpoint b = Some ''1.2.3.4:/v'' \<and>
         \<not> api_ready c \<and> api_error c = Some ''dead'')"

definition prepare_volume_skip_mount_only_chmods :: bool where
  "prepare_volume_skip_mount_only_chmods =
     (let s = test_settings ''/tmp/sm-prep-skip'';
          (dev, fake, _) = run_test FakeExec_new (prepare_volume (still_host []) fakeX s)
      in (case dev of Some r \<Rightarrow> ok_and r (\<lambda>d. d = st_mount_point s) | None \<Rightarrow> False) \<and> ran ''chmod 0777'' fake \<and>
         \<not> ran ''mkfs'' fake \<and> \<not> ran ''mount -t ext4'' fake)"

definition prepare_volume_full_path_formats_and_mounts :: bool where
  "prepare_volume_full_path_formats_and_mounts =
     (let s = (test_settings ''/tmp/sm-prep-full'')\<lparr>st_skip_mount := False, st_device := ''/tmp/sm-prep-dev''\<rparr>;
          (dev, fake, _) = run_test (on ''blkid'' (Outcome_failed 2) FakeExec_new)
                             (prepare_volume (still_host [''/tmp/sm-prep-dev'']) fakeX s)
      in (case dev of Some r \<Rightarrow> is_ok r | None \<Rightarrow> False) \<and>
         ran ''mkfs.ext4'' fake \<and> ran ''mount -t ext4'' fake \<and> ran ''chmod'' fake)"

definition prepare_volume_reports_missing_device :: bool where
  "prepare_volume_reports_missing_device =
     (let s = (test_settings ''/tmp/sm-prep-missing'')
                \<lparr>st_skip_mount := False, st_device := ''/dev/definitely-missing-xyz'', st_device_timeout := 0\<rparr>
      in case fst (run_test FakeExec_new (prepare_volume (still_host []) fakeX s)) of
           Some r \<Rightarrow> is_err r | None \<Rightarrow> False)"

lemma settings_tests:
  "validation_rejects_injection_and_bad_mode" "derived_values" "exit_reason_semantics" "state_transitions"
  "prepare_volume_skip_mount_only_chmods" "prepare_volume_full_path_formats_and_mounts"
  "prepare_volume_reports_missing_device"
  by code_simp+

definition tick_of :: "FakeExec \<Rightarrow> string \<Rightarrow> string \<Rightarrow> anyhow_Error + ExitReason option" where
  "tick_of fake dir mount_point =
     (case run_test fake (started_ganesha dir) of
        (Inl e, _) \<Rightarrow> Inl e
      | (Inr g, fake', _) \<Rightarrow> Inr (fst (run_test fake' (health_tick (still_host []) fakeX g mount_point))))"

definition health_tick_detects_dead_ganesha :: bool where
  "health_tick_detects_dead_ganesha =
     ok_and (tick_of (alive_for 0 FakeExec_new) ''/tmp/sm-tick-dead'' ''/tmp'') (\<lambda>r. r = Some GaneshaDied)"

definition health_tick_detects_unwritable_volume :: bool where
  "health_tick_detects_unwritable_volume =
     ok_and (tick_of FakeExec_new ''/tmp/sm-tick-vol'' ''/no/such/mount/point'') (\<lambda>r. r = Some VolumeUnhealthy)"

definition health_tick_healthy_returns_none :: bool where
  "health_tick_healthy_returns_none =
     ok_and (tick_of FakeExec_new ''/tmp/sm-tick-ok'' ''/tmp'') (\<lambda>r. r = None)"

definition loop_of :: "FakeExec \<Rightarrow> string \<Rightarrow> loop_event list \<Rightarrow> anyhow_Error + (ExitReason option \<times> ApiShareState list)" where
  "loop_of fake dir events =
     (case run_test fake (started_ganesha dir) of
        (Inl e, _) \<Rightarrow> Inl e
      | (Inr g, fake', _) \<Rightarrow>
          Inr (fst (run_test fake' (health_loop (still_host []) fakeX g ''/tmp'' events [new_state ''v'']))))"

text \<open>
  A future that is ready at once is the event \<open>Shutdown\<close>, one that never is leaves the ticks of
  the interval.
\<close>

definition health_loop_exits_on_shutdown_signal :: bool where
  "health_loop_exits_on_shutdown_signal =
     ok_and (loop_of FakeExec_new ''/tmp/sm-loop-signal'' [Shutdown]) (\<lambda>(reason, _). reason = Some Signal)"

definition health_loop_exits_when_ganesha_dies :: bool where
  "health_loop_exits_when_ganesha_dies =
     ok_and (loop_of (alive_for 1 FakeExec_new) ''/tmp/sm-loop-dead'' [Tick, Tick])
       (\<lambda>(reason, cell). reason = Some GaneshaDied \<and> \<not> api_ready (last cell))"

lemma health_tests:
  "health_tick_detects_dead_ganesha" "health_tick_detects_unwritable_volume" "health_tick_healthy_returns_none"
  by code_simp+

lemma health_tests_2:
  "health_loop_exits_on_shutdown_signal" "health_loop_exits_when_ganesha_dies"
  by code_simp+

definition run_on :: "string list \<Rightarrow> FakeExec \<Rightarrow> Settings \<Rightarrow> string \<Rightarrow>
    (anyhow_Error + ExitReason) option \<times> ApiShareState \<times> FakeExec" where
  "run_on files fake s volume =
     (case run_test fake (run (still_host files) fakeX s [new_state volume] [Shutdown]) of
        ((r, cell), fake', _) \<Rightarrow> (r, last cell, fake'))"

definition ended_ok :: "('e + 'a) option \<Rightarrow> ('a \<Rightarrow> bool) \<Rightarrow> bool" where
  "ended_ok r P = (case r of Some x \<Rightarrow> ok_and x P | None \<Rightarrow> False)"

definition ended_err :: "('e + 'a) option \<Rightarrow> ('e \<Rightarrow> bool) \<Rightarrow> bool" where
  "ended_err r P = (case r of Some x \<Rightarrow> err_and x P | None \<Rightarrow> False)"

definition run_happy_path_until_signal :: bool where
  "run_happy_path_until_signal =
     (let s = test_settings ''/tmp/sm-run-ok'';
          (r, st, fake) = run_on [] FakeExec_new s (st_volume s)
      in ended_ok r (\<lambda>reason. reason = Signal \<and> is_clean reason) \<and> ran ''ganesha.nfsd'' fake \<and>
         api_endpoint st = Some ''10.0.0.1:/vol'')"

definition run_rejects_invalid_settings :: bool where
  "run_rejects_invalid_settings =
     (let (r, _) = run_on [] FakeExec_new ((test_settings ''/tmp/sm-run-bad'')\<lparr>st_export_mode := ''zzz''\<rparr>) ''v''
      in ended_err r (\<lambda>_. True))"

definition run_reports_ganesha_start_failure :: bool where
  "run_reports_ganesha_start_failure =
     (let (r, st, fake) = run_on [] (failing_spawn FakeExec_new) (test_settings ''/tmp/sm-run-spawnfail'') ''v''
      in ended_err r (\<lambda>e. contains e ''ganesha'') \<and> \<not> api_ready st \<and> api_error st \<noteq> None)"

definition run_unmounts_on_failure_when_it_mounted :: bool where
  "run_unmounts_on_failure_when_it_mounted =
     (let s = (test_settings ''/tmp/sm-run-unmount'')\<lparr>st_skip_mount := False, st_device := ''/tmp/sm-run-dev''\<rparr>;
          (r, st, fake) = run_on [''/tmp/sm-run-dev''] (failing_spawn FakeExec_new) s ''v''
      in ended_err r (\<lambda>_. True) \<and> ran ''umount'' fake)"

definition run_propagates_prepare_failure :: bool where
  "run_propagates_prepare_failure =
     (let s = (test_settings ''/tmp/sm-run-prepfail'')
                \<lparr>st_skip_mount := False, st_device := ''/dev/missing-xyz'', st_device_timeout := 0\<rparr>;
          (r, st, fake) = run_on [] FakeExec_new s ''v''
      in ended_err r (\<lambda>_. True) \<and> api_error st \<noteq> None)"

lemma run_tests:
  "run_happy_path_until_signal" "run_rejects_invalid_settings" "run_reports_ganesha_start_failure"
  by code_simp+

lemma run_tests_2:
  "run_unmounts_on_failure_when_it_mounted" "run_propagates_prepare_failure"
  by code_simp+

definition print_config_renders_the_export :: bool where
  "print_config_renders_the_export \<longleftrightarrow>
     contains (print_config ''pvc-9'' ''/export'' 3) ''Export_Id = 3;'' \<and>
     contains (print_config ''pvc-9'' ''/export'' 3) ''Pseudo = /pvc-9;'' \<and>
     contains (print_config ''pvc-9'' ''/export'' 3) ''Path = /export;''"

lemma contains_print_config [code_unfold]:
  "contains (print_config volume mount_point export_id) =
     has_line (render_lines (ExportConfig_default\<lparr>ec_export_id := export_id, ec_export_path := mount_point,
                                                  ec_pseudo_path := ''/'' @ volume\<rparr>))"
  by (simp add: print_config_def contains_render)

definition exit_code_is_zero_only_for_a_clean_shutdown :: bool where
  "exit_code_is_zero_only_for_a_clean_shutdown \<longleftrightarrow>
     exit_code (Inr Signal) = 0 \<and> exit_code (Inr GaneshaDied) = 1 \<and>
     exit_code (Inr VolumeUnhealthy) = 1 \<and> exit_code (Inl ''boom'') = 1"

text \<open>The bind of an address that is none fails.\<close>

definition serve_api_reports_bind_failures :: bool where
  "serve_api_reports_bind_failures =
     err_and (serve_api ''256.256.256.256:1'' (Inl ''failed to lookup address information'') (Inr ()))
       (\<lambda>e. contains e ''failed to bind API'')"

definition serve_api_answers_health_requests :: bool where
  "serve_api_answers_health_requests =
     (let st = new_state ''v''; ok = app ''/endpoint'' (mark_ready ''1.2.3.4:/v'' st)
      in fst (app ''/healthz'' st) = 503 \<and> fst ok = 200 \<and> body_member ok ''endpoint'' = JStr ''1.2.3.4:/v'')"

lemma entrypoint_tests:
  "print_config_renders_the_export" "exit_code_is_zero_only_for_a_clean_shutdown"
  "serve_api_reports_bind_failures" "serve_api_answers_health_requests"
  by code_simp+

subsection \<open>\<open>main.rs\<close>\<close>

text \<open>The parsed form of the arguments of the test, with the defaults of the declaration.\<close>

definition run_args_map_to_settings :: bool where
  "run_args_map_to_settings =
     (case into_settings
        (Run ''/dev/sdb'' ''pvc-1'' ''/export'' ''0.0.0.0:9500'' ''10.0.0.7'' ''/var/run/ganesha'' 120 True
           60 90 ''10.0.0.0/8, 172.16.0.0/12, 192.168.0.0/16'' ''0777'' 1234) of
        None \<Rightarrow> False
      | Some (s, listen) \<Rightarrow>
          st_device s = ''/dev/sdb'' \<and> st_volume s = ''pvc-1'' \<and> st_svc_ip s = ''10.0.0.7'' \<and> st_skip_mount s \<and>
          st_monitoring_port s = 1234 \<and> st_mount_point s = ''/export'' \<and> listen = ''0.0.0.0:9500'' \<and>
          is_ok (validate s))"

definition print_config_variant_has_no_settings :: bool where
  "print_config_variant_has_no_settings \<longleftrightarrow> into_settings (PrintConfig ''v'' ''/export'' 1) = None"

lemma main_tests:
  "run_args_map_to_settings" "print_config_variant_has_no_settings"
  by code_simp+

end
