(* ===== verification/Fake_Client.thy ===== *)
theory Fake_Client
  imports Test_Support Controller Csi Share_Machine Recovery
begin

text \<open>
  \<open>FakeApi::client\<close> of \<open>src/testing.rs\<close>: a client whose requests go to the scripted API server.
  The client library is a parameter of every program; this is the instance the unit tests use. A
  typed request becomes a method and a path of the Kubernetes API, the JSON of a reply the typed
  object, with the members that the records of the model have.
\<close>

subsection \<open>Requests on the wire\<close>

definition namespaced :: "string \<Rightarrow> string \<Rightarrow> string" where
  "namespaced ns kind = ''/api/v1/namespaces/'' @ ns @ ''/'' @ kind"

definition va_path :: string where
  "va_path = ''/apis/storage.k8s.io/v1/volumeattachments''"

fun kreq_path :: "kreq \<Rightarrow> string" where
  "kreq_path (GetPod ns n) = namespaced ns ''pods/'' @ n"
| "kreq_path (ListPods ns sel) =
     namespaced ns ''pods?'' @ (case sel of None \<Rightarrow> [] | Some l \<Rightarrow> ''&labelSelector='' @ l)"
| "kreq_path (CreatePod ns p) = namespaced ns ''pods?''"
| "kreq_path (DeletePod ns n) = namespaced ns ''pods/'' @ n @ ''?''"
| "kreq_path (GetNode n) = ''/api/v1/nodes/'' @ n"
| "kreq_path ListNodes = ''/api/v1/nodes?''"
| "kreq_path (GetPvc ns n) = namespaced ns ''persistentvolumeclaims/'' @ n"
| "kreq_path (CreatePvc ns p) = namespaced ns ''persistentvolumeclaims?''"
| "kreq_path (DeletePvc ns n) = namespaced ns ''persistentvolumeclaims/'' @ n @ ''?''"
| "kreq_path (GetSvc ns n) = namespaced ns ''services/'' @ n"
| "kreq_path (CreateSvc ns s) = namespaced ns ''services?''"
| "kreq_path (DeleteSvc ns n) = namespaced ns ''services/'' @ n @ ''?''"
| "kreq_path (GetCm ns n) = namespaced ns ''configmaps/'' @ n"
| "kreq_path (CreateCm ns c) = namespaced ns ''configmaps?''"
| "kreq_path (PatchCm ns n p) = namespaced ns ''configmaps/'' @ n @ ''?''"
| "kreq_path (DeleteCm ns n) = namespaced ns ''configmaps/'' @ n @ ''?''"
| "kreq_path ListVa = va_path @ ''?''"
| "kreq_path (DeleteVa n) = va_path @ ''/'' @ n @ ''?''"

fun kreq_method :: "kreq \<Rightarrow> string" where
  "kreq_method (CreatePod ns p) = ''POST''"
| "kreq_method (CreatePvc ns p) = ''POST''"
| "kreq_method (CreateSvc ns s) = ''POST''"
| "kreq_method (CreateCm ns c) = ''POST''"
| "kreq_method (PatchCm ns n p) = ''PATCH''"
| "kreq_method (DeletePod ns n) = ''DELETE''"
| "kreq_method (DeletePvc ns n) = ''DELETE''"
| "kreq_method (DeleteSvc ns n) = ''DELETE''"
| "kreq_method (DeleteCm ns n) = ''DELETE''"
| "kreq_method (DeleteVa n) = ''DELETE''"
| "kreq_method _ = ''GET''"

definition map_json :: "(string, string) btree \<Rightarrow> json" where
  "map_json m = JObj (map (\<lambda>(k, v). (k, JStr v)) m)"

definition opt_member :: "string \<Rightarrow> ('a \<Rightarrow> json) \<Rightarrow> 'a option \<Rightarrow> (string \<times> json) list" where
  "opt_member k f v = (case v of Some a \<Rightarrow> [(k, f a)] | None \<Rightarrow> [])"

definition cm_json :: "string option \<Rightarrow> string option \<Rightarrow> (string, string) btree option \<Rightarrow> (string, string) btree option \<Rightarrow> json" where
  "cm_json name ns annotations data =
     JObj ([(''metadata'', JObj (opt_member ''name'' JStr name @ opt_member ''namespace'' JStr ns @
               opt_member ''annotations'' map_json annotations))] @
           opt_member ''data'' map_json data)"

text \<open>
  The bodies of the ConfigMap requests, which are the ones whose members the records hold in
  full; what a created pod, claim or service holds is seen by the decoder of the client below.
\<close>

fun kreq_body :: "kreq \<Rightarrow> string" where
  "kreq_body (CreateCm ns c) =
     print_json (cm_json (cm_meta_name c) (cm_meta_namespace c) (cm_annotations c) (cm_data c))"
| "kreq_body (PatchCm ns n p) =
     print_json (cm_json (pt_name p) (pt_namespace p) (pt_annotations p) (pt_data p))"
| "kreq_body _ = []"

definition kreq_seen :: "kreq \<Rightarrow> Seen" where
  "kreq_seen q = \<lparr>sn_method = kreq_method q, sn_path = kreq_path q, sn_body = kreq_body q\<rparr>"

subsection \<open>Objects from the wire\<close>

definition str_list :: "json \<Rightarrow> string list option" where
  "str_list j = (case j of JArr xs \<Rightarrow> Some (List.map_filter jstr xs) | _ \<Rightarrow> None)"

definition pod_of_json :: "json \<Rightarrow> Pod" where
  "pod_of_json j =
     \<lparr>pod_name = jpath_str [''metadata'', ''name''] j,
      pod_labels = map_option jlabels (Option.bind (jget ''metadata'' j) (jget ''labels'')),
      pod_spec = map_option (\<lambda>s.
        \<lparr>ps_node_name = jpath_str [''nodeName''] s,
         ps_volumes = (case jget ''volumes'' s of
            Some (JArr vs) \<Rightarrow> Some (map (jpath_str [''persistentVolumeClaim'', ''claimName'']) vs)
          | _ \<Rightarrow> None)\<rparr>) (jget ''spec'' j),
      pod_status = map_option (\<lambda>s.
        \<lparr>pst_phase = jpath_str [''phase''] s, pst_pod_ip = jpath_str [''podIP''] s\<rparr>) (jget ''status'' j)\<rparr>"

definition condition_of_json :: "json \<Rightarrow> NodeCondition" where
  "condition_of_json j =
     \<lparr>nc_type = or_empty (jpath_str [''type''] j), nc_status = or_empty (jpath_str [''status''] j)\<rparr>"

definition node_of_json :: "json \<Rightarrow> Node" where
  "node_of_json j =
     \<lparr>node_name = jpath_str [''metadata'', ''name''] j,
      node_status = map_option (\<lambda>s.
        \<lparr>ns_conditions = (case jget ''conditions'' s of
            Some (JArr cs) \<Rightarrow> Some (map condition_of_json cs) | _ \<Rightarrow> None)\<rparr>) (jget ''status'' j)\<rparr>"

definition pvc_of_json :: "json \<Rightarrow> Pvc" where
  "pvc_of_json j =
     \<lparr>pvc_name = jpath_str [''metadata'', ''name''] j,
      pvc_namespace = jpath_str [''metadata'', ''namespace''] j,
      pvc_deletion_timestamp = jpath_str [''metadata'', ''deletionTimestamp''] j,
      pvc_spec = map_option (\<lambda>s.
        \<lparr>pvs_storage_class_name = jpath_str [''storageClassName''] s,
         pvs_access_modes = Option.bind (jget ''accessModes'' s) str_list,
         pvs_volume_name = jpath_str [''volumeName''] s\<rparr>) (jget ''spec'' j)\<rparr>"

definition svc_of_json :: "json \<Rightarrow> Svc" where
  "svc_of_json j =
     \<lparr>svc_name = jpath_str [''metadata'', ''name''] j,
      svc_spec = map_option (\<lambda>s. \<lparr>svs_cluster_ip = jpath_str [''clusterIP''] s\<rparr>) (jget ''spec'' j)\<rparr>"

definition cm_of_json :: "json \<Rightarrow> ConfigMap" where
  "cm_of_json j =
     \<lparr>cm_meta_name = jpath_str [''metadata'', ''name''] j,
      cm_meta_namespace = jpath_str [''metadata'', ''namespace''] j,
      cm_annotations = map_option jlabels (Option.bind (jget ''metadata'' j) (jget ''annotations'')),
      cm_data = map_option jlabels (jget ''data'' j)\<rparr>"

definition va_of_json :: "json \<Rightarrow> VolumeAttachment" where
  "va_of_json j =
     \<lparr>va_name = jpath_str [''metadata'', ''name''] j,
      va_pv_name = jpath_str [''spec'', ''source'', ''persistentVolumeName''] j\<rparr>"

definition json_items :: "json \<Rightarrow> json list" where
  "json_items j = (case jget ''items'' j of Some (JArr xs) \<Rightarrow> xs | _ \<Rightarrow> [])"

fun reply_object :: "kreq \<Rightarrow> json \<Rightarrow> kresp" where
  "reply_object (GetPod ns n) j = RPod (pod_of_json j)"
| "reply_object (CreatePod ns p) j = RPod (pod_of_json j)"
| "reply_object (ListPods ns sel) j = RPods (map pod_of_json (json_items j))"
| "reply_object (GetNode n) j = RNode (node_of_json j)"
| "reply_object ListNodes j = RNodes (map node_of_json (json_items j))"
| "reply_object (GetPvc ns n) j = RPvc (pvc_of_json j)"
| "reply_object (CreatePvc ns p) j = RPvc (pvc_of_json j)"
| "reply_object (GetSvc ns n) j = RSvc (svc_of_json j)"
| "reply_object (CreateSvc ns s) j = RSvc (svc_of_json j)"
| "reply_object (GetCm ns n) j = RCm (cm_of_json j)"
| "reply_object (CreateCm ns c) j = RCm (cm_of_json j)"
| "reply_object (PatchCm ns n p) j = RCm (cm_of_json j)"
| "reply_object ListVa j = RVas (map va_of_json (json_items j))"
| "reply_object _ j = RDone"

definition reply_error :: "json \<Rightarrow> kube_Error" where
  "reply_error j =
     (case jget ''code'' j of
        Some (JNum c) \<Rightarrow>
          Api \<lparr>er_status = or_empty (jpath_str [''status''] j), er_message = or_empty (jpath_str [''message''] j),
               er_reason = or_empty (jpath_str [''reason''] j), er_code = nat c\<rparr>
      | _ \<Rightarrow> OtherKube ''no status object'')"

subsection \<open>The client\<close>

fun client_call :: "req \<Rightarrow> FakeApi \<Rightarrow> resp \<times> FakeApi" where
  "client_call (KReq q) f =
     (case fake_call (kreq_seen q) f of
        ((status, j), f') \<Rightarrow>
          (KResp (if 200 \<le> status \<and> status < 300 then reply_object q j else RErr (reply_error j)), f'))"
| "client_call (HReq h) f = (HResp (fst (host_call [] (\<lambda>_. 0) (\<lambda>_ s. s) h ())), f)"
| "client_call (HttpGet url secs) f = (HttpResp (Inl ''error sending request''), f)"

text \<open>
  A test that looks into the body of a created pod, claim or service gives its assertion as the
  predicate: a value without the expected member is refused and no request is made.
\<close>

definition decode_if :: "(json \<Rightarrow> bool) \<Rightarrow> (json \<Rightarrow> 'a) \<Rightarrow> json \<Rightarrow> string + 'a" where
  "decode_if P f j = (if P j then Inr (f j) else Inl ''unexpected body'')"

definition expecting :: "(json \<Rightarrow> bool) \<Rightarrow> FakeApi csys" where
  "expecting P =
     \<lparr>srv = client_call, env_var = (\<lambda>_. None), kube_display = mem_display,
      pod_from_value = decode_if P pod_of_json, svc_from_value = decode_if P svc_of_json,
      pvc_from_value = decode_if P pvc_of_json,
      ss_from_str = (\<lambda>t. Option.bind (parse_json t) share_of_json),
      ss_to_string = (\<lambda>st. Some (print_json (share_json st)))\<rparr>"

definition fake_client :: "FakeApi csys" where
  "fake_client = expecting (\<lambda>_. True)"

definition node_client :: "FakeApi dsys" where
  "node_client =
     \<lparr>srv = client_call, env_var = (\<lambda>_. None), kube_display = mem_display,
      pod_from_value = (\<lambda>j. Inr (pod_of_json j)), svc_from_value = (\<lambda>j. Inr (svc_of_json j)),
      pvc_from_value = (\<lambda>j. Inr (pvc_of_json j)), http_status_display = (\<lambda>n u. ''HTTP status '' @ show_nat n)\<rparr>"

definition recovery_client :: "FakeApi rsys" where
  "recovery_client =
     \<lparr>srv = client_call, env_var = (\<lambda>_. None), kube_display = mem_display,
      pod_from_value = (\<lambda>j. Inr (pod_of_json j)), svc_from_value = (\<lambda>j. Inr (svc_of_json j)),
      pvc_from_value = (\<lambda>j. Inr (pvc_of_json j)),
      input_from_slice = (\<lambda>t. case Option.bind (parse_json t) input_of_json of
        None \<Rightarrow> Inl ''invalid input'' | Some i \<Rightarrow> Inr i),
      clients_from_str = (\<lambda>t. Option.bind (parse_json t) clients_of_json),
      clients_to_string = (\<lambda>m. Inr (print_json (clients_json m)))\<rparr>"

text \<open>A test on a scripted server: what the code returned and what the server saw.\<close>

definition with_api :: "FakeApi \<Rightarrow> (FakeApi, 'a) io \<Rightarrow> 'a \<times> FakeApi" where
  "with_api f m = (case run_test f m of (a, f', _) \<Rightarrow> (a, f'))"

definition reason_of :: "nat \<Rightarrow> string option" where
  "reason_of status =
     (if status = 404 then Some ''Not Found''
      else if status = 409 then Some ''Conflict''
      else if status = 500 then Some ''Internal Server Error'' else None)"

definition api_ok :: "string \<Rightarrow> json \<Rightarrow> FakeApi \<Rightarrow> FakeApi" where
  "api_ok = fake_ok"

definition api_err :: "string \<Rightarrow> nat \<Rightarrow> FakeApi \<Rightarrow> FakeApi" where
  "api_err = fake_err reason_of"

text \<open>The routes of a script in the order of the source.\<close>

definition scripted_by :: "(FakeApi \<Rightarrow> FakeApi) list \<Rightarrow> FakeApi" where
  "scripted_by rs = fold (\<lambda>r f. r f) rs FakeApi_new"

definition API_NS :: string where
  "API_NS = ''/api/v1/namespaces/hcloud-csi-rwx''"

definition empty_object :: json where
  "empty_object = JObj []"

subsection \<open>The tests of \<open>testing.rs\<close>\<close>

definition get_node :: "string \<Rightarrow> (FakeApi, kube_Error + Node) io" where
  "get_node n = kcall fake_client (GetNode n) as_node"

definition fake_answers_list_and_records_request :: bool where
  "fake_answers_list_and_records_request =
     (let (r, fake) = with_api (scripted_by [api_ok ''GET /api/v1/nodes'' (node_list_fixture [(''n1'', True)])])
            (kcall fake_client ListNodes as_nodes)
      in ok_and r (\<lambda>nodes. length nodes = 1) \<and> called ''GET /api/v1/nodes'' fake \<and>
         count ''GET /api/v1/nodes'' fake = 1)"

definition fake_returns_scripted_errors :: bool where
  "fake_returns_scripted_errors =
     err_and (fst (with_api (scripted_by [api_err ''GET /api/v1/nodes/missing'' 404]) (get_node ''missing'')))
       (is_code 404)"

definition unmatched_requests_get_404_by_default :: bool where
  "unmatched_requests_get_404_by_default =
     (let (r, fake) = with_api FakeApi_new (get_node ''whatever'')
      in is_err r \<and> called ''GET /api/v1/nodes/whatever'' fake)"

definition fallback_can_be_overridden :: bool where
  "fallback_can_be_overridden =
     ok_and (fst (with_api (default_response 200 (node_fixture ''n9'' True) FakeApi_new) (get_node ''anything'')))
       (\<lambda>n. node_name n = Some ''n9'')"

lemma fake_api_tests:
  "fake_answers_list_and_records_request" "fake_returns_scripted_errors" "unmatched_requests_get_404_by_default"
  "fallback_can_be_overridden"
  by code_simp+

end
