(* ===== verification/Controller_Tests.thy ===== *)
theory Controller_Tests
  imports Fake_Client
begin

text \<open>
  The unit tests of \<open>src/provision.rs\<close> and \<open>src/controller.rs\<close>, on the scripted API server.
\<close>

subsection \<open>\<open>provision.rs\<close>: names and specifications\<close>

definition volume_name_sanitizes :: bool where
  "volume_name_sanitizes \<longleftrightarrow> volume_name ''pvc-1234'' = ''pvc-1234'' \<and> volume_name ''my.vol_1'' = ''my-vol-1''"

text \<open>\<open>j["a"]["b"]\<close>, and the elements of an array.\<close>

definition jat :: "string list \<Rightarrow> json \<Rightarrow> json option" where
  "jat ks j = fold (\<lambda>k m. Option.bind m (jget k)) ks (Some j)"

definition first_of :: "json option \<Rightarrow> json option" where
  "first_of j = Option.bind j (jidx 0)"

definition as_array :: "json option \<Rightarrow> json list" where
  "as_array j = (case j of Some (JArr xs) \<Rightarrow> xs | _ \<Rightarrow> [])"

definition sm_container :: "json \<Rightarrow> json" where
  "sm_container pod = (case first_of (jat [''spec'', ''containers''] pod) of Some c \<Rightarrow> c | None \<Rightarrow> JNull)"

definition share_pod_has_consistent_labels_and_claim :: bool where
  "share_pod_has_consistent_labels_and_claim =
     (let pod = share_pod_json fake_client ''pvc-abc'' ''node-1'' ''my-claim'' ''default''
      in jat [''metadata'', ''labels'', ''app''] pod = Some (JStr DRIVER_NAME) \<and>
         jat [''metadata'', ''labels'', ''rwx-volume''] pod = Some (JStr ''pvc-abc'') \<and>
         jat [''metadata'', ''labels'', ''rwx-pvc-name''] pod = Some (JStr ''my-claim'') \<and>
         Option.bind (first_of (jat [''spec'', ''volumes''] pod)) (jat [''persistentVolumeClaim'', ''claimName'']) =
           Some (JStr ''pvc-abc-backing'') \<and>
         jat [''spec'', ''nodeSelector'', ''kubernetes.io/hostname''] pod = Some (JStr ''node-1'') \<and>
         list_ex (\<lambda>e. jat [''name''] e = Some (JStr ''NFS_SVC_IP'') \<and>
             jat [''valueFrom'', ''fieldRef'', ''fieldPath''] e = Some (JStr ''status.podIP''))
           (as_array (jat [''env''] (sm_container pod))) \<and>
         \<not> list_ex (\<lambda>a. a = JStr ''--svc-ip'') (as_array (jat [''args''] (sm_container pod))))"

definition share_pod_exposes_metrics_by_default :: bool where
  "share_pod_exposes_metrics_by_default =
     (let pod = share_pod_json fake_client ''pvc-abc'' ''node-1'' ''my-claim'' ''default'';
          svc = service_json fake_client ''pvc-abc''
      in list_ex (\<lambda>p. jat [''name''] p = Some (JStr ''metrics'') \<and> jat [''containerPort''] p = Some (JNum 9587))
           (as_array (jat [''ports''] (sm_container pod))) \<and>
         jat [''metadata'', ''annotations'', ''prometheus.io/scrape''] pod = Some (JStr ''true'') \<and>
         jat [''metadata'', ''annotations'', ''prometheus.io/port''] pod = Some (JStr ''9587'') \<and>
         list_ex (\<lambda>e. jat [''name''] e = Some (JStr ''MONITORING_PORT'') \<and> jat [''value''] e = Some (JStr ''9587''))
           (as_array (jat [''env''] (sm_container pod))) \<and>
         jat [''spec'', ''selector'', ''app''] svc = Some (JStr DRIVER_NAME) \<and>
         jat [''spec'', ''selector'', ''rwx-volume''] svc = Some (JStr ''pvc-abc''))"

definition image_default_matches_crate_version :: bool where
  "image_default_matches_crate_version =
     starts_with (image fake_client) ''ghcr.io/mrhein/hcloud-csi-rwx:v''"

definition pure_helpers_and_env_overrides :: bool where
  "pure_helpers_and_env_overrides =
     (let j = backing_pvc_json fake_client ''pvc-1'' ''5Gi'' ''hcloud-volumes''
      in backing_pvc_name ''v'' = ''v-backing'' \<and> share_pod_name ''v'' = ''share-manager-v'' \<and>
         state_cm_name ''v'' = ''state-v'' \<and>
         jat [''spec'', ''storageClassName''] j = Some (JStr ''hcloud-volumes'') \<and>
         jat [''spec'', ''resources'', ''requests'', ''storage''] j = Some (JStr ''5Gi'') \<and>
         first_of (jat [''spec'', ''accessModes''] j) = Some (JStr ''ReadWriteOnce'') \<and>
         jat [''metadata'', ''labels'', ''rwx-volume''] j = Some (JStr ''pvc-1'') \<and>
         share_namespace fake_client = ''hcloud-csi-rwx'' \<and> pull_policy fake_client = ''IfNotPresent'' \<and>
         backing_storage_class fake_client = ''hcloud-volumes'' \<and>
         lease_lifetime fake_client = ''60'' \<and> grace_period fake_client = ''90'' \<and>
         export_mode fake_client = ''0777'' \<and> monitoring_port fake_client = ''9587'' \<and>
         contains (nfs_allowed_clients fake_client) ''10.0.0.0/8'' \<and>
         starts_with (image fake_client) ''ghcr.io/mrhein/hcloud-csi-rwx:v'')"

definition service_and_pod_specs_are_consistent :: bool where
  "service_and_pod_specs_are_consistent =
     (let svc = service_json fake_client ''pvc-x''; pod = share_pod_json fake_client ''pvc-x'' ''n1'' ''claim'' ''ns1'';
          ports = as_array (jat [''spec'', ''ports''] svc)
      in map (jat [''port'']) ports = [Some (JNum 2049), Some (JNum 9500)] \<and>
         jat [''spec'', ''hostNetwork''] pod = Some (JBool True) \<and>
         jat [''spec'', ''restartPolicy''] pod = Some (JStr ''Never'') \<and>
         jat [''securityContext'', ''privileged''] (sm_container pod) = Some (JBool True) \<and>
         jat [''metadata'', ''labels'', ''rwx-pvc-namespace''] pod = Some (JStr ''ns1'') \<and>
         (case List.find (\<lambda>e. jat [''name''] e = Some (JStr ''RECOVERY_BACKEND_TOKEN''))
                 (as_array (jat [''env''] (sm_container pod))) of
            Some tok \<Rightarrow> jat [''valueFrom'', ''secretKeyRef'', ''optional''] tok = Some (JBool True)
          | None \<Rightarrow> False))"

lemma spec_tests:
  "volume_name_sanitizes" "share_pod_has_consistent_labels_and_claim" "share_pod_exposes_metrics_by_default"
  "image_default_matches_crate_version" "pure_helpers_and_env_overrides" "service_and_pod_specs_are_consistent"
  by code_simp+

subsection \<open>\<open>provision.rs\<close>: node selection\<close>

definition sm_pod :: "string \<Rightarrow> string \<Rightarrow> json" where
  "sm_pod name node =
     JObj [(''apiVersion'', JStr ''v1''), (''kind'', JStr ''Pod''),
           (''metadata'', JObj [(''name'', JStr name), (''namespace'', JStr ''hcloud-csi-rwx''),
              (''labels'', JObj [(''app'', JStr ''hcloud-csi-rwx''), (''rwx-volume'', JStr ''v'')])]),
           (''spec'', JObj [(''nodeName'', JStr node)]),
           (''status'', JObj [(''phase'', JStr ''Running'')])]"

definition nodes_and_pods :: "json \<Rightarrow> (string \<times> bool) list \<Rightarrow> FakeApi" where
  "nodes_and_pods pods nodes = scripted_by
     [api_ok ''GET /api/v1/namespaces/hcloud-csi-rwx/pods'' pods,
      api_ok ''GET /api/v1/nodes'' (node_list_fixture nodes)]"

definition picked_node :: "FakeApi \<Rightarrow> string list \<Rightarrow> anyhow_Error + string" where
  "picked_node f avoid = fst (with_api f (pick_node fake_client avoid))"

definition pick_node_returns_first_ready_and_free_node :: bool where
  "pick_node_returns_first_ready_and_free_node =
     ok_and (picked_node (nodes_and_pods (empty_list_fixture ''PodList'') [(''n1'', True), (''n2'', True)]) [])
       (\<lambda>n. n = ''n1'')"

definition pick_node_skips_not_ready_nodes :: bool where
  "pick_node_skips_not_ready_nodes =
     ok_and (picked_node (nodes_and_pods (empty_list_fixture ''PodList'') [(''n1'', False), (''n2'', True)]) [])
       (\<lambda>n. n = ''n2'')"

definition pick_node_honours_avoid_list :: bool where
  "pick_node_honours_avoid_list =
     ok_and (picked_node (nodes_and_pods (empty_list_fixture ''PodList'') [(''n1'', True), (''n2'', True)]) [''n1''])
       (\<lambda>n. n = ''n2'')"

definition pick_node_skips_nodes_that_already_host_a_share_manager :: bool where
  "pick_node_skips_nodes_that_already_host_a_share_manager =
     ok_and (picked_node (nodes_and_pods (pod_list_fixture [sm_pod ''share-manager-a'' ''n1''])
                       [(''n1'', True), (''n2'', True)]) [])
       (\<lambda>n. n = ''n2'')"

definition pick_node_errors_when_nothing_is_left :: bool where
  "pick_node_errors_when_nothing_is_left =
     err_and (picked_node (nodes_and_pods (empty_list_fixture ''PodList'') [(''n1'', True)]) [''n1''])
       (\<lambda>e. contains e ''no suitable node'')"

definition pick_node_propagates_api_errors :: bool where
  "pick_node_propagates_api_errors = is_err (picked_node FakeApi_new [])"

definition node_is_ready_reflects_condition :: bool where
  "node_is_ready_reflects_condition \<longleftrightarrow>
     fst (with_api (scripted_by [api_ok ''GET /api/v1/nodes/n1'' (node_fixture ''n1'' True)])
       (node_is_ready fake_client ''n1'')) \<and>
     \<not> fst (with_api (scripted_by [api_ok ''GET /api/v1/nodes/n1'' (node_fixture ''n1'' False)])
       (node_is_ready fake_client ''n1''))"

definition node_is_ready_false_when_node_is_gone_or_conditionless :: bool where
  "node_is_ready_false_when_node_is_gone_or_conditionless =
     (let bare = JObj [(''apiVersion'', JStr ''v1''), (''kind'', JStr ''Node''),
                       (''metadata'', JObj [(''name'', JStr ''n1'')])]
      in \<not> fst (with_api FakeApi_new (node_is_ready fake_client ''gone'')) \<and>
         \<not> fst (with_api (scripted_by [api_ok ''GET /api/v1/nodes/n1'' bare]) (node_is_ready fake_client ''n1'')))"

lemma pick_tests:
  "pick_node_returns_first_ready_and_free_node" "pick_node_skips_not_ready_nodes" "pick_node_honours_avoid_list"
  "pick_node_skips_nodes_that_already_host_a_share_manager" "pick_node_errors_when_nothing_is_left"
  "pick_node_propagates_api_errors" "node_is_ready_reflects_condition"
  "node_is_ready_false_when_node_is_gone_or_conditionless"
  by code_simp+

subsection \<open>\<open>controller.rs\<close>: claims\<close>

definition VOL :: string where
  "VOL = ''pvc-1''"

definition SM :: string where
  "SM = ''share-manager-pvc-1''"

definition rwx_pvc :: "string \<Rightarrow> string list \<Rightarrow> Pvc" where
  "rwx_pvc sc modes = pvc_of_json
     (JObj [(''apiVersion'', JStr ''v1''), (''kind'', JStr ''PersistentVolumeClaim''),
            (''metadata'', JObj [(''name'', JStr ''test''), (''namespace'', JStr ''default'')]),
            (''spec'', JObj [(''storageClassName'', JStr sc), (''accessModes'', JArr (map JStr modes)),
               (''resources'', JObj [(''requests'', JObj [(''storage'', JStr ''1Gi'')])])])])"

definition rwx_pvc_detection :: bool where
  "rwx_pvc_detection \<longleftrightarrow>
     is_rwx_pvc (rwx_pvc ''hcloud-csi-rwx'' [''ReadWriteMany'']) \<and>
     \<not> is_rwx_pvc (rwx_pvc ''hcloud-csi-rwx'' [''ReadWriteOnce'']) \<and>
     \<not> is_rwx_pvc (rwx_pvc ''hcloud-volumes'' [''ReadWriteMany''])"

definition state_roundtrip_tolerates_old_format :: bool where
  "state_roundtrip_tolerates_old_format =
     (case ss_from_str fake_client
        ''{\"volume\":\"vol\",\"backing_pvc\":\"vol-backing\",\"share_pod\":\"share-manager-vol\",\"service\":\"vol\",\"pv\":\"rwx-vol\",\"node\":\"n1\",\"prior_nodes\":[\"n0\"],\"endpoint\":\"1.2.3.4:/vol\",\"state\":\"running\"}'' of
        Some sst \<Rightarrow> ss_volume sst = ''vol'' \<and> ss_node sst = Some ''n1'' \<and> ss_prior_nodes sst = [''n0'']
      | None \<Rightarrow> False)"

definition rwx_claim :: "string option \<Rightarrow> Pvc" where
  "rwx_claim volume = pvc_of_json (pvc_fixture ''rwx-test'' ''default'' ''hcloud-csi-rwx'' [''ReadWriteMany''] volume)"

text \<open>The routes that take a reconciliation past the state and the service.\<close>

definition base :: "string \<Rightarrow> (FakeApi \<Rightarrow> FakeApi) list" where
  "base state_text =
     [api_ok (''GET '' @ API_NS @ ''/configmaps/state-pvc-1'') (state_cm_fixture ''state-pvc-1'' state_text),
      api_ok (''PATCH '' @ API_NS @ ''/configmaps/state-pvc-1'') (state_cm_fixture ''state-pvc-1'' state_text),
      api_ok (''GET '' @ API_NS @ ''/services/pvc-1'') (service_fixture ''pvc-1'' ''10.43.0.9'')]"

definition only_rwx_claims_of_our_storage_class_qualify :: bool where
  "only_rwx_claims_of_our_storage_class_qualify =
     (let mk = \<lambda>sc modes. pvc_of_json (pvc_fixture ''c'' ''default'' sc modes None);
          bare = pvc_of_json (JObj [(''apiVersion'', JStr ''v1''), (''kind'', JStr ''PersistentVolumeClaim''),
                   (''metadata'', JObj [(''name'', JStr ''c''), (''namespace'', JStr ''default'')])])
      in is_rwx_pvc (mk ''hcloud-csi-rwx'' [''ReadWriteMany'']) \<and>
         \<not> is_rwx_pvc (mk ''hcloud-csi-rwx'' [''ReadWriteOnce'']) \<and>
         \<not> is_rwx_pvc (mk ''hcloud-volumes'' [''ReadWriteMany'']) \<and> \<not> is_rwx_pvc bare)"

definition foreign_claims_are_requeued_without_api_calls :: bool where
  "foreign_claims_are_requeued_without_api_calls =
     (let claim = pvc_of_json (pvc_fixture ''c'' ''default'' ''hcloud-volumes'' [''ReadWriteOnce''] None);
          (r, fake) = with_api FakeApi_new (reconcile fake_client claim)
      in ok_and r (\<lambda>a. a = Requeue 300) \<and> fa_seen fake = [])"

definition terminating_claims_are_left_to_the_csi_driver :: bool where
  "terminating_claims_are_left_to_the_csi_driver =
     (let claim = (rwx_claim (Some VOL))\<lparr>pvc_deletion_timestamp := Some ''2026-01-01T00:00:00Z''\<rparr>;
          (r, fake) = with_api FakeApi_new (reconcile fake_client claim)
      in ok_and r (\<lambda>a. a = AwaitChange) \<and> fa_seen fake = [])"

definition unbound_claims_wait_for_the_provisioner :: bool where
  "unbound_claims_wait_for_the_provisioner =
     (let (r, fake) = with_api FakeApi_new (reconcile fake_client (rwx_claim None))
      in ok_and r (\<lambda>a. a = Requeue 30) \<and> fa_seen fake = [])"

lemma claim_tests:
  "rwx_pvc_detection" "state_roundtrip_tolerates_old_format" "only_rwx_claims_of_our_storage_class_qualify"
  "foreign_claims_are_requeued_without_api_calls" "terminating_claims_are_left_to_the_csi_driver"
  "unbound_claims_wait_for_the_provisioner"
  by code_simp+

subsection \<open>\<open>controller.rs\<close>: reconciliation\<close>

definition on_claim :: "(FakeApi \<Rightarrow> FakeApi) list \<Rightarrow> (kube_Error + Action) \<times> FakeApi" where
  "on_claim routes = with_api (scripted_by routes) (reconcile fake_client (rwx_claim (Some VOL)))"

definition get_sm :: string where
  "get_sm = ''GET '' @ API_NS @ ''/pods/'' @ SM"

definition patch_state :: string where
  "patch_state = ''PATCH '' @ API_NS @ ''/configmaps/state-pvc-1''"

definition backing_pvc :: "string option \<Rightarrow> FakeApi \<Rightarrow> FakeApi" where
  "backing_pvc volume =
     api_ok (''GET '' @ API_NS @ ''/persistentvolumeclaims/pvc-1-backing'')
       (pvc_fixture ''pvc-1-backing'' ''hcloud-csi-rwx'' ''hcloud-volumes'' [''ReadWriteOnce''] volume)"

definition attachments :: "json list \<Rightarrow> FakeApi \<Rightarrow> FakeApi" where
  "attachments vas = api_ok ''GET /apis/storage.k8s.io/v1/volumeattachments'' (va_list_fixture vas)"

definition no_workloads :: "FakeApi \<Rightarrow> FakeApi" where
  "no_workloads = api_ok ''GET /api/v1/namespaces/default/pods'' (empty_list_fixture ''PodList'')"

definition running_share_manager_is_recorded_and_requeued :: bool where
  "running_share_manager_is_recorded_and_requeued =
     (let (r, fake) = on_claim (base ''{\"volume\":\"pvc-1\",\"state\":\"starting\"}'' @
            [api_ok get_sm (pod_fixture SM ''n1'' ''Running''),
             api_ok ''GET /api/v1/nodes/n1'' (node_fixture ''n1'' True)]);
          saved = bodies patch_state fake
      in ok_and r (\<lambda>a. a = Requeue 60) \<and>
         list_ex (\<lambda>b. contains b ''running'') saved \<and> list_ex (\<lambda>b. contains b ''n1'') saved)"

definition pods_still_starting_are_polled_again :: bool where
  "pods_still_starting_are_polled_again =
     (let (r, fake) = on_claim (base ''{\"volume\":\"pvc-1\",\"state\":\"starting\"}'' @
            [api_ok get_sm (pod_fixture SM ''n1'' ''Pending'')])
      in ok_and r (\<lambda>a. a = Requeue 10))"

definition failed_pod_triggers_failover :: bool where
  "failed_pod_triggers_failover =
     (let (r, fake) = on_claim (base ''{\"volume\":\"pvc-1\",\"node\":\"n1\",\"state\":\"running\"}'' @
            [api_ok get_sm (pod_fixture SM ''n1'' ''Failed''),
             backing_pvc (Some ''pv-1''),
             attachments [volume_attachment_fixture ''va1'' ''pv-1''],
             api_ok ''DELETE /apis/storage.k8s.io/v1/volumeattachments/va1'' empty_object,
             no_workloads,
             api_ok (''DELETE '' @ API_NS @ ''/pods/'' @ SM) empty_object]);
          saved = bodies patch_state fake
      in ok_and r (\<lambda>a. a = Requeue 3) \<and>
         called ''DELETE /apis/storage.k8s.io/v1/volumeattachments/va1'' fake \<and>
         called (''DELETE '' @ API_NS @ ''/pods/'' @ SM) fake \<and>
         list_ex (\<lambda>b. contains b ''failing_over'') saved \<and> list_ex (\<lambda>b. contains b ''prior_nodes'') saved)"

definition succeeded_pod_also_triggers_failover :: bool where
  "succeeded_pod_also_triggers_failover =
     (let (r, fake) = on_claim (base ''{\"volume\":\"pvc-1\",\"node\":\"n1\",\"state\":\"running\"}'' @
            [api_ok get_sm (pod_fixture SM ''n1'' ''Succeeded''),
             backing_pvc (Some ''pv-1''), attachments [], no_workloads,
             api_ok (''DELETE '' @ API_NS @ ''/pods/'' @ SM) empty_object])
      in is_ok r \<and> called (''DELETE '' @ API_NS @ ''/pods/'' @ SM) fake)"

definition running_pod_on_a_notready_node_triggers_failover :: bool where
  "running_pod_on_a_notready_node_triggers_failover =
     (let (r, fake) = on_claim (base ''{\"volume\":\"pvc-1\",\"node\":\"n1\",\"state\":\"running\"}'' @
            [api_ok get_sm (pod_fixture SM ''n1'' ''Running''),
             api_ok ''GET /api/v1/nodes/n1'' (node_fixture ''n1'' False),
             backing_pvc (Some ''pv-1''), attachments [], no_workloads,
             api_ok (''DELETE '' @ API_NS @ ''/pods/'' @ SM) empty_object])
      in is_ok r \<and> called (''DELETE '' @ API_NS @ ''/pods/'' @ SM) fake)"

lemma failover_tests:
  "running_share_manager_is_recorded_and_requeued" "pods_still_starting_are_polled_again"
  by code_simp+

lemma failover_tests_2:
  "failed_pod_triggers_failover"
  by code_simp

lemma failover_tests_3:
  "succeeded_pod_also_triggers_failover" "running_pod_on_a_notready_node_triggers_failover"
  by code_simp+

definition workload_pod :: "string \<Rightarrow> string \<Rightarrow> json" where
  "workload_pod name claim =
     JObj [(''apiVersion'', JStr ''v1''), (''kind'', JStr ''Pod''),
           (''metadata'', JObj [(''name'', JStr name), (''namespace'', JStr ''default'')]),
           (''spec'', JObj [(''volumes'', JArr [JObj [(''name'', JStr ''d''),
              (''persistentVolumeClaim'', JObj [(''claimName'', JStr claim)])]])]),
           (''status'', JObj [(''phase'', JStr ''Running'')])]"

definition workload_pods_of_the_claim_are_evicted :: bool where
  "workload_pods_of_the_claim_are_evicted =
     (let (r, fake) = with_api (scripted_by
            [api_ok ''GET /api/v1/namespaces/default/pods''
               (pod_list_fixture [workload_pod ''app-1'' ''rwx-test'', workload_pod ''other'' ''something-else'']),
             api_ok ''DELETE /api/v1/namespaces/default/pods/app-1'' empty_object])
            (evict_workload_pods fake_client ''rwx-test'' ''default'')
      in is_ok r \<and> called ''DELETE /api/v1/namespaces/default/pods/app-1'' fake \<and>
         \<not> called ''DELETE /api/v1/namespaces/default/pods/other'' fake)"

definition eviction_is_skipped_without_claim_identity :: bool where
  "eviction_is_skipped_without_claim_identity =
     (let (a, fake) = with_api FakeApi_new (evict_workload_pods fake_client [] ''default'');
          (b, fake') = with_api fake (evict_workload_pods fake_client ''claim'' [])
      in is_ok a \<and> is_ok b \<and> fa_seen fake' = [])"

text \<open>
  The assertions on the body of the created pod are the predicate of the client: the node
  selector names the other node and the label of the claim is there.
\<close>

definition missing_pod_is_recreated_on_a_different_node :: bool where
  "missing_pod_is_recreated_on_a_different_node =
     (let body_ok = \<lambda>j. jat [''spec'', ''nodeSelector'', ''kubernetes.io/hostname''] j = Some (JStr ''n2'') \<and>
                        jat [''metadata'', ''labels'', ''rwx-pvc-name''] j \<noteq> None;
          (r, fake) = with_api (scripted_by (base ''{\"volume\":\"pvc-1\",\"node\":\"n1\",\"state\":\"failing_over\"}'' @
            [api_err get_sm 404,
             backing_pvc (Some ''pv-1''), attachments [],
             api_ok (''GET '' @ API_NS @ ''/pods?'') (empty_list_fixture ''PodList''),
             api_ok ''GET /api/v1/nodes'' (node_list_fixture [(''n1'', True), (''n2'', True)]),
             api_ok (''POST '' @ API_NS @ ''/pods'') empty_object]))
            (reconcile (expecting body_ok) (rwx_claim (Some VOL)))
      in ok_and r (\<lambda>a. a = Requeue 5) \<and> called (''POST '' @ API_NS @ ''/pods'') fake)"

definition recreation_waits_while_the_volume_is_still_attached :: bool where
  "recreation_waits_while_the_volume_is_still_attached =
     (let (r, fake) = on_claim (base ''{\"volume\":\"pvc-1\",\"node\":\"n1\",\"state\":\"failing_over\"}'' @
            [api_err get_sm 404,
             backing_pvc (Some ''pv-1''), attachments [volume_attachment_fixture ''va1'' ''pv-1''],
             api_ok ''DELETE /apis/storage.k8s.io/v1/volumeattachments/va1'' empty_object])
      in ok_and r (\<lambda>a. a = Requeue 3) \<and> \<not> called (''POST '' @ API_NS @ ''/pods'') fake)"

definition recreation_tolerates_a_race_with_the_csi_driver :: bool where
  "recreation_tolerates_a_race_with_the_csi_driver =
     is_ok (fst (on_claim (base ''{\"volume\":\"pvc-1\",\"state\":\"failing_over\"}'' @
       [api_err get_sm 404,
        api_err (''GET '' @ API_NS @ ''/persistentvolumeclaims/pvc-1-backing'') 404, attachments [],
        api_ok (''GET '' @ API_NS @ ''/pods?'') (empty_list_fixture ''PodList''),
        api_ok ''GET /api/v1/nodes'' (node_list_fixture [(''n1'', True)]),
        api_err (''POST '' @ API_NS @ ''/pods'') 409])))"

lemma recreation_tests:
  "workload_pods_of_the_claim_are_evicted" "eviction_is_skipped_without_claim_identity"
  by code_simp+

lemma recreation_tests_2:
  "missing_pod_is_recreated_on_a_different_node"
  by code_simp

lemma recreation_tests_3:
  "recreation_waits_while_the_volume_is_still_attached"
  by code_simp

lemma recreation_tests_4:
  "recreation_tolerates_a_race_with_the_csi_driver"
  by code_simp

subsection \<open>\<open>controller.rs\<close>: node history and stored state\<close>

definition with_prior :: "string list \<Rightarrow> ShareState" where
  "with_prior nodes = \<lparr>ss_volume = VOL, ss_node = None, ss_prior_nodes = nodes, ss_state = []\<rparr>"

definition reset_on :: "(string \<times> bool) list \<Rightarrow> string list \<Rightarrow> (anyhow_Error + string) \<times> ShareState" where
  "reset_on nodes prior = fst (with_api (scripted_by
     [api_ok (''GET '' @ API_NS @ ''/pods?'') (empty_list_fixture ''PodList''),
      api_ok ''GET /api/v1/nodes'' (node_list_fixture nodes)])
     (pick_node_with_reset fake_client (with_prior prior)))"

definition prior_nodes_reset_when_every_node_was_tried :: bool where
  "prior_nodes_reset_when_every_node_was_tried =
     (let (r, sst) = reset_on [(''n1'', True), (''n2'', True)] [''n1'', ''n2'']
      in ok_and r (\<lambda>n. n = ''n1'') \<and> ss_prior_nodes sst = [''n2''])"

definition single_prior_node_is_not_reset :: bool where
  "single_prior_node_is_not_reset = is_err (fst (reset_on [(''n1'', True)] [''n1'']))"

definition loaded :: "(FakeApi \<Rightarrow> FakeApi) list \<Rightarrow> anyhow_Error + ShareState" where
  "loaded routes = fst (with_api (scripted_by routes) (load_or_create_state fake_client VOL))"

definition get_state :: string where
  "get_state = ''GET '' @ API_NS @ ''/configmaps/state-pvc-1''"

definition state_is_created_when_absent_and_survives_a_race :: bool where
  "state_is_created_when_absent_and_survives_a_race \<longleftrightarrow>
     ok_and (loaded [api_err get_state 404,
                     api_ok (''POST '' @ API_NS @ ''/configmaps'') (state_cm_fixture ''state-pvc-1'' ''{}'')])
       (\<lambda>sst. ss_volume sst = VOL \<and> ss_state sst = ''starting'') \<and>
     is_ok (loaded [api_err get_state 404, api_err (''POST '' @ API_NS @ ''/configmaps'') 409])"

definition corrupt_state_falls_back_to_a_fresh_one :: bool where
  "corrupt_state_falls_back_to_a_fresh_one =
     ok_and (loaded [api_ok get_state (state_cm_fixture ''state-pvc-1'' ''not json'')])
       (\<lambda>sst. ss_state sst = ''starting'')"

definition state_load_propagates_unexpected_errors :: bool where
  "state_load_propagates_unexpected_errors = is_err (loaded [api_err get_state 500])"

text \<open>The text of the source has a line end and twelve blanks in two places.\<close>

definition old_state_format_still_parses :: bool where
  "old_state_format_still_parses =
     (let gap = [newline] @ replicate 12 (CHR '' '') in
      case ss_from_str fake_client
        (''{\"volume\":\"vol\",\"backing_pvc\":\"vol-backing\",\"share_pod\":\"share-manager-vol\",'' @ gap @
         ''\"service\":\"vol\",\"pv\":\"rwx-vol\",\"node\":\"n1\",\"prior_nodes\":[\"n0\"],'' @ gap @
         ''\"endpoint\":\"1.2.3.4:/vol\",\"state\":\"running\"}'') of
        Some sst \<Rightarrow> ss_node sst = Some ''n1'' \<and> ss_prior_nodes sst = [''n0'']
      | None \<Rightarrow> False)"

definition save_state_writes_the_configmap :: bool where
  "save_state_writes_the_configmap =
     (let (r, fake) = with_api (scripted_by [api_ok patch_state (state_cm_fixture ''state-pvc-1'' ''{}'')])
            (save_state fake_client ((with_prior [])\<lparr>ss_state := ''running''\<rparr>))
      in is_ok r \<and> (case bodies (''PATCH '' @ API_NS @ ''/configmaps'') fake of
           b # _ \<Rightarrow> contains b ''running'' | [] \<Rightarrow> False))"

definition state_configmap_is_namespaced_and_named :: bool where
  "state_configmap_is_namespaced_and_named =
     (let cm = state_cm fake_client ''state-pvc-1'' (with_prior [])
      in cm_meta_name cm = Some ''state-pvc-1'' \<and> cm_meta_namespace cm = Some ''hcloud-csi-rwx'' \<and>
         (case opt_get (cm_data cm) ''state.json'' of Some t \<Rightarrow> contains t ''pvc-1'' | None \<Rightarrow> False))"

lemma state_tests:
  "prior_nodes_reset_when_every_node_was_tried" "single_prior_node_is_not_reset"
  "state_is_created_when_absent_and_survives_a_race" "corrupt_state_falls_back_to_a_fresh_one"
  "state_load_propagates_unexpected_errors" "old_state_format_still_parses" "save_state_writes_the_configmap"
  "state_configmap_is_namespaced_and_named"
  by code_simp+

subsection \<open>\<open>controller.rs\<close>: service and backing volume\<close>

definition service_with :: "(FakeApi \<Rightarrow> FakeApi) list \<Rightarrow> (anyhow_Error + unit) \<times> FakeApi" where
  "service_with routes = with_api (scripted_by routes) (ensure_service fake_client VOL)"

definition service_is_created_when_missing_and_reused_otherwise :: bool where
  "service_is_created_when_missing_and_reused_otherwise =
     (let get_svc = ''GET '' @ API_NS @ ''/services/pvc-1''; post_svc = ''POST '' @ API_NS @ ''/services'';
          (missing, f1) = service_with [api_err get_svc 404, api_ok post_svc empty_object];
          (present, f2) = service_with [api_ok get_svc (service_fixture ''pvc-1'' ''10.43.0.9'')];
          (raced, _) = service_with [api_err get_svc 404, api_err post_svc 409];
          (broken, _) = service_with [api_err get_svc 404, api_err post_svc 500]
      in is_ok missing \<and> called post_svc f1 \<and> is_ok present \<and> \<not> called post_svc f2 \<and>
         is_ok raced \<and> is_err broken)"

definition backing_pv_name_resolution :: bool where
  "backing_pv_name_resolution =
     (let pv_with = \<lambda>routes. fst (with_api (scripted_by routes) (backing_pv_name fake_client VOL))
      in pv_with [backing_pvc (Some ''pv-1'')] = Some ''pv-1'' \<and> pv_with [backing_pvc None] = None \<and> pv_with [] = None)"

definition force_detach_only_touches_our_attachment :: bool where
  "force_detach_only_touches_our_attachment =
     (let (r, fake) = with_api (scripted_by
            [backing_pvc (Some ''pv-1''),
             attachments [volume_attachment_fixture ''va1'' ''pv-1'', volume_attachment_fixture ''va2'' ''pv-other''],
             api_ok ''DELETE /apis/storage.k8s.io/v1/volumeattachments/va1'' empty_object])
            (force_detach_backing_pvc fake_client VOL)
      in is_ok r \<and> called ''DELETE /apis/storage.k8s.io/v1/volumeattachments/va1'' fake \<and>
         \<not> called ''DELETE /apis/storage.k8s.io/v1/volumeattachments/va2'' fake)"

definition force_detach_is_a_noop_without_a_backing_pv :: bool where
  "force_detach_is_a_noop_without_a_backing_pv =
     (let (r, fake) = with_api FakeApi_new (force_detach_backing_pvc fake_client VOL)
      in is_ok r \<and> \<not> called ''volumeattachments'' fake)"

definition attachment_probe_reflects_reality :: bool where
  "attachment_probe_reflects_reality =
     (let attached_with = \<lambda>routes. fst (with_api (scripted_by routes) (is_backing_pvc_attached fake_client VOL))
      in attached_with [backing_pvc (Some ''pv-1''), attachments [volume_attachment_fixture ''va1'' ''pv-1'']] \<and>
         \<not> attached_with [backing_pvc (Some ''pv-1''), attachments []] \<and>
         \<not> attached_with [] \<and>
         \<not> attached_with [backing_pvc (Some ''pv-1''),
             api_err ''GET /apis/storage.k8s.io/v1/volumeattachments'' 500])"

definition helpers_wrap_errors_and_requeue :: bool where
  "helpers_wrap_errors_and_requeue \<longleftrightarrow>
     (case kube_err ''boom'' of
        Api r \<Rightarrow> er_code r = 500 \<and> contains (er_message r) ''boom''
      | OtherKube _ \<Rightarrow> False) \<and>
     error_policy (OtherKube ''Error: max line length exceeded'') = Requeue 30"

definition reconcile_surfaces_api_errors :: bool where
  "reconcile_surfaces_api_errors = is_err (fst (on_claim [api_err get_state 500]))"

lemma plumbing_tests:
  "service_is_created_when_missing_and_reused_otherwise" "backing_pv_name_resolution"
  "force_detach_only_touches_our_attachment" "force_detach_is_a_noop_without_a_backing_pv"
  "attachment_probe_reflects_reality" "helpers_wrap_errors_and_requeue" "reconcile_surfaces_api_errors"
  by code_simp+

end
