(* ===== verification/Csi_Tests.thy ===== *)
theory Csi_Tests
  imports Fake_Client
begin

text \<open>
  The unit tests of \<open>src/csi.rs\<close>, on the scripted API server, with the short poll of the tests.
\<close>

subsection \<open>Sizes, identity, capabilities\<close>

definition requested_size_rounds_up_to_gib :: bool where
  "requested_size_rounds_up_to_gib \<longleftrightarrow>
     requested_gib None = 10 \<and> requested_gib (Some 0) = 10 \<and> requested_gib (Some 1) = 1 \<and>
     requested_gib (Some GIB) = 1 \<and> requested_gib (Some (GIB + 1)) = 2 \<and> requested_gib (Some (15 * GIB)) = 15"

definition identity_reports_name_version_and_capabilities :: bool where
  "identity_reports_name_version_and_capabilities \<longleftrightarrow>
     ok_and get_plugin_info (\<lambda>i. pi_name i = DRIVER_NAME \<and> pi_vendor_version i = CARGO_PKG_VERSION) \<and>
     ok_and get_plugin_capabilities (\<lambda>caps. length caps = 1) \<and>
     ok_and probe (\<lambda>ready. ready = Some True)"

definition controller_capabilities_cover_create_and_publish :: bool where
  "controller_capabilities_cover_create_and_publish =
     ok_and controller_get_capabilities (\<lambda>caps. length caps = 2)"

definition node_get_info_uses_the_node_name_env :: bool where
  "node_get_info_uses_the_node_name_env =
     ok_and (node_get_info fake_client) (\<lambda>(node_id, _). node_id = ''unknown'')"

definition node_capabilities_and_staging_are_noops :: bool where
  "node_capabilities_and_staging_are_noops \<longleftrightarrow>
     ok_and node_get_capabilities (\<lambda>caps. length caps = 1) \<and> is_ok node_stage_volume \<and> is_ok node_unstage_volume"

definition controller_stubs_behave :: bool where
  "controller_stubs_behave \<longleftrightarrow>
     is_ok controller_publish_volume \<and> is_ok controller_unpublish_volume \<and> is_ok validate_volume_capabilities \<and>
     ok_and list_volumes (\<lambda>(entries, _). entries = []) \<and> is_ok get_capacity"

definition unimplemented :: "grpc_Status + unit \<Rightarrow> bool" where
  "unimplemented r = err_and r (\<lambda>s. code s = Unimplemented)"

definition unsupported_features_report_unimplemented :: bool where
  "unsupported_features_report_unimplemented =
     list_all unimplemented
       [create_snapshot, delete_snapshot, list_snapshots, get_snapshot, controller_expand_volume,
        controller_get_volume, controller_modify_volume, controller_list_volume_health,
        controller_get_volume_health, node_get_volume_stats, node_expand_volume, node_get_volume_health,
        node_get_storage_health]"

definition error_helper_wraps_as_internal :: bool where
  "error_helper_wraps_as_internal \<longleftrightarrow> code (st ''boom'') = Internal"

lemma constant_tests:
  "requested_size_rounds_up_to_gib" "identity_reports_name_version_and_capabilities"
  "controller_capabilities_cover_create_and_publish" "node_get_info_uses_the_node_name_env"
  "node_capabilities_and_staging_are_noops" "controller_stubs_behave" "unsupported_features_report_unimplemented"
  "error_helper_wraps_as_internal"
  by code_simp+

subsection \<open>CreateVolume\<close>

definition test_driver :: CsiDriver where
  "test_driver = \<lparr>startup_poll = (2, 1)\<rparr>"

definition create_req :: "string \<Rightarrow> int \<Rightarrow> CreateVolumeRequest" where
  "create_req name bytes =
     \<lparr>cv_name = name, cv_capacity_range = Some bytes,
      cv_parameters = map_of [(''csi.storage.k8s.io/pvc/name'', ''claim''),
                              (''csi.storage.k8s.io/pvc/namespace'', ''default'')]\<rparr>"

definition get_backing :: string where
  "get_backing = ''GET '' @ API_NS @ ''/persistentvolumeclaims/pvc-1-backing''"

definition get_share_pod :: string where
  "get_share_pod = ''GET '' @ API_NS @ ''/pods/share-manager-pvc-1''"

definition post_to :: "string \<Rightarrow> string" where
  "post_to kind = ''POST '' @ API_NS @ ''/'' @ kind"

definition delete_of :: "string \<Rightarrow> string" where
  "delete_of path = ''DELETE '' @ API_NS @ ''/'' @ path"

definition existing_service :: "FakeApi \<Rightarrow> FakeApi" where
  "existing_service = api_ok (''GET '' @ API_NS @ ''/services/pvc-1'') (service_fixture ''pvc-1'' ''10.43.0.9'')"

definition no_share_managers :: "FakeApi \<Rightarrow> FakeApi" where
  "no_share_managers = api_ok (''GET '' @ API_NS @ ''/pods?'') (empty_list_fixture ''PodList'')"

definition one_node :: "bool \<Rightarrow> FakeApi \<Rightarrow> FakeApi" where
  "one_node ready = api_ok ''GET /api/v1/nodes'' (node_list_fixture [(''n1'', ready)])"

definition created :: "(json \<Rightarrow> bool) \<Rightarrow> (FakeApi \<Rightarrow> FakeApi) list \<Rightarrow> CreateVolumeRequest \<Rightarrow>
    (grpc_Status + Volume) \<times> FakeApi" where
  "created P routes req = with_api (scripted_by routes) (create_volume (expecting P) test_driver req)"

text \<open>The requested size in the body of the claim is the predicate of the client.\<close>

definition create_volume_provisions_and_returns_the_endpoint :: bool where
  "create_volume_provisions_and_returns_the_endpoint =
     (let size_ok = \<lambda>j. jpath_str [''kind''] j = Some ''PersistentVolumeClaim'' \<longrightarrow>
            jpath_str [''spec'', ''resources'', ''requests'', ''storage''] j = Some ''5Gi'';
          (r, fake) = created size_ok
            [api_err get_backing 404, api_ok (post_to ''persistentvolumeclaims'') empty_object,
             api_err (''GET '' @ API_NS @ ''/services/pvc-1'') 404, api_ok (post_to ''services'') empty_object,
             api_ok get_share_pod (pod_fixture ''share-manager-pvc-1'' ''n1'' ''Running''),
             no_share_managers, one_node True]
            (create_req ''pvc-1'' (5 * GIB))
      in ok_and r (\<lambda>v. vl_volume_id v = ''pvc-1'' \<and> vl_capacity_bytes v = 5 * GIB \<and>
             map_of (vl_context v) ''nfsEndpoint'' = Some ''10.255.0.1:/pvc-1'') \<and>
         called (post_to ''persistentvolumeclaims'') fake)"

definition create_volume_reuses_existing_resources :: bool where
  "create_volume_reuses_existing_resources =
     (let (r, fake) = created (\<lambda>_. True)
            [api_ok get_backing (JObj [(''apiVersion'', JStr ''v1''), (''kind'', JStr ''PersistentVolumeClaim''),
               (''metadata'', JObj [(''name'', JStr ''pvc-1-backing''), (''namespace'', JStr ''hcloud-csi-rwx'')])]),
             existing_service,
             api_ok get_share_pod (pod_fixture ''share-manager-pvc-1'' ''n1'' ''Running'')]
            (create_req ''pvc-1'' GIB)
      in is_ok r \<and> \<not> called (post_to ''persistentvolumeclaims'') fake \<and> \<not> called (post_to ''services'') fake \<and>
         \<not> called (post_to ''pods'') fake)"

definition create_volume_replaces_a_stuck_pending_share_manager :: bool where
  "create_volume_replaces_a_stuck_pending_share_manager =
     (let (r, fake) = created (\<lambda>_. True)
            [api_ok get_backing empty_object, existing_service,
             api_ok get_share_pod (pod_fixture ''share-manager-pvc-1'' ''n1'' ''Pending''),
             api_ok (delete_of ''pods/share-manager-pvc-1'') empty_object,
             no_share_managers, one_node True, api_ok (post_to ''pods'') empty_object]
            (create_req ''pvc-1'' GIB)
      in err_and r (\<lambda>s. code s = DeadlineExceeded) \<and> called (delete_of ''pods/share-manager-pvc-1'') fake)"

definition create_volume_cleans_up_after_a_timeout :: bool where
  "create_volume_cleans_up_after_a_timeout =
     (let (r, fake) = created (\<lambda>_. True)
            [api_err get_backing 404, api_ok (post_to ''persistentvolumeclaims'') empty_object,
             api_err (''GET '' @ API_NS @ ''/services/pvc-1'') 404, api_ok (post_to ''services'') empty_object,
             api_err get_share_pod 404,
             no_share_managers, one_node True, api_ok (post_to ''pods'') empty_object,
             api_ok (''DELETE '' @ API_NS) empty_object]
            (create_req ''pvc-1'' GIB)
      in err_and r (\<lambda>s. code s = DeadlineExceeded) \<and>
         called (delete_of ''pods/share-manager-pvc-1'') fake \<and>
         called (delete_of ''persistentvolumeclaims/pvc-1-backing'') fake \<and>
         called (delete_of ''services/pvc-1'') fake)"

definition create_volume_fails_when_no_node_is_available :: bool where
  "create_volume_fails_when_no_node_is_available =
     is_err (fst (created (\<lambda>_. True)
       [api_ok get_backing empty_object, existing_service, api_err get_share_pod 404, no_share_managers, one_node False]
       (create_req ''pvc-1'' GIB)))"

definition create_volume_honours_the_backing_storage_class_parameter :: bool where
  "create_volume_honours_the_backing_storage_class_parameter =
     (let class_ok = \<lambda>j. jpath_str [''spec'', ''storageClassName''] j = Some ''fast-nvme'';
          req = create_req ''pvc-1'' GIB;
          (r, fake) = created class_ok
            [api_err get_backing 404, api_ok (post_to ''persistentvolumeclaims'') empty_object, existing_service,
             api_ok get_share_pod (pod_fixture ''share-manager-pvc-1'' ''n1'' ''Running'')]
            (req\<lparr>cv_parameters := (cv_parameters req)(''backingStorageClass'' \<mapsto> ''fast-nvme'')\<rparr>)
      in is_ok r \<and> called (post_to ''persistentvolumeclaims'') fake)"

lemma create_tests:
  "create_volume_provisions_and_returns_the_endpoint" "create_volume_reuses_existing_resources"
  by code_simp+

lemma create_tests_2:
  "create_volume_replaces_a_stuck_pending_share_manager"
  by code_simp

lemma create_tests_3:
  "create_volume_cleans_up_after_a_timeout"
  by code_simp

lemma create_tests_4:
  "create_volume_fails_when_no_node_is_available" "create_volume_honours_the_backing_storage_class_parameter"
  by code_simp+

subsection \<open>DeleteVolume and the node service\<close>

definition delete_volume_removes_every_resource :: bool where
  "delete_volume_removes_every_resource =
     (let (r, fake) = with_api (scripted_by [api_ok (''DELETE '' @ API_NS) empty_object])
            (delete_volume fake_client ''pvc-1'')
      in is_ok r \<and> list_all (\<lambda>path. called (delete_of path) fake)
           [''pods/share-manager-pvc-1'', ''persistentvolumeclaims/pvc-1-backing'', ''services/pvc-1'',
            ''configmaps/state-pvc-1''])"

definition delete_volume_is_idempotent :: bool where
  "delete_volume_is_idempotent = is_ok (fst (with_api FakeApi_new (delete_volume fake_client ''gone'')))"

definition endpoint_resolution_requires_a_cluster_ip :: bool where
  "endpoint_resolution_requires_a_cluster_ip =
     (let headless = JObj [(''apiVersion'', JStr ''v1''), (''kind'', JStr ''Service''),
            (''metadata'', JObj [(''name'', JStr ''pvc-1''), (''namespace'', JStr ''hcloud-csi-rwx'')]),
            (''spec'', JObj [(''clusterIP'', JStr ''None'')])];
          resolved = \<lambda>routes. fst (with_api (scripted_by routes) (resolve_current_endpoint node_client ''pvc-1''))
      in err_and (resolved [api_ok (''GET '' @ API_NS @ ''/services/pvc-1'') headless]) (\<lambda>e. contains e ''cluster IP'') \<and>
         is_err (resolved []))"

definition node_publish_fails_fast_while_the_share_manager_is_gone :: bool where
  "node_publish_fails_fast_while_the_share_manager_is_gone =
     err_and (fst (with_api FakeApi_new (node_publish_volume node_client ''pvc-1'' ''/tmp/hcloud-csi-rwx-publish'')))
       (\<lambda>s. code s = Unavailable)"

definition node_unpublish_always_succeeds :: bool where
  "node_unpublish_always_succeeds =
     is_ok (fst (with_api FakeApi_new (node_unpublish_volume fake_client ''/tmp/hcloud-csi-rwx-nonexistent'')))"

lemma node_tests:
  "delete_volume_removes_every_resource" "delete_volume_is_idempotent" "endpoint_resolution_requires_a_cluster_ip"
  "node_publish_fails_fast_while_the_share_manager_is_gone" "node_unpublish_always_succeeds"
  by code_simp+

end
