(* ===== verification/Recovery_Tests.thy ===== *)
theory Recovery_Tests
  imports Fake_Client
begin

text \<open>The unit tests of \<open>src/recovery.rs\<close>, on the scripted API server.\<close>

subsection \<open>Bodies and tokens\<close>

definition parse_input_tolerates_trailing_nul :: bool where
  "parse_input_tolerates_trailing_nul \<longleftrightarrow>
     ok_and (parse_input recovery_client (''{\"hostname\": \"h1\", \"version\": \"V1\"}'' @ [CHR 0x00]))
       (\<lambda>i. in_hostname i = Some ''h1'' \<and> in_version i = ''V1'') \<and>
     is_ok (parse_input recovery_client ''{\"hostname\": \"h1\", \"version\": \"V1\"}'') \<and>
     err_and (parse_input recovery_client (''not json'' @ [CHR 0x00])) (\<lambda>(status, _). status = 400)"

text \<open>The status code that a handler's result is answered with.\<close>

fun reply_status :: "ApiError + reply \<Rightarrow> nat" where
  "reply_status (Inl (status, msg)) = status"
| "reply_status (Inr (ReplyStatus n)) = n"
| "reply_status (Inr (ReplyClients c)) = 200"
| "reply_status (Inr (ReplyText t)) = 200"

definition test_router :: "string option \<Rightarrow> string option \<Rightarrow> nat" where
  "test_router token authorization =
     reply_status (fst (with_api FakeApi_new
       (require_bearer token authorization (State_Monad.return (Inr (ReplyText ''ok''))))))"

definition no_token_configured_allows_requests :: bool where
  "no_token_configured_allows_requests \<longleftrightarrow> test_router None None = 200"

definition wrong_or_missing_token_is_rejected :: bool where
  "wrong_or_missing_token_is_rejected \<longleftrightarrow>
     test_router (Some ''s3cret'') None = 401 \<and> test_router (Some ''s3cret'') (Some ''Bearer wrong'') = 401"

definition correct_token_is_accepted :: bool where
  "correct_token_is_accepted \<longleftrightarrow> test_router (Some ''s3cret'') (Some ''Bearer s3cret'') = 200"

lemma token_tests:
  "parse_input_tolerates_trailing_nul" "no_token_configured_allows_requests" "wrong_or_missing_token_is_rejected"
  "correct_token_is_accepted"
  by code_simp+

subsection \<open>Handlers\<close>

definition CMS :: string where
  "CMS = API_NS @ ''/configmaps''"

definition recovery_cm :: "string \<Rightarrow> string \<Rightarrow> string \<Rightarrow> json" where
  "recovery_cm hostname version data =
     JObj [(''apiVersion'', JStr ''v1''), (''kind'', JStr ''ConfigMap''),
           (''metadata'', JObj [(''name'', JStr (''recovery-backend-'' @ hostname)),
              (''namespace'', JStr ''hcloud-csi-rwx''),
              (''annotations'', JObj [(''version'', JStr version)])]),
           (''data'', JObj [(version, JStr data)])]"

definition http :: "Method \<Rightarrow> string list \<Rightarrow> string \<Rightarrow> HttpRequest" where
  "http m path body = \<lparr>hr_method = m, hr_path = path, hr_authorization = None, hr_body = body\<rparr>"

text \<open>\<open>app(fake, token).oneshot(request)\<close>: a path that is not in the table is answered 404.\<close>

definition oneshot :: "FakeApi \<Rightarrow> string option \<Rightarrow> HttpRequest \<Rightarrow> (ApiError + reply) \<times> FakeApi" where
  "oneshot fake token r =
     (case recovery_app recovery_client token r of
        Some m \<Rightarrow> with_api fake m
      | None \<Rightarrow> (Inl (404, []), fake))"

definition send :: "FakeApi \<Rightarrow> string option \<Rightarrow> HttpRequest \<Rightarrow> nat \<times> FakeApi" where
  "send fake token r = (case oneshot fake token r of (a, fake') \<Rightarrow> (reply_status a, fake'))"

definition first_body :: "string \<Rightarrow> FakeApi \<Rightarrow> (string \<Rightarrow> bool) \<Rightarrow> bool" where
  "first_body needle fake P = (case bodies needle fake of b # _ \<Rightarrow> P b | [] \<Rightarrow> False)"

definition h1_map :: "string \<Rightarrow> string \<Rightarrow> FakeApi \<Rightarrow> FakeApi" where
  "h1_map version data = api_ok (''GET '' @ CMS @ ''/recovery-backend-h1'') (recovery_cm ''h1'' version data)"

definition h1_patch :: "string \<Rightarrow> FakeApi \<Rightarrow> FakeApi" where
  "h1_patch version = api_ok (''PATCH '' @ CMS @ ''/recovery-backend-h1'') (recovery_cm ''h1'' version ''{}'')"

definition healthz_is_open :: bool where
  "healthz_is_open \<longleftrightarrow> fst (send FakeApi_new None (http GET [''v1'', ''healthz''] [])) = 200"

definition create_makes_a_configmap :: bool where
  "create_makes_a_configmap =
     (let (status, fake) = send (scripted_by [fake_on (''POST '' @ CMS) 201 (recovery_cm ''h1'' ''V1'' ''{}'')]) None
            (http POST [''v1'', ''recoverybackend''] ''{\"hostname\":\"h1\",\"version\":\"V1\"}'')
      in status = 200 \<and> first_body (''POST '' @ CMS) fake (\<lambda>b. contains b ''recovery-backend-h1''))"

definition create_tolerates_trailing_nul_from_ganesha :: bool where
  "create_tolerates_trailing_nul_from_ganesha \<longleftrightarrow>
     fst (send (scripted_by [fake_on (''POST '' @ CMS) 201 (recovery_cm ''h1'' ''V1'' ''{}'')]) None
       (http POST [''v1'', ''recoverybackend''] (''{\"hostname\":\"h1\",\"version\":\"V1\"}'' @ [CHR 0x00]))) = 200"

definition create_requires_hostname_in_body :: bool where
  "create_requires_hostname_in_body \<longleftrightarrow>
     fst (send FakeApi_new None (http POST [''v1'', ''recoverybackend''] ''{\"version\":\"V1\"}'')) = 400"

definition create_updates_when_configmap_already_exists :: bool where
  "create_updates_when_configmap_already_exists =
     (let (status, fake) = send (scripted_by [api_err (''POST '' @ CMS) 409, h1_patch ''V2'']) None
            (http POST [''v1'', ''recoverybackend''] ''{\"hostname\":\"h1\",\"version\":\"V2\"}'')
      in status = 200 \<and> called (''PATCH '' @ CMS @ ''/recovery-backend-h1'') fake)"

definition create_propagates_api_failure :: bool where
  "create_propagates_api_failure \<longleftrightarrow>
     fst (send (scripted_by [api_err (''POST '' @ CMS) 500]) None
       (http POST [''v1'', ''recoverybackend''] ''{\"hostname\":\"h1\",\"version\":\"V1\"}'')) = 500"

definition end_grace_swaps_the_version :: bool where
  "end_grace_swaps_the_version =
     (let (status, fake) = send (scripted_by [h1_map ''V1'' ''{\"c1\":[]}'', h1_patch ''V2'']) None
            (http PUT [''v1'', ''recoverybackend'', ''h1''] ''{\"version\":\"V2\"}'')
      in status = 200 \<and> first_body (''PATCH '' @ CMS @ ''/recovery-backend-h1'') fake
           (\<lambda>patch. contains patch ''V2'' \<and> \<not> contains patch ''\"V1\":''))"

definition add_client_id_records_the_client :: bool where
  "add_client_id_records_the_client =
     (let (status, fake) = send (scripted_by [h1_map ''V1'' ''{}'', h1_patch ''V1'']) None
            (http PUT [''v1'', ''recoverybackend'', ''h1'', ''client-42''] ''{\"version\":\"V1\"}'')
      in status = 200 \<and> first_body (''PATCH '' @ CMS) fake (\<lambda>b. contains b ''client-42''))"

definition remove_client_id_drops_it :: bool where
  "remove_client_id_drops_it =
     (let (status, fake) = send (scripted_by [h1_map ''V1'' ''{\"c1\":[],\"c2\":[]}'', h1_patch ''V1'']) None
            (http DELETE [''v1'', ''recoverybackend'', ''h1'', ''c1''] [])
      in status = 200 \<and> first_body (''PATCH '' @ CMS) fake
           (\<lambda>patch. \<not> contains patch ''c1'' \<and> contains patch ''c2''))"

definition read_client_ids_returns_the_list :: bool where
  "read_client_ids_returns_the_list =
     (let (r, _) = oneshot (scripted_by [h1_map ''V1'' ''{\"c1\":[],\"c2\":[]}'']) None
            (http GET [''v1'', ''recoverybackend'', ''h1''] [])
      in reply_status r = 200 \<and>
         ok_and r (\<lambda>a. case a of
             ReplyClients v \<Rightarrow> rs_hostname v = ''h1'' \<and> rs_typ v = ''recoveryBackendStatus'' \<and> rs_clients v = [''c1'', ''c2'']
           | _ \<Rightarrow> False))"

definition read_client_ids_reports_missing_configmap :: bool where
  "read_client_ids_reports_missing_configmap \<longleftrightarrow>
     fst (send FakeApi_new None (http GET [''v1'', ''recoverybackend'', ''gone''] [])) = 404"

definition add_revoke_fh_appends_the_handle :: bool where
  "add_revoke_fh_appends_the_handle =
     (let (status, fake) = send (scripted_by [h1_map ''V1'' ''{\"c1\":[]}'', h1_patch ''V1'']) None
            (http PUT [''v1'', ''recoverybackend'', ''h1'', ''c1'', ''fh-abc''] ''{\"version\":\"V1\"}'')
      in status = 200 \<and> first_body (''PATCH '' @ CMS) fake (\<lambda>b. contains b ''fh-abc''))"

definition malformed_body_is_rejected_on_every_writing_route :: bool where
  "malformed_body_is_rejected_on_every_writing_route =
     list_all (\<lambda>(m, path). fst (send FakeApi_new None (http m ([''v1'', ''recoverybackend''] @ path) ''not json'')) = 400)
       [(POST, []), (PUT, [''h1'']), (PUT, [''h1'', ''c1'']), (PUT, [''h1'', ''c1'', ''fh''])]"

definition token_guards_the_recovery_routes_but_not_healthz :: bool where
  "token_guards_the_recovery_routes_but_not_healthz =
     (let fake = scripted_by [h1_map ''V1'' ''{}'']; token = Some ''s3cret'';
          r = http GET [''v1'', ''recoverybackend'', ''h1''] []
      in fst (send fake token (http GET [''v1'', ''healthz''] [])) = 200 \<and>
         fst (send fake token r) = 401 \<and>
         fst (send fake token (r\<lparr>hr_authorization := Some ''Bearer s3cret''\<rparr>)) = 200)"

definition namespace_and_cm_name_helpers :: bool where
  "namespace_and_cm_name_helpers \<longleftrightarrow>
     cm_name ''host-1'' = ''recovery-backend-host-1'' \<and> namespace recovery_client = ''hcloud-csi-rwx''"

definition kube_errors_map_to_matching_status_codes :: bool where
  "kube_errors_map_to_matching_status_codes \<longleftrightarrow>
     fst (kube_error recovery_client
       (Api \<lparr>er_status = ''Failure'', er_message = ''nope'', er_reason = ''NotFound'', er_code = 404\<rparr>)) = 404 \<and>
     fst (kube_error recovery_client (OtherKube ''Error: max line length exceeded'')) = 500"

lemma handler_tests:
  "healthz_is_open" "create_makes_a_configmap" "create_tolerates_trailing_nul_from_ganesha"
  "create_requires_hostname_in_body" "create_updates_when_configmap_already_exists" "create_propagates_api_failure"
  "end_grace_swaps_the_version" "add_client_id_records_the_client" "remove_client_id_drops_it"
  by code_simp+

lemma reader_tests:
  "read_client_ids_returns_the_list" "read_client_ids_reports_missing_configmap" "add_revoke_fh_appends_the_handle"
  "malformed_body_is_rejected_on_every_writing_route" "token_guards_the_recovery_routes_but_not_healthz"
  "namespace_and_cm_name_helpers" "kube_errors_map_to_matching_status_codes"
  by code_simp+

end
