(* ===== verification/Spec2Isabelle.thy ===== *)
theory Spec2Isabelle
  imports Cluster Recovery Share_Manager Testing
    Host_Tests Controller_Tests Csi_Tests Recovery_Tests
begin

text \<open>
  \<^bold>\<open>hcloud-csi-rwx: ReadWriteMany volumes for the Hetzner Cloud CSI driver.\<close>

  \<^bold>\<open>The program.\<close> A volume is a Hetzner block volume (the backing claim) that one pod, the
  share-manager, mounts and exports over NFSv4 with the ganesha server. Five parts work on it.
  The CSI driver (\<open>src/csi.rs\<close>) creates the claim, the service and the pod of a volume, deletes
  them, and mounts the export on the nodes. The failover controller (\<open>src/controller.rs\<close>)
  watches the pod of every bound claim and moves it to another node when it fails; what it knows
  of a volume is in a ConfigMap. Both use the specifications and the node picker of
  \<open>src/provision.rs\<close>. The share-manager (\<open>src/sharemanager.rs\<close> with \<open>src/block.rs\<close>,
  \<open>src/nfs.rs\<close>, \<open>src/exec.rs\<close>, the HTTP interface \<open>src/api.rs\<close> and the command line
  \<open>src/main.rs\<close>) runs in that pod; the node side of the CSI driver asks its HTTP interface for
  the endpoint to mount. The recovery backend (\<open>src/recovery.rs\<close>) is an HTTP service that keeps
  the NFS clients of each server in a ConfigMap. The unit tests talk to a scripted API server,
  \<open>src/testing.rs\<close>.

  \<^bold>\<open>How it is modelled.\<close> Every effect is a request: a value of type \<open>req\<close> for a call on the
  Kubernetes API, on the operating system or for an HTTP GET. A program is a state-monad term
  over a hidden state of any type and a log of the requests with their answers (\<open>World\<close>); who
  answers is a parameter, so the API server, the operating system and every other actor that
  runs between two requests is whatever that parameter does, and the theorems hold for all of
  them unless a hypothesis says otherwise. Errors are values of sum types, one constructor or
  text for each \<open>Err\<close>, \<open>bail!\<close> and early return of the source; \<open>?\<close> is \<open>bindE\<close>. Strings are
  byte lists. Third-party code (the decoding of Kubernetes objects, \<open>serde_json\<close>, the texts of
  \<open>kube\<close> and \<open>reqwest\<close> errors) is a field of the environment record.

  \<^bold>\<open>The theories.\<close>
  \<open>Prelude\<close>: result and final state of a program, the string functions of the Rust standard
  library, printing and parsing of integers.
  \<open>BTreeMap\<close>: ordered maps (\<open>std::collections::BTreeMap\<close>) with their contract \<open>ordered_map\<close>.
  \<open>World\<close>: JSON values, Kubernetes objects, requests, programs and their traces.
  \<open>Api_Server\<close>: what is relied on of the ConfigMap API (locale \<open>configmap_api\<close>: create, get,
  JSON merge patch), interpreted on an in-memory API server, which all witnesses run on.
  \<open>Json_Text\<close>: compact JSON text and a parser, with the round trip, the instance of the codecs.
  \<open>Provision\<close>: \<open>src/provision.rs\<close>; locales \<open>resource_names\<close> and \<open>node_choice\<close>.
  \<open>Controller\<close>: \<open>src/controller.rs\<close>, one definition per function, \<open>reconcile_body\<close> split at
  the arms of its matches. \<open>Share_Machine\<close>: the abstract machine of a volume (a step relation
  on the stored record, stated without the definitions of the code),
  its invariant, and the locale \<open>state_store\<close> of stored states. \<open>Failover\<close>: the properties of
  the controller. \<open>Csi\<close>: \<open>src/csi.rs\<close>. \<open>Lifecycle\<close>: what is created and deleted over the life
  of a volume, across the driver and the controller (locales \<open>named_decoders\<close>,
  \<open>named_controller\<close>). \<open>Cluster\<close>: what a reconciliation and CreateVolume achieve in a cluster
  that keeps the contract \<open>kube_cluster\<close> of the Kubernetes API. \<open>Recovery\<close>: \<open>src/recovery.rs\<close>; locale \<open>recovery_store\<close>, the contract
  under which the handlers implement an abstract store of clients.
  \<open>Exec\<close>: \<open>src/exec.rs\<close>; locale \<open>executor\<close>, satisfied by the operating-system implementation
  and by the scripted double. \<open>Block\<close>: \<open>src/block.rs\<close>; locale \<open>clock\<close>. \<open>Nfs\<close>:
  \<open>src/nfs.rs\<close>. \<open>Share_Manager\<close>: \<open>src/sharemanager.rs\<close>, \<open>src/api.rs\<close>, \<open>src/main.rs\<close>.
  \<open>Testing\<close>: \<open>src/testing.rs\<close>. The unit tests of the source files, translated one definition
  per test: \<open>Test_Support\<close> (assertions, a host with a temporary directory, evaluation),
  \<open>Fake_Client\<close> (the client of the scripted API server), \<open>Host_Tests\<close>, \<open>Controller_Tests\<close>
  (with those of \<open>src/provision.rs\<close>), \<open>Csi_Tests\<close>, \<open>Recovery_Tests\<close>. This theory: the
  properties that need several of them.

  \<^bold>\<open>What is shown.\<close>
  Controller: a reconciliation moves the stored state along the abstract machine, so that over any
  history the stored state satisfies its invariant; a pod is created only after the detach was
  asked for and a later look found no attachment, where an answer that cannot be used counts as
  none; a failover stores its intent first; every deletion is justified by what was read; a
  failover starts exactly for a pod that has failed or runs on a node not shown as Ready; claims
  that are not the driver's, or are going away, are left alone; a live claim is looked at again
  within a minute. In a cluster that carries out what it is asked for, a failover completes: the
  share-manager is torn down and started again on a Ready node, another one than the node of the
  failed pod where the state had recorded that.
  Driver: what a successful and a failed CreateVolume leave behind (after a timeout it
  asks for the deletion of all of it, after an internal error of neither claim nor service), that it creates only what is missing, how long it sleeps, the rounding of sizes at 64 bits and where it overflows; the mount
  goes to the endpoint that was reported in the same call; a second CreateVolume changes
  nothing.
  Recovery: the handlers refine an abstract store of clients; the token guards every route; bodies
  are checked first; three ways in which clients are lost, one of them a race between two calls
  of the add handler, run against a server on which the other call gets in between (\<open>overtaken\<close>).
  Share-manager: the run always ends when told to, publishes readiness only with a running server,
  stops the server before it undoes its own mount and never touches a mount of others; the
  process exits with code 0 only after the signal; its configuration file cannot be
  changed in structure by the values in it; a device is formatted only when no file system was
  reported.
  The tests of the repository: each assertion of the translated tests holds of the model, by
  evaluation in the kernel, so the definitions agree with the program on all the inputs its
  authors chose, error paths included.
  Across components: every object created for a volume is deleted with it, and what a node mounts
  is what the share-manager exports.

  \<^bold>\<open>Loops and fuel.\<close> The polling loops of the driver count down the attempts of the source. The
  loop that waits for the device runs on fuel, one round per half second of the timeout and two
  more; \<open>wait_for_device_returns\<close> shows that this is enough whenever sleeping advances the clock.
  The health loop consumes a schedule of events, the order in which the two arms of its
  \<open>select!\<close> become ready; an empty schedule is a loop that is still running.

  \<^bold>\<open>Not modelled.\<close> The watch loop of the controller runtime (histories of reconciliations stand
  for it), the gRPC, HTTP and command-line libraries, sockets and logging; the panic of adding a
  duration to an instant beyond the range of the platform; the generated protocol code; the
  patch to ganesha in C; deployment files. Of the unit tests, the ones of real processes, sockets and timers, of the
  derived \<open>Debug\<close> texts, of the argument parser's own checks and of a created node's body.
\<close>

section \<open>Properties that span components\<close>

text \<open>
  C8. Deleting a volume leaves no object behind: whatever CreateVolume or the controller create
  for a volume, pod, backing claim, service or state ConfigMap, in whatever run and against
  whatever answers, DeleteVolume asks for the deletion of exactly that object.
\<close>

theorem deletion_covers_creation:
  assumes "named_controller S" and "creates q"
    and "q \<in> set (reqs (create_volume S d req) w) \<or>
         bound_volume pvc = Some (cv_name req) \<and> q \<in> set (reqs (reconcile S pvc) w)"
  shows "\<exists>del. deletion_of q = Some del \<and> del \<in> set (reqs (delete_volume S (cv_name req)) w')"
proof -
  have "named_decoders S" using assms(1) by (simp add: named_controller_def)
  then have "undone S (cv_name req) q"
    using assms(3) named_decoders.create_volume_undone [of S q d req w]
      named_controller.reconcile_undone [OF assms(1), of pvc "cv_name req" q w] by blast
  with assms(2) show ?thesis by (auto simp: undone_def delete_volume_reqs)
qed

theorem deletion_covers_creation_witness:
  "\<exists>q del. creates q \<and> q \<in> set (reqs (reconcile mem_csys pvc0) (mem_world cluster0)) \<and>
     deletion_of q = Some del \<and> del \<in> set (reqs (delete_volume mem_csys ''pvc-1'') (mem_world cluster0))"
proof -
  have "list_ex creates (reqs (reconcile mem_csys pvc0) (mem_world cluster0))" by code_simp
  then obtain q where q: "creates q" "q \<in> set (reqs (reconcile mem_csys pvc0) (mem_world cluster0))"
    by (auto simp: list_ex_iff)
  moreover have "bound_volume pvc0 = Some (cv_name req0)" by code_simp
  ultimately show ?thesis
    using deletion_covers_creation [OF mem_controller.named_controller_axioms, of q driver0 req0 "mem_world cluster0" pvc0 "mem_world cluster0"]
    by (auto simp: req0_def)
qed

text \<open>A share-manager on a node where every request succeeds, and a cluster whose HTTP answers are its own.\<close>

definition share1 :: Settings where
  "share1 = Settings_default\<lparr>st_volume := ''pvc-1'', st_svc_ip := ''10.0.0.7''\<rparr>"

definition pub1 :: ApiShareState where
  "pub1 = mark_ready ''10.0.0.7:/pvc-1'' (new_state ''pvc-1'')"

definition pub_dsys :: "cluster dsys" where
  "pub_dsys = mem_dsys\<lparr>srv := (\<lambda>q c. case q of
       HttpGet url t \<Rightarrow> (HttpResp (Inr (app ''/endpoint'' pub1)), c)
     | _ \<Rightarrow> mem_srv q c)\<rparr>"

lemma share1_valid: "validate share1 = Inr ()"
  by code_simp

lemma share1_fields:
  "st_skip_mount share1" "Settings_endpoint share1 = ''10.0.0.7:/pvc-1''"
  by (simp_all add: share1_def Settings_default_def Settings_endpoint_def endpoint_def pseudo_path_def)

lemma easy_answers:
  "answer easy_sys (HReq (SpawnChild p a)) w = HResp (HSpawned (Inr 1))"
  "answer easy_sys (HReq (WriteFile p b)) w = HResp (HIo (Inr ()))"
  by (simp_all add: answer_def easy_sys_def)

lemma share1_publishes:
  "pub1 \<in> set (snd (result (run easy_sys (SystemExec easy_sys) share1 [new_state ''pvc-1''] []) \<lparr>wst = (), wlog = []\<rparr>))"
  by (simp add: run_def share1_valid share1_fields prepare_volume_def ganesha_start_def
      system_spawn_def easy_answers as_io_def write_cell_def pub1_def)

text \<open>
  C7. What a node mounts is what a share-manager exports. If the HTTP answer that
  NodePublishVolume got is the one the share-manager gives in any state of a run, then a
  mount is only attempted when that run was ready, with a validated configuration, a prepared
  volume and a started server, and the source of the mount is the address and the pseudo path
  of that export, provided that the address and the volume name have no colon.
\<close>

theorem mounted_is_exported:
  assumes "(HReq (CmdStatus program args t), a) \<in> set (emits (node_publish_volume S volume_id target) w)"
    and "(HttpGet url n, HttpResp (Inr (app ''/endpoint'' pub))) \<in> set (emits (node_publish_volume S volume_id target) w)"
    and "pub \<in> set (snd (result (run N X s [new_state v] evs) w'))"
    and "CHR '':'' \<notin> set (st_svc_ip s)" "CHR '':'' \<notin> set (st_volume s)"
  shows "api_ready pub \<and> (\<exists>g. started N X s w' g) \<and>
    args = mount_args (st_svc_ip s @ '':'' @ pseudo_path s) target"
proof -
  obtain tr endpoint b where em: "emits (node_publish_volume S volume_id target) w =
       tr @ [(HReq (CreateDirAll target), b), (HReq (CmdStatus program args t), a)]"
    and res: "resolves S volume_id tr endpoint"
    and args: "args = mount_args (endpoint_server endpoint @ '':'' @ endpoint_path endpoint) target"
    using publish_command [OF assms(1)] by blast
  from res obtain status body where ans: "app ''/endpoint'' pub = (status, Inr body)"
    and status: "\<not> (400 \<le> status \<and> status < 600)" and rep: "reported_endpoint body = Some endpoint"
    using assms(2) em by (auto simp: resolves_def)
  have ready: "api_ready pub" using ans status by (auto simp: app_def endpoint_handler_def split: if_splits)
  have pub: "api_endpoint pub = Some (st_svc_ip s @ '':'' @ pseudo_path s)" "\<exists>g. started N X s w' g"
    using run_ready [OF assms(3) ready] by (simp_all add: pseudo_path_def)
  have "endpoint = st_svc_ip s @ '':'' @ pseudo_path s"
    using rep ans pub(1)
    by (auto simp: app_def endpoint_handler_def ApiShareState_to_json_def reported_endpoint_def json_opt_def jget_def jstr_def
        split: if_splits)
  then have "endpoint_server endpoint @ '':'' @ endpoint_path endpoint = st_svc_ip s @ '':'' @ pseudo_path s"
    using assms(4,5) by (simp add: endpoint_server_def endpoint_path_def pseudo_path_def)
  with ready pub(2) args show ?thesis by simp
qed

theorem mounted_is_exported_witness:
  "api_ready pub1 \<and>
   (\<exists>g. started easy_sys (SystemExec easy_sys) share1 \<lparr>wst = (), wlog = []\<rparr> g) \<and>
   mount_args ''10.0.0.7:/pvc-1'' ''/target'' = mount_args (st_svc_ip share1 @ '':'' @ pseudo_path share1) ''/target''"
proof -
  let ?em = "emits (node_publish_volume pub_dsys ''pvc-1'' ''/target'') (mem_world service_cluster)"
  let ?cmd = "HReq (CmdStatus ''mount'' (mount_args ''10.0.0.7:/pvc-1'' ''/target'') 30)"
  let ?http = "(HttpGet (endpoint_url ''10.43.0.9'') 5, HttpResp (Inr (app ''/endpoint'' pub1)))"
  have "list_ex (\<lambda>q. q = ?cmd) (map fst ?em)" by code_simp
  then obtain a where "(?cmd, a) \<in> set ?em" by (auto simp: list_ex_iff)
  moreover have "list_ex (\<lambda>e. e = ?http) ?em" by code_simp
  then have "?http \<in> set ?em" by (auto simp: list_ex_iff)
  moreover have "CHR '':'' \<notin> set (st_svc_ip share1)" "CHR '':'' \<notin> set (st_volume share1)" by code_simp+
  ultimately show ?thesis using mounted_is_exported share1_publishes by blast
qed

end
